(* ===== verification/Prelude.thy ===== *)
theory Prelude
  imports Complex_Main "HOL-Library.Word"
begin

text \<open>
  Shared vocabulary of the development: the error values that model the exceptions the
  TypeScript sources throw, a result type with its bind, the JavaScript array operations
  the sources rely on (sparse arrays written by index, \<open>Array.prototype.find\<close> whose
  callback dereferences holes, \<open>forEach\<close> with a throwing body) and the generic lemmas
  about them that the component theories use through the \<open>js_simps\<close> collection.
\<close>

named_theorems js_simps "evaluation rules of the JavaScript array model"

subsection \<open>Errors and results\<close>

text \<open>
  \<open>gl_object\<close> names the kind of WebGL object whose creation failed (a
  \<open>create*\<close> call returning \<open>null\<close>); \<open>error\<close> has one constructor per
  \<open>throw\<close> site kind of the sources, plus \<open>TypeError\<close> for a property read on
  \<open>undefined\<close>, which JavaScript raises on its own.
\<close>

datatype gl_object = ObjBuffer | ObjTexture | ObjFramebuffer | ObjRenderbuffer
  | ObjShader | ObjProgram

datatype error =
    TypeError
  | ErrCreate gl_object
  | ErrMissingImage "nat option"
  | ErrNoVertexData
  | ErrNoIndices
  | ErrIncompleteFramebuffer nat
  | ErrCompile
  | ErrLink
  | ErrUnknownPassType
  | ErrPrimitiveMode nat
  | ErrNoPbrMetallicRoughness
  | ErrMetallicRange
  | ErrRoughnessRange
  | ErrFetch string
  | ErrLoad string
  | ErrNoCanvas string
  | ErrNoContext

type_synonym 'a result = "error + 'a"

definition rbind :: "'a result \<Rightarrow> ('a \<Rightarrow> 'b result) \<Rightarrow> 'b result" where
  "rbind r f = (case r of Inl e \<Rightarrow> Inl e | Inr x \<Rightarrow> f x)"

lemma rbind_Inl [simp]: "rbind (Inl e) f = Inl e"
  and rbind_Inr [simp]: "rbind (Inr x) f = f x"
  by (simp_all add: rbind_def)

lemma rbind_eq_Inr_iff: "rbind r f = Inr y \<longleftrightarrow> (\<exists>x. r = Inr x \<and> f x = Inr y)"
  by (cases r) simp_all

lemma rbind_eq_Inl_iff:
  "rbind r f = Inl e \<longleftrightarrow> r = Inl e \<or> (\<exists>x. r = Inr x \<and> f x = Inl e)"
  by (cases r) simp_all

text \<open>\<open>Array.prototype.map\<close> with a callback that may throw.\<close>

fun r_map :: "('a \<Rightarrow> 'b result) \<Rightarrow> 'a list \<Rightarrow> 'b list result" where
  "r_map f [] = Inr []"
| "r_map f (x # xs) = rbind (f x) (\<lambda>y. rbind (r_map f xs) (\<lambda>ys. Inr (y # ys)))"

lemma r_map_length: "r_map f xs = Inr ys \<Longrightarrow> length ys = length xs"
  by (induction xs arbitrary: ys) (auto simp: rbind_eq_Inr_iff)

lemma r_map_nth:
  "r_map f xs = Inr ys \<Longrightarrow> i < length xs \<Longrightarrow> f (xs ! i) = Inr (ys ! i)"
proof (induction xs arbitrary: ys i)
  case Nil
  then show ?case by simp
next
  case (Cons x xs)
  then show ?case by (cases i) (auto simp: rbind_eq_Inr_iff)
qed

lemma r_map_Inr_iff: "(\<exists>ys. r_map f xs = Inr ys) \<longleftrightarrow> (\<forall>x\<in>set xs. \<exists>y. f x = Inr y)"
  by (induction xs) (auto simp: rbind_eq_Inr_iff)

subsection \<open>Stateful code that may throw\<close>

text \<open>
  A method that mutates state and may throw is a function from the state to an outcome
  and the state after the call: a JavaScript exception does not undo the mutations made
  before the \<open>throw\<close> (GL objects created, caches written), so the state is kept on
  the error path too.
\<close>

type_synonym ('s, 'a) exc = "'s \<Rightarrow> (error + 'a) \<times> 's"

definition ereturn :: "'a \<Rightarrow> ('s, 'a) exc" where
  "ereturn a s = (Inr a, s)"

definition ethrow :: "error \<Rightarrow> ('s, 'a) exc" where
  "ethrow e s = (Inl e, s)"

definition ebind :: "('s, 'a) exc \<Rightarrow> ('a \<Rightarrow> ('s, 'b) exc) \<Rightarrow> ('s, 'b) exc" where
  "ebind m f s = (case m s of (Inl e, s') \<Rightarrow> (Inl e, s') | (Inr a, s') \<Rightarrow> f a s')"

lemma ereturn_apply [simp]: "ereturn a s = (Inr a, s)"
  and ethrow_apply [simp]: "ethrow e s = (Inl e, s)"
  by (simp_all add: ereturn_def ethrow_def)

lemma ebind_Inl [simp]: "m s = (Inl e, s') \<Longrightarrow> ebind m f s = (Inl e, s')"
  and ebind_Inr [simp]: "m s = (Inr a, s') \<Longrightarrow> ebind m f s = f a s'"
  by (simp_all add: ebind_def)

lemma ebind_return [simp]: "ebind (ereturn a) f = f a"
  by (simp add: fun_eq_iff ebind_def)

lemma ebind_assoc: "ebind (ebind m f) g = ebind m (\<lambda>a. ebind (f a) g)"
  by (simp add: fun_eq_iff ebind_def split: prod.splits sum.splits)

lemma ebind_eq_Inr_iff:
  "ebind m f s = (Inr b, s'') \<longleftrightarrow> (\<exists>a s'. m s = (Inr a, s') \<and> f a s' = (Inr b, s''))"
  by (auto simp: ebind_def split: prod.splits sum.splits)

text \<open>\<open>forEach\<close> with a body that may throw, and \<open>map\<close> with such a callback.\<close>

fun e_for_each :: "('a \<Rightarrow> ('s, unit) exc) \<Rightarrow> 'a list \<Rightarrow> ('s, unit) exc" where
  "e_for_each f [] = ereturn ()"
| "e_for_each f (x # xs) = ebind (f x) (\<lambda>_. e_for_each f xs)"

fun e_map :: "('a \<Rightarrow> ('s, 'b) exc) \<Rightarrow> 'a list \<Rightarrow> ('s, 'b list) exc" where
  "e_map f [] = ereturn []"
| "e_map f (x # xs) = ebind (f x) (\<lambda>y. ebind (e_map f xs) (\<lambda>ys. ereturn (y # ys)))"

lemma e_for_each_append:
  "e_for_each f (xs @ ys) = ebind (e_for_each f xs) (\<lambda>_. e_for_each f ys)"
  by (induction xs) (simp_all add: ebind_assoc)

lemma e_map_Inr_length:
  "e_map f xs s = (Inr ys, s') \<Longrightarrow> length ys = length xs"
  by (induction xs arbitrary: s ys s') (auto simp: ebind_eq_Inr_iff)

text \<open>
  \<open>keeps R m\<close>: from every state, \<open>m\<close> ends, on either outcome, in a state related to
  the start by \<open>R\<close>. For a preorder \<open>R\<close> (\<open>gl_mono\<close>, the asset frame
  conditions) it composes through \<open>ebind\<close> and the loops.
\<close>

definition keeps :: "('s \<Rightarrow> 's \<Rightarrow> bool) \<Rightarrow> ('s, 'a) exc \<Rightarrow> bool" where
  "keeps R m \<longleftrightarrow> (\<forall>s. R s (snd (m s)))"

lemma keepsI: "(\<And>s. R s (snd (m s))) \<Longrightarrow> keeps R m"
  and keepsD: "keeps R m \<Longrightarrow> R s (snd (m s))"
  by (simp_all add: keeps_def)

lemma keeps_step: "keeps R m \<Longrightarrow> m s = (r, s') \<Longrightarrow> R s s'"
  by (metis keepsD snd_conv)

lemma keeps_return: "(\<And>s. R s s) \<Longrightarrow> keeps R (ereturn a)"
  and keeps_throw: "(\<And>s. R s s) \<Longrightarrow> keeps R (ethrow e)"
  by (simp_all add: keeps_def)

lemma keeps_ebind:
  assumes trans: "\<And>a b c. R a b \<Longrightarrow> R b c \<Longrightarrow> R a c"
    and m: "keeps R m" and f: "\<And>a. keeps R (f a)"
  shows "keeps R (ebind m f)"
proof (rule keepsI)
  fix s
  obtain r s1 where ms: "m s = (r, s1)" by fastforce
  have "R s s1" using keeps_step [OF m ms] .
  then show "R s (snd (ebind m f s))"
    using ms keepsD [OF f] trans by (cases r) (auto simp: ebind_def)
qed

lemma keeps_e_for_each:
  "(\<And>s. R s s) \<Longrightarrow> (\<And>a b c. R a b \<Longrightarrow> R b c \<Longrightarrow> R a c) \<Longrightarrow>
   (\<And>x. x \<in> set xs \<Longrightarrow> keeps R (f x)) \<Longrightarrow> keeps R (e_for_each f xs)"
  by (induction xs) (auto intro!: keeps_ebind keeps_return)

lemma keeps_e_map:
  "(\<And>s. R s s) \<Longrightarrow> (\<And>a b c. R a b \<Longrightarrow> R b c \<Longrightarrow> R a c) \<Longrightarrow>
   (\<And>x. x \<in> set xs \<Longrightarrow> keeps R (f x)) \<Longrightarrow> keeps R (e_map f xs)"
  by (induction xs) (auto intro!: keeps_ebind keeps_return)

subsection \<open>JavaScript arrays\<close>

text \<open>
  A JavaScript array is a list of slots; \<open>None\<close> is a hole (\<open>undefined\<close>).
  Writing \<open>a[i] = v\<close> past the end grows the array and leaves holes between the old end
  and \<open>i\<close>; reading past the end gives \<open>undefined\<close>.
\<close>

type_synonym 'a jsarray = "'a option list"

definition js_set :: "'a jsarray \<Rightarrow> nat \<Rightarrow> 'a \<Rightarrow> 'a jsarray" where
  "js_set xs i v =
     (if i < length xs then xs[i := Some v]
      else xs @ replicate (i - length xs) None @ [Some v])"

definition js_get :: "'a jsarray \<Rightarrow> nat \<Rightarrow> 'a option" where
  "js_get xs i = (if i < length xs then xs ! i else None)"

lemma js_get_set_same [js_simps]: "js_get (js_set xs i v) i = Some v"
  by (simp add: js_get_def js_set_def nth_append)

lemma js_get_set_other [js_simps]:
  "j \<noteq> i \<Longrightarrow> js_get (js_set xs i v) j = js_get xs j"
  by (auto simp: js_get_def js_set_def nth_append nth_Cons' split: if_splits)

lemma length_js_set [js_simps]: "length (js_set xs i v) = max (length xs) (Suc i)"
  by (simp add: js_set_def)

lemma js_get_Nil [js_simps]: "js_get [] i = None"
  by (simp add: js_get_def)

text \<open>
  \<open>a.find(x => x.id === k)\<close> on a possibly sparse array: \<open>find\<close> visits holes too
  and passes \<open>undefined\<close> to the callback, whose \<open>x.id\<close> then throws a
  \<open>TypeError\<close>. On a dense array it is \<open>List.find\<close>.
\<close>

fun js_find_by :: "('a \<Rightarrow> bool) \<Rightarrow> 'a jsarray \<Rightarrow> 'a option result" where
  "js_find_by p [] = Inr None"
| "js_find_by p (None # xs) = Inl TypeError"
| "js_find_by p (Some x # xs) = (if p x then Inr (Some x) else js_find_by p xs)"

lemma js_find_by_dense [js_simps]: "js_find_by p (map Some xs) = Inr (find p xs)"
  by (induction xs) simp_all

lemma js_find_by_Some_set:
  "js_find_by p xs = Inr (Some x) \<Longrightarrow> Some x \<in> set xs \<and> p x"
  by (induction p xs rule: js_find_by.induct) (auto split: if_splits)

lemma js_find_by_TypeError:
  "js_find_by p xs = Inl e \<Longrightarrow> e = TypeError \<and> None \<in> set xs"
  by (induction p xs rule: js_find_by.induct) (auto split: if_splits)

lemma js_find_by_no_hole:
  "None \<notin> set xs \<Longrightarrow> \<exists>r. js_find_by p xs = Inr r"
  by (induction p xs rule: js_find_by.induct) auto

subsection \<open>Updating the first element that matches\<close>

text \<open>
  Objects found with \<open>find\<close> and then mutated in place are updated at the position of the
  first match.
\<close>

fun upd_first :: "('a \<Rightarrow> bool) \<Rightarrow> ('a \<Rightarrow> 'a) \<Rightarrow> 'a list \<Rightarrow> 'a list" where
  "upd_first p f [] = []"
| "upd_first p f (x # xs) = (if p x then f x # xs else x # upd_first p f xs)"

lemma map_upd_first [js_simps]:
  "(\<And>x. g (f x) = g x) \<Longrightarrow> map g (upd_first p f xs) = map g xs"
  by (induction xs) auto

lemma length_upd_first [js_simps]: "length (upd_first p f xs) = length xs"
  by (induction xs) auto

lemma find_upd_first_same:
  "(\<And>x. p (f x) = p x) \<Longrightarrow> find p (upd_first p f xs) = map_option f (find p xs)"
  by (induction xs) auto

lemma find_upd_first_other:
  "(\<And>x. q (f x) = q x) \<Longrightarrow> (\<And>x. p x \<Longrightarrow> q x \<Longrightarrow> False) \<Longrightarrow>
   find q (upd_first p f xs) = find q xs"
  by (induction xs) auto

end
