(* ===== verification/Linear.thy ===== *)
theory Linear
  imports Prelude
begin

text \<open>
  The part of the \<open>@math.gl/core\<close> library the sources call: \<open>Vector3\<close> as a triple
  of reals and \<open>Matrix4\<close> as its sixteen entries in column-major order, as the typed
  array behind a \<open>Matrix4\<close> stores them (entry (r, c) at index \<open>4 * c + r\<close>; the
  translation column is entries 12, 13, 14). \<open>translate\<close>, \<open>multiplyRight\<close> and
  \<open>scale\<close> multiply the receiver on the right by a translation, the argument and a
  scaling matrix. These are library semantics, not code of the repository.
\<close>

type_synonym vec3 = "real \<times> real \<times> real"
type_synonym mat4 = "real list"

definition vec_add :: "vec3 \<Rightarrow> vec3 \<Rightarrow> vec3" where
  "vec_add a b = (case (a, b) of ((x, y, z), (x', y', z')) \<Rightarrow> (x + x', y + y', z + z'))"

definition vec_len :: "vec3 \<Rightarrow> real" where
  "vec_len v = (case v of (x, y, z) \<Rightarrow> sqrt (x\<^sup>2 + y\<^sup>2 + z\<^sup>2))"

text \<open>\<open>Vector3.normalize\<close> divides by the length when it is positive.\<close>

definition vec_normalize :: "vec3 \<Rightarrow> vec3" where
  "vec_normalize v =
     (let l = vec_len v in
      if l > 0 then (case v of (x, y, z) \<Rightarrow> (x / l, y / l, z / l)) else v)"

definition vec_sub :: "vec3 \<Rightarrow> vec3 \<Rightarrow> vec3" where
  "vec_sub a b = (case (a, b) of ((x, y, z), (x', y', z')) \<Rightarrow> (x - x', y - y', z - z'))"

definition vec_scale :: "real \<Rightarrow> vec3 \<Rightarrow> vec3" where
  "vec_scale k v = (case v of (x, y, z) \<Rightarrow> (k * x, k * y, k * z))"

definition vec_cross :: "vec3 \<Rightarrow> vec3 \<Rightarrow> vec3" where
  "vec_cross a b = (case (a, b) of ((x, y, z), (x', y', z')) \<Rightarrow>
     (y * z' - z * y', z * x' - x * z', x * y' - y * x'))"

definition vec_dot :: "vec3 \<Rightarrow> vec3 \<Rightarrow> real" where
  "vec_dot a b = (case (a, b) of ((x, y, z), (x', y', z')) \<Rightarrow> x * x' + y * y' + z * z')"

text \<open>\<open>toRadians\<close> of math.gl.\<close>

definition to_radians :: "real \<Rightarrow> real" where
  "to_radians d = d * pi / 180"

definition mat_identity :: mat4 where
  "mat_identity = [1, 0, 0, 0,  0, 1, 0, 0,  0, 0, 1, 0,  0, 0, 0, 1]"

definition mat_mul :: "mat4 \<Rightarrow> mat4 \<Rightarrow> mat4" where
  "mat_mul a b =
     map (\<lambda>i. let r = i mod 4; c = i div 4 in
            a ! r * b ! (4 * c) + a ! (4 + r) * b ! (4 * c + 1)
          + a ! (8 + r) * b ! (4 * c + 2) + a ! (12 + r) * b ! (4 * c + 3))
       [0..<16]"

definition translation_matrix :: "vec3 \<Rightarrow> mat4" where
  "translation_matrix v =
     (case v of (x, y, z) \<Rightarrow> [1, 0, 0, 0,  0, 1, 0, 0,  0, 0, 1, 0,  x, y, z, 1])"

definition scaling_matrix :: "vec3 \<Rightarrow> mat4" where
  "scaling_matrix v =
     (case v of (x, y, z) \<Rightarrow> [x, 0, 0, 0,  0, y, 0, 0,  0, 0, z, 0,  0, 0, 0, 1])"

definition mat_translate :: "mat4 \<Rightarrow> vec3 \<Rightarrow> mat4" where
  "mat_translate m v = mat_mul m (translation_matrix v)"

definition mat_multiply_right :: "mat4 \<Rightarrow> mat4 \<Rightarrow> mat4" where
  "mat_multiply_right m n = mat_mul m n"

definition mat_scale :: "mat4 \<Rightarrow> vec3 \<Rightarrow> mat4" where
  "mat_scale m v = mat_mul m (scaling_matrix v)"

text \<open>
  \<open>Matrix4.perspective\<close> and \<open>Matrix4.lookAt\<close> overwrite the receiver with the
  matrices of gl-matrix's \<open>mat4.perspective\<close> and \<open>mat4.lookAt\<close> (the latter returns
  the identity when eye and centre coincide to within \<open>EPSILON = 0.000001\<close>, and a zero
  axis where a normalisation would divide by zero).
\<close>

definition perspective :: "real \<Rightarrow> real \<Rightarrow> real \<Rightarrow> real \<Rightarrow> mat4" where
  "perspective fovy aspect near far =
     (let f = 1 / tan (fovy / 2); nf = 1 / (near - far) in
      [f / aspect, 0, 0, 0,  0, f, 0, 0,  0, 0, (far + near) * nf, -1,
       0, 0, 2 * far * near * nf, 0])"

definition vec_unit_or_zero :: "vec3 \<Rightarrow> vec3" where
  "vec_unit_or_zero v = (let l = vec_len v in if l = 0 then (0, 0, 0) else vec_scale (1 / l) v)"

definition look_at :: "vec3 \<Rightarrow> vec3 \<Rightarrow> vec3 \<Rightarrow> mat4" where
  "look_at eye center up =
     (let d = vec_sub eye center in
      if (case d of (dx, dy, dz) \<Rightarrow> \<bar>dx\<bar> < 0.000001 \<and> \<bar>dy\<bar> < 0.000001 \<and> \<bar>dz\<bar> < 0.000001)
      then mat_identity
      else
        (let z = vec_scale (1 / vec_len d) d;
             x = vec_unit_or_zero (vec_cross up z);
             y = vec_unit_or_zero (vec_cross z x) in
         case (x, y, z) of ((x0, x1, x2), (y0, y1, y2), (z0, z1, z2)) \<Rightarrow>
           [x0, y0, z0, 0,  x1, y1, z1, 0,  x2, y2, z2, 0,
            - vec_dot x eye, - vec_dot y eye, - vec_dot z eye, 1]))"

lemma length_look_at [simp]: "length (look_at eye center up) = 16"
  by (simp add: look_at_def Let_def mat_identity_def split: prod.splits)

lemma length_perspective [simp]: "length (perspective fovy aspect near far) = 16"
  by (simp add: perspective_def Let_def)

text \<open>The translation column of a matrix, and writing it entry by entry.\<close>

definition mat_translation :: "mat4 \<Rightarrow> vec3" where
  "mat_translation m = (m ! 12, m ! 13, m ! 14)"

definition mat_set_translation :: "mat4 \<Rightarrow> vec3 \<Rightarrow> mat4" where
  "mat_set_translation m v = (case v of (x, y, z) \<Rightarrow> m[12 := x, 13 := y, 14 := z])"

text \<open>
  Away from the degenerate case the view matrix of \<open>lookAt\<close> sends the eye to the origin:
  its translation column is minus the eye rotated by the upper-left block.
\<close>

lemma look_at_sends_eye_to_origin:
  assumes "vec_sub (e0, e1, e2) center = (dx, dy, dz)"
    and "\<not> (\<bar>dx\<bar> < 0.000001 \<and> \<bar>dy\<bar> < 0.000001 \<and> \<bar>dz\<bar> < 0.000001)"
  shows "mat_translation (look_at (e0, e1, e2) center up) =
          (- (look_at (e0, e1, e2) center up ! 0 * e0 + look_at (e0, e1, e2) center up ! 4 * e1
              + look_at (e0, e1, e2) center up ! 8 * e2),
           - (look_at (e0, e1, e2) center up ! 1 * e0 + look_at (e0, e1, e2) center up ! 5 * e1
              + look_at (e0, e1, e2) center up ! 9 * e2),
           - (look_at (e0, e1, e2) center up ! 2 * e0 + look_at (e0, e1, e2) center up ! 6 * e1
              + look_at (e0, e1, e2) center up ! 10 * e2))"
proof -
  obtain z0 z1 z2 where z: "vec_scale (1 / vec_len (dx, dy, dz)) (dx, dy, dz) = (z0, z1, z2)"
    by (cases "vec_scale (1 / vec_len (dx, dy, dz)) (dx, dy, dz)") auto
  obtain x0 x1 x2 where x: "vec_unit_or_zero (vec_cross up (z0, z1, z2)) = (x0, x1, x2)"
    by (cases "vec_unit_or_zero (vec_cross up (z0, z1, z2))") auto
  obtain y0 y1 y2 where y: "vec_unit_or_zero (vec_cross (z0, z1, z2) (x0, x1, x2)) = (y0, y1, y2)"
    by (cases "vec_unit_or_zero (vec_cross (z0, z1, z2) (x0, x1, x2))") auto
  have "look_at (e0, e1, e2) center up =
          [x0, y0, z0, 0,  x1, y1, z1, 0,  x2, y2, z2, 0,
           - vec_dot (x0, x1, x2) (e0, e1, e2), - vec_dot (y0, y1, y2) (e0, e1, e2),
           - vec_dot (z0, z1, z2) (e0, e1, e2), 1]"
  proof -
    have "(case vec_sub (e0, e1, e2) center of (dx, dy, dz) \<Rightarrow>
             \<bar>dx\<bar> < 0.000001 \<and> \<bar>dy\<bar> < 0.000001 \<and> \<bar>dz\<bar> < 0.000001) = False"
      using assms by simp
    then show ?thesis
      by (simp only: look_at_def Let_def if_False assms(1) z x y prod.case)
  qed
  then show ?thesis by (simp add: mat_translation_def vec_dot_def)
qed

lemma length_mat_mul [simp]: "length (mat_mul a b) = 16"
  by (simp add: mat_mul_def)

lemma length_mat_identity [simp]: "length mat_identity = 16"
  by (simp add: mat_identity_def)

lemma list16_cases:
  assumes "length (m :: 'a list) = 16"
  obtains a0 a1 a2 a3 a4 a5 a6 a7 a8 a9 a10 a11 a12 a13 a14 a15
  where "m = [a0, a1, a2, a3, a4, a5, a6, a7, a8, a9, a10, a11, a12, a13, a14, a15]"
  using assms by (auto simp: numeral_eq_Suc length_Suc_conv)

lemma mat_mul_identity_right [simp]:
  "length a = 16 \<Longrightarrow> mat_mul a mat_identity = a"
  by (erule list16_cases) (simp add: mat_mul_def mat_identity_def upt_rec)

lemma mat_mul_identity_left [simp]:
  "length a = 16 \<Longrightarrow> mat_mul mat_identity a = a"
  by (erule list16_cases) (simp add: mat_mul_def mat_identity_def upt_rec)

lemma translation_matrix_zero [simp]: "translation_matrix (0, 0, 0) = mat_identity"
  by (simp add: translation_matrix_def mat_identity_def)

lemma scaling_matrix_one [simp]: "scaling_matrix (1, 1, 1) = mat_identity"
  by (simp add: scaling_matrix_def mat_identity_def)

lemma mat_translation_set [simp]:
  "length m = 16 \<Longrightarrow> mat_translation (mat_set_translation m v) = v"
  by (cases v) (simp add: mat_translation_def mat_set_translation_def)

lemma length_mat_set_translation [simp]:
  "length (mat_set_translation m v) = length m"
  by (cases v) (simp add: mat_set_translation_def)

lemma length_translation_matrix [simp]: "length (translation_matrix v) = 16"
  by (simp add: translation_matrix_def split: prod.split)

text \<open>Translations compose by adding their vectors.\<close>

lemma translation_matrix_mul [simp]:
  "mat_mul (translation_matrix a) (translation_matrix b) = translation_matrix (vec_add a b)"
  by (cases a, cases b) (simp add: mat_mul_def translation_matrix_def vec_add_def upt_rec)

text \<open>
  \<open>Matrix4.invert()\<close>: gl-matrix's \<open>mat4.invert\<close> written into the receiver, by cofactors;
  a zero determinant makes it return \<open>null\<close> without writing, so the matrix is unchanged.
\<close>

definition mat_invert :: "mat4 \<Rightarrow> mat4" where
  "mat_invert a =
     (let a00 = a ! 0; a01 = a ! 1; a02 = a ! 2; a03 = a ! 3;
          a10 = a ! 4; a11 = a ! 5; a12 = a ! 6; a13 = a ! 7;
          a20 = a ! 8; a21 = a ! 9; a22 = a ! 10; a23 = a ! 11;
          a30 = a ! 12; a31 = a ! 13; a32 = a ! 14; a33 = a ! 15;
          b00 = a00 * a11 - a01 * a10; b01 = a00 * a12 - a02 * a10;
          b02 = a00 * a13 - a03 * a10; b03 = a01 * a12 - a02 * a11;
          b04 = a01 * a13 - a03 * a11; b05 = a02 * a13 - a03 * a12;
          b06 = a20 * a31 - a21 * a30; b07 = a20 * a32 - a22 * a30;
          b08 = a20 * a33 - a23 * a30; b09 = a21 * a32 - a22 * a31;
          b10 = a21 * a33 - a23 * a31; b11 = a22 * a33 - a23 * a32;
          det = b00 * b11 - b01 * b10 + b02 * b09 + b03 * b08 - b04 * b07 + b05 * b06 in
      if det = 0 then a
      else (let d = 1 / det in
        [(a11 * b11 - a12 * b10 + a13 * b09) * d, (a02 * b10 - a01 * b11 - a03 * b09) * d,
         (a31 * b05 - a32 * b04 + a33 * b03) * d, (a22 * b04 - a21 * b05 - a23 * b03) * d,
         (a12 * b08 - a10 * b11 - a13 * b07) * d, (a00 * b11 - a02 * b08 + a03 * b07) * d,
         (a32 * b02 - a30 * b05 - a33 * b01) * d, (a20 * b05 - a22 * b02 + a23 * b01) * d,
         (a10 * b10 - a11 * b08 + a13 * b06) * d, (a01 * b08 - a00 * b10 - a03 * b06) * d,
         (a30 * b04 - a31 * b02 + a33 * b00) * d, (a21 * b02 - a20 * b04 - a23 * b00) * d,
         (a11 * b07 - a10 * b09 - a12 * b06) * d, (a00 * b09 - a01 * b07 + a02 * b06) * d,
         (a31 * b01 - a30 * b03 - a32 * b00) * d, (a20 * b03 - a21 * b01 + a22 * b00) * d]))"

lemma length_mat_invert [simp]: "length a = 16 \<Longrightarrow> length (mat_invert a) = 16"
  by (simp add: mat_invert_def Let_def)

text \<open>The inverse of a translation translates back.\<close>

lemma mat_invert_translation [simp]:
  "mat_invert (translation_matrix v) = translation_matrix (vec_scale (-1) v)"
  by (cases v) (simp add: mat_invert_def translation_matrix_def vec_scale_def Let_def)

end
