(* ===== verification/Scene.thy ===== *)
theory Scene
  imports Linear
begin

text \<open>
  The in-memory scene format of \<open>src/src/mesh\<close>: primitives, meshes, materials, textures,
  images, nodes, scenes and the asset that aggregates them (\<open>mesh.ts\<close>,
  \<open>material.ts\<close>, \<open>texture.ts\<close>, \<open>node.ts\<close>, \<open>scene.ts\<close>). Interfaces are
  records; the TypeScript enums are datatypes; a field typed \<open>T | undefined\<close> is a
  \<open>T option\<close>. Ids and indices are the non-negative integers the glTF loader assigns;
  texture-reference indices are \<open>int\<close> because the code tests them against \<open>-1\<close>.
  The node's world transform (\<open>calculateNodeWorldTransform\<close>) closes the theory.
\<close>

subsection \<open>Primitives and meshes (mesh.ts)\<close>

datatype attribute_type = NORMAL | POSITION | TANGENT | TEXCOORD_0

datatype primitive_mode = POINTS | LINES | LINE_LOOP | LINE_STRIP | TRIANGLES
  | TRIANGLE_STRIP | TRIANGLE_FAN

text \<open>
  The numeric value of each \<open>PrimitiveMode\<close> member (a TypeScript numeric enum counts
  from 0). A primitive stores the number, since the loader copies glTF's \<open>mode\<close> field
  into it unchecked.
\<close>

primrec primitive_mode_code :: "primitive_mode \<Rightarrow> nat" where
  "primitive_mode_code POINTS = 0"
| "primitive_mode_code LINES = 1"
| "primitive_mode_code LINE_LOOP = 2"
| "primitive_mode_code LINE_STRIP = 3"
| "primitive_mode_code TRIANGLES = 4"
| "primitive_mode_code TRIANGLE_STRIP = 5"
| "primitive_mode_code TRIANGLE_FAN = 6"

text \<open>
  \<open>AttributeMap\<close> is a \<open>Map\<close> from attribute kind to a \<open>Float32Array\<close>; index
  data is a \<open>Uint16Array\<close> or \<open>null\<close>.
\<close>

record primitive =
  prim_id :: nat
  attributes :: "attribute_type \<rightharpoonup> real list"
  indices :: "16 word list option"
  prim_material_id :: nat
  mode :: nat

record mesh =
  primitives :: "primitive list"
  mesh_name :: string
  mesh_id :: nat

subsection \<open>Materials (material.ts)\<close>

record texture_reference =
  tr_index :: "int option"
  tr_scale :: "real option"
  tr_tex_coords :: "nat option"

record pbr_metallic_roughness =
  base_color_factor :: "real list option"
  base_color_texture :: "texture_reference option"
  metallic_factor :: "real option"
  metallic_roughness_texture :: "texture_reference option"
  roughness_factor :: "real option"

text \<open>
  The \<open>PbrMetallicRoughness\<close> constructor: a factor that is present must lie in
  [0, 1], the metallic factor being checked first.
\<close>

definition make_pbr_metallic_roughness ::
  "real list option \<Rightarrow> texture_reference option \<Rightarrow> real option \<Rightarrow>
   texture_reference option \<Rightarrow> real option \<Rightarrow> pbr_metallic_roughness result" where
  "make_pbr_metallic_roughness bcf bct mf mrt rf =
     (if (case mf of Some m \<Rightarrow> m < 0 \<or> m > 1 | None \<Rightarrow> False) then Inl ErrMetallicRange
      else if (case rf of Some r \<Rightarrow> r < 0 \<or> r > 1 | None \<Rightarrow> False) then Inl ErrRoughnessRange
      else Inr \<lparr>base_color_factor = bcf, base_color_texture = bct, metallic_factor = mf,
                metallic_roughness_texture = mrt, roughness_factor = rf\<rparr>)"

record material =
  mat_id :: nat
  mat_name :: string
  metallic_roughness_options :: pbr_metallic_roughness
  normal_texture :: texture_reference
  emissive_factor :: "real list option"

subsection \<open>Textures and images (texture.ts)\<close>

text \<open>A \<open>TexImageSource\<close> matters to the engine only through its size.\<close>

record tex_image_source =
  src_width :: nat
  src_height :: nat

record texture =
  tex_id :: nat
  sampler :: "nat option"
  source_image_reference :: "nat option"

record image =
  img_id :: nat
  uri :: "string option"
  image_data :: tex_image_source

subsection \<open>Nodes, scenes and assets (node.ts, scene.ts)\<close>

record node =
  node_id :: nat
  children :: "nat list option"
  node_mesh_id :: "nat option"
  rotation_matrix :: mat4
  scale_vector :: vec3
  translation_vector :: vec3
  cached_world_transform :: "mat4 option"

record scene =
  scene_id :: nat
  scene_name :: string
  node_indices :: "nat list"

record asset =
  images :: "image list"
  materials :: "material list"
  meshes :: "mesh list"
  nodes :: "node list"
  scenes :: "scene list"
  asset_textures :: "texture list"
  default_scene_index :: nat

subsection \<open>World transform (node.ts)\<close>

text \<open>
  \<open>new Matrix4(parent).translate(t).multiplyRight(R).scale(s)\<close>: the parent transform
  times translation, rotation and scale, in that order.
\<close>

definition calculate_node_world_transform :: "node \<Rightarrow> mat4 \<Rightarrow> mat4" where
  "calculate_node_world_transform n parent =
     mat_scale
       (mat_multiply_right (mat_translate parent (translation_vector n)) (rotation_matrix n))
       (scale_vector n)"

text \<open>A node whose local transform is the identity.\<close>

definition identity_local :: "node \<Rightarrow> bool" where
  "identity_local n \<longleftrightarrow>
     rotation_matrix n = mat_identity \<and> scale_vector n = (1, 1, 1)
     \<and> translation_vector n = (0, 0, 0)"

text \<open>With no rotation and unit scale, the world transform is the parent's, translated.\<close>

lemma calculate_translation_only:
  "rotation_matrix n = mat_identity \<Longrightarrow> scale_vector n = (1, 1, 1) \<Longrightarrow> length p = 16 \<Longrightarrow>
   calculate_node_world_transform n p = mat_mul p (translation_matrix (translation_vector n))"
  by (simp add: calculate_node_world_transform_def mat_translate_def mat_multiply_right_def
                mat_scale_def)

end
