(* ===== verification/Gl.thy ===== *)
theory Gl
  imports Scene
begin

unbundle bit_operations_syntax

text \<open>
  The WebGL side of the engine as explicit state: a record holding the log of the GL calls
  issued so far, the next fresh object name and whether the context is lost (then every
  \<open>create*\<close> call returns \<open>null\<close>, the only way WebGL object creation fails).
  Handles are the names the state hands out. Uniform locations are handles too; a
  uniform call on an \<open>undefined\<close> location is logged with \<open>None\<close> (WebGL ignores it).
  This theory holds \<open>context.ts\<close>, \<open>genericBuffer.ts\<close>, \<open>elementBuffer.ts\<close> and
  \<open>texture.ts\<close>; every creation function returns the new object with the new state,
  or the error its \<open>throw\<close> raises.
\<close>

subsection \<open>GL state and calls\<close>

datatype gl_mode = GL_POINTS | GL_LINES | GL_LINE_LOOP | GL_LINE_STRIP | GL_TRIANGLES
  | GL_TRIANGLE_STRIP | GL_TRIANGLE_FAN

datatype buffer_target = ARRAY_BUFFER | ELEMENT_ARRAY_BUFFER

datatype tex_param = WRAP_S_CLAMP | WRAP_T_CLAMP | MAG_FILTER_LINEAR | MIN_FILTER_LINEAR

datatype shader_type = VERTEX_SHADER | FRAGMENT_SHADER

text \<open>
  A \<open>WebGLUniformLocation\<close> is an opaque handle for one uniform of one program: the
  program's name and the uniform's name.
\<close>

type_synonym uniform_location = "nat \<times> string"

datatype gl_cmd =
    CreateObject gl_object nat
  | BindBuffer buffer_target "nat option"
  | BufferData buffer_target nat
  | BindTexture "nat option"
  | TexImage2D nat nat
  | TexParameteri tex_param
  | GenerateMipmap
  | ActiveTexture nat
  | Uniform1i "uniform_location option" int
  | UniformMatrix4fv "uniform_location option" mat4
  | Uniform3fv "uniform_location option" vec3
  | VertexAttribPointer nat nat
  | EnableVertexAttribArray nat
  | UseProgram nat
  | Clear
  | ClearColor real real real real
  | BindFramebuffer "nat option"
  | DrawElements gl_mode nat
  | ShaderSource nat string
  | CompileShader nat
  | DeleteShader nat
  | AttachShader nat nat
  | LinkProgram nat
  | ValidateProgram nat
  | FramebufferTexture2D nat nat
  | DrawBuffers "nat list"
  | BindRenderbuffer "nat option"
  | RenderbufferStorage nat nat
  | FramebufferRenderbuffer "nat option"
  | Enable_DEPTH_TEST
  | DepthFunc_LEQUAL

record gl_state =
  gl_log :: "gl_cmd list"
  next_handle :: nat
  context_lost :: bool

definition emit :: "gl_cmd \<Rightarrow> gl_state \<Rightarrow> gl_state" where
  "emit c g = g\<lparr>gl_log := gl_log g @ [c]\<rparr>"

text \<open>A fresh, live context with nothing issued yet.\<close>

definition gl_init :: gl_state where
  "gl_init = \<lparr>gl_log = [], next_handle = 0, context_lost = False\<rparr>"

text \<open>\<open>gl.createX()\<close>: a fresh name, or \<open>null\<close> on a lost context.\<close>

definition gl_create :: "gl_object \<Rightarrow> gl_state \<Rightarrow> nat option \<times> gl_state" where
  "gl_create k g =
     (if context_lost g then (None, g)
      else (Some (next_handle g),
            emit (CreateObject k (next_handle g)) (g\<lparr>next_handle := Suc (next_handle g)\<rparr>)))"

lemma emit_simps [simp]:
  "gl_log (emit c g) = gl_log g @ [c]"
  "next_handle (emit c g) = next_handle g"
  "context_lost (emit c g) = context_lost g"
  by (simp_all add: emit_def)

lemma gl_create_lost [simp]: "context_lost g \<Longrightarrow> gl_create k g = (None, g)"
  by (simp add: gl_create_def)

lemma gl_create_live [simp]:
  "\<not> context_lost g \<Longrightarrow>
   gl_create k g = (Some (next_handle g),
     g\<lparr>gl_log := gl_log g @ [CreateObject k (next_handle g)], next_handle := Suc (next_handle g)\<rparr>)"
  by (simp add: gl_create_def emit_def)

text \<open>
  GL calls only ever append to the log and never hand out a name twice: the frame facts
  every operation of the development keeps (\<open>gl_mono\<close>).
\<close>

definition gl_mono :: "gl_state \<Rightarrow> gl_state \<Rightarrow> bool" where
  "gl_mono g g' \<longleftrightarrow> (\<exists>cs. gl_log g' = gl_log g @ cs) \<and> next_handle g \<le> next_handle g'
     \<and> context_lost g' = context_lost g"

named_theorems gl_mono_intros "operations keep gl_mono"

lemma gl_mono_refl [gl_mono_intros]: "gl_mono g g"
  by (simp add: gl_mono_def)

lemma gl_mono_trans: "gl_mono g1 g2 \<Longrightarrow> gl_mono g2 g3 \<Longrightarrow> gl_mono g1 g3"
  by (auto simp: gl_mono_def)

lemma gl_mono_emit [gl_mono_intros]: "gl_mono g (emit c g)"
  by (simp add: gl_mono_def)

lemma gl_mono_create [gl_mono_intros]: "gl_create k g = (h, g') \<Longrightarrow> gl_mono g g'"
  by (auto simp: gl_create_def gl_mono_def emit_def split: if_splits)

subsection \<open>Context (context.ts)\<close>

record canvas =
  canvas_width :: nat
  canvas_height :: nat

text \<open>\<open>Context.setSize\<close>: a non-positive size is ignored with a warning.\<close>

definition set_size :: "int \<Rightarrow> int \<Rightarrow> canvas \<Rightarrow> canvas" where
  "set_size w h c =
     (if w \<le> 0 \<or> h \<le> 0 then c else c\<lparr>canvas_width := nat w, canvas_height := nat h\<rparr>)"

text \<open>
  \<open>ContextOptions\<close>: an optional size. \<open>applyOptions\<close> resizes the canvas when a size
  is given, and the constructor applies the options to the canvas it wraps.
\<close>

record context_options =
  ctx_size :: "(int \<times> int) option"

definition apply_options :: "context_options \<Rightarrow> canvas \<Rightarrow> canvas" where
  "apply_options opts c = (case ctx_size opts of None \<Rightarrow> c | Some (w, h) \<Rightarrow> set_size w h c)"

text \<open>
  A \<open>Context\<close>: the canvas, its options and the WebGL context once obtained
  (\<open>_glContext\<close>, \<open>null\<close> until the first use of the \<open>gl\<close> getter).
\<close>

record canvas_context =
  ctx_canvas :: canvas
  ctx_options :: context_options
  ctx_gl :: "gl_state option"

definition context_new :: "canvas \<Rightarrow> context_options \<Rightarrow> canvas_context" where
  "context_new c opts = \<lparr>ctx_canvas = apply_options opts c, ctx_options = opts, ctx_gl = None\<rparr>"

text \<open>
  The \<open>gl\<close> getter: the first use asks the canvas for a \<open>webgl2\<close> context; the
  browser's answer is \<open>avail\<close> (whether \<open>getContext\<close> returns a context), and a context
  it returns is a fresh one, \<open>gl_init\<close>. A \<open>null\<close> answer throws and leaves
  \<open>_glContext\<close> \<open>null\<close>; an obtained context is kept and returned by every later use.
\<close>

definition context_gl :: "(canvas \<Rightarrow> bool) \<Rightarrow> canvas_context \<Rightarrow> (error + gl_state) \<times> canvas_context" where
  "context_gl avail ctx =
     (case ctx_gl ctx of
        Some g \<Rightarrow> (Inr g, ctx)
      | None \<Rightarrow>
          if avail (ctx_canvas ctx) then (Inr gl_init, ctx\<lparr>ctx_gl := Some gl_init\<rparr>)
          else (Inl ErrNoContext, ctx))"

text \<open>\<open>Context.setClearColor\<close>.\<close>

definition context_set_clear_color :: "real \<Rightarrow> real \<Rightarrow> real \<Rightarrow> real \<Rightarrow> gl_state \<Rightarrow> gl_state" where
  "context_set_clear_color r gr b a g = emit (ClearColor r gr b a) g"

text \<open>\<open>Context.clear\<close> clears colour and depth in one call.\<close>

definition context_clear :: "gl_state \<Rightarrow> gl_state" where
  "context_clear g = emit Clear g"

subsection \<open>Vertex and index buffers (genericBuffer.ts, elementBuffer.ts)\<close>

record generic_buffer =
  gb_buffer :: nat
  element_count :: nat
  number_of_components :: nat

record element_buffer =
  eb_buffer :: nat
  index_count :: nat

text \<open>
  \<open>GenericBuffer.create\<close>: create the buffer (or throw), then
  \<open>loadDataIntoBuffer\<close> binds it, uploads the data and unbinds.
\<close>

definition generic_buffer_create ::
  "real list \<Rightarrow> nat \<Rightarrow> (gl_state, generic_buffer) exc" where
  "generic_buffer_create elements n g =
     (case gl_create ObjBuffer g of
        (None, g1) \<Rightarrow> (Inl (ErrCreate ObjBuffer), g1)
      | (Some b, g1) \<Rightarrow>
          (Inr \<lparr>gb_buffer = b, element_count = length elements, number_of_components = n\<rparr>,
           emit (BindBuffer ARRAY_BUFFER None)
             (emit (BufferData ARRAY_BUFFER (length elements))
               (emit (BindBuffer ARRAY_BUFFER (Some b)) g1))))"

text \<open>\<open>ElementBuffer.create\<close> leaves the new buffer bound.\<close>

definition element_buffer_create :: "16 word list \<Rightarrow> (gl_state, element_buffer) exc" where
  "element_buffer_create idx g =
     (case gl_create ObjBuffer g of
        (None, g1) \<Rightarrow> (Inl (ErrCreate ObjBuffer), g1)
      | (Some b, g1) \<Rightarrow>
          (Inr \<lparr>eb_buffer = b, index_count = length idx\<rparr>,
           emit (BufferData ELEMENT_ARRAY_BUFFER (length idx))
             (emit (BindBuffer ELEMENT_ARRAY_BUFFER (Some b)) g1)))"

subsection \<open>Textures (texture.ts)\<close>

record gl_texture =
  texture_handle :: nat

text \<open>
  \<open>isPowerOfTwo\<close> computes \<open>(value & (value - 1)) == 0\<close>; JavaScript's \<open>&\<close>
  converts both operands with ToInt32, so the test runs on the 32-bit pattern of the
  width: \<open>word_of_nat\<close> is exactly ToInt32 on a non-negative integer, and
  ToInt32(v - 1) is the word \<open>w - 1\<close>, also for \<open>v = 0\<close>.
\<close>

definition is_power_of_two :: "nat \<Rightarrow> bool" where
  "is_power_of_two v = (let w = (word_of_nat v :: 32 word) in (w AND (w - 1)) = 0)"

text \<open>
  \<open>setTextureParameters\<close>: mipmaps for a power-of-two image, otherwise clamping and a
  linear \<^emph>\<open>magnification\<close> filter.
\<close>

definition set_texture_parameters :: "nat \<Rightarrow> nat \<Rightarrow> gl_state \<Rightarrow> gl_state" where
  "set_texture_parameters w h g =
     (if is_power_of_two w \<and> is_power_of_two h then emit GenerateMipmap g
      else emit (TexParameteri MAG_FILTER_LINEAR)
             (emit (TexParameteri WRAP_T_CLAMP) (emit (TexParameteri WRAP_S_CLAMP) g)))"

text \<open>
  \<open>setTextureImage\<close>: the six-argument \<open>texImage2D\<close> uploads the source's pixels at
  level 0 as RGBA bytes, sized by the source (the \<open>width\<close> and \<open>height\<close> of
  \<open>texParams\<close> are not passed), into the bound texture.
\<close>

definition set_texture_image :: "tex_image_source \<Rightarrow> gl_state \<Rightarrow> gl_state" where
  "set_texture_image src g = emit (TexImage2D (src_width src) (src_height src)) g"

text \<open>
  \<open>setTextureData\<close>: upload (or, with \<open>null\<close> data, allocate) the level-0 image of the
  given size, clamp both axes and set a linear minification filter, on the bound texture.
\<close>

definition set_texture_data :: "nat \<Rightarrow> nat \<Rightarrow> gl_state \<Rightarrow> gl_state" where
  "set_texture_data w h g =
     emit (TexParameteri MIN_FILTER_LINEAR)
       (emit (TexParameteri WRAP_T_CLAMP)
         (emit (TexParameteri WRAP_S_CLAMP) (emit (TexImage2D w h) g)))"

text \<open>\<open>Texture.createFromTexImageSource\<close>; the texture stays bound.\<close>

definition texture_create_from_tex_image_source ::
  "tex_image_source \<Rightarrow> (gl_state, gl_texture) exc" where
  "texture_create_from_tex_image_source src g =
     (case gl_create ObjTexture g of
        (None, g1) \<Rightarrow> (Inl (ErrCreate ObjTexture), g1)
      | (Some t, g1) \<Rightarrow>
          (Inr \<lparr>texture_handle = t\<rparr>,
           set_texture_parameters (src_width src) (src_height src)
             (set_texture_image src (emit (BindTexture (Some t)) g1))))"

text \<open>
  \<open>Texture.createEmpty\<close> (an RGBA16F render target): \<open>setTextureData\<close> with no data,
  then the texture is unbound.
\<close>

definition texture_create_empty :: "nat \<Rightarrow> nat \<Rightarrow> (gl_state, gl_texture) exc" where
  "texture_create_empty w h g =
     (case gl_create ObjTexture g of
        (None, g1) \<Rightarrow> (Inl (ErrCreate ObjTexture), g1)
      | (Some t, g1) \<Rightarrow>
          (Inr \<lparr>texture_handle = t\<rparr>,
           emit (BindTexture None) (set_texture_data w h (emit (BindTexture (Some t)) g1))))"

lemmas texture_upload_defs = set_texture_image_def set_texture_data_def

lemma set_texture_image_simps [simp]:
  "gl_log (set_texture_image src g) = gl_log g @ [TexImage2D (src_width src) (src_height src)]"
  "next_handle (set_texture_image src g) = next_handle g"
  "context_lost (set_texture_image src g) = context_lost g"
  by (simp_all add: set_texture_image_def)

lemma set_texture_data_simps [simp]:
  "gl_log (set_texture_data w h g) = gl_log g @
     [TexImage2D w h, TexParameteri WRAP_S_CLAMP, TexParameteri WRAP_T_CLAMP,
      TexParameteri MIN_FILTER_LINEAR]"
  "next_handle (set_texture_data w h g) = next_handle g"
  "context_lost (set_texture_data w h g) = context_lost g"
  by (simp_all add: set_texture_data_def)

text \<open>The preorder rules of \<open>keeps\<close> specialised to \<open>gl_mono\<close>.\<close>

lemma gl_keeps_ebind [gl_mono_intros]:
  "keeps gl_mono m \<Longrightarrow> (\<And>a. keeps gl_mono (f a)) \<Longrightarrow> keeps gl_mono (ebind m f)"
  by (rule keeps_ebind) (auto intro: gl_mono_trans)

lemma gl_keeps_return [gl_mono_intros]: "keeps gl_mono (ereturn a)"
  and gl_keeps_throw [gl_mono_intros]: "keeps gl_mono (ethrow e)"
  by (simp_all add: keeps_def gl_mono_refl)

lemma gl_keeps_e_map [gl_mono_intros]:
  "(\<And>x. x \<in> set xs \<Longrightarrow> keeps gl_mono (f x)) \<Longrightarrow> keeps gl_mono (e_map f xs)"
  by (rule keeps_e_map) (auto intro: gl_mono_refl gl_mono_trans)

lemma gl_keeps_e_for_each [gl_mono_intros]:
  "(\<And>x. x \<in> set xs \<Longrightarrow> keeps gl_mono (f x)) \<Longrightarrow> keeps gl_mono (e_for_each f xs)"
  by (rule keeps_e_for_each) (auto intro: gl_mono_refl gl_mono_trans)

lemma gl_mono_emits [gl_mono_intros]:
  "gl_mono g g' \<Longrightarrow> gl_mono g (emit c g')"
  by (auto simp: gl_mono_def emit_def)

lemma gl_mono_set_texture_parameters [gl_mono_intros]:
  "gl_mono g g' \<Longrightarrow> gl_mono g (set_texture_parameters w h g')"
  by (simp add: set_texture_parameters_def gl_mono_emits)

lemma gl_keeps_generic_buffer_create [gl_mono_intros]:
  "keeps gl_mono (generic_buffer_create xs n)"
  by (auto simp: keeps_def generic_buffer_create_def gl_create_def gl_mono_def emit_def)

lemma gl_keeps_element_buffer_create [gl_mono_intros]:
  "keeps gl_mono (element_buffer_create xs)"
  by (auto simp: keeps_def element_buffer_create_def gl_create_def gl_mono_def emit_def)

lemma gl_keeps_texture_create [gl_mono_intros]:
  "keeps gl_mono (texture_create_from_tex_image_source src)"
  by (auto simp: keeps_def texture_create_from_tex_image_source_def set_texture_image_def
                 gl_create_def gl_mono_def
                 emit_def set_texture_parameters_def)

lemma gl_keeps_texture_create_empty [gl_mono_intros]:
  "keeps gl_mono (texture_create_empty w h)"
  by (auto simp: keeps_def texture_create_empty_def set_texture_data_def gl_create_def gl_mono_def
                 emit_def)

text \<open>
  Drawing only issues calls: the state after it is the state before with calls appended to
  the log, no object created and no texture's image, mipmaps or parameters touched
  (\<open>log_ext\<close>, finer than \<open>gl_mono\<close>). It may bind textures to units.
\<close>

fun creates :: "gl_cmd \<Rightarrow> bool" where
  "creates (CreateObject k t) = True"
| "creates _ = False"

fun edits_texture :: "gl_cmd \<Rightarrow> bool" where
  "edits_texture (TexImage2D w h) = True"
| "edits_texture GenerateMipmap = True"
| "edits_texture (TexParameteri p) = True"
| "edits_texture _ = False"

definition log_ext :: "gl_state \<Rightarrow> gl_state \<Rightarrow> bool" where
  "log_ext g g' \<longleftrightarrow>
     (\<exists>cs. g' = g\<lparr>gl_log := gl_log g @ cs\<rparr> \<and> (\<forall>c\<in>set cs. \<not> creates c \<and> \<not> edits_texture c))"

named_theorems log_ext_intros "operations that only append calls"

lemma log_ext_refl [log_ext_intros]: "log_ext g g"
  by (auto simp: log_ext_def intro: exI [of _ "[]"])

lemma log_ext_trans: "log_ext g1 g2 \<Longrightarrow> log_ext g2 g3 \<Longrightarrow> log_ext g1 g3"
  unfolding log_ext_def
proof (elim exE conjE)
  fix cs ds
  assume "g2 = g1\<lparr>gl_log := gl_log g1 @ cs\<rparr>" "\<forall>c\<in>set cs. \<not> creates c \<and> \<not> edits_texture c"
    and "g3 = g2\<lparr>gl_log := gl_log g2 @ ds\<rparr>" "\<forall>c\<in>set ds. \<not> creates c \<and> \<not> edits_texture c"
  then show "\<exists>cs. g3 = g1\<lparr>gl_log := gl_log g1 @ cs\<rparr> \<and> (\<forall>c\<in>set cs. \<not> creates c \<and> \<not> edits_texture c)"
    by (intro exI [of _ "cs @ ds"]) auto
qed

lemma log_ext_emits [log_ext_intros]:
  "log_ext g g' \<Longrightarrow> \<not> creates c \<Longrightarrow> \<not> edits_texture c \<Longrightarrow> log_ext g (emit c g')"
  unfolding log_ext_def
proof (elim exE conjE)
  fix cs
  assume "g' = g\<lparr>gl_log := gl_log g @ cs\<rparr>" "\<forall>c\<in>set cs. \<not> creates c \<and> \<not> edits_texture c"
    "\<not> creates c" "\<not> edits_texture c"
  then show "\<exists>cs. emit c g' = g\<lparr>gl_log := gl_log g @ cs\<rparr> \<and> (\<forall>c\<in>set cs. \<not> creates c \<and> \<not> edits_texture c)"
    by (intro exI [of _ "cs @ [c]"]) (auto simp: emit_def)
qed

lemma log_ext_gl_mono: "log_ext g g' \<Longrightarrow> gl_mono g g'"
  by (auto simp: log_ext_def gl_mono_def)

lemma log_ext_handle: "log_ext g g' \<Longrightarrow> next_handle g' = next_handle g"
  by (auto simp: log_ext_def)

lemma log_keeps_ebind [log_ext_intros]:
  "keeps log_ext m \<Longrightarrow> (\<And>a. keeps log_ext (f a)) \<Longrightarrow> keeps log_ext (ebind m f)"
  by (rule keeps_ebind) (auto intro: log_ext_trans)

lemma log_keeps_return [log_ext_intros]: "keeps log_ext (ereturn a)"
  and log_keeps_throw [log_ext_intros]: "keeps log_ext (ethrow e)"
  by (simp_all add: keeps_def log_ext_refl)

lemma log_keeps_e_for_each [log_ext_intros]:
  "(\<And>x. x \<in> set xs \<Longrightarrow> keeps log_ext (f x)) \<Longrightarrow> keeps log_ext (e_for_each f xs)"
  by (rule keeps_e_for_each) (auto intro: log_ext_refl log_ext_trans)

subsection \<open>The context getter\<close>

text \<open>C27: the \<open>gl\<close> getter obtains the WebGL context at most once: after a use that returns a
  context, every later use returns that same context and leaves the Context as it is,
  whatever the browser would now answer.\<close>

theorem context_gl_caches:
  assumes "context_gl avail ctx = (Inr g, ctx')"
  shows "context_gl avail' ctx' = (Inr g, ctx')"
  using assms by (auto simp: context_gl_def split: option.splits if_splits)

text \<open>A use that finds no context throws and leaves \<open>_glContext\<close> unset, so the next use
  asks the canvas again.\<close>

lemma context_gl_fails:
  "ctx_gl ctx = None \<Longrightarrow> \<not> avail (ctx_canvas ctx) \<Longrightarrow> context_gl avail ctx = (Inl ErrNoContext, ctx)"
  by (simp add: context_gl_def)

theorem context_gl_caches_witness:
  "context_gl (\<lambda>_. False) (snd (context_gl (\<lambda>_. True)
       (context_new \<lparr>canvas_width = 300, canvas_height = 150\<rparr> \<lparr>ctx_size = Some (800, 600)\<rparr>)))
   = (Inr gl_init, snd (context_gl (\<lambda>_. True)
       (context_new \<lparr>canvas_width = 300, canvas_height = 150\<rparr> \<lparr>ctx_size = Some (800, 600)\<rparr>)))"
proof -
  have "context_gl (\<lambda>_. True) (context_new \<lparr>canvas_width = 300, canvas_height = 150\<rparr>
      \<lparr>ctx_size = Some (800, 600)\<rparr>) = (Inr gl_init, snd (context_gl (\<lambda>_. True)
       (context_new \<lparr>canvas_width = 300, canvas_height = 150\<rparr> \<lparr>ctx_size = Some (800, 600)\<rparr>)))"
    by (simp add: context_gl_def context_new_def)
  from context_gl_caches [OF this] show ?thesis .
qed

end
