(* ===== verification/Drawable.thy ===== *)
theory Drawable
  imports Gl
begin

text \<open>
  Uploading scene geometry (\<open>drawableMesh.ts\<close>): a scene primitive becomes a
  \<open>DrawablePrimitive\<close> holding GPU buffers for its positions, optional normals and
  texture coordinates, and its indices; a \<open>DrawableMesh\<close> is the list of them.
  \<open>QuadPrimitive\<close> (\<open>primitives/quad.ts\<close>) is the full-screen quad the screen-space
  passes draw. The lemmas give the outcome of an upload on every branch: which input makes
  it throw, what a successful upload holds, and that it only ever adds GL objects.
\<close>

record drawable_primitive =
  dp_id :: nat
  dp_mode :: nat
  vertex_buffer :: generic_buffer
  index_buffer :: element_buffer
  normal_buffer :: "generic_buffer option"
  texture_coord_buffer :: "generic_buffer option"
  dp_material_id :: nat

record drawable_mesh =
  dm_primitives :: "drawable_primitive list"

text \<open>
  \<open>DrawablePrimitive.create\<close>, in the order of the source: the position check, the
  texture-coordinate buffer (2 components), the vertex buffer (3), the normal buffer (3),
  and only then the index check, so a primitive without indices throws after its other
  buffers were created.
\<close>

definition optional_buffer ::
  "real list option \<Rightarrow> nat \<Rightarrow> (gl_state, generic_buffer option) exc" where
  "optional_buffer d n =
     (case d of None \<Rightarrow> ereturn None
      | Some xs \<Rightarrow> ebind (generic_buffer_create xs n) (\<lambda>b. ereturn (Some b)))"

definition drawable_primitive_create :: "primitive \<Rightarrow> (gl_state, drawable_primitive) exc" where
  "drawable_primitive_create p =
     (case attributes p POSITION of
        None \<Rightarrow> ethrow ErrNoVertexData
      | Some verts \<Rightarrow>
          ebind (optional_buffer (attributes p TEXCOORD_0) 2) (\<lambda>tb.
          ebind (generic_buffer_create verts 3) (\<lambda>vb.
          ebind (optional_buffer (attributes p NORMAL) 3) (\<lambda>nb.
          (case indices p of
             None \<Rightarrow> ethrow ErrNoIndices
           | Some idx \<Rightarrow>
               ebind (element_buffer_create idx) (\<lambda>ib.
               ereturn \<lparr>dp_id = prim_id p, dp_mode = mode p, vertex_buffer = vb,
                        index_buffer = ib, normal_buffer = nb, texture_coord_buffer = tb,
                        dp_material_id = prim_material_id p\<rparr>))))))"

definition drawable_mesh_create :: "primitive list \<Rightarrow> (gl_state, drawable_mesh) exc" where
  "drawable_mesh_create ps =
     ebind (e_map drawable_primitive_create ps) (\<lambda>dps. ereturn \<lparr>dm_primitives = dps\<rparr>)"

subsection \<open>Outcomes of an upload\<close>

lemma generic_buffer_create_live [simp]:
  "\<not> context_lost g \<Longrightarrow> generic_buffer_create xs n g =
     (Inr \<lparr>gb_buffer = next_handle g, element_count = length xs, number_of_components = n\<rparr>,
      g\<lparr>gl_log := gl_log g @ [CreateObject ObjBuffer (next_handle g),
          BindBuffer ARRAY_BUFFER (Some (next_handle g)), BufferData ARRAY_BUFFER (length xs),
          BindBuffer ARRAY_BUFFER None], next_handle := Suc (next_handle g)\<rparr>)"
  by (simp add: generic_buffer_create_def emit_def)

lemma element_buffer_create_live [simp]:
  "\<not> context_lost g \<Longrightarrow> element_buffer_create idx g =
     (Inr \<lparr>eb_buffer = next_handle g, index_count = length idx\<rparr>,
      g\<lparr>gl_log := gl_log g @ [CreateObject ObjBuffer (next_handle g),
          BindBuffer ELEMENT_ARRAY_BUFFER (Some (next_handle g)),
          BufferData ELEMENT_ARRAY_BUFFER (length idx)], next_handle := Suc (next_handle g)\<rparr>)"
  by (simp add: element_buffer_create_def emit_def)

lemma optional_buffer_live:
  "\<not> context_lost g \<Longrightarrow> \<exists>g'. optional_buffer d n g =
     (Inr (map_option (\<lambda>xs. \<lparr>gb_buffer = next_handle g, element_count = length xs,
                              number_of_components = n\<rparr>) d), g')
     \<and> \<not> context_lost g' \<and> next_handle g' = next_handle g + (if d = None then 0 else 1)"
  by (cases d) (simp_all add: optional_buffer_def)

lemma gl_keeps_optional_buffer [gl_mono_intros]: "keeps gl_mono (optional_buffer d n)"
  unfolding optional_buffer_def by (cases d) (simp_all add: gl_mono_intros)

text \<open>
  What a successful upload of a primitive holds: its id, mode and material, one index per
  entry of the index data, three-component positions, and a normal or texture-coordinate
  buffer exactly when the primitive has that attribute.
\<close>

definition uploaded_from :: "primitive \<Rightarrow> drawable_primitive \<Rightarrow> bool" where
  "uploaded_from p dp \<longleftrightarrow>
     dp_id dp = prim_id p \<and> dp_mode dp = mode p \<and> dp_material_id dp = prim_material_id p
     \<and> (\<exists>idx. indices p = Some idx \<and> index_count (index_buffer dp) = length idx)
     \<and> (\<exists>verts. attributes p POSITION = Some verts
            \<and> element_count (vertex_buffer dp) = length verts)
     \<and> number_of_components (vertex_buffer dp) = 3
     \<and> (normal_buffer dp = None \<longleftrightarrow> attributes p NORMAL = None)
     \<and> (texture_coord_buffer dp = None \<longleftrightarrow> attributes p TEXCOORD_0 = None)"

definition uploadable :: "primitive \<Rightarrow> bool" where
  "uploadable p \<longleftrightarrow> attributes p POSITION \<noteq> None \<and> indices p \<noteq> None"

lemma drawable_primitive_create_ok:
  assumes "\<not> context_lost g" and "uploadable p"
  shows "\<exists>dp g'. drawable_primitive_create p g = (Inr dp, g') \<and> \<not> context_lost g'
     \<and> uploaded_from p dp"
proof -
  obtain verts idx where v: "attributes p POSITION = Some verts" and i: "indices p = Some idx"
    using assms(2) by (auto simp: uploadable_def)
  obtain g1 where t: "optional_buffer (attributes p TEXCOORD_0) 2 g =
      (Inr (map_option (\<lambda>xs. \<lparr>gb_buffer = next_handle g, element_count = length xs,
                              number_of_components = 2\<rparr>) (attributes p TEXCOORD_0)), g1)"
    and l1: "\<not> context_lost g1"
    using optional_buffer_live [OF assms(1)] by blast
  obtain g3 where n: "optional_buffer (attributes p NORMAL) 3 (snd (generic_buffer_create verts 3 g1)) =
      (Inr (map_option (\<lambda>xs. \<lparr>gb_buffer = Suc (next_handle g1), element_count = length xs,
                              number_of_components = 3\<rparr>) (attributes p NORMAL)), g3)"
    and l3: "\<not> context_lost g3"
    using optional_buffer_live [of "snd (generic_buffer_create verts 3 g1)"] l1 by auto
  show ?thesis
    using v i t n l1 l3 by (simp add: drawable_primitive_create_def uploaded_from_def)
qed

lemma drawable_primitive_create_no_position:
  "attributes p POSITION = None \<Longrightarrow> drawable_primitive_create p g = (Inl ErrNoVertexData, g)"
  by (simp add: drawable_primitive_create_def)

lemma gl_keeps_drawable_primitive_create [gl_mono_intros]:
  "keeps gl_mono (drawable_primitive_create p)"
  unfolding drawable_primitive_create_def
  by (auto intro!: gl_mono_intros split: option.split)

lemma gl_keeps_drawable_mesh_create [gl_mono_intros]:
  "keeps gl_mono (drawable_mesh_create ps)"
  unfolding drawable_mesh_create_def by (intro gl_mono_intros)

lemma drawable_primitive_create_no_indices:
  assumes "\<not> context_lost g" and "attributes p POSITION = Some verts" and "indices p = None"
  shows "\<exists>g'. drawable_primitive_create p g = (Inl ErrNoIndices, g')
     \<and> next_handle g' = next_handle g + 1 + (if attributes p NORMAL = None then 0 else 1)
                        + (if attributes p TEXCOORD_0 = None then 0 else 1)"
proof -
  obtain g1 where t: "optional_buffer (attributes p TEXCOORD_0) 2 g =
      (Inr (map_option (\<lambda>xs. \<lparr>gb_buffer = next_handle g, element_count = length xs,
                              number_of_components = 2\<rparr>) (attributes p TEXCOORD_0)), g1)"
    and l1: "\<not> context_lost g1"
    and h1: "next_handle g1 = next_handle g + (if attributes p TEXCOORD_0 = None then 0 else 1)"
    using optional_buffer_live [OF assms(1)] by blast
  obtain g3 where n: "optional_buffer (attributes p NORMAL) 3 (snd (generic_buffer_create verts 3 g1)) =
      (Inr (map_option (\<lambda>xs. \<lparr>gb_buffer = Suc (next_handle g1), element_count = length xs,
                              number_of_components = 3\<rparr>) (attributes p NORMAL)), g3)"
    and h3: "next_handle g3 = Suc (next_handle g1) + (if attributes p NORMAL = None then 0 else 1)"
    using optional_buffer_live [of "snd (generic_buffer_create verts 3 g1)"] l1 by auto
  show ?thesis
    using assms t n l1 h1 h3 by (simp add: drawable_primitive_create_def)
qed

lemma drawable_primitive_create_Inr_uploadable:
  "drawable_primitive_create p g = (Inr dp, g') \<Longrightarrow> uploadable p"
  by (cases "attributes p POSITION"; cases "indices p")
     (auto simp: uploadable_def drawable_primitive_create_def ebind_def
           split: prod.splits sum.splits)

lemma drawable_mesh_create_ok:
  "\<not> context_lost g \<Longrightarrow> \<forall>p\<in>set ps. uploadable p \<Longrightarrow>
   \<exists>dm g'. drawable_mesh_create ps g = (Inr dm, g') \<and> \<not> context_lost g'
     \<and> list_all2 uploaded_from ps (dm_primitives dm)"
proof (induction ps arbitrary: g)
  case Nil
  then show ?case by (simp add: drawable_mesh_create_def)
next
  case (Cons p ps)
  have "uploadable p" using Cons.prems(2) by simp
  then obtain dp g1 where 1: "drawable_primitive_create p g = (Inr dp, g1)" "\<not> context_lost g1"
    "uploaded_from p dp"
    using drawable_primitive_create_ok [OF Cons.prems(1)] by blast
  obtain dm g2 where 2: "drawable_mesh_create ps g1 = (Inr dm, g2)" "\<not> context_lost g2"
    "list_all2 uploaded_from ps (dm_primitives dm)"
    using Cons.IH [OF 1(2)] Cons.prems(2) by auto
  from 2(1) have "e_map drawable_primitive_create ps g1 = (Inr (dm_primitives dm), g2)"
    by (auto simp: drawable_mesh_create_def ebind_def split: prod.splits sum.splits)
  with 1 2 show ?case by (simp add: drawable_mesh_create_def)
qed

lemma drawable_mesh_create_fails:
  "\<exists>p\<in>set ps. \<not> uploadable p \<Longrightarrow> \<exists>e g'. drawable_mesh_create ps g = (Inl e, g')"
proof (induction ps arbitrary: g)
  case Nil
  then show ?case by simp
next
  case (Cons p ps)
  show ?case
  proof (cases "drawable_primitive_create p g")
    case (Pair out g1)
    show ?thesis
    proof (cases out)
      case (Inl e)
      with Pair show ?thesis by (simp add: drawable_mesh_create_def)
    next
      case (Inr dp)
      have "uploadable p"
        using Pair Inr by (simp add: drawable_primitive_create_Inr_uploadable)
      with Cons.prems have "\<exists>q\<in>set ps. \<not> uploadable q" by auto
      then obtain e g2 where "drawable_mesh_create ps g1 = (Inl e, g2)"
        using Cons.IH by blast
      then have "e_map drawable_primitive_create ps g1 = (Inl e, g2)"
        by (auto simp: drawable_mesh_create_def ebind_def split: prod.splits sum.splits)
      with Pair Inr show ?thesis by (simp add: drawable_mesh_create_def)
    qed
  qed
qed

subsection \<open>The full-screen quad (primitives/quad.ts)\<close>

definition quad_vertices :: "real list" where
  "quad_vertices = [-1, -1, 0,  -1, 1, 0,  1, 1, 0,  1, -1, 0]"

definition quad_indices :: "16 word list" where
  "quad_indices = [0, 1, 2, 0, 2, 3]"

definition quad_tex_coords :: "real list" where
  "quad_tex_coords = [0, 0,  0, 1,  1, 1,  1, 0]"

definition quad_primitive :: primitive where
  "quad_primitive =
     \<lparr>prim_id = 0,
      attributes = [POSITION \<mapsto> quad_vertices, TEXCOORD_0 \<mapsto> quad_tex_coords],
      indices = Some quad_indices, prim_material_id = 0,
      mode = primitive_mode_code TRIANGLES\<rparr>"

definition quad_primitive_create :: "(gl_state, drawable_mesh) exc" where
  "quad_primitive_create = drawable_mesh_create [quad_primitive]"

end
