(* ===== verification/AssetManager.thy ===== *)
theory AssetManager
  imports Drawable
begin

text \<open>
  The asset manager (\<open>graphics/data/assetManager.ts\<close>). \<open>addAsset\<close> builds a
  \<open>CompleteAssetRecord\<close>: every texture of the asset is resolved to its image and
  uploaded into a sparse array at the texture's id, every mesh is uploaded into a sparse
  array of \<open>DrawableMeshRecord\<close>s at the mesh's id; only then is the record pushed. The
  state of \<open>addAsset\<close> is the manager together with the GL state, so that a throw in
  the middle is seen to leave the manager as it was while the GL objects created before it
  stay allocated.
\<close>

record drawable_mesh_record =
  dmr_id :: nat
  dmr_mesh :: drawable_mesh

record complete_asset_record =
  car_asset :: asset
  car_textures :: "gl_texture jsarray"
  drawable_mesh_records :: "drawable_mesh_record jsarray"

record asset_manager =
  am_assets :: "complete_asset_record list"

definition asset_manager_new :: asset_manager where
  "asset_manager_new = \<lparr>am_assets = []\<rparr>"

text \<open>\<open>images.find(x => x.id == texture.sourceImageReference)\<close>.\<close>

definition find_image :: "image list \<Rightarrow> texture \<Rightarrow> image option" where
  "find_image imgs t = find (\<lambda>x. Some (img_id x) = source_image_reference t) imgs"

text \<open>The \<open>forEach\<close> of \<open>loadAssetTextures\<close>, with its local array as accumulator.\<close>

fun load_textures_loop ::
  "image list \<Rightarrow> texture list \<Rightarrow> gl_texture jsarray \<Rightarrow> (gl_state, gl_texture jsarray) exc" where
  "load_textures_loop imgs [] acc = ereturn acc"
| "load_textures_loop imgs (t # ts) acc =
     (case find_image imgs t of
        None \<Rightarrow> ethrow (ErrMissingImage (source_image_reference t))
      | Some im \<Rightarrow>
          ebind (texture_create_from_tex_image_source (image_data im)) (\<lambda>tx.
            load_textures_loop imgs ts (js_set acc (tex_id t) tx)))"

definition load_asset_textures :: "asset \<Rightarrow> (gl_state, gl_texture jsarray) exc" where
  "load_asset_textures a = load_textures_loop (images a) (asset_textures a) []"

text \<open>The \<open>forEach\<close> of \<open>loadAssetMeshes\<close>.\<close>

fun load_meshes_loop ::
  "mesh list \<Rightarrow> drawable_mesh_record jsarray \<Rightarrow> (gl_state, drawable_mesh_record jsarray) exc" where
  "load_meshes_loop [] acc = ereturn acc"
| "load_meshes_loop (m # ms) acc =
     ebind (drawable_mesh_create (primitives m)) (\<lambda>dm.
       load_meshes_loop ms (js_set acc (mesh_id m) \<lparr>dmr_id = mesh_id m, dmr_mesh = dm\<rparr>))"

definition load_asset_meshes :: "asset \<Rightarrow> (gl_state, drawable_mesh_record jsarray) exc" where
  "load_asset_meshes a = load_meshes_loop (meshes a) []"

definition create_record :: "asset \<Rightarrow> (gl_state, complete_asset_record) exc" where
  "create_record a =
     ebind (load_asset_textures a) (\<lambda>tx.
     ebind (load_asset_meshes a) (\<lambda>ms.
       ereturn \<lparr>car_asset = a, car_textures = tx, drawable_mesh_records = ms\<rparr>))"

text \<open>
  \<open>addAsset\<close>: \<open>record && this._assets.push(record)\<close>; a record object is always
  truthy, so the push happens whenever \<open>createRecord\<close> returns.
\<close>

definition add_asset :: "asset \<Rightarrow> (asset_manager \<times> gl_state, unit) exc" where
  "add_asset a = (\<lambda>(m, g).
     (case create_record a g of
        (Inl e, g') \<Rightarrow> (Inl e, (m, g'))
      | (Inr r, g') \<Rightarrow> (Inr (), (m\<lparr>am_assets := am_assets m @ [r]\<rparr>, g'))))"

subsection \<open>Uploads on a live context\<close>

lemma texture_create_live:
  "\<not> context_lost g \<Longrightarrow> \<exists>g'.
     texture_create_from_tex_image_source src g = (Inr \<lparr>texture_handle = next_handle g\<rparr>, g')
     \<and> \<not> context_lost g' \<and> next_handle g' = Suc (next_handle g)"
  by (simp add: texture_create_from_tex_image_source_def set_texture_parameters_def
                texture_upload_defs)

text \<open>
  The texture loop stops at the first texture whose image is missing; when there is none,
  it fills the slot of every texture id and keeps the slots it was given.
\<close>

lemma load_textures_loop_missing:
  assumes "\<not> context_lost g" and "find (\<lambda>t. find_image imgs t = None) ts = Some t"
  shows "\<exists>g'. load_textures_loop imgs ts acc g = (Inl (ErrMissingImage (source_image_reference t)), g')"
  using assms
proof (induction ts arbitrary: acc g)
  case Nil
  then show ?case by simp
next
  case (Cons t' ts)
  show ?case
  proof (cases "find_image imgs t'")
    case None
    with Cons.prems show ?thesis by simp
  next
    case (Some im)
    obtain g1 where "texture_create_from_tex_image_source (image_data im) g =
        (Inr \<lparr>texture_handle = next_handle g\<rparr>, g1)" and "\<not> context_lost g1"
      using texture_create_live [OF Cons.prems(1)] by blast
    with Some Cons.prems Cons.IH [of g1] show ?thesis by auto
  qed
qed

lemma load_textures_loop_ok:
  assumes "\<not> context_lost g" and "\<forall>t\<in>set ts. find_image imgs t \<noteq> None"
  shows "\<exists>acc' g'. load_textures_loop imgs ts acc g = (Inr acc', g') \<and> \<not> context_lost g'
     \<and> (\<forall>t\<in>set ts. js_get acc' (tex_id t) \<noteq> None)
     \<and> (\<forall>i. js_get acc i \<noteq> None \<longrightarrow> js_get acc' i \<noteq> None)"
  using assms
proof (induction ts arbitrary: acc g)
  case Nil
  then show ?case by simp
next
  case (Cons t ts)
  obtain im where im: "find_image imgs t = Some im" using Cons.prems(2) by auto
  obtain g1 where tx: "texture_create_from_tex_image_source (image_data im) g =
      (Inr \<lparr>texture_handle = next_handle g\<rparr>, g1)" and l1: "\<not> context_lost g1"
    using texture_create_live [OF Cons.prems(1)] by blast
  let ?acc = "js_set acc (tex_id t) \<lparr>texture_handle = next_handle g\<rparr>"
  obtain acc' g' where IH: "load_textures_loop imgs ts ?acc g1 = (Inr acc', g')"
      "\<not> context_lost g'" "\<forall>t\<in>set ts. js_get acc' (tex_id t) \<noteq> None"
      "\<forall>i. js_get ?acc i \<noteq> None \<longrightarrow> js_get acc' i \<noteq> None"
  proof -
    have "\<forall>t\<in>set ts. find_image imgs t \<noteq> None" using Cons.prems(2) by simp
    from Cons.IH [OF l1 this, of ?acc] show ?thesis using that by blast
  qed
  have "js_get acc' (tex_id t) \<noteq> None" using IH(4) by (simp add: js_simps)
  moreover have "\<forall>i. js_get acc i \<noteq> None \<longrightarrow> js_get acc' i \<noteq> None"
    using IH(4) by (metis js_get_set_other js_get_set_same option.distinct(1))
  ultimately show ?case using im tx IH(1-3) by auto
qed

text \<open>
  Every filled slot \<open>i\<close> of the mesh-record array holds a record with id \<open>i\<close>,
  uploaded from a mesh of the asset with that id.
\<close>

definition mesh_slots_ok :: "mesh list \<Rightarrow> drawable_mesh_record jsarray \<Rightarrow> bool" where
  "mesh_slots_ok M recs \<longleftrightarrow>
     (\<forall>i d. js_get recs i = Some d \<longrightarrow> dmr_id d = i
        \<and> (\<exists>m\<in>set M. mesh_id m = i
              \<and> list_all2 uploaded_from (primitives m) (dm_primitives (dmr_mesh d))))"

lemma mesh_slots_ok_Nil: "mesh_slots_ok M []"
  by (simp add: mesh_slots_ok_def js_simps)

lemma mesh_slots_ok_set:
  "mesh_slots_ok M acc \<Longrightarrow> m \<in> set M \<Longrightarrow>
   list_all2 uploaded_from (primitives m) (dm_primitives dm) \<Longrightarrow>
   mesh_slots_ok M (js_set acc (mesh_id m) \<lparr>dmr_id = mesh_id m, dmr_mesh = dm\<rparr>)"
  unfolding mesh_slots_ok_def
proof (intro allI impI)
  fix i d
  assume ok: "\<forall>i d. js_get acc i = Some d \<longrightarrow> dmr_id d = i \<and>
      (\<exists>m\<in>set M. mesh_id m = i \<and> list_all2 uploaded_from (primitives m) (dm_primitives (dmr_mesh d)))"
    and m: "m \<in> set M" and up: "list_all2 uploaded_from (primitives m) (dm_primitives dm)"
    and get: "js_get (js_set acc (mesh_id m) \<lparr>dmr_id = mesh_id m, dmr_mesh = dm\<rparr>) i = Some d"
  show "dmr_id d = i \<and>
      (\<exists>m\<in>set M. mesh_id m = i \<and> list_all2 uploaded_from (primitives m) (dm_primitives (dmr_mesh d)))"
  proof (cases "i = mesh_id m")
    case True
    with get have "d = \<lparr>dmr_id = mesh_id m, dmr_mesh = dm\<rparr>" by (simp add: js_simps)
    with True m up show ?thesis by auto
  next
    case False
    with get have "js_get acc i = Some d" by (simp add: js_simps)
    with ok show ?thesis by blast
  qed
qed

lemma load_meshes_loop_ok:
  assumes "\<not> context_lost g" and "set ms \<subseteq> set M"
    and "\<forall>m\<in>set ms. \<forall>p\<in>set (primitives m). uploadable p" and "mesh_slots_ok M acc"
  shows "\<exists>recs g'. load_meshes_loop ms acc g = (Inr recs, g') \<and> \<not> context_lost g'
     \<and> mesh_slots_ok M recs \<and> (\<forall>m\<in>set ms. js_get recs (mesh_id m) \<noteq> None)
     \<and> (\<forall>i. js_get acc i \<noteq> None \<longrightarrow> js_get recs i \<noteq> None)"
  using assms
proof (induction ms arbitrary: acc g)
  case Nil
  then show ?case by simp
next
  case (Cons m ms)
  have "\<forall>p\<in>set (primitives m). uploadable p" using Cons.prems(3) by simp
  then obtain dm g1 where dm: "drawable_mesh_create (primitives m) g = (Inr dm, g1)"
    and l1: "\<not> context_lost g1" and up: "list_all2 uploaded_from (primitives m) (dm_primitives dm)"
    using drawable_mesh_create_ok [OF Cons.prems(1)] by blast
  let ?acc = "js_set acc (mesh_id m) \<lparr>dmr_id = mesh_id m, dmr_mesh = dm\<rparr>"
  have ok: "mesh_slots_ok M ?acc"
    using mesh_slots_ok_set [OF Cons.prems(4) _ up] Cons.prems(2) by simp
  obtain recs g' where IH: "load_meshes_loop ms ?acc g1 = (Inr recs, g')" "\<not> context_lost g'"
      "mesh_slots_ok M recs" "\<forall>m\<in>set ms. js_get recs (mesh_id m) \<noteq> None"
      "\<forall>i. js_get ?acc i \<noteq> None \<longrightarrow> js_get recs i \<noteq> None"
  proof -
    have "set ms \<subseteq> set M" "\<forall>m\<in>set ms. \<forall>p\<in>set (primitives m). uploadable p"
      using Cons.prems(2,3) by auto
    from Cons.IH [OF l1 this ok] show ?thesis using that by blast
  qed
  have "js_get recs (mesh_id m) \<noteq> None" using IH(5) by (simp add: js_simps)
  moreover have "\<forall>i. js_get acc i \<noteq> None \<longrightarrow> js_get recs i \<noteq> None"
    using IH(5) by (metis js_get_set_other js_get_set_same option.distinct(1))
  ultimately show ?case using dm IH(1-4) by auto
qed

text \<open>What an asset needs for \<open>addAsset\<close> to succeed on a live context.\<close>

definition asset_loadable :: "asset \<Rightarrow> bool" where
  "asset_loadable a \<longleftrightarrow>
     (\<forall>t\<in>set (asset_textures a). find_image (images a) t \<noteq> None)
     \<and> (\<forall>m\<in>set (meshes a). \<forall>p\<in>set (primitives m). uploadable p)"

lemma create_record_ok:
  assumes "\<not> context_lost g" and "asset_loadable a"
  shows "\<exists>r g'. create_record a g = (Inr r, g') \<and> \<not> context_lost g' \<and> car_asset r = a
     \<and> (\<forall>t\<in>set (asset_textures a). js_get (car_textures r) (tex_id t) \<noteq> None)
     \<and> (\<forall>m\<in>set (meshes a). js_get (drawable_mesh_records r) (mesh_id m) \<noteq> None)
     \<and> mesh_slots_ok (meshes a) (drawable_mesh_records r)"
proof -
  obtain tx g1 where tx: "load_asset_textures a g = (Inr tx, g1)" "\<not> context_lost g1"
    "\<forall>t\<in>set (asset_textures a). js_get tx (tex_id t) \<noteq> None"
    using load_textures_loop_ok [OF assms(1), of "asset_textures a" "images a" "[]"] assms(2)
    by (auto simp: load_asset_textures_def asset_loadable_def)
  have "\<forall>m\<in>set (meshes a). \<forall>p\<in>set (primitives m). uploadable p"
    using assms(2) by (simp add: asset_loadable_def)
  from load_meshes_loop_ok [OF tx(2) subset_refl this mesh_slots_ok_Nil]
  obtain recs g2 where ms: "load_asset_meshes a g1 = (Inr recs, g2)" "\<not> context_lost g2"
    "mesh_slots_ok (meshes a) recs" "\<forall>m\<in>set (meshes a). js_get recs (mesh_id m) \<noteq> None"
    by (auto simp: load_asset_meshes_def)
  show ?thesis using tx ms by (simp add: create_record_def)
qed

lemma create_record_missing_image:
  assumes "\<not> context_lost g" and "find (\<lambda>t. find_image (images a) t = None) (asset_textures a) = Some t"
  shows "\<exists>g'. create_record a g = (Inl (ErrMissingImage (source_image_reference t)), g')"
  using load_textures_loop_missing [OF assms, of "[]"]
  by (auto simp: create_record_def load_asset_textures_def)

lemma gl_keeps_load_textures_loop [gl_mono_intros]: "keeps gl_mono (load_textures_loop imgs ts acc)"
  by (induction ts arbitrary: acc) (auto intro!: gl_mono_intros split: option.split)

lemma gl_keeps_load_meshes_loop [gl_mono_intros]: "keeps gl_mono (load_meshes_loop ms acc)"
  by (induction ms arbitrary: acc) (simp_all add: gl_mono_intros)

text \<open>On a live context the first texture whose image resolves is created before anything
  can fail, whatever follows it.\<close>

lemma first_texture_created:
  assumes "\<not> context_lost g" and "asset_textures a = t0 # ts" and "find_image (images a) t0 = Some im"
  shows "\<exists>g1. load_asset_textures a g
      = load_textures_loop (images a) ts (js_set [] (tex_id t0) \<lparr>texture_handle = next_handle g\<rparr>) g1
    \<and> next_handle g1 = Suc (next_handle g) \<and> CreateObject ObjTexture (next_handle g) \<in> set (gl_log g1)"
  using assms
  by (auto simp: load_asset_textures_def ebind_def texture_create_from_tex_image_source_def
                 set_texture_parameters_def texture_upload_defs)

subsection \<open>addAsset\<close>

text \<open>
  C15: adding an asset one of whose textures names an image the asset does not have fails
  with the missing-image error of the first such texture, and the manager is left as it was.
\<close>

theorem add_asset_missing_image:
  assumes "\<not> context_lost g"
    and "find (\<lambda>t. find_image (images a) t = None) (asset_textures a) = Some t"
  shows "\<exists>g'. add_asset a (m, g) = (Inl (ErrMissingImage (source_image_reference t)), (m, g'))"
  using create_record_missing_image [OF assms] by (auto simp: add_asset_def)

text \<open>On a live context, an asset whose textures all resolve and whose primitives all have
  positions and indices is registered as one more record at the end of the manager's list;
  the record holds the asset, an uploaded texture at every texture id and, at every mesh
  id, a mesh record with that id uploaded from a mesh of the asset with that id.
\<close>

theorem add_asset_registers_record:
  assumes "\<not> context_lost g" and "asset_loadable a"
  shows "\<exists>r g'. add_asset a (m, g) = (Inr (), (m\<lparr>am_assets := am_assets m @ [r]\<rparr>, g'))
     \<and> car_asset r = a
     \<and> (\<forall>t\<in>set (asset_textures a). js_get (car_textures r) (tex_id t) \<noteq> None)
     \<and> (\<forall>ms\<in>set (meshes a). \<exists>d. js_get (drawable_mesh_records r) (mesh_id ms) = Some d
                                \<and> dmr_id d = mesh_id ms)
     \<and> mesh_slots_ok (meshes a) (drawable_mesh_records r)"
proof -
  obtain r g' where r: "create_record a g = (Inr r, g')" "car_asset r = a"
    "\<forall>t\<in>set (asset_textures a). js_get (car_textures r) (tex_id t) \<noteq> None"
    "\<forall>ms\<in>set (meshes a). js_get (drawable_mesh_records r) (mesh_id ms) \<noteq> None"
    "mesh_slots_ok (meshes a) (drawable_mesh_records r)"
    using create_record_ok [OF assms] by blast
  have "\<forall>ms\<in>set (meshes a). \<exists>d. js_get (drawable_mesh_records r) (mesh_id ms) = Some d
                                \<and> dmr_id d = mesh_id ms"
    using r(4,5) by (auto simp: mesh_slots_ok_def)
  then show ?thesis using r by (auto simp: add_asset_def)
qed

text \<open>
  Whatever makes \<open>addAsset\<close> throw (a missing image, a primitive without positions
  or indices, a lost context), no record is registered.
\<close>

theorem add_asset_failure_registers_nothing:
  "add_asset a (m, g) = (Inl e, (m', g')) \<Longrightarrow> m' = m"
  by (auto simp: add_asset_def split: prod.splits sum.splits)

subsection \<open>Scenarios\<close>

text \<open>A one-triangle asset: one root node with mesh 0, whose primitive has three positions
  and the indices 0, 1, 2.\<close>

definition triangle_primitive :: primitive where
  "triangle_primitive =
     \<lparr>prim_id = 0, attributes = [POSITION \<mapsto> [0, 0, 0,  1, 0, 0,  0, 1, 0]],
      indices = Some [0, 1, 2], prim_material_id = 0, mode = primitive_mode_code TRIANGLES\<rparr>"

definition triangle_asset :: asset where
  "triangle_asset =
     \<lparr>images = [], materials = [],
      meshes = [\<lparr>primitives = [triangle_primitive], mesh_name = ''triangle'', mesh_id = 0\<rparr>],
      nodes = [\<lparr>node_id = 0, children = None, node_mesh_id = Some 0,
                rotation_matrix = mat_identity, scale_vector = (1, 1, 1),
                translation_vector = (0, 0, 0), cached_world_transform = None\<rparr>],
      scenes = [\<lparr>scene_id = 0, scene_name = ''scene'', node_indices = [0]\<rparr>],
      asset_textures = [], default_scene_index = 0\<rparr>"

text \<open>An asset with two textures, the second naming image 5, which does not exist.\<close>

definition dangling_texture_asset :: asset where
  "dangling_texture_asset =
     \<lparr>images = [\<lparr>img_id = 0, uri = None, image_data = \<lparr>src_width = 4, src_height = 4\<rparr>\<rparr>],
      materials = [], meshes = [], nodes = [], scenes = [],
      asset_textures = [\<lparr>tex_id = 0, sampler = None, source_image_reference = Some 0\<rparr>,
                        \<lparr>tex_id = 1, sampler = None, source_image_reference = Some 5\<rparr>],
      default_scene_index = 0\<rparr>"

lemmas scenario_defs = add_asset_def create_record_def load_asset_textures_def
  load_asset_meshes_def find_image_def drawable_mesh_create_def drawable_primitive_create_def
  optional_buffer_def texture_create_from_tex_image_source_def set_texture_parameters_def
  is_power_of_two_def gl_init_def asset_manager_new_def js_set_def

text \<open>
  The one-triangle asset uploads as exactly one drawable mesh, at mesh id 0, with one
  primitive whose index count is 3.
\<close>

theorem triangle_asset_upload:
  "\<exists>r g'. add_asset triangle_asset (asset_manager_new, gl_init) = (Inr (), (\<lparr>am_assets = [r]\<rparr>, g'))
     \<and> (\<exists>d. drawable_mesh_records r = [Some d] \<and> dmr_id d = 0
          \<and> length (dm_primitives (dmr_mesh d)) = 1
          \<and> index_count (index_buffer (hd (dm_primitives (dmr_mesh d)))) = 3)"
  by (simp add: scenario_defs triangle_asset_def triangle_primitive_def)

text \<open>
  C34: a failed \<open>addAsset\<close> does not release what it created: on a live context, when the
  asset's first texture names an image the asset has and \<open>addAsset\<close> throws anyway (a later
  texture's image is missing, or a mesh fails to upload), the manager is left as it was, but
  the first texture object was created and stays allocated with no record referring to it.
\<close>

theorem add_asset_failure_leaks_texture:
  assumes "\<not> context_lost g" and "asset_textures a = t0 # ts" and "find_image (images a) t0 \<noteq> None"
    and "add_asset a (m, g) = (Inl e, (m', g'))"
  shows "m' = m \<and> next_handle g < next_handle g'
    \<and> CreateObject ObjTexture (next_handle g) \<in> set (gl_log g')"
proof -
  have cr: "create_record a g = (Inl e, g')" and m': "m' = m"
    using assms(4) by (auto simp: add_asset_def split: prod.splits sum.splits)
  obtain im where "find_image (images a) t0 = Some im" using assms(3) by auto
  then obtain g1 where lt: "load_asset_textures a g
      = load_textures_loop (images a) ts (js_set [] (tex_id t0) \<lparr>texture_handle = next_handle g\<rparr>) g1"
    and n1: "next_handle g1 = Suc (next_handle g)"
    and c1: "CreateObject ObjTexture (next_handle g) \<in> set (gl_log g1)"
    using first_texture_created [OF assms(1,2)] by blast
  obtain r2 g2 where l2: "load_asset_textures a g = (r2, g2)" by fastforce
  have m2: "gl_mono g1 g2" using keeps_step [OF gl_keeps_load_textures_loop] l2 lt by metis
  have "gl_mono g2 g'"
  proof (cases r2)
    case Inl then show ?thesis using cr l2 by (simp add: create_record_def ebind_def gl_mono_refl)
  next
    case (Inr tx)
    obtain r3 g3 where l3: "load_asset_meshes a g2 = (r3, g3)" by fastforce
    have "g' = g3" using cr l2 l3 Inr by (cases r3) (simp_all add: create_record_def ebind_def ereturn_def)
    then show ?thesis using keeps_step [OF gl_keeps_load_meshes_loop l3 [unfolded load_asset_meshes_def]]
      by simp
  qed
  then have "gl_mono g1 g'" using m2 gl_mono_trans by blast
  then show ?thesis using m' n1 c1 by (auto simp: gl_mono_def)
qed

theorem add_asset_missing_image_witness:
  "\<exists>g'. add_asset dangling_texture_asset (asset_manager_new, gl_init)
          = (Inl (ErrMissingImage (Some 5)), (asset_manager_new, g'))"
proof -
  have "find (\<lambda>t. find_image (images dangling_texture_asset) t = None)
          (asset_textures dangling_texture_asset)
        = Some \<lparr>tex_id = 1, sampler = None, source_image_reference = Some 5\<rparr>"
    by (simp add: dangling_texture_asset_def find_image_def)
  from add_asset_missing_image [OF _ this, of gl_init asset_manager_new] show ?thesis
    by (simp add: gl_init_def)
qed

theorem add_asset_registers_record_witness:
  "\<exists>r g'. add_asset triangle_asset (asset_manager_new, gl_init)
       = (Inr (), (\<lparr>am_assets = [r]\<rparr>, g')) \<and> car_asset r = triangle_asset"
proof -
  have "asset_loadable triangle_asset"
    by (simp add: asset_loadable_def triangle_asset_def triangle_primitive_def uploadable_def)
  from add_asset_registers_record [OF _ this, of gl_init asset_manager_new] show ?thesis
    by (auto simp: gl_init_def asset_manager_new_def)
qed

theorem add_asset_failure_registers_nothing_witness:
  "\<exists>e m' g'. add_asset dangling_texture_asset (asset_manager_new, gl_init) = (Inl e, (m', g'))
     \<and> m' = asset_manager_new"
proof -
  have "\<exists>e m' g'. add_asset dangling_texture_asset (asset_manager_new, gl_init) = (Inl e, (m', g'))"
    by (simp add: scenario_defs dangling_texture_asset_def)
  then obtain e m' g' where eq:
    "add_asset dangling_texture_asset (asset_manager_new, gl_init) = (Inl e, (m', g'))"
    by blast
  from add_asset_failure_registers_nothing [OF eq] eq show ?thesis by blast
qed

theorem add_asset_failure_leaks_texture_witness:
  "\<exists>g'. add_asset dangling_texture_asset (asset_manager_new, gl_init)
          = (Inl (ErrMissingImage (Some 5)), (asset_manager_new, g'))
     \<and> 0 < next_handle g' \<and> CreateObject ObjTexture 0 \<in> set (gl_log g')"
proof -
  have "\<exists>g'. add_asset dangling_texture_asset (asset_manager_new, gl_init)
      = (Inl (ErrMissingImage (Some 5)), (asset_manager_new, g'))"
    by (simp add: scenario_defs dangling_texture_asset_def)
  then obtain g' where ad: "add_asset dangling_texture_asset (asset_manager_new, gl_init)
      = (Inl (ErrMissingImage (Some 5)), (asset_manager_new, g'))" by blast
  have "asset_manager_new = asset_manager_new \<and> next_handle gl_init < next_handle g'
      \<and> CreateObject ObjTexture (next_handle gl_init) \<in> set (gl_log g')"
    by (rule add_asset_failure_leaks_texture [OF _ _ _ ad])
       (auto simp: gl_init_def dangling_texture_asset_def find_image_def)
  then show ?thesis using ad by (simp add: gl_init_def)
qed

end
