(* ===== verification/Camera.thy ===== *)
theory Camera
  imports Linear
begin

text \<open>
  The first-person camera (\<open>camera.ts\<close>). Its state is the record \<open>camera\<close>:
  the options object (whose \<open>yaw\<close> and \<open>pitch\<close> fields \<open>update\<close> accumulates into),
  the projection matrix fixed at construction, the view matrix, the position cache, the
  derived basis vectors and the previous frame's (yaw, pitch). Every method returns the
  updated camera; the \<open>position\<close> getter returns the value with the camera whose cache
  it may have filled. Reals stand for JavaScript's doubles.
\<close>

record camera_options =
  opt_position :: vec3
  opt_look_at :: vec3
  opt_width :: real
  opt_height :: real
  z_near :: real
  z_far :: real
  fov_degrees :: real
  opt_pitch :: real
  opt_yaw :: real

record camera =
  options :: camera_options
  projection_matrix :: mat4
  position_cache :: "vec3 option"
  view_matrix :: mat4
  cam_forward :: vec3
  cam_up :: vec3
  cam_right :: vec3
  last_yaw_pitch :: "real \<times> real"

text \<open>\<open>constructProjectionMatrix\<close>.\<close>

definition construct_projection_matrix :: "camera_options \<Rightarrow> mat4" where
  "construct_projection_matrix o' =
     perspective (to_radians (fov_degrees o')) (opt_width o' / opt_height o') (z_near o') (z_far o')"

text \<open>The constructor.\<close>

definition camera_new :: "camera_options \<Rightarrow> camera" where
  "camera_new o' =
     \<lparr>options = o', projection_matrix = construct_projection_matrix o', position_cache = None,
      view_matrix = mat_identity, cam_forward = (0, 0, -1), cam_up = (0, 1, 0),
      cam_right = (1, 0, 0), last_yaw_pitch = (0, 0)\<rparr>"

text \<open>
  The \<open>position\<close> getter reads the translation column of the view matrix into the cache
  when the cache is empty, and returns the cache.
\<close>

definition get_position :: "camera \<Rightarrow> vec3 \<times> camera" where
  "get_position c =
     (case position_cache c of
        Some p \<Rightarrow> (p, c)
      | None \<Rightarrow> (let p = mat_translation (view_matrix c) in (p, c\<lparr>position_cache := Some p\<rparr>)))"

text \<open>The \<open>position\<close> setter empties the cache and writes the translation column.\<close>

definition set_position :: "vec3 \<Rightarrow> camera \<Rightarrow> camera" where
  "set_position v c = c\<lparr>position_cache := None, view_matrix := mat_set_translation (view_matrix c) v\<rparr>"

text \<open>\<open>lookAt\<close>: the eye is the \<open>position\<close> getter's value, the up vector (0, 1, 0).\<close>

definition camera_look_at :: "vec3 \<Rightarrow> camera \<Rightarrow> camera" where
  "camera_look_at target c =
     (let (eye, c1) = get_position c in c1\<lparr>view_matrix := look_at eye target (0, 1, 0)\<rparr>)"

text \<open>
  The direction \<open>constructViewMatrix\<close> computes from yaw and pitch; \<open>exportAngles\<close>
  passes both through \<open>toRadians\<close>, so they are read as degrees.
\<close>

definition yaw_pitch_direction :: "real \<Rightarrow> real \<Rightarrow> vec3" where
  "yaw_pitch_direction yaw pitch =
     (let y = to_radians yaw; p = to_radians pitch in (cos y * cos p, sin p, sin y * cos p))"

definition construct_view_matrix :: "real \<Rightarrow> real \<Rightarrow> camera \<Rightarrow> camera" where
  "construct_view_matrix yaw pitch c =
     (let fwd = vec_normalize (yaw_pitch_direction yaw pitch);
          c1 = c\<lparr>cam_forward := fwd\<rparr>;
          (p, c2) = get_position c1 in
      camera_look_at (vec_add p fwd) c2)"

text \<open>
  \<open>update\<close>: a non-zero movement direction is normalised and added to the position (the
  getter's cached vector is mutated by \<open>add\<close> and then written back through the setter);
  the yaw/pitch offset is the previous input minus the new one, scaled by
  \<open>0.0025 * deltaTime\<close> and accumulated into the options before the view is rebuilt.
\<close>

definition camera_update :: "real \<Rightarrow> vec3 \<Rightarrow> real \<Rightarrow> real \<Rightarrow> camera \<Rightarrow> camera" where
  "camera_update dt dir pitch yaw c =
     (let c1 = (if vec_len dir > 0
                then (let (p, c') = get_position c in set_position (vec_add p (vec_normalize dir)) c')
                else c);
          (ly, lp) = last_yaw_pitch c1;
          s = 0.0025 * dt;
          o1 = options c1;
          o2 = o1\<lparr>opt_yaw := opt_yaw o1 + (ly - yaw) * s, opt_pitch := opt_pitch o1 + (lp - pitch) * s\<rparr>;
          c2 = construct_view_matrix (opt_yaw o2) (opt_pitch o2) (c1\<lparr>options := o2\<rparr>) in
      c2\<lparr>last_yaw_pitch := (yaw, pitch)\<rparr>)"

subsection \<open>The position is a cached view of the view matrix\<close>

text \<open>
  The camera's effective position is what the getter returns: the cache when it is full,
  the translation column otherwise. The well-formedness invariant is that the view matrix
  has its sixteen entries.
\<close>

definition cam_position :: "camera \<Rightarrow> vec3" where
  "cam_position c = fst (get_position c)"

definition camera_wf :: "camera \<Rightarrow> bool" where
  "camera_wf c \<longleftrightarrow> length (view_matrix c) = 16"

lemma get_position_same [simp]: "cam_position (snd (get_position c)) = cam_position c"
  by (simp add: cam_position_def get_position_def Let_def split: option.splits)

lemma get_position_cache [simp]: "position_cache (snd (get_position c)) = Some (cam_position c)"
  by (simp add: cam_position_def get_position_def Let_def split: option.splits)

lemma get_position_view [simp]: "view_matrix (snd (get_position c)) = view_matrix c"
  and get_position_options [simp]: "options (snd (get_position c)) = options c"
  and get_position_last [simp]: "last_yaw_pitch (snd (get_position c)) = last_yaw_pitch c"
  by (simp_all add: get_position_def Let_def split: option.splits)

lemma fst_get_position [simp]: "fst (get_position c) = cam_position c"
  by (simp add: cam_position_def)

lemma cam_position_set [simp]: "camera_wf c \<Longrightarrow> cam_position (set_position v c) = v"
  by (simp add: cam_position_def get_position_def set_position_def camera_wf_def)

lemma cam_position_look_at [simp]: "cam_position (camera_look_at t c) = cam_position c"
proof -
  obtain p c1 where g: "get_position c = (p, c1)" by fastforce
  then have "p = cam_position c" by (metis fst_conv fst_get_position)
  with g have "position_cache c1 = Some p" using get_position_cache [of c] by simp
  then show ?thesis using g by (simp add: camera_look_at_def cam_position_def get_position_def)
qed

lemma camera_wf_look_at [simp]: "camera_wf (camera_look_at t c)"
  by (simp add: camera_look_at_def camera_wf_def split: prod.splits)

lemma camera_wf_set [simp]: "camera_wf (set_position v c) = camera_wf c"
  by (simp add: camera_wf_def set_position_def)

lemma cam_position_forward [simp]: "cam_position (c\<lparr>cam_forward := f\<rparr>) = cam_position c"
  and cam_position_options [simp]: "cam_position (c\<lparr>options := o'\<rparr>) = cam_position c"
  and cam_position_last [simp]: "cam_position (c\<lparr>last_yaw_pitch := l\<rparr>) = cam_position c"
  by (simp_all add: cam_position_def get_position_def Let_def split: option.splits)

lemma cam_position_construct_view [simp]:
  "cam_position (construct_view_matrix y p c) = cam_position c"
proof -
  let ?c1 = "c\<lparr>cam_forward := vec_normalize (yaw_pitch_direction y p)\<rparr>"
  obtain q c2 where g: "get_position ?c1 = (q, c2)" by fastforce
  have "construct_view_matrix y p c
        = camera_look_at (vec_add q (vec_normalize (yaw_pitch_direction y p))) c2"
    using g by (simp add: construct_view_matrix_def Let_def)
  moreover have "cam_position c2 = cam_position c"
    using g get_position_same [of ?c1] by simp
  ultimately show ?thesis by simp
qed

lemma camera_wf_construct_view [simp]: "camera_wf (construct_view_matrix y p c)"
  by (simp add: construct_view_matrix_def Let_def split: prod.splits)

lemma options_look_at [simp]: "options (camera_look_at t c) = options c"
  and last_look_at [simp]: "last_yaw_pitch (camera_look_at t c) = last_yaw_pitch c"
  and forward_look_at [simp]: "cam_forward (camera_look_at t c) = cam_forward c"
  by (simp_all add: camera_look_at_def get_position_def Let_def split: option.splits prod.splits)

lemma options_construct_view [simp]: "options (construct_view_matrix y p c) = options c"
  and last_construct_view [simp]: "last_yaw_pitch (construct_view_matrix y p c) = last_yaw_pitch c"
  by (simp_all add: construct_view_matrix_def Let_def get_position_def split: option.splits prod.splits)

lemma forward_construct_view:
  "cam_forward (construct_view_matrix y p c) = vec_normalize (yaw_pitch_direction y p)"
  by (simp add: construct_view_matrix_def Let_def get_position_def split: option.splits prod.splits)

lemma vec_len_yaw_pitch_direction: "vec_len (yaw_pitch_direction y p) = 1"
proof -
  let ?a = "to_radians y" and ?b = "to_radians p"
  have "(cos ?a * cos ?b)\<^sup>2 + (sin ?a * cos ?b)\<^sup>2 = ((cos ?a)\<^sup>2 + (sin ?a)\<^sup>2) * (cos ?b)\<^sup>2"
    by (simp only: power_mult_distrib distrib_right)
  then have e1: "(cos ?a * cos ?b)\<^sup>2 + (sin ?a * cos ?b)\<^sup>2 = (cos ?b)\<^sup>2" by simp
  have "(cos ?a * cos ?b)\<^sup>2 + (sin ?b)\<^sup>2 + (sin ?a * cos ?b)\<^sup>2
        = ((cos ?a * cos ?b)\<^sup>2 + (sin ?a * cos ?b)\<^sup>2) + (sin ?b)\<^sup>2"
    by (simp add: add_ac)
  also have "\<dots> = (cos ?b)\<^sup>2 + (sin ?b)\<^sup>2" by (simp only: e1)
  also have "\<dots> = 1" by simp
  finally show ?thesis by (simp add: vec_len_def yaw_pitch_direction_def Let_def)
qed

lemma camera_wf_get_position [simp]: "camera_wf (snd (get_position c)) = camera_wf c"
  by (simp add: camera_wf_def)

lemma vec_normalize_unit: "vec_len v = 1 \<Longrightarrow> vec_normalize v = v"
  by (simp add: vec_normalize_def split: prod.splits)

lemma set_position_frame [simp]:
  "options (set_position v c) = options c" "last_yaw_pitch (set_position v c) = last_yaw_pitch c"
  by (simp_all add: set_position_def)

text \<open>
  Writing the position and reading it back returns exactly the written value, and the
  write empties the cache, so no earlier read is served afterwards.
\<close>

theorem position_set_get_roundtrip:
  "camera_wf c \<Longrightarrow>
   fst (get_position (set_position v c)) = v \<and> position_cache (set_position v c) = None"
proof
  assume "camera_wf c"
  then show "fst (get_position (set_position v c)) = v" by simp
  show "position_cache (set_position v c) = None" by (simp add: set_position_def)
qed

text \<open>
  C35: for every yaw and pitch, the forward vector the view rebuild stores is the
  spherical direction itself (normalising it changes nothing) and has unit length.
\<close>

theorem forward_unit_length:
  "cam_forward (construct_view_matrix yaw pitch c) = yaw_pitch_direction yaw pitch
   \<and> vec_len (cam_forward (construct_view_matrix yaw pitch c)) = 1"
  by (simp add: forward_construct_view vec_normalize_unit vec_len_yaw_pitch_direction)

text \<open>
  \<open>update\<close> moves the camera by the normalised movement direction, unscaled by
  \<open>deltaTime\<close> and in world axes, and by nothing when the direction is zero; rebuilding
  the view from yaw and pitch never moves it.
\<close>

theorem update_moves_position:
  "camera_wf c \<Longrightarrow> cam_position (camera_update dt dir pitch yaw c)
     = (if vec_len dir > 0 then vec_add (cam_position c) (vec_normalize dir) else cam_position c)"
  by (simp add: camera_update_def Let_def split_def)

text \<open>
  C36: \<open>update\<close> adds (previous input - new input) scaled by \<open>0.0025 * deltaTime\<close>
  to the accumulated yaw and pitch, and remembers the new input for the next frame.
\<close>

theorem update_accumulates_yaw_pitch:
  "opt_yaw (options (camera_update dt dir pitch yaw c))
     = opt_yaw (options c) + (fst (last_yaw_pitch c) - yaw) * (0.0025 * dt)
   \<and> opt_pitch (options (camera_update dt dir pitch yaw c))
     = opt_pitch (options c) + (snd (last_yaw_pitch c) - pitch) * (0.0025 * dt)
   \<and> last_yaw_pitch (camera_update dt dir pitch yaw c) = (yaw, pitch)"
  by (simp add: camera_update_def Let_def split_def)

text \<open>
  The projection matrix built at construction has \<open>1 / tan(fov / 2)\<close> in entry
  (1, 1) for the field of view in degrees, \<open>1 / tan 30\<degree> = \<surd>3\<close> for 60 degrees, and
  that value divided by the aspect ratio in entry (0, 0).
\<close>

theorem projection_focal_entries:
  "fov_degrees o' = 60 \<Longrightarrow>
   projection_matrix (camera_new o') ! 5 = sqrt 3
   \<and> projection_matrix (camera_new o') ! 0 = sqrt 3 / (opt_width o' / opt_height o')"
  by (simp add: camera_new_def construct_projection_matrix_def perspective_def to_radians_def
                tan_30 Let_def)

subsection \<open>Start-up (index.ts)\<close>

text \<open>\<open>setupCamera\<close>: construct, write the configured position, look at the target.\<close>

definition setup_camera :: "camera_options \<Rightarrow> camera" where
  "setup_camera o' = camera_look_at (opt_look_at o') (set_position (opt_position o') (camera_new o'))"

definition demo_camera_options :: camera_options where
  "demo_camera_options =
     \<lparr>opt_position = (0, 0, 5), opt_look_at = (0, 0, 0), opt_width = 800, opt_height = 600,
      z_near = 0.1, z_far = 100, fov_degrees = 60, opt_pitch = 0, opt_yaw = 0\<rparr>"

lemma camera_wf_new [simp]: "camera_wf (camera_new o')"
  by (simp add: camera_wf_def camera_new_def)

lemma cam_position_new [simp]: "cam_position (camera_new o') = (0, 0, 0)"
  by (simp add: cam_position_def get_position_def camera_new_def mat_translation_def
                mat_identity_def Let_def)

lemma sqrt_25: "sqrt 25 = (5::real)"
  by (rule real_sqrt_unique) simp_all

text \<open>
  C37: after start-up the camera reports the configured position, but the view matrix's
  translation column, which the \<open>position\<close> getter claims to read, holds minus the eye
  rotated into view space (the view matrix sends the eye to the origin), whenever the eye
  and the target are apart: only the cache, filled by \<open>lookAt\<close>'s own read of the
  position, keeps the reported position right.
\<close>

theorem setup_camera_translation_differs:
  assumes "opt_position o' = (p0, p1, p2)"
    and "vec_sub (opt_position o') (opt_look_at o') = (dx, dy, dz)"
    and "\<not> (\<bar>dx\<bar> < 0.000001 \<and> \<bar>dy\<bar> < 0.000001 \<and> \<bar>dz\<bar> < 0.000001)"
  shows "cam_position (setup_camera o') = (p0, p1, p2)
   \<and> view_matrix (setup_camera o') = look_at (p0, p1, p2) (opt_look_at o') (0, 1, 0)
   \<and> mat_translation (view_matrix (setup_camera o')) =
       (- (view_matrix (setup_camera o') ! 0 * p0 + view_matrix (setup_camera o') ! 4 * p1
           + view_matrix (setup_camera o') ! 8 * p2),
        - (view_matrix (setup_camera o') ! 1 * p0 + view_matrix (setup_camera o') ! 5 * p1
           + view_matrix (setup_camera o') ! 9 * p2),
        - (view_matrix (setup_camera o') ! 2 * p0 + view_matrix (setup_camera o') ! 6 * p1
           + view_matrix (setup_camera o') ! 10 * p2))"
proof -
  have v: "view_matrix (setup_camera o') = look_at (p0, p1, p2) (opt_look_at o') (0, 1, 0)"
    and c: "position_cache (setup_camera o') = Some (p0, p1, p2)"
    using assms(1)
    by (simp_all add: setup_camera_def camera_look_at_def set_position_def get_position_def
                      camera_new_def mat_set_translation_def mat_translation_def mat_identity_def
                      Let_def)
  have "mat_translation (look_at (p0, p1, p2) (opt_look_at o') (0, 1, 0)) =
          (- (look_at (p0, p1, p2) (opt_look_at o') (0, 1, 0) ! 0 * p0
              + look_at (p0, p1, p2) (opt_look_at o') (0, 1, 0) ! 4 * p1
              + look_at (p0, p1, p2) (opt_look_at o') (0, 1, 0) ! 8 * p2),
           - (look_at (p0, p1, p2) (opt_look_at o') (0, 1, 0) ! 1 * p0
              + look_at (p0, p1, p2) (opt_look_at o') (0, 1, 0) ! 5 * p1
              + look_at (p0, p1, p2) (opt_look_at o') (0, 1, 0) ! 9 * p2),
           - (look_at (p0, p1, p2) (opt_look_at o') (0, 1, 0) ! 2 * p0
              + look_at (p0, p1, p2) (opt_look_at o') (0, 1, 0) ! 6 * p1
              + look_at (p0, p1, p2) (opt_look_at o') (0, 1, 0) ! 10 * p2))"
    by (rule look_at_sends_eye_to_origin) (use assms in simp_all)
  with v c show ?thesis by (simp add: cam_position_def get_position_def)
qed

theorem position_set_get_roundtrip_witness:
  "camera_wf (camera_new demo_camera_options)
   \<and> fst (get_position (set_position (1, 2, 3) (camera_new demo_camera_options))) = (1, 2, 3)
   \<and> position_cache (set_position (1, 2, 3) (camera_new demo_camera_options)) = None"
  using position_set_get_roundtrip [of "camera_new demo_camera_options" "(1, 2, 3)"] by simp

theorem update_moves_position_witness:
  "camera_wf (camera_new demo_camera_options)
   \<and> cam_position (camera_update 16 (0, 0, 1) 0 0 (camera_new demo_camera_options)) = (0, 0, 1)"
  using update_moves_position [of "camera_new demo_camera_options" 16 "(0, 0, 1)" 0 0]
  by (simp add: vec_len_def vec_normalize_def vec_add_def)

theorem projection_focal_entries_witness:
  "fov_degrees demo_camera_options = 60
   \<and> projection_matrix (camera_new demo_camera_options) ! 5 = sqrt 3
   \<and> projection_matrix (camera_new demo_camera_options) ! 0 = sqrt 3 / (800 / 600)"
proof -
  have h: "fov_degrees demo_camera_options = 60" by (simp add: demo_camera_options_def)
  from projection_focal_entries [OF h] h show ?thesis by (simp add: demo_camera_options_def)
qed


theorem setup_camera_translation_differs_witness:
  "cam_position (setup_camera demo_camera_options) = (0, 0, 5)
   \<and> view_matrix (setup_camera demo_camera_options) = look_at (0, 0, 5) (0, 0, 0) (0, 1, 0)
   \<and> mat_translation (view_matrix (setup_camera demo_camera_options)) =
       (- (view_matrix (setup_camera demo_camera_options) ! 0 * 0
           + view_matrix (setup_camera demo_camera_options) ! 4 * 0
           + view_matrix (setup_camera demo_camera_options) ! 8 * 5),
        - (view_matrix (setup_camera demo_camera_options) ! 1 * 0
           + view_matrix (setup_camera demo_camera_options) ! 5 * 0
           + view_matrix (setup_camera demo_camera_options) ! 9 * 5),
        - (view_matrix (setup_camera demo_camera_options) ! 2 * 0
           + view_matrix (setup_camera demo_camera_options) ! 6 * 0
           + view_matrix (setup_camera demo_camera_options) ! 10 * 5))"
proof -
  have "opt_position demo_camera_options = (0, 0, 5)"
    and "vec_sub (opt_position demo_camera_options) (opt_look_at demo_camera_options) = (0, 0, 5)"
    and "\<not> (\<bar>0::real\<bar> < 0.000001 \<and> \<bar>0::real\<bar> < 0.000001 \<and> \<bar>5::real\<bar> < 0.000001)"
    by (simp_all add: demo_camera_options_def vec_sub_def)
  note t = setup_camera_translation_differs [OF this]
  have l: "opt_look_at demo_camera_options = (0, 0, 0)"
    by (simp add: demo_camera_options_def)
  show ?thesis using t unfolding l .
qed

end
