(* ===== verification/LightManager.thy ===== *)
theory LightManager
  imports Linear
begin

text \<open>
  The light manager (\<open>graphics/data/lightManager.ts\<close>, \<open>lighting/pointLight.ts\<close>): an
  ordered list of point lights and a phase accumulator. \<open>update\<close> advances the phase by
  0.025 and sets the vertical coordinate of every light's position to half the sine of the
  new phase. Reals stand for doubles, so the phase after \<open>n\<close> calls is exactly
  \<open>n * 0.025\<close> here, where the program accumulates rounding.
\<close>

record point_light =
  light_position :: vec3
  light_color :: vec3

record light_manager =
  lm_lights :: "point_light list"
  movement :: real

definition light_manager_new :: light_manager where
  "light_manager_new = \<lparr>lm_lights = [], movement = 0\<rparr>"

definition add_point_light :: "point_light \<Rightarrow> light_manager \<Rightarrow> light_manager" where
  "add_point_light l m = m\<lparr>lm_lights := lm_lights m @ [l]\<rparr>"

text \<open>\<open>position.y = 0.5 * Math.sin(this._movement)\<close> on each light.\<close>

definition set_y :: "real \<Rightarrow> vec3 \<Rightarrow> vec3" where
  "set_y y v = (case v of (x, _, z) \<Rightarrow> (x, y, z))"

definition light_manager_update :: "light_manager \<Rightarrow> light_manager" where
  "light_manager_update m =
     (let mv = movement m + 0.025 in
      m\<lparr>movement := mv,
        lm_lights := map (\<lambda>l. l\<lparr>light_position := set_y (0.5 * sin mv) (light_position l)\<rparr>)
                       (lm_lights m)\<rparr>)"

lemma movement_updates: "movement ((light_manager_update ^^ n) m) = movement m + n * 0.025"
  by (induction n) (simp_all add: light_manager_update_def Let_def algebra_simps)

lemma length_lights_updates [simp]:
  "length (lm_lights ((light_manager_update ^^ n) m)) = length (lm_lights m)"
  by (induction n) (simp_all add: light_manager_update_def Let_def)

lemma nth_lights_update:
  "i < length (lm_lights m) \<Longrightarrow>
   lm_lights (light_manager_update m) ! i
     = (lm_lights m ! i)\<lparr>light_position :=
          set_y (0.5 * sin (movement m + 0.025)) (light_position (lm_lights m ! i))\<rparr>"
  by (simp add: light_manager_update_def Let_def)

lemma set_y_set_y [simp]: "set_y a (set_y b v) = set_y a v"
  by (simp add: set_y_def split: prod.splits)

lemma lights_updates_nth:
  "i < length (lm_lights m) \<Longrightarrow>
   lm_lights ((light_manager_update ^^ Suc n) m) ! i
     = (lm_lights m ! i)\<lparr>light_position :=
          set_y (0.5 * sin (movement m + Suc n * 0.025)) (light_position (lm_lights m ! i))\<rparr>"
proof (induction n)
  case 0
  then show ?case by (simp add: nth_lights_update)
next
  case (Suc n)
  let ?m = "(light_manager_update ^^ Suc n) m"
  have "i < length (lm_lights ?m)" using Suc.prems by (simp only: length_lights_updates)
  then have "lm_lights (light_manager_update ?m) ! i
      = (lm_lights ?m ! i)\<lparr>light_position :=
          set_y (0.5 * sin (movement ?m + 0.025)) (light_position (lm_lights ?m ! i))\<rparr>"
    by (rule nth_lights_update)
  moreover have "movement ?m + 0.025 = movement m + Suc (Suc n) * 0.025"
    by (simp only: movement_updates) (simp add: algebra_simps)
  ultimately have "lm_lights (light_manager_update ?m) ! i
      = (lm_lights m ! i)\<lparr>light_position :=
          set_y (0.5 * sin (movement m + Suc (Suc n) * 0.025)) (light_position (lm_lights m ! i))\<rparr>"
    using Suc by (simp del: funpow.simps)
  moreover have "(light_manager_update ^^ Suc (Suc n)) m = light_manager_update ?m" by simp
  ultimately show ?case by (simp only:)
qed

text \<open>After \<open>n > 0\<close> calls of \<open>update\<close>, the phase has advanced by \<open>n * 0.025\<close>
  whatever the time between calls, and every light, in the same order, has its vertical
  coordinate at half the sine of that shared phase, its other coordinates and its colour
  unchanged.
\<close>

theorem update_bobs_all_lights:
  assumes "0 < n" and "i < length (lm_lights m)"
  shows "movement ((light_manager_update ^^ n) m) = movement m + n * 0.025
    \<and> length (lm_lights ((light_manager_update ^^ n) m)) = length (lm_lights m)
    \<and> light_position (lm_lights ((light_manager_update ^^ n) m) ! i)
        = set_y (0.5 * sin (movement m + n * 0.025)) (light_position (lm_lights m ! i))
    \<and> light_color (lm_lights ((light_manager_update ^^ n) m) ! i) = light_color (lm_lights m ! i)"
proof -
  obtain k where n: "n = Suc k" using assms(1) by (cases n) auto
  show ?thesis
    using lights_updates_nth [OF assms(2), of k]
    by (simp del: funpow.simps add: n movement_updates)
qed

text \<open>The scenario of the specification: one light at (0, -1, -1).\<close>

definition demo_light :: point_light where
  "demo_light = \<lparr>light_position = (0, -1, -1), light_color = (300, 300, 300)\<rparr>"

theorem update_bobs_all_lights_witness:
  "light_position (lm_lights ((light_manager_update ^^ 4)
       (add_point_light demo_light light_manager_new)) ! 0) = (0, 0.5 * sin 0.1, -1)"
proof -
  have "0 < (4::nat)" "0 < length (lm_lights (add_point_light demo_light light_manager_new))"
    by (simp_all add: add_point_light_def light_manager_new_def)
  from update_bobs_all_lights [OF this] show ?thesis
    by (simp add: add_point_light_def light_manager_new_def demo_light_def set_y_def)
qed

end
