(* ===== verification/Program.thy ===== *)
theory Program
  imports Gl
begin

text \<open>
  Shaders and shader programs (\<open>graphics/shader.ts\<close>, \<open>graphics/shaderProgram.ts\<close>).
  Whether a source compiles, whether a program links and validates, and which attribute
  and uniform locations it exposes are decided by the GL implementation: they are the
  fields of a \<open>gl_driver\<close> record, the interface the model takes from the GPU, as is the
  status \<open>checkFramebufferStatus\<close> reports after a given sequence of calls. The
  program keeps the two dictionaries the code builds: every requested attribute with the
  location \<open>getAttribLocation\<close> returned (\<open>-1\<close> when inactive), and only the
  requested uniforms that were found.
\<close>

record gl_driver =
  compiles :: "shader_type \<Rightarrow> string \<Rightarrow> bool"
  links :: "string \<Rightarrow> string \<Rightarrow> bool"
  validates :: "string \<Rightarrow> string \<Rightarrow> bool"
  attrib_location :: "string \<Rightarrow> string \<Rightarrow> string \<Rightarrow> int"
  uniform_active :: "string \<Rightarrow> string \<Rightarrow> string \<Rightarrow> bool"
  framebuffer_status :: "gl_cmd list \<Rightarrow> nat"

record shader =
  shader_handle :: nat
  sh_type :: shader_type
  sh_source :: string

record shader_program_options =
  vertex_shader_source :: string
  fragment_shader_source :: string
  po_attributes :: "string list"
  po_uniforms :: "string list"

record shader_program =
  program :: nat
  attribute_locations :: "string \<rightharpoonup> int"
  uniform_locations :: "string \<rightharpoonup> uniform_location"

text \<open>
  \<open>Shader.create\<close>: create (or throw), set the source, compile; a failed compile reads
  the log, deletes the shader and throws.
\<close>

definition shader_create :: "gl_driver \<Rightarrow> shader_type \<Rightarrow> string \<Rightarrow> (gl_state, shader) exc" where
  "shader_create drv ty src g =
     (case gl_create ObjShader g of
        (None, g1) \<Rightarrow> (Inl (ErrCreate ObjShader), g1)
      | (Some h, g1) \<Rightarrow>
          (let g2 = emit (CompileShader h) (emit (ShaderSource h src) g1) in
           if compiles drv ty src then (Inr \<lparr>shader_handle = h, sh_type = ty, sh_source = src\<rparr>, g2)
           else (Inl ErrCompile, emit (DeleteShader h) g2)))"

text \<open>\<open>findAttributeLocations\<close>: every name is stored, found or not.\<close>

definition find_attribute_locations ::
  "gl_driver \<Rightarrow> string \<Rightarrow> string \<Rightarrow> string list \<Rightarrow> string \<rightharpoonup> int" where
  "find_attribute_locations drv vs fs attrs =
     fold (\<lambda>a d. d(a \<mapsto> attrib_location drv vs fs a)) attrs Map.empty"

text \<open>\<open>findUniformLocations\<close>: only the names the program has are stored.\<close>

definition find_uniform_locations ::
  "gl_driver \<Rightarrow> string \<Rightarrow> string \<Rightarrow> nat \<Rightarrow> string list \<Rightarrow> string \<rightharpoonup> uniform_location" where
  "find_uniform_locations drv vs fs p us =
     fold (\<lambda>u d. if uniform_active drv vs fs u then d(u \<mapsto> (p, u)) else d) us Map.empty"

text \<open>
  \<open>ShaderProgram.create\<close>: both shaders, then the program, attach, link and check,
  validate and check. Both checks throw the same error, \<open>'Failed to link program.'\<close>.
\<close>

definition shader_program_create ::
  "gl_driver \<Rightarrow> shader_program_options \<Rightarrow> (gl_state, shader_program) exc" where
  "shader_program_create drv opts =
     (let vs = vertex_shader_source opts; fs = fragment_shader_source opts in
      ebind (shader_create drv VERTEX_SHADER vs) (\<lambda>vsh.
      ebind (shader_create drv FRAGMENT_SHADER fs) (\<lambda>fsh. \<lambda>g.
        (case gl_create ObjProgram g of
           (None, g1) \<Rightarrow> (Inl (ErrCreate ObjProgram), g1)
         | (Some p, g1) \<Rightarrow>
             (let g2 = emit (LinkProgram p) (emit (AttachShader p (shader_handle fsh))
                         (emit (AttachShader p (shader_handle vsh)) g1)) in
              if \<not> links drv vs fs then (Inl ErrLink, g2)
              else (let g3 = emit (ValidateProgram p) g2 in
                    if \<not> validates drv vs fs then (Inl ErrLink, g3)
                    else (Inr \<lparr>program = p,
                               attribute_locations = find_attribute_locations drv vs fs (po_attributes opts),
                               uniform_locations = find_uniform_locations drv vs fs p (po_uniforms opts)\<rparr>,
                          g3)))))))"

subsection \<open>The location dictionaries\<close>

lemma find_attribute_locations_dom:
  "dom (find_attribute_locations drv vs fs attrs) = set attrs"
proof -
  have "\<And>d. dom (fold (\<lambda>a d. d(a \<mapsto> attrib_location drv vs fs a)) attrs d) = dom d \<union> set attrs"
    by (induction attrs) auto
  then show ?thesis by (simp add: find_attribute_locations_def)
qed

lemma find_attribute_locations_value:
  "a \<in> set attrs \<Longrightarrow> find_attribute_locations drv vs fs attrs a = Some (attrib_location drv vs fs a)"
proof -
  have "\<And>d. (d a = None \<or> d a = Some (attrib_location drv vs fs a)) \<Longrightarrow>
      fold (\<lambda>a d. d(a \<mapsto> attrib_location drv vs fs a)) attrs d a
        = (if a \<in> set attrs then Some (attrib_location drv vs fs a) else d a)"
    by (induction attrs) auto
  moreover assume "a \<in> set attrs"
  ultimately show ?thesis by (simp add: find_attribute_locations_def)
qed

lemma find_uniform_locations_eq:
  "find_uniform_locations drv vs fs p us u =
     (if u \<in> set us \<and> uniform_active drv vs fs u then Some (p, u) else None)"
proof -
  have "\<And>d. (d u = None \<or> d u = Some (p, u)) \<Longrightarrow>
      fold (\<lambda>u d. if uniform_active drv vs fs u then d(u \<mapsto> (p, u)) else d) us d u
        = (if u \<in> set us \<and> uniform_active drv vs fs u then Some (p, u) else d u)"
    by (induction us) auto
  then show ?thesis by (simp add: find_uniform_locations_def)
qed

lemma gl_keeps_shader_create [gl_mono_intros]: "keeps gl_mono (shader_create drv ty src)"
  by (auto simp: keeps_def shader_create_def gl_create_def gl_mono_def emit_def Let_def)

lemma gl_keeps_shader_program_create [gl_mono_intros]:
  "keeps gl_mono (shader_program_create drv opts)"
  unfolding shader_program_create_def Let_def
  by (intro gl_keeps_ebind gl_keeps_shader_create keepsI)
     (auto simp: gl_create_def gl_mono_def emit_def)

end
