(* ===== verification/RenderOps.thy ===== *)
theory RenderOps
  imports Program Drawable Camera
begin

text \<open>
  The binding and drawing helpers of \<open>graphics/renderer/renderOps.ts\<close>, each a function
  of the GL state. Dictionary reads of names a program does not have give \<open>undefined\<close>:
  a uniform call on it is logged with \<open>None\<close>; an attribute index that is \<open>undefined\<close>
  or negative reaches WebGL through the IDL conversion to \<open>GLuint\<close> (ToUint32), which
  this theory writes out as \<open>gl_uint\<close>. A texture slot holding \<open>undefined\<close> makes
  \<open>texture.texture\<close> throw a \<open>TypeError\<close>.
\<close>

text \<open>ToUint32 of a JavaScript value that is an integer or \<open>undefined\<close> (NaN gives 0).\<close>

definition gl_uint :: "int option \<Rightarrow> nat" where
  "gl_uint v = (case v of None \<Rightarrow> 0 | Some l \<Rightarrow> nat (l mod 2 ^ 32))"

text \<open>\<open>context.gl.MAX_VERTEX_ATTRIBS\<close> is the enum constant \<open>0x8869\<close>, not a limit.\<close>

definition MAX_VERTEX_ATTRIBS_enum :: int where
  "MAX_VERTEX_ATTRIBS_enum = 34921"

record texture_bind_options =
  attribute_location_name :: string
  tbo_texture :: "gl_texture option"

text \<open>\<open>bindTexture\<close>: activate the slot, bind the texture, point the sampler at the slot.\<close>

definition bind_texture :: "nat \<Rightarrow> uniform_location option \<Rightarrow> nat \<Rightarrow> gl_state \<Rightarrow> gl_state" where
  "bind_texture tex loc slot g =
     emit (Uniform1i loc (int slot)) (emit (BindTexture (Some tex)) (emit (ActiveTexture slot) g))"

text \<open>The \<open>forEach\<close> of \<open>bindTextures\<close>, the element index being the slot.\<close>

fun bind_texture_list ::
  "shader_program \<Rightarrow> nat \<Rightarrow> texture_bind_options list \<Rightarrow> (gl_state, unit) exc" where
  "bind_texture_list prog slot [] = ereturn ()"
| "bind_texture_list prog slot (t # ts) =
     (case tbo_texture t of
        None \<Rightarrow> ethrow TypeError
      | Some tex \<Rightarrow> (\<lambda>g. bind_texture_list prog (Suc slot) ts
          (bind_texture (texture_handle tex) (uniform_locations prog (attribute_location_name t)) slot g)))"

text \<open>
  \<open>bindTextures\<close>: bind the texture-coordinate buffer to \<open>aTextureCoord\<close> (unguarded),
  bind the samplers, and set \<open>uTextureCount\<close> when the program has it.
\<close>

definition bind_textures ::
  "shader_program \<Rightarrow> generic_buffer \<Rightarrow> texture_bind_options list \<Rightarrow> (gl_state, unit) exc" where
  "bind_textures prog tcb ts g =
     (let loc = gl_uint (attribute_locations prog ''aTextureCoord'');
          g1 = emit (EnableVertexAttribArray loc)
                 (emit (VertexAttribPointer loc (number_of_components tcb))
                   (emit (BindBuffer ARRAY_BUFFER (Some (gb_buffer tcb))) g)) in
      case bind_texture_list prog 0 ts g1 of
        (Inl e, g2) \<Rightarrow> (Inl e, g2)
      | (Inr _, g2) \<Rightarrow>
          (case uniform_locations prog ''uTextureCount'' of
             None \<Rightarrow> (Inr (), g2)
           | Some l \<Rightarrow> (Inr (), emit (Uniform1i (Some l) (int (length ts))) g2)))"

text \<open>
  \<open>bindAttribute\<close>: skipped (with a log message) when the location is negative or not
  below the enum value; an \<open>undefined\<close> location passes both comparisons.
\<close>

definition bind_attribute :: "shader_program \<Rightarrow> string \<Rightarrow> generic_buffer \<Rightarrow> gl_state \<Rightarrow> gl_state" where
  "bind_attribute prog a buf g =
     (let l = attribute_locations prog a in
      if (case l of Some x \<Rightarrow> x < 0 \<or> x \<ge> MAX_VERTEX_ATTRIBS_enum | None \<Rightarrow> False) then g
      else emit (EnableVertexAttribArray (gl_uint l))
             (emit (VertexAttribPointer (gl_uint l) (number_of_components buf))
               (emit (BindBuffer ARRAY_BUFFER (Some (gb_buffer buf))) g)))"

definition bind_vertices ::
  "shader_program \<Rightarrow> generic_buffer \<Rightarrow> element_buffer \<Rightarrow> generic_buffer option \<Rightarrow>
   gl_state \<Rightarrow> gl_state" where
  "bind_vertices prog vb ib nb g =
     (let g1 = bind_attribute prog ''aVertexPosition'' vb g;
          g2 = (case nb of None \<Rightarrow> g1 | Some n \<Rightarrow> bind_attribute prog ''aVertexNormal'' n g1) in
      emit (BindBuffer ELEMENT_ARRAY_BUFFER (Some (eb_buffer ib))) g2)"

text \<open>\<open>bindCamera\<close> uploads the camera's projection and view matrices.\<close>

definition bind_camera :: "shader_program \<Rightarrow> camera \<Rightarrow> gl_state \<Rightarrow> gl_state" where
  "bind_camera prog c g =
     emit (UniformMatrix4fv (uniform_locations prog ''uViewMatrix'') (view_matrix c))
       (emit (UniformMatrix4fv (uniform_locations prog ''uProjectionMatrix'') (projection_matrix c)) g)"

text \<open>\<open>draw\<close> always draws triangles.\<close>

definition draw :: "nat \<Rightarrow> gl_state \<Rightarrow> gl_state" where
  "draw n g = emit (DrawElements GL_TRIANGLES n) g"

text \<open>The \<open>glMode\<close> switch of \<open>drawNew\<close>, and \<open>drawNew\<close>.\<close>

definition gl_mode_of :: "nat \<Rightarrow> gl_mode result" where
  "gl_mode_of m =
     (if m = primitive_mode_code LINES then Inr GL_LINES
      else if m = primitive_mode_code LINE_LOOP then Inr GL_LINE_LOOP
      else if m = primitive_mode_code LINE_STRIP then Inr GL_LINE_STRIP
      else if m = primitive_mode_code TRIANGLES then Inr GL_TRIANGLES
      else if m = primitive_mode_code TRIANGLE_FAN then Inr GL_TRIANGLE_FAN
      else if m = primitive_mode_code TRIANGLE_STRIP then Inr GL_TRIANGLE_STRIP
      else if m = primitive_mode_code POINTS then Inr GL_POINTS
      else Inl (ErrPrimitiveMode m))"

definition draw_new :: "nat \<Rightarrow> nat \<Rightarrow> (gl_state, unit) exc" where
  "draw_new n m g =
     (case gl_mode_of m of
        Inl e \<Rightarrow> (Inl e, g)
      | Inr gm \<Rightarrow> (Inr (), emit (DrawElements gm n) g))"

subsection \<open>Facts about the helpers\<close>

text \<open>The draw mode each \<open>PrimitiveMode\<close> member maps to.\<close>

primrec gl_mode_for :: "primitive_mode \<Rightarrow> gl_mode" where
  "gl_mode_for POINTS = GL_POINTS"
| "gl_mode_for LINES = GL_LINES"
| "gl_mode_for LINE_LOOP = GL_LINE_LOOP"
| "gl_mode_for LINE_STRIP = GL_LINE_STRIP"
| "gl_mode_for TRIANGLES = GL_TRIANGLES"
| "gl_mode_for TRIANGLE_STRIP = GL_TRIANGLE_STRIP"
| "gl_mode_for TRIANGLE_FAN = GL_TRIANGLE_FAN"

lemma primitive_mode_code_less_7: "primitive_mode_code m < 7"
  by (cases m) simp_all

lemma gl_mode_of_code [simp]: "gl_mode_of (primitive_mode_code m) = Inr (gl_mode_for m)"
  by (cases m) (simp_all add: gl_mode_of_def)

lemma gl_mode_of_ge_7: "7 \<le> m \<Longrightarrow> gl_mode_of m = Inl (ErrPrimitiveMode m)"
  by (simp add: gl_mode_of_def)

lemma log_keeps_bind_texture_list [log_ext_intros]: "keeps log_ext (bind_texture_list prog slot ts)"
proof (induction ts arbitrary: slot)
  case Nil
  show ?case by (simp only: bind_texture_list.simps) (rule log_keeps_return)
next
  case (Cons t ts)
  show ?case
  proof (cases "tbo_texture t")
    case None
    then show ?thesis by (simp only: bind_texture_list.simps option.case) (rule log_keeps_throw)
  next
    case (Some tex)
    show ?thesis
    proof (rule keepsI)
      fix g
      have "log_ext g (bind_texture (texture_handle tex)
              (uniform_locations prog (attribute_location_name t)) slot g)"
        by (simp add: bind_texture_def log_ext_intros)
      then show "log_ext g (snd (bind_texture_list prog slot (t # ts) g))"
        using Some keepsD [OF Cons.IH] by (auto intro: log_ext_trans)
    qed
  qed
qed

lemma log_ext_bind_attribute [log_ext_intros]: "log_ext g g' \<Longrightarrow> log_ext g (bind_attribute prog a buf g')"
  by (simp add: bind_attribute_def Let_def log_ext_intros)

lemma log_ext_bind_vertices [log_ext_intros]:
  "log_ext g g' \<Longrightarrow> log_ext g (bind_vertices prog vb ib nb g')"
  by (simp add: bind_vertices_def Let_def log_ext_intros split: option.split)

lemma log_ext_bind_camera [log_ext_intros]: "log_ext g g' \<Longrightarrow> log_ext g (bind_camera prog c g')"
  by (simp add: bind_camera_def log_ext_intros)

lemma log_keeps_bind_textures [log_ext_intros]: "keeps log_ext (bind_textures prog tcb ts)"
proof (rule keepsI)
  fix g
  let ?g1 = "emit (EnableVertexAttribArray (gl_uint (attribute_locations prog ''aTextureCoord'')))
               (emit (VertexAttribPointer (gl_uint (attribute_locations prog ''aTextureCoord''))
                      (number_of_components tcb))
                 (emit (BindBuffer ARRAY_BUFFER (Some (gb_buffer tcb))) g))"
  have 1: "log_ext g ?g1" by (simp add: log_ext_intros)
  have 2: "log_ext ?g1 (snd (bind_texture_list prog 0 ts ?g1))"
    by (rule keepsD [OF log_keeps_bind_texture_list])
  show "log_ext g (snd (bind_textures prog tcb ts g))"
    using log_ext_trans [OF 1 2]
    by (auto simp: bind_textures_def Let_def intro: log_ext_emits
             split: prod.splits sum.splits option.splits)
qed

lemma log_keeps_draw_new [log_ext_intros]: "keeps log_ext (draw_new n m)"
  by (auto simp: keeps_def draw_new_def log_ext_intros split: sum.splits)

text \<open>A texture slot holding \<open>undefined\<close> makes the binding throw.\<close>

lemma bind_texture_list_missing:
  "t \<in> set ts \<Longrightarrow> tbo_texture t = None \<Longrightarrow> fst (bind_texture_list prog slot ts g) = Inl TypeError"
proof (induction ts arbitrary: slot g)
  case Nil
  then show ?case by simp
next
  case (Cons t' ts)
  show ?case
  proof (cases "tbo_texture t'")
    case None
    then show ?thesis by simp
  next
    case (Some tex)
    then have "t \<in> set ts" using Cons.prems by auto
    with Cons.IH Cons.prems(2) Some show ?thesis by simp
  qed
qed

lemma bind_textures_missing:
  assumes "t \<in> set ts" and "tbo_texture t = None"
  shows "fst (bind_textures prog tcb ts g) = Inl TypeError"
proof -
  have h: "bind_texture_list prog 0 ts g1 = (x, y) \<Longrightarrow> x = Inl TypeError" for g1 x y
    using bind_texture_list_missing [OF assms, of prog 0 g1] by simp
  show ?thesis unfolding bind_textures_def Let_def by (auto dest: h split: prod.split sum.split)
qed

text \<open>
  C22: Binding an attribute whose name the program's configuration did not request (so its
  location is \<open>undefined\<close>) is not skipped: ToUint32 of \<open>undefined\<close> is 0, and the buffer
  is bound to attribute location 0.
\<close>

theorem unrequested_attribute_binds_location_zero:
  "attribute_locations prog a = None \<Longrightarrow>
   gl_log (bind_attribute prog a buf g) = gl_log g @
     [BindBuffer ARRAY_BUFFER (Some (gb_buffer buf)), VertexAttribPointer 0 (number_of_components buf),
      EnableVertexAttribArray 0]"
  by (simp add: bind_attribute_def gl_uint_def)

theorem unrequested_attribute_binds_location_zero_witness:
  "gl_log (bind_attribute \<lparr>program = 0, attribute_locations = Map.empty, uniform_locations = Map.empty\<rparr>
     ''aVertexNormal'' \<lparr>gb_buffer = 5, element_count = 9, number_of_components = 3\<rparr> gl_init)
   = [BindBuffer ARRAY_BUFFER (Some 5), VertexAttribPointer 0 3, EnableVertexAttribArray 0]"
  using unrequested_attribute_binds_location_zero
    [of "\<lparr>program = 0, attribute_locations = Map.empty, uniform_locations = Map.empty\<rparr>" "''aVertexNormal''"]
  by (simp add: gl_init_def)

end
