(* ===== verification/BufferPass.thy ===== *)
theory BufferPass
  imports RenderOps AssetManager
begin

text \<open>
  The geometry pass (\<open>graphics/renderer/pbrBufferPass.ts\<close>). It binds its program,
  clears, uploads the camera, then walks every scene of every loaded asset depth-first
  from the scene's root ids, drawing each node's mesh with the node's world transform.
  A node's world transform is computed once from the parent transform of its first visit
  and written into the node (\<open>cachedWorldTransform\<close>); later visits reuse it.

  The walk follows child ids through \<open>nodes.find\<close>; nothing stops a cycle, so the
  recursion is defined with fuel, a bound on its depth: \<open>None\<close> is a recursion deeper
  than the fuel (in the browser, a call stack overflow). The state of the walk is the
  asset record being drawn, whose node caches it writes, and the GL state.
\<close>

record pbr_buffer_pass =
  bp_name :: string
  bp_program :: shader_program

type_synonym pass_state = "complete_asset_record \<times> gl_state"

subsection \<open>Drawing a mesh\<close>

text \<open>A texture reference is used when its index is a number greater than -1.\<close>

definition ref_index :: "texture_reference option \<Rightarrow> nat option" where
  "ref_index r =
     (case r of None \<Rightarrow> None
      | Some tr \<Rightarrow> (case tr_index tr of None \<Rightarrow> None
                    | Some i \<Rightarrow> if i > -1 then Some (nat i) else None))"

definition tex_option ::
  "gl_texture jsarray \<Rightarrow> texture_reference option \<Rightarrow> string \<Rightarrow> texture_bind_options list" where
  "tex_option texs r name =
     (case ref_index r of None \<Rightarrow> []
      | Some i \<Rightarrow> [\<lparr>attribute_location_name = name, tbo_texture = js_get texs i\<rparr>])"

text \<open>\<open>generateTextureBindOptions\<close>: base colour, metallic-roughness, normal, in that order.\<close>

definition generate_texture_bind_options ::
  "material \<Rightarrow> gl_texture jsarray \<Rightarrow> texture_bind_options list" where
  "generate_texture_bind_options mat texs =
     (let mr = metallic_roughness_options mat in
      tex_option texs (base_color_texture mr) ''uDiffuseAlbedoSampler''
      @ tex_option texs (metallic_roughness_texture mr) ''uMetallicRoughnessSampler''
      @ tex_option texs (Some (normal_texture mat)) ''uNormalSampler'')"

text \<open>\<open>drawPrimitive\<close>.\<close>

definition draw_primitive ::
  "shader_program \<Rightarrow> drawable_primitive \<Rightarrow> texture_bind_options list \<Rightarrow> (gl_state, unit) exc" where
  "draw_primitive prog dp tbos g =
     (let g1 = bind_vertices prog (vertex_buffer dp) (index_buffer dp) (normal_buffer dp) g in
      ebind (case texture_coord_buffer dp of None \<Rightarrow> ereturn () | Some tcb \<Rightarrow> bind_textures prog tcb tbos)
        (\<lambda>_. draw_new (index_count (index_buffer dp)) (dp_mode dp)) g1)"

text \<open>The material lookup and texture choice of \<open>drawMesh\<close>'s loop body.\<close>

definition primitive_bind_options ::
  "complete_asset_record \<Rightarrow> drawable_primitive \<Rightarrow> texture_bind_options list" where
  "primitive_bind_options r dp =
     (case find (\<lambda>x. mat_id x = dp_material_id dp) (materials (car_asset r)) of
        None \<Rightarrow> []
      | Some m \<Rightarrow> generate_texture_bind_options m (car_textures r))"

text \<open>\<open>drawMesh\<close>: upload the model matrix, draw every primitive.\<close>

definition draw_mesh ::
  "shader_program \<Rightarrow> complete_asset_record \<Rightarrow> mat4 \<Rightarrow> drawable_mesh \<Rightarrow> (gl_state, unit) exc" where
  "draw_mesh prog r w dm g =
     e_for_each (\<lambda>p. draw_primitive prog p (primitive_bind_options r p)) (dm_primitives dm)
       (emit (UniformMatrix4fv (uniform_locations prog ''uModelMatrix'') w) g)"

subsection \<open>The node walk\<close>

definition find_node :: "complete_asset_record \<Rightarrow> nat \<Rightarrow> node option" where
  "find_node r k = find (\<lambda>x. node_id x = k) (nodes (car_asset r))"

text \<open>\<open>currentNode.cachedWorldTransform = \<dots>\<close> on the node object \<open>find\<close> returned.\<close>

definition set_node_cache :: "nat \<Rightarrow> mat4 \<Rightarrow> complete_asset_record \<Rightarrow> complete_asset_record" where
  "set_node_cache k m r =
     r\<lparr>car_asset := (car_asset r)\<lparr>nodes :=
        upd_first (\<lambda>x. node_id x = k) (\<lambda>x. x\<lparr>cached_world_transform := Some m\<rparr>)
          (nodes (car_asset r))\<rparr>\<rparr>"

definition child_ids :: "node \<Rightarrow> nat list" where
  "child_ids n = (case children n of None \<Rightarrow> [] | Some cs \<Rightarrow> cs)"

text \<open>
  The cache step of \<open>renderNode\<close>: the transform to draw with and the record after the
  cache is filled.
\<close>

definition node_transform :: "node \<Rightarrow> mat4 \<Rightarrow> complete_asset_record \<Rightarrow> mat4 \<times> complete_asset_record" where
  "node_transform n p r =
     (case cached_world_transform n of
        Some m \<Rightarrow> (m, r)
      | None \<Rightarrow> (let m = calculate_node_world_transform n p in (m, set_node_cache (node_id n) m r)))"

text \<open>
  The mesh-record lookup of \<open>renderNode\<close> (on a sparse array: a hole before the match
  throws) and the draw of the record found.
\<close>

definition draw_node_mesh ::
  "shader_program \<Rightarrow> complete_asset_record \<Rightarrow> node \<Rightarrow> mat4 \<Rightarrow> (gl_state, unit) exc" where
  "draw_node_mesh prog r n w g =
     (case js_find_by (\<lambda>d. Some (dmr_id d) = node_mesh_id n) (drawable_mesh_records r) of
        Inl e \<Rightarrow> (Inl e, g)
      | Inr None \<Rightarrow> (Inr (), g)
      | Inr (Some d) \<Rightarrow> draw_mesh prog r w (dmr_mesh d) g)"

text \<open>
  \<open>renderNode\<close> and the \<open>forEach\<close> over child ids, mutually recursive; the same loop
  with the identity as parent transform walks a scene's root ids.
\<close>

fun render_node ::
  "nat \<Rightarrow> shader_program \<Rightarrow> mat4 \<Rightarrow> node \<Rightarrow> pass_state \<Rightarrow> ((error + unit) \<times> pass_state) option"
and render_children ::
  "nat \<Rightarrow> shader_program \<Rightarrow> mat4 \<Rightarrow> nat list \<Rightarrow> pass_state \<Rightarrow> ((error + unit) \<times> pass_state) option"
where
  "render_node 0 prog p n s = None"
| "render_node (Suc f) prog p n (r, g) =
     (case node_transform n p r of
        (w, r1) \<Rightarrow>
          (case draw_node_mesh prog r1 n w g of
             (Inl e, g1) \<Rightarrow> Some (Inl e, (r1, g1))
           | (Inr _, g1) \<Rightarrow> render_children f prog w (child_ids n) (r1, g1)))"
| "render_children f prog w [] s = Some (Inr (), s)"
| "render_children f prog w (c # cs) (r, g) =
     (case find_node r c of
        None \<Rightarrow> render_children f prog w cs (r, g)
      | Some ch \<Rightarrow>
          (case render_node f prog w ch (r, g) of
             None \<Rightarrow> None
           | Some (Inl e, s') \<Rightarrow> Some (Inl e, s')
           | Some (Inr _, s') \<Rightarrow> render_children f prog w cs s'))"

text \<open>The \<open>forEach\<close> over an asset's scenes, each walked from the identity.\<close>

fun render_scenes ::
  "nat \<Rightarrow> shader_program \<Rightarrow> scene list \<Rightarrow> pass_state \<Rightarrow> ((error + unit) \<times> pass_state) option"
where
  "render_scenes f prog [] s = Some (Inr (), s)"
| "render_scenes f prog (sc # scs) s =
     (case render_children f prog mat_identity (node_indices sc) s of
        None \<Rightarrow> None
      | Some (Inl e, s') \<Rightarrow> Some (Inl e, s')
      | Some (Inr _, s') \<Rightarrow> render_scenes f prog scs s')"

text \<open>The \<open>forEach\<close> over the manager's records, each written back after its walk.\<close>

fun render_assets ::
  "nat \<Rightarrow> shader_program \<Rightarrow> complete_asset_record list \<Rightarrow> gl_state \<Rightarrow>
   ((error + unit) \<times> complete_asset_record list \<times> gl_state) option"
where
  "render_assets f prog [] g = Some (Inr (), [], g)"
| "render_assets f prog (r # rs) g =
     (case render_scenes f prog (scenes (car_asset r)) (r, g) of
        None \<Rightarrow> None
      | Some (Inl e, (r', g')) \<Rightarrow> Some (Inl e, r' # rs, g')
      | Some (Inr _, (r', g')) \<Rightarrow>
          (case render_assets f prog rs g' of
             None \<Rightarrow> None
           | Some (out, rs', g'') \<Rightarrow> Some (out, r' # rs', g'')))"

text \<open>\<open>PbrBufferPass.render\<close>.\<close>

definition pbr_buffer_pass_render ::
  "nat \<Rightarrow> pbr_buffer_pass \<Rightarrow> camera \<Rightarrow> asset_manager \<times> gl_state \<Rightarrow>
   ((error + unit) \<times> asset_manager \<times> gl_state) option" where
  "pbr_buffer_pass_render f bp cam =
     (\<lambda>(m, g).
        (let prog = bp_program bp;
             g1 = bind_camera prog cam (context_clear (emit (UseProgram (program prog)) g)) in
         case render_assets f prog (am_assets m) g1 of
           None \<Rightarrow> None
         | Some (out, rs, g2) \<Rightarrow> Some (out, m\<lparr>am_assets := rs\<rparr>, g2)))"

subsection \<open>The uncached walk\<close>

text \<open>
  The walk the cache stands for: every visit computes the node's world transform from the
  parent transform it is reached with, and nothing is written. It reads the record with
  its caches cleared (\<open>strip_caches\<close>), so it depends only on the asset's structure.
\<close>

definition clear_cache :: "node \<Rightarrow> node" where
  "clear_cache n = n\<lparr>cached_world_transform := None\<rparr>"

definition strip_caches :: "complete_asset_record \<Rightarrow> complete_asset_record" where
  "strip_caches r =
     r\<lparr>car_asset := (car_asset r)\<lparr>nodes := map clear_cache (nodes (car_asset r))\<rparr>\<rparr>"

fun ref_node ::
  "nat \<Rightarrow> shader_program \<Rightarrow> mat4 \<Rightarrow> node \<Rightarrow> complete_asset_record \<Rightarrow> gl_state \<Rightarrow>
   ((error + unit) \<times> gl_state) option"
and ref_children ::
  "nat \<Rightarrow> shader_program \<Rightarrow> mat4 \<Rightarrow> nat list \<Rightarrow> complete_asset_record \<Rightarrow> gl_state \<Rightarrow>
   ((error + unit) \<times> gl_state) option"
where
  "ref_node 0 prog p n r g = None"
| "ref_node (Suc f) prog p n r g =
     (let w = calculate_node_world_transform n p in
      case draw_node_mesh prog r n w g of
        (Inl e, g1) \<Rightarrow> Some (Inl e, g1)
      | (Inr _, g1) \<Rightarrow> ref_children f prog w (child_ids n) r g1)"
| "ref_children f prog w [] r g = Some (Inr (), g)"
| "ref_children f prog w (c # cs) r g =
     (case find_node r c of
        None \<Rightarrow> ref_children f prog w cs r g
      | Some ch \<Rightarrow>
          (case ref_node f prog w ch r g of
             None \<Rightarrow> None
           | Some (Inl e, g') \<Rightarrow> Some (Inl e, g')
           | Some (Inr _, g') \<Rightarrow> ref_children f prog w cs r g'))"

fun ref_scenes ::
  "nat \<Rightarrow> shader_program \<Rightarrow> scene list \<Rightarrow> complete_asset_record \<Rightarrow> gl_state \<Rightarrow>
   ((error + unit) \<times> gl_state) option"
where
  "ref_scenes f prog [] r g = Some (Inr (), g)"
| "ref_scenes f prog (sc # scs) r g =
     (case ref_children f prog mat_identity (node_indices sc) r g of
        None \<Rightarrow> None
      | Some (Inl e, g') \<Rightarrow> Some (Inl e, g')
      | Some (Inr _, g') \<Rightarrow> ref_scenes f prog scs r g')"

fun ref_assets ::
  "nat \<Rightarrow> shader_program \<Rightarrow> complete_asset_record list \<Rightarrow> gl_state \<Rightarrow>
   ((error + unit) \<times> gl_state) option"
where
  "ref_assets f prog [] g = Some (Inr (), g)"
| "ref_assets f prog (r # rs) g =
     (case ref_scenes f prog (scenes (car_asset r)) (strip_caches r) g of
        None \<Rightarrow> None
      | Some (Inl e, g') \<Rightarrow> Some (Inl e, g')
      | Some (Inr _, g') \<Rightarrow> ref_assets f prog rs g')"

definition ref_pass_render ::
  "nat \<Rightarrow> pbr_buffer_pass \<Rightarrow> camera \<Rightarrow> asset_manager \<Rightarrow> gl_state \<Rightarrow>
   ((error + unit) \<times> gl_state) option" where
  "ref_pass_render f bp cam m g =
     (let prog = bp_program bp in
      ref_assets f prog (am_assets m)
        (bind_camera prog cam (context_clear (emit (UseProgram (program prog)) g))))"

subsection \<open>World transforms the cache is consistent with\<close>

text \<open>
  A world assignment \<open>wt\<close> gives a transform to every node id. The children \<open>cs\<close> of a
  node drawn with \<open>w\<close> fit it when each child the walk finds has the transform computed
  from \<open>w\<close>; a record's structure fits it when the children of every node fit it and
  the roots of every scene fit it with the identity; its caches fit it when each
  cache the walk can read is empty or holds the node's assigned transform. The walk
  reaches a node id through \<open>find\<close>, so only the first node of each id matters.
\<close>

definition children_fit ::
  "(nat \<Rightarrow> mat4) \<Rightarrow> mat4 \<Rightarrow> nat list \<Rightarrow> complete_asset_record \<Rightarrow> bool" where
  "children_fit wt w cs r \<longleftrightarrow>
     (\<forall>c\<in>set cs. case find_node r c of
                   None \<Rightarrow> True
                 | Some ch \<Rightarrow> wt c = calculate_node_world_transform ch w)"

definition structure_fits :: "(nat \<Rightarrow> mat4) \<Rightarrow> complete_asset_record \<Rightarrow> bool" where
  "structure_fits wt r \<longleftrightarrow>
     (\<forall>k\<in>set (map node_id (nodes (car_asset r))).
        case find_node r k of None \<Rightarrow> True | Some n \<Rightarrow> children_fit wt (wt k) (child_ids n) r)
     \<and> (\<forall>sc\<in>set (scenes (car_asset r)). children_fit wt mat_identity (node_indices sc) r)"

definition caches_fit :: "(nat \<Rightarrow> mat4) \<Rightarrow> complete_asset_record \<Rightarrow> bool" where
  "caches_fit wt r \<longleftrightarrow>
     (\<forall>k\<in>set (map node_id (nodes (car_asset r))).
        case find_node r k of
          None \<Rightarrow> True
        | Some n \<Rightarrow> cached_world_transform n = None \<or> cached_world_transform n = Some (wt k))"

definition world_consistent :: "(nat \<Rightarrow> mat4) \<Rightarrow> complete_asset_record \<Rightarrow> bool" where
  "world_consistent wt r \<longleftrightarrow> structure_fits wt r \<and> caches_fit wt r"

text \<open>The cached walk's outcome and GL state are the uncached walk's, and the records stay consistent.\<close>

definition walk_agrees ::
  "(nat \<Rightarrow> mat4) \<Rightarrow> ((error + unit) \<times> pass_state) option \<Rightarrow> ((error + unit) \<times> gl_state) option \<Rightarrow> bool" where
  "walk_agrees wt a b \<longleftrightarrow>
     map_option (\<lambda>(out, (r', g')). (out, g')) a = b
     \<and> (case a of None \<Rightarrow> True | Some (out, (r', g')) \<Rightarrow> world_consistent wt r')"

subsection \<open>Ranks bounding the walk's depth\<close>

text \<open>
  A rank function decreases from every node to each child the walk finds: the child ids
  form no cycle, and the depth of the walk below a node is at most its rank.
\<close>

definition rank_ok :: "(nat \<Rightarrow> nat) \<Rightarrow> complete_asset_record \<Rightarrow> bool" where
  "rank_ok rk r \<longleftrightarrow>
     (\<forall>k\<in>set (map node_id (nodes (car_asset r))).
        case find_node r k of
          None \<Rightarrow> True
        | Some n \<Rightarrow> (\<forall>c\<in>set (child_ids n). find_node r c = None \<or> rk c < rk k))"

definition below_fuel :: "(nat \<Rightarrow> nat) \<Rightarrow> nat \<Rightarrow> nat list \<Rightarrow> complete_asset_record \<Rightarrow> bool" where
  "below_fuel rk f cs r \<longleftrightarrow> (\<forall>c\<in>set cs. find_node r c = None \<or> rk c < f)"


section \<open>Facts about the pass\<close>

subsection \<open>Drawing only issues calls\<close>


lemma log_keeps_draw_primitive [log_ext_intros]: "keeps log_ext (draw_primitive prog dp tbos)"
proof (rule keepsI)
  fix g
  let ?g1 = "bind_vertices prog (vertex_buffer dp) (index_buffer dp) (normal_buffer dp) g"
  have 1: "log_ext g ?g1" by (simp add: log_ext_intros)
  have "keeps log_ext (ebind (case texture_coord_buffer dp of None \<Rightarrow> ereturn ()
            | Some tcb \<Rightarrow> bind_textures prog tcb tbos)
          (\<lambda>_. draw_new (index_count (index_buffer dp)) (dp_mode dp)))"
    by (simp add: log_ext_intros split: option.split)
  from log_ext_trans [OF 1 keepsD [OF this]]
  show "log_ext g (snd (draw_primitive prog dp tbos g))"
    by (simp add: draw_primitive_def)
qed

lemma log_keeps_draw_mesh [log_ext_intros]: "keeps log_ext (draw_mesh prog r w dm)"
proof (rule keepsI)
  fix g
  let ?g1 = "emit (UniformMatrix4fv (uniform_locations prog ''uModelMatrix'') w) g"
  have "keeps log_ext (e_for_each (\<lambda>p. draw_primitive prog p (primitive_bind_options r p))
          (dm_primitives dm))"
    by (simp add: log_ext_intros)
  from log_ext_trans [OF log_ext_emits [OF log_ext_refl] keepsD [OF this]]
  show "log_ext g (snd (draw_mesh prog r w dm g))"
    by (simp add: draw_mesh_def)
qed

lemma log_keeps_draw_node_mesh [log_ext_intros]: "keeps log_ext (draw_node_mesh prog r n w)"
  by (auto simp: keeps_def draw_node_mesh_def log_ext_refl keepsD [OF log_keeps_draw_mesh]
           split: sum.split option.split)

subsection \<open>Caches\<close>

lemma clear_cache_simps [simp]:
  "node_id (clear_cache n) = node_id n"
  "child_ids (clear_cache n) = child_ids n"
  "node_mesh_id (clear_cache n) = node_mesh_id n"
  "cached_world_transform (clear_cache n) = None"
  "clear_cache (n\<lparr>cached_world_transform := x\<rparr>) = clear_cache n"
  "clear_cache (clear_cache n) = clear_cache n"
  "calculate_node_world_transform (clear_cache n) p = calculate_node_world_transform n p"
  by (simp_all add: clear_cache_def child_ids_def calculate_node_world_transform_def)

lemma find_node_strip: "find_node (strip_caches r) k = map_option clear_cache (find_node r k)"
proof -
  have "\<And>xs. find (\<lambda>x. node_id x = k) (map clear_cache xs)
          = map_option clear_cache (find (\<lambda>x. node_id x = k) xs)"
    subgoal for xs by (induction xs) simp_all
    done
  then show ?thesis by (simp add: find_node_def strip_caches_def)
qed

lemma find_node_id: "find_node r k = Some n \<Longrightarrow> node_id n = k"
  by (auto simp: find_node_def dest: find_Some_iff [THEN iffD1])

lemma strip_set_node_cache [simp]: "strip_caches (set_node_cache k m r) = strip_caches r"
  by (simp add: strip_caches_def set_node_cache_def map_upd_first)

lemma strip_node_transform [simp]: "strip_caches (snd (node_transform n p r)) = strip_caches r"
  by (simp add: node_transform_def Let_def split: option.split)

lemma strip_caches_idem [simp]: "strip_caches (strip_caches r) = strip_caches r"
  by (simp add: strip_caches_def comp_def)

lemma strip_caches_fields [simp]:
  "scenes (car_asset (strip_caches r)) = scenes (car_asset r)"
  "materials (car_asset (strip_caches r)) = materials (car_asset r)"
  "car_textures (strip_caches r) = car_textures r"
  "drawable_mesh_records (strip_caches r) = drawable_mesh_records r"
  by (simp_all add: strip_caches_def)

lemma draw_mesh_strip [simp]: "draw_mesh prog (strip_caches r) = draw_mesh prog r"
proof -
  have "primitive_bind_options (strip_caches r) = primitive_bind_options r"
    by (simp add: fun_eq_iff primitive_bind_options_def split: option.split)
  then show ?thesis by (simp add: fun_eq_iff draw_mesh_def)
qed

lemma draw_node_mesh_strip [simp]: "draw_node_mesh prog (strip_caches r) = draw_node_mesh prog r"
  by (simp add: fun_eq_iff draw_node_mesh_def split: sum.split option.split)

lemma draw_node_mesh_same_strip:
  "strip_caches r = strip_caches r' \<Longrightarrow> draw_node_mesh prog r = draw_node_mesh prog r'"
  by (metis draw_node_mesh_strip)

subsection \<open>What the walk changes\<close>

text \<open>The walk changes a record only in its node caches, and the GL state only by calls.\<close>

lemma walk_frame:
  shows "render_node f prog p n s = Some (out, s') \<Longrightarrow>
           strip_caches (fst s') = strip_caches (fst s) \<and> log_ext (snd s) (snd s')"
    and "render_children f prog w cs s = Some (out, s') \<Longrightarrow>
           strip_caches (fst s') = strip_caches (fst s) \<and> log_ext (snd s) (snd s')"
proof (induction f prog p n s and f prog w cs s arbitrary: out s' and out s'
       rule: render_node_render_children.induct)
  case (1 prog p n s)
  then show ?case by simp
next
  case (2 f prog p n r g)
  obtain w r1 where nt: "node_transform n p r = (w, r1)" by fastforce
  obtain o1 g1 where dm: "draw_node_mesh prog r1 n w g = (o1, g1)" by fastforce
  have lg: "log_ext g g1" by (rule keeps_step [OF log_keeps_draw_node_mesh dm])
  have sr: "strip_caches r1 = strip_caches r" using strip_node_transform [of n p r] nt by simp
  show ?case
  proof (cases o1)
    case Inl
    then show ?thesis using "2.prems" nt dm lg sr by auto
  next
    case (Inr b)
    then have "render_children f prog w (child_ids n) (r1, g1) = Some (out, s')"
      using "2.prems" nt dm by simp
    with "2.IH" [OF nt [symmetric] dm [symmetric] Inr] lg sr
    show ?thesis by (auto intro: log_ext_trans)
  qed
next
  case (3 f prog w s)
  then show ?case by (auto intro: log_ext_refl)
next
  case (4 f prog w c cs r g)
  show ?case
  proof (cases "find_node r c")
    case None
    then show ?thesis using "4.prems" "4.IH"(1) by simp
  next
    case (Some ch)
    then obtain o1 r1 g1 where rn: "render_node f prog w ch (r, g) = Some (o1, (r1, g1))"
      using "4.prems" by (auto split: option.splits)
    have fr: "strip_caches r1 = strip_caches r \<and> log_ext g g1"
      using "4.IH"(2) [OF Some rn] by simp
    show ?thesis
    proof (cases o1)
      case Inl
      then show ?thesis using "4.prems" Some rn fr by auto
    next
      case (Inr b)
      then have "render_children f prog w cs (r1, g1) = Some (out, s')"
        using "4.prems" Some rn by simp
      with "4.IH"(3) [OF Some rn refl Inr] fr show ?thesis by (auto intro: log_ext_trans)
    qed
  qed
qed

subsection \<open>Consistent caches\<close>

lemma find_SomeD: "find P xs = Some x \<Longrightarrow> x \<in> set xs \<and> P x"
  by (induction xs) (auto split: if_splits)

lemma find_node_SomeD:
  "find_node r k = Some n \<Longrightarrow> n \<in> set (nodes (car_asset r)) \<and> node_id n = k"
  unfolding find_node_def by (rule find_SomeD)

lemma find_node_set_cache:
  "find_node (set_node_cache k m r) j =
     (if j = k then map_option (\<lambda>x. x\<lparr>cached_world_transform := Some m\<rparr>) (find_node r j)
      else find_node r j)"
proof (cases "j = k")
  case True
  then show ?thesis by (simp add: find_node_def set_node_cache_def find_upd_first_same)
next
  case False
  have "find (\<lambda>x. node_id x = j)
          (upd_first (\<lambda>x. node_id x = k) (\<lambda>x. x\<lparr>cached_world_transform := Some m\<rparr>) ns)
        = find (\<lambda>x. node_id x = j) ns" for ns
    by (rule find_upd_first_other) (use False in auto)
  with False show ?thesis by (simp add: find_node_def set_node_cache_def)
qed

lemma node_ids_set_cache [simp]:
  "map node_id (nodes (car_asset (set_node_cache k m r))) = map node_id (nodes (car_asset r))"
  by (simp add: set_node_cache_def map_upd_first)

lemma children_fit_strip [simp]: "children_fit wt w cs (strip_caches r) = children_fit wt w cs r"
  by (simp add: children_fit_def find_node_strip split: option.split)

lemma structure_fits_strip [simp]: "structure_fits wt (strip_caches r) = structure_fits wt r"
proof -
  have "map node_id (nodes (car_asset (strip_caches r))) = map node_id (nodes (car_asset r))"
    by (simp add: strip_caches_def)
  then show ?thesis
    by (simp add: structure_fits_def find_node_strip split: option.split)
qed

lemma fits_same_strip:
  assumes "strip_caches r = strip_caches r'"
  shows "children_fit wt w cs r = children_fit wt w cs r'"
    and "structure_fits wt r = structure_fits wt r'"
  using assms by (metis children_fit_strip, metis structure_fits_strip)

lemma structure_fits_children:
  "structure_fits wt r \<Longrightarrow> find_node r k = Some n \<Longrightarrow> children_fit wt (wt k) (child_ids n) r"
  using find_node_SomeD [of r k n] unfolding structure_fits_def by force

lemma caches_fit_cached:
  "caches_fit wt r \<Longrightarrow> find_node r k = Some n \<Longrightarrow> cached_world_transform n = Some m \<Longrightarrow> m = wt k"
  using find_node_SomeD [of r k n] unfolding caches_fit_def by force

lemma caches_fit_set_cache:
  assumes "caches_fit wt r" and "find_node r k = Some n"
  shows "caches_fit wt (set_node_cache k (wt k) r)"
  unfolding caches_fit_def
proof
  fix j
  assume j: "j \<in> set (map node_id (nodes (car_asset (set_node_cache k (wt k) r))))"
  show "case find_node (set_node_cache k (wt k) r) j of None \<Rightarrow> True
     | Some n \<Rightarrow> cached_world_transform n = None \<or> cached_world_transform n = Some (wt j)"
  proof (cases "j = k")
    case True
    then show ?thesis using assms(2) by (simp add: find_node_set_cache)
  next
    case False
    have "j \<in> set (map node_id (nodes (car_asset r)))" using j by simp
    with assms(1) have "case find_node r j of None \<Rightarrow> True
       | Some n \<Rightarrow> cached_world_transform n = None \<or> cached_world_transform n = Some (wt j)"
      unfolding caches_fit_def by (rule bspec)
    with False show ?thesis by (simp add: find_node_set_cache)
  qed
qed

text \<open>On a consistent record the cache step yields the node's assigned transform.\<close>

lemma node_transform_consistent:
  assumes wc: "world_consistent wt r" and fn: "find_node r (node_id n) = Some n"
    and wn: "wt (node_id n) = calculate_node_world_transform n p"
  shows "fst (node_transform n p r) = wt (node_id n) \<and> world_consistent wt (snd (node_transform n p r))"
proof (cases "cached_world_transform n")
  case None
  let ?r1 = "set_node_cache (node_id n) (wt (node_id n)) r"
  have "structure_fits wt ?r1"
    using wc fits_same_strip(2) [of ?r1 r] by (simp add: world_consistent_def)
  moreover have "caches_fit wt ?r1"
    using wc fn caches_fit_set_cache by (simp add: world_consistent_def)
  ultimately show ?thesis using None wn by (simp add: node_transform_def world_consistent_def Let_def)
next
  case (Some m)
  then have "m = wt (node_id n)"
    using caches_fit_cached [of wt r "node_id n" n m] wc fn by (simp add: world_consistent_def)
  then show ?thesis using Some wc by (simp add: node_transform_def)
qed

lemma draw_node_mesh_clear [simp]:
  "draw_node_mesh prog r (clear_cache n) = draw_node_mesh prog r n"
  by (simp add: fun_eq_iff draw_node_mesh_def)

lemma ref_node_clear [simp]: "ref_node f prog p (clear_cache n) r g = ref_node f prog p n r g"
  by (cases f) (simp_all add: Let_def split: prod.split sum.split)

subsection \<open>The cache refines the uncached walk\<close>

lemma walk_refines:
  shows "world_consistent wt (fst s) \<Longrightarrow> find_node (fst s) (node_id n) = Some n \<Longrightarrow>
           wt (node_id n) = calculate_node_world_transform n p \<Longrightarrow>
           walk_agrees wt (render_node f prog p n s)
             (ref_node f prog p n (strip_caches (fst s)) (snd s))"
    and "world_consistent wt (fst s) \<Longrightarrow> children_fit wt w cs (fst s) \<Longrightarrow>
           walk_agrees wt (render_children f prog w cs s)
             (ref_children f prog w cs (strip_caches (fst s)) (snd s))"
proof (induction f prog p n s and f prog w cs s rule: render_node_render_children.induct)
  case (1 prog p n s)
  then show ?case by (simp add: walk_agrees_def)
next
  case (2 f prog p n r g)
  let ?w = "calculate_node_world_transform n p"
  obtain w r1 where nt: "node_transform n p r = (w, r1)" by fastforce
  have w: "w = ?w" and wc1: "world_consistent wt r1"
    using node_transform_consistent [OF "2.prems"] nt "2.prems"(3) by auto
  have sr: "strip_caches r1 = strip_caches r" using strip_node_transform [of n p r] nt by simp
  have dm_eq: "draw_node_mesh prog r1 n w g = draw_node_mesh prog (strip_caches r) n ?w g"
    using draw_node_mesh_same_strip [OF sr] w by simp
  obtain o1 g1 where dm: "draw_node_mesh prog r1 n w g = (o1, g1)" by fastforce
  have dm2: "draw_node_mesh prog r n ?w g = (o1, g1)" using dm dm_eq by simp
  show ?case
  proof (cases o1)
    case Inl
    then show ?thesis using nt dm dm2 w wc1 by (simp add: walk_agrees_def)
  next
    case (Inr b)
    have "children_fit wt w (child_ids n) r"
      using structure_fits_children [of wt r "node_id n" n] "2.prems" w
      by (simp add: world_consistent_def)
    then have cf: "children_fit wt w (child_ids n) r1" using fits_same_strip(1) [OF sr] by simp
    have "walk_agrees wt (render_children f prog w (child_ids n) (r1, g1))
            (ref_children f prog w (child_ids n) (strip_caches r1) g1)"
      using "2.IH" [OF nt [symmetric] dm [symmetric] Inr] wc1 cf by simp
    then show ?thesis using nt dm dm2 Inr sr w by (simp add: Let_def)
  qed
next
  case (3 f prog w s)
  then show ?case by (cases s) (simp add: walk_agrees_def)
next
  case (4 f prog w c cs r g)
  have wc: "world_consistent wt r" and cf: "children_fit wt w (c # cs) r" using "4.prems" by simp_all
  have cf_cs: "children_fit wt w cs r" using cf by (simp add: children_fit_def)
  show ?case
  proof (cases "find_node r c")
    case None
    then show ?thesis using "4.IH"(1) wc cf_cs by (simp add: find_node_strip)
  next
    case (Some ch)
    note fc = Some
    have fn: "find_node r (node_id ch) = Some ch" using fc find_node_SomeD [OF fc] by simp
    have wch: "wt (node_id ch) = calculate_node_world_transform ch w"
      using cf fc find_node_SomeD [OF fc] by (simp add: children_fit_def)
    have ag: "walk_agrees wt (render_node f prog w ch (r, g)) (ref_node f prog w ch (strip_caches r) g)"
      using "4.IH"(2) [OF fc] wc fn wch by simp
    have ref: "ref_children f prog w (c # cs) (strip_caches r) g =
        (case ref_node f prog w ch (strip_caches r) g of
           None \<Rightarrow> None
         | Some (Inl e, g') \<Rightarrow> Some (Inl e, g')
         | Some (Inr _, g') \<Rightarrow> ref_children f prog w cs (strip_caches r) g')"
      using fc by (simp add: find_node_strip)
    show ?thesis
    proof (cases "render_node f prog w ch (r, g)")
      case None
      then show ?thesis using ag ref fc by (simp add: walk_agrees_def)
    next
      case (Some res)
      then obtain o1 r1 g1 where rn: "render_node f prog w ch (r, g) = Some (o1, (r1, g1))"
        by (cases res) auto
      from ag rn have refn: "ref_node f prog w ch (strip_caches r) g = Some (o1, g1)"
        and wc1: "world_consistent wt r1"
        by (simp_all add: walk_agrees_def)
      have sr: "strip_caches r1 = strip_caches r" using walk_frame(1) [OF rn] by simp
      show ?thesis
      proof (cases o1)
        case Inl
        then show ?thesis using rn refn ref fc wc1 by (simp add: walk_agrees_def)
      next
        case (Inr b)
        have "walk_agrees wt (render_children f prog w cs (r1, g1))
                (ref_children f prog w cs (strip_caches r1) g1)"
          using "4.IH"(3) [OF fc rn refl Inr] wc1 fits_same_strip(1) [OF sr] cf_cs by simp
        then show ?thesis using rn refn ref fc Inr sr by simp
      qed
    qed
  qed
qed

lemma walk_agrees_seq:
  assumes "walk_agrees wt a b"
    and "\<And>u r' g'. a = Some (Inr u, (r', g')) \<Longrightarrow> walk_agrees wt (k (r', g')) (l g')"
  shows "walk_agrees wt
           (case a of None \<Rightarrow> None | Some (Inl e, s') \<Rightarrow> Some (Inl e, s') | Some (Inr _, s') \<Rightarrow> k s')
           (case b of None \<Rightarrow> None | Some (Inl e, g') \<Rightarrow> Some (Inl e, g') | Some (Inr _, g') \<Rightarrow> l g')"
proof (cases a)
  case None
  then show ?thesis using assms(1) by (simp add: walk_agrees_def)
next
  case (Some res)
  then obtain o1 r1 g1 where a: "a = Some (o1, (r1, g1))" by (cases res) auto
  then have b: "b = Some (o1, g1)" using assms(1) by (simp add: walk_agrees_def)
  show ?thesis
  proof (cases o1)
    case Inl
    then show ?thesis using a b assms(1) by (simp add: walk_agrees_def)
  next
    case (Inr u)
    then show ?thesis using a b assms(2) [of u r1 g1] by simp
  qed
qed

lemma scenes_frame:
  "render_scenes f prog scs s = Some (out, s') \<Longrightarrow>
     strip_caches (fst s') = strip_caches (fst s) \<and> log_ext (snd s) (snd s')"
proof (induction scs arbitrary: s)
  case Nil
  then show ?case by (auto intro: log_ext_refl)
next
  case (Cons sc scs)
  then obtain o1 s1 where rc: "render_children f prog mat_identity (node_indices sc) s = Some (o1, s1)"
    by (auto split: option.splits)
  note fr = walk_frame(2) [OF rc]
  show ?case
  proof (cases o1)
    case Inl
    then show ?thesis using Cons.prems rc fr by auto
  next
    case Inr
    then have "render_scenes f prog scs s1 = Some (out, s')" using Cons.prems rc by simp
    from Cons.IH [OF this] fr show ?thesis by (auto intro: log_ext_trans)
  qed
qed

lemma scenes_refine:
  "world_consistent wt r \<Longrightarrow> (\<forall>sc\<in>set scs. children_fit wt mat_identity (node_indices sc) r) \<Longrightarrow>
   walk_agrees wt (render_scenes f prog scs (r, g)) (ref_scenes f prog scs (strip_caches r) g)"
proof (induction scs arbitrary: r g)
  case Nil
  then show ?case by (simp add: walk_agrees_def)
next
  case (Cons sc scs)
  have "walk_agrees wt (render_children f prog mat_identity (node_indices sc) (r, g))
          (ref_children f prog mat_identity (node_indices sc) (strip_caches r) g)"
    using walk_refines(2) [of wt "(r, g)"] Cons.prems by simp
  then show ?case
  proof (simp only: render_scenes.simps ref_scenes.simps, rule walk_agrees_seq)
    fix u r1 g1
    assume rc: "render_children f prog mat_identity (node_indices sc) (r, g) = Some (Inr u, (r1, g1))"
    then have sr: "strip_caches r1 = strip_caches r" using walk_frame(2) [OF rc] by simp
    have wc1: "world_consistent wt r1" using rc \<open>walk_agrees wt _ _\<close> by (simp add: walk_agrees_def)
    show "walk_agrees wt (render_scenes f prog scs (r1, g1)) (ref_scenes f prog scs (strip_caches r) g1)"
      using Cons.IH [OF wc1] Cons.prems fits_same_strip(1) [OF sr] sr by simp
  qed
qed

lemma assets_frame:
  "render_assets f prog rs g = Some (out, rs', g') \<Longrightarrow>
     map strip_caches rs' = map strip_caches rs \<and> log_ext g g'"
proof (induction rs arbitrary: g out rs' g')
  case Nil
  then show ?case by (auto intro: log_ext_refl)
next
  case (Cons r rs)
  obtain o1 r1 g1 where sc: "render_scenes f prog (scenes (car_asset r)) (r, g) = Some (o1, (r1, g1))"
    using Cons.prems by (auto split: option.splits)
  have fr: "strip_caches r1 = strip_caches r" "log_ext g g1" using scenes_frame [OF sc] by simp_all
  show ?case
  proof (cases o1)
    case Inl
    then show ?thesis using Cons.prems sc fr by auto
  next
    case Inr
    then obtain rs2 where ra: "render_assets f prog rs g1 = Some (out, rs2, g')" and rs': "rs' = r1 # rs2"
      using Cons.prems sc by (auto split: option.splits)
    from Cons.IH [OF ra] fr rs' show ?thesis by (auto intro: log_ext_trans)
  qed
qed

lemma assets_refine:
  "list_all2 world_consistent wts rs \<Longrightarrow>
   map_option (\<lambda>(out, rs', g'). (out, g')) (render_assets f prog rs g) = ref_assets f prog rs g \<and>
   (case render_assets f prog rs g of
      None \<Rightarrow> True
    | Some (out, rs', g') \<Rightarrow> list_all2 world_consistent wts rs')"
proof (induction rs arbitrary: wts g)
  case Nil
  then show ?case by simp
next
  case (Cons r rs)
  obtain wt wts' where wts: "wts = wt # wts'" "world_consistent wt r"
    "list_all2 world_consistent wts' rs"
    using Cons.prems by (cases wts) auto
  have ag: "walk_agrees wt (render_scenes f prog (scenes (car_asset r)) (r, g))
              (ref_scenes f prog (scenes (car_asset r)) (strip_caches r) g)"
    using scenes_refine [of wt r] wts(2) by (simp add: world_consistent_def structure_fits_def)
  show ?case
  proof (cases "render_scenes f prog (scenes (car_asset r)) (r, g)")
    case None
    then show ?thesis using ag by (simp add: walk_agrees_def)
  next
    case (Some res)
    then obtain o1 r1 g1 where sc: "render_scenes f prog (scenes (car_asset r)) (r, g) = Some (o1, (r1, g1))"
      by (cases res) auto
    from ag sc have ref: "ref_scenes f prog (scenes (car_asset r)) (strip_caches r) g = Some (o1, g1)"
      and wc1: "world_consistent wt r1"
      by (simp_all add: walk_agrees_def)
    show ?thesis
    proof (cases o1)
      case Inl
      then show ?thesis using sc ref wc1 wts by simp
    next
      case Inr
      then show ?thesis using sc ref wc1 wts Cons.IH [OF wts(3), of g1]
        by (auto split: option.splits prod.splits)
    qed
  qed
qed

lemma ref_assets_strip:
  "map strip_caches rs = map strip_caches rs' \<Longrightarrow> ref_assets f prog rs g = ref_assets f prog rs' g"
proof (induction rs arbitrary: rs' g)
  case Nil
  then show ?case by simp
next
  case (Cons r rs)
  then obtain r' rs2 where rs': "rs' = r' # rs2" "strip_caches r = strip_caches r'"
    "map strip_caches rs = map strip_caches rs2"
    by (cases rs') auto
  then have "scenes (car_asset r) = scenes (car_asset r')" by (metis strip_caches_fields(1))
  with rs' Cons.IH [OF rs'(3)] show ?case by (simp split: option.split sum.split prod.split)
qed

lemma pass_agrees:
  assumes "list_all2 world_consistent wts (am_assets m)"
  shows "map_option (\<lambda>(out, m', g'). (out, g')) (pbr_buffer_pass_render f bp cam (m, g))
           = ref_pass_render f bp cam m g
    \<and> (case pbr_buffer_pass_render f bp cam (m, g) of
         None \<Rightarrow> True
       | Some (out, m', g') \<Rightarrow> list_all2 world_consistent wts (am_assets m'))"
proof -
  let ?prog = "bp_program bp"
  let ?g1 = "bind_camera ?prog cam (context_clear (emit (UseProgram (program ?prog)) g))"
  show ?thesis
    using assets_refine [OF assms, of f ?prog ?g1]
    by (auto simp: pbr_buffer_pass_render_def ref_pass_render_def Let_def
             split: option.splits prod.splits)
qed

lemma pass_frame:
  "pbr_buffer_pass_render f bp cam (m, g) = Some (out, m', g') \<Longrightarrow>
     map strip_caches (am_assets m') = map strip_caches (am_assets m) \<and> log_ext g g'"
proof -
  let ?prog = "bp_program bp"
  let ?g1 = "bind_camera ?prog cam (context_clear (emit (UseProgram (program ?prog)) g))"
  assume a: "pbr_buffer_pass_render f bp cam (m, g) = Some (out, m', g')"
  then obtain rs where ra: "render_assets f ?prog (am_assets m) ?g1 = Some (out, rs, g')"
    and m': "m' = m\<lparr>am_assets := rs\<rparr>"
    by (auto simp: pbr_buffer_pass_render_def Let_def split: option.splits)
  have "log_ext g ?g1" by (simp add: context_clear_def log_ext_intros)
  with assets_frame [OF ra] m' show ?thesis by (auto intro: log_ext_trans)
qed

subsection \<open>Enough fuel\<close>

lemma find_node_strip_None:
  "strip_caches r = strip_caches r' \<Longrightarrow> (find_node r c = None) = (find_node r' c = None)"
  by (metis find_node_strip option.map_disc_iff)

lemma rank_ok_same_strip:
  "strip_caches r = strip_caches r' \<Longrightarrow> rank_ok rk r = rank_ok rk r'"
proof -
  have "rank_ok rk (strip_caches r) = rank_ok rk r" for r
  proof -
    have "map node_id (nodes (car_asset (strip_caches r))) = map node_id (nodes (car_asset r))"
      by (simp add: strip_caches_def)
    then show ?thesis
      by (simp add: rank_ok_def find_node_strip split: option.split)
  qed
  then show "strip_caches r = strip_caches r' \<Longrightarrow> rank_ok rk r = rank_ok rk r'" by metis
qed

lemma below_fuel_same_strip:
  "strip_caches r = strip_caches r' \<Longrightarrow> below_fuel rk f cs r = below_fuel rk f cs r'"
  unfolding below_fuel_def using find_node_strip_None by blast

lemma rank_ok_children:
  "rank_ok rk r \<Longrightarrow> find_node r k = Some n \<Longrightarrow> rk k \<le> f \<Longrightarrow> below_fuel rk f (child_ids n) r"
  using find_node_SomeD [of r k n] unfolding rank_ok_def below_fuel_def by fastforce

lemma walk_total:
  shows "rank_ok rk (fst s) \<Longrightarrow> find_node (fst s) (node_id n) = Some n \<Longrightarrow> rk (node_id n) < f \<Longrightarrow>
           render_node f prog p n s \<noteq> None"
    and "rank_ok rk (fst s) \<Longrightarrow> below_fuel rk f cs (fst s) \<Longrightarrow>
           render_children f prog w cs s \<noteq> None"
proof (induction f prog p n s and f prog w cs s rule: render_node_render_children.induct)
  case (1 prog p n s)
  then show ?case by simp
next
  case (2 f prog p n r g)
  obtain w r1 where nt: "node_transform n p r = (w, r1)" by fastforce
  have sr: "strip_caches r1 = strip_caches r" using strip_node_transform [of n p r] nt by simp
  obtain o1 g1 where dm: "draw_node_mesh prog r1 n w g = (o1, g1)" by fastforce
  show ?case
  proof (cases o1)
    case Inl
    then show ?thesis using nt dm by simp
  next
    case (Inr b)
    have "below_fuel rk f (child_ids n) r"
      using rank_ok_children [of rk r "node_id n" n f] "2.prems" by simp
    then have "render_children f prog w (child_ids n) (r1, g1) \<noteq> None"
      using "2.IH" [OF nt [symmetric] dm [symmetric] Inr] "2.prems"(1)
        rank_ok_same_strip [OF sr] below_fuel_same_strip [OF sr] by simp
    then show ?thesis using nt dm Inr by simp
  qed
next
  case (3 f prog w s)
  then show ?case by simp
next
  case (4 f prog w c cs r g)
  have cs: "below_fuel rk f cs r" using "4.prems"(2) by (simp add: below_fuel_def)
  show ?case
  proof (cases "find_node r c")
    case None
    then show ?thesis using "4.IH"(1) "4.prems"(1) cs by simp
  next
    case (Some ch)
    note fc = Some
    have "rk c < f" using "4.prems"(2) fc by (simp add: below_fuel_def)
    moreover have "node_id ch = c" using find_node_SomeD [OF fc] by simp
    ultimately have "render_node f prog w ch (r, g) \<noteq> None"
      using "4.IH"(2) [OF fc] "4.prems"(1) fc by simp
    then obtain o1 r1 g1 where rn: "render_node f prog w ch (r, g) = Some (o1, (r1, g1))" by auto
    have sr: "strip_caches r1 = strip_caches r" using walk_frame(1) [OF rn] by simp
    show ?thesis
    proof (cases o1)
      case Inl
      then show ?thesis using fc rn by simp
    next
      case (Inr b)
      then show ?thesis using "4.IH"(3) [OF fc rn refl Inr] fc rn "4.prems"(1)
          rank_ok_same_strip [OF sr] below_fuel_same_strip [OF sr] cs by simp
    qed
  qed
qed

subsection \<open>The pass returns\<close>

lemma scenes_total:
  "rank_ok rk r \<Longrightarrow> (\<forall>sc\<in>set scs. below_fuel rk f (node_indices sc) r) \<Longrightarrow>
   render_scenes f prog scs (r, g) \<noteq> None"
proof (induction scs arbitrary: r g)
  case Nil
  then show ?case by simp
next
  case (Cons sc scs)
  have "render_children f prog mat_identity (node_indices sc) (r, g) \<noteq> None"
    using walk_total(2) [of rk "(r, g)"] Cons.prems by simp
  then obtain o1 r1 g1 where rc: "render_children f prog mat_identity (node_indices sc) (r, g)
      = Some (o1, (r1, g1))" by auto
  have sr: "strip_caches r1 = strip_caches r" using walk_frame(2) [OF rc] by simp
  have "render_scenes f prog scs (r1, g1) \<noteq> None"
    using Cons.IH Cons.prems rank_ok_same_strip [OF sr] below_fuel_same_strip [OF sr] by simp
  then show ?case using rc by (cases o1) simp_all
qed

lemma assets_total:
  "list_all2 rank_ok rks rs \<Longrightarrow> \<forall>rk\<in>set rks. \<forall>k. rk k < f \<Longrightarrow> render_assets f prog rs g \<noteq> None"
proof (induction rs arbitrary: rks g)
  case Nil
  then show ?case by simp
next
  case (Cons r rs)
  obtain rk rks' where rks: "rks = rk # rks'" "rank_ok rk r" "list_all2 rank_ok rks' rs"
    using Cons.prems(1) by (cases rks) auto
  have "\<forall>sc\<in>set (scenes (car_asset r)). below_fuel rk f (node_indices sc) r"
    using Cons.prems(2) rks(1) by (simp add: below_fuel_def)
  then have "render_scenes f prog (scenes (car_asset r)) (r, g) \<noteq> None"
    using scenes_total rks(2) by blast
  then obtain o1 r1 g1 where sc: "render_scenes f prog (scenes (car_asset r)) (r, g) = Some (o1, (r1, g1))"
    by auto
  have "render_assets f prog rs g1 \<noteq> None" using Cons.IH [OF rks(3)] Cons.prems(2) rks(1) by simp
  then show ?case using sc by (cases o1) (auto split: option.split)
qed

lemma js_find_by_hole:
  "\<forall>d\<in>set ds. \<not> p d \<Longrightarrow> js_find_by p (map Some ds @ None # rest) = Inl TypeError"
  by (induction ds) simp_all

lemma tex_option_index:
  "ref_index r = Some i \<Longrightarrow>
   tex_option texs r nm = [\<lparr>attribute_location_name = nm, tbo_texture = js_get texs i\<rparr>]"
  by (simp add: tex_option_def)

subsection \<open>Scenarios\<close>

definition plain_node :: "nat \<Rightarrow> nat list option \<Rightarrow> nat option \<Rightarrow> vec3 \<Rightarrow> node" where
  "plain_node k cs mid t =
     \<lparr>node_id = k, children = cs, node_mesh_id = mid, rotation_matrix = mat_identity,
      scale_vector = (1, 1, 1), translation_vector = t, cached_world_transform = None\<rparr>"

definition scene_record :: "node list \<Rightarrow> nat list \<Rightarrow> complete_asset_record" where
  "scene_record ns roots =
     \<lparr>car_asset = \<lparr>images = [], materials = [],
        meshes = [\<lparr>primitives = [], mesh_name = ''m'', mesh_id = 0\<rparr>], nodes = ns,
        scenes = [\<lparr>scene_id = 0, scene_name = ''s'', node_indices = roots\<rparr>],
        asset_textures = [], default_scene_index = 0\<rparr>,
      car_textures = [],
      drawable_mesh_records = [Some \<lparr>dmr_id = 0, dmr_mesh = \<lparr>dm_primitives = []\<rparr>\<rparr>]\<rparr>"

definition tree_nodes :: "node list" where
  "tree_nodes = [plain_node 0 (Some [1]) None (1, 0, 0), plain_node 1 None (Some 0) (0, 1, 0)]"

definition shared_nodes :: "node list" where
  "shared_nodes = [plain_node 0 (Some [2]) None (1, 0, 0), plain_node 1 (Some [2]) None (2, 0, 0),
                   plain_node 2 None (Some 0) (0, 0, 0)]"

definition geometry_pass :: pbr_buffer_pass where
  "geometry_pass =
     \<lparr>bp_name = ''pbrBufferPass'',
      bp_program = \<lparr>program = 0, attribute_locations = Map.empty, uniform_locations = Map.empty\<rparr>\<rparr>"

text \<open>The camera of \<open>index.ts\<close>; the pass only uploads its two matrices.\<close>

definition frame_camera :: camera where
  "frame_camera = camera_new demo_camera_options"

definition textured_primitive :: drawable_primitive where
  "textured_primitive =
     \<lparr>dp_id = 0, dp_mode = 4,
      vertex_buffer = \<lparr>gb_buffer = 0, element_count = 9, number_of_components = 3\<rparr>,
      index_buffer = \<lparr>eb_buffer = 1, index_count = 3\<rparr>, normal_buffer = None,
      texture_coord_buffer = Some \<lparr>gb_buffer = 2, element_count = 6, number_of_components = 2\<rparr>,
      dp_material_id = 0\<rparr>"

definition base_textured_material :: material where
  "base_textured_material =
     \<lparr>mat_id = 0, mat_name = ''m'',
      metallic_roughness_options =
        \<lparr>base_color_factor = None,
         base_color_texture = Some \<lparr>tr_index = Some 0, tr_scale = None, tr_tex_coords = None\<rparr>,
         metallic_factor = None, metallic_roughness_texture = None, roughness_factor = None\<rparr>,
      normal_texture = \<lparr>tr_index = None, tr_scale = None, tr_tex_coords = None\<rparr>,
      emissive_factor = None\<rparr>"

lemmas scenario_simps = plain_node_def scene_record_def tree_nodes_def shared_nodes_def
  geometry_pass_def calculate_translation_only vec_add_def numeral_3_eq_3 numeral_2_eq_2

subsection \<open>Properties of the pass\<close>

text \<open>
  C1: On asset records that admit a consistent assignment of world transforms (each child
  found has the transform computed from its parent's, each scene root the one computed from
  the identity, each filled cache the assigned one), the geometry pass with its cache issues
  exactly the GL calls, with the same outcome, as the walk that recomputes every node's
  transform from the parent it is reached through.
\<close>

theorem pass_refines_uncached:
  "list_all2 world_consistent wts (am_assets m) \<Longrightarrow>
   map_option (\<lambda>(out, m', g'). (out, g')) (pbr_buffer_pass_render f bp cam (m, g))
     = ref_pass_render f bp cam m g"
  using pass_agrees by blast

theorem pass_refines_uncached_witness:
  "map_option (\<lambda>(out, m', g'). (out, g'))
     (pbr_buffer_pass_render 3 geometry_pass (frame_camera)
        (\<lparr>am_assets = [scene_record tree_nodes [0]]\<rparr>, gl_init))
   = ref_pass_render 3 geometry_pass (frame_camera)
       \<lparr>am_assets = [scene_record tree_nodes [0]]\<rparr> gl_init"
proof -
  let ?wt = "\<lambda>k::nat. if k = 0 then translation_matrix (1, 0, 0) else translation_matrix (1, 1, 0)"
  have "list_all2 world_consistent [?wt] (am_assets \<lparr>am_assets = [scene_record tree_nodes [0]]\<rparr>)"
    by (simp add: world_consistent_def structure_fits_def caches_fit_def children_fit_def
                  find_node_def child_ids_def scenario_simps)
  then show ?thesis by (rule pass_refines_uncached)
qed

text \<open>
  C2: When every record has a rank function that decreases from each node to each child the
  walk finds, and the fuel exceeds every rank, the geometry pass returns (normally or with an
  error) instead of recursing without end.
\<close>

theorem pass_terminates:
  assumes "list_all2 rank_ok rks (am_assets m)" and "\<forall>rk\<in>set rks. \<forall>k. rk k < f"
  shows "pbr_buffer_pass_render f bp cam (m, g) \<noteq> None"
  using assets_total [OF assms] by (simp add: pbr_buffer_pass_render_def Let_def split: option.split)

theorem pass_terminates_witness:
  "pbr_buffer_pass_render 2 geometry_pass (frame_camera)
     (\<lparr>am_assets = [scene_record shared_nodes [0, 1]]\<rparr>, gl_init) \<noteq> None"
proof -
  let ?rk = "\<lambda>k::nat. if k = 2 then 0 else 1::nat"
  have "list_all2 rank_ok [?rk] (am_assets \<lparr>am_assets = [scene_record shared_nodes [0, 1]]\<rparr>)"
    by (simp add: rank_ok_def find_node_def child_ids_def scenario_simps)
  moreover have "\<forall>rk\<in>set [?rk]. \<forall>k. rk k < (2::nat)" by simp
  ultimately show ?thesis by (rule pass_terminates)
qed

text \<open>
  C6: On consistent records, a frame after a completed one issues the same calls with the same
  outcome as a frame on the original records, from any GL state: the caches the first frame
  wrote change nothing that is drawn.
\<close>

theorem second_frame_repeats:
  assumes "list_all2 world_consistent wts (am_assets m)"
    and "pbr_buffer_pass_render f bp cam (m, g) = Some (out, m', g')"
  shows "map_option (\<lambda>(out, m'', g''). (out, g'')) (pbr_buffer_pass_render f bp cam (m', g0))
       = map_option (\<lambda>(out, m'', g''). (out, g'')) (pbr_buffer_pass_render f bp cam (m, g0))"
proof -
  have c': "list_all2 world_consistent wts (am_assets m')"
    using pass_agrees [OF assms(1), of f bp cam g] assms(2) by simp
  have "map strip_caches (am_assets m') = map strip_caches (am_assets m)"
    using pass_frame [OF assms(2)] by simp
  then have "ref_pass_render f bp cam m' g0 = ref_pass_render f bp cam m g0"
    unfolding ref_pass_render_def Let_def by (rule ref_assets_strip)
  then show ?thesis using pass_agrees [OF c', of f bp cam g0] pass_agrees [OF assms(1), of f bp cam g0]
    by simp
qed

theorem second_frame_repeats_witness:
  "\<exists>m' g'. pbr_buffer_pass_render 3 geometry_pass (frame_camera)
       (\<lparr>am_assets = [scene_record tree_nodes [0]]\<rparr>, gl_init) = Some (Inr (), m', g')
   \<and> map_option (\<lambda>(out, m'', g''). (out, g''))
       (pbr_buffer_pass_render 3 geometry_pass (frame_camera) (m', g'))
     = map_option (\<lambda>(out, m'', g''). (out, g''))
       (pbr_buffer_pass_render 3 geometry_pass (frame_camera)
          (\<lparr>am_assets = [scene_record tree_nodes [0]]\<rparr>, g'))"
proof -
  let ?m = "\<lparr>am_assets = [scene_record tree_nodes [0]]\<rparr>"
  let ?cam = "frame_camera"
  let ?wt = "\<lambda>k::nat. if k = 0 then translation_matrix (1, 0, 0) else translation_matrix (1, 1, 0)"
  have wc: "list_all2 world_consistent [?wt] (am_assets ?m)"
    by (simp add: world_consistent_def structure_fits_def caches_fit_def children_fit_def
                  find_node_def child_ids_def scenario_simps)
  have "\<exists>m' g'. pbr_buffer_pass_render 3 geometry_pass ?cam (?m, gl_init) = Some (Inr (), m', g')"
    by (simp add: pbr_buffer_pass_render_def Let_def node_transform_def draw_node_mesh_def
                  draw_mesh_def find_node_def child_ids_def set_node_cache_def scenario_simps)
  then obtain m' g' where run: "pbr_buffer_pass_render 3 geometry_pass ?cam (?m, gl_init)
      = Some (Inr (), m', g')" by blast
  show ?thesis by (intro exI conjI) (rule run, rule second_frame_repeats [OF wc run])
qed

text \<open>
  C10: A completed frame of the geometry pass creates no GL object and leaves the lost-context
  flag alone, only appending calls to the log; the asset records change only in their node
  caches.
\<close>

theorem frame_only_appends_calls:
  "pbr_buffer_pass_render f bp cam (m, g) = Some (out, m', g') \<Longrightarrow>
   (\<exists>cs. gl_log g' = gl_log g @ cs) \<and> next_handle g' = next_handle g
   \<and> context_lost g' = context_lost g
   \<and> map strip_caches (am_assets m') = map strip_caches (am_assets m)"
  using pass_frame [of f bp cam m g out m' g'] by (auto simp: log_ext_def)

theorem frame_only_appends_calls_witness:
  "\<exists>m' g'. pbr_buffer_pass_render 3 geometry_pass (frame_camera)
       (\<lparr>am_assets = [scene_record tree_nodes [0]]\<rparr>, gl_init) = Some (Inr (), m', g')
   \<and> next_handle g' = 0
   \<and> map strip_caches (am_assets m') = [strip_caches (scene_record tree_nodes [0])]"
proof -
  let ?m = "\<lparr>am_assets = [scene_record tree_nodes [0]]\<rparr>"
  let ?cam = "frame_camera"
  have "\<exists>m' g'. pbr_buffer_pass_render 3 geometry_pass ?cam (?m, gl_init) = Some (Inr (), m', g')"
    by (simp add: pbr_buffer_pass_render_def Let_def node_transform_def draw_node_mesh_def
                  draw_mesh_def find_node_def child_ids_def set_node_cache_def scenario_simps)
  then obtain m' g' where run: "pbr_buffer_pass_render 3 geometry_pass ?cam (?m, gl_init)
      = Some (Inr (), m', g')" by blast
  note fr = frame_only_appends_calls [OF run]
  have nh: "next_handle g' = next_handle gl_init" using fr by blast
  have ms: "map strip_caches (am_assets m') = map strip_caches (am_assets ?m)" using fr by blast
  show ?thesis
  proof (intro exI conjI)
    show "pbr_buffer_pass_render 3 geometry_pass ?cam (?m, gl_init) = Some (Inr (), m', g')" by (rule run)
    show "next_handle g' = 0" unfolding nh gl_init_def by (rule gl_state.select_convs(2))
    show "map strip_caches (am_assets m') = [strip_caches (scene_record tree_nodes [0])]"
      unfolding ms by (simp only: asset_manager.select_convs list.map)
  qed
qed

text \<open>
  C30: A mesh-less node listed among its own children, on a record whose mesh-record array has no
  holes, makes renderNode recurse without end: for every fuel the walk does not finish.
\<close>

theorem self_parent_never_returns:
  assumes "find_node r k = Some n" and "child_ids n = [k]" and "node_mesh_id n = None"
    and "None \<notin> set (drawable_mesh_records r)"
  shows "render_node f prog p n (r, g) = None"
  using assms
proof (induction f arbitrary: p n r)
  case 0
  then show ?case by simp
next
  case (Suc f)
  obtain w r1 where nt: "node_transform n p r = (w, r1)" by fastforce
  have sr: "strip_caches r1 = strip_caches r" using strip_node_transform [of n p r] nt by simp
  have recs: "drawable_mesh_records r1 = drawable_mesh_records r"
    by (metis sr strip_caches_fields(4))
  obtain ds where ds: "drawable_mesh_records r = map Some ds"
    using Suc.prems(4) ex_map_conv [of "drawable_mesh_records r" Some] by (metis not_None_eq)
  have "find (\<lambda>d. False) ds = None" by (induction ds) simp_all
  then have dm: "draw_node_mesh prog r1 n w g = (Inr (), g)"
    using recs ds Suc.prems(3) by (simp add: draw_node_mesh_def js_find_by_dense)
  have "find_node (strip_caches r1) k = Some (clear_cache n)"
    using sr find_node_strip [of r k] Suc.prems(1) by simp
  then obtain n1 where fn1: "find_node r1 k = Some n1" and cn: "clear_cache n1 = clear_cache n"
    using find_node_strip [of r1 k] by auto
  have "child_ids n1 = [k]" "node_mesh_id n1 = None"
    using cn Suc.prems(2,3) by (metis clear_cache_simps(2), metis clear_cache_simps(3))
  then have "render_node f prog w n1 (r1, g) = None" using Suc.IH fn1 Suc.prems(4) recs by simp
  then show ?case using nt dm fn1 Suc.prems(2) by simp
qed

theorem self_parent_never_returns_witness:
  "\<forall>f. render_node f (bp_program geometry_pass) mat_identity (plain_node 0 (Some [0]) None (0, 0, 0))
         (scene_record [plain_node 0 (Some [0]) None (0, 0, 0)] [0], gl_init) = None"
proof
  fix f
  show "render_node f (bp_program geometry_pass) mat_identity (plain_node 0 (Some [0]) None (0, 0, 0))
         (scene_record [plain_node 0 (Some [0]) None (0, 0, 0)] [0], gl_init) = None"
    by (rule self_parent_never_returns [of _ 0]) (simp_all add: find_node_def child_ids_def scenario_simps)
qed

text \<open>
  The shared-node scenario in full: node 2 is a child of nodes 0 and 1, translated by 1 and
  by 2; the pass draws it twice under the first parent's transform, the uncached walk under
  each parent's.
\<close>

lemma shared_node_scenario:
  "\<exists>m'. pbr_buffer_pass_render 3 geometry_pass cam (\<lparr>am_assets = [scene_record shared_nodes [0, 1]]\<rparr>, g)
      = Some (Inr (), m', g\<lparr>gl_log := gl_log g @
          [UseProgram 0, Clear, UniformMatrix4fv None (projection_matrix cam),
           UniformMatrix4fv None (view_matrix cam),
           UniformMatrix4fv None (translation_matrix (1, 0, 0)),
           UniformMatrix4fv None (translation_matrix (1, 0, 0))]\<rparr>)
   \<and> ref_pass_render 3 geometry_pass cam \<lparr>am_assets = [scene_record shared_nodes [0, 1]]\<rparr> g
      = Some (Inr (), g\<lparr>gl_log := gl_log g @
          [UseProgram 0, Clear, UniformMatrix4fv None (projection_matrix cam),
           UniformMatrix4fv None (view_matrix cam),
           UniformMatrix4fv None (translation_matrix (1, 0, 0)),
           UniformMatrix4fv None (translation_matrix (2, 0, 0))]\<rparr>)"
  by (simp add: pbr_buffer_pass_render_def ref_pass_render_def Let_def node_transform_def
                draw_node_mesh_def draw_mesh_def find_node_def child_ids_def set_node_cache_def
                bind_camera_def context_clear_def emit_def strip_caches_def clear_cache_def
                scenario_simps)

text \<open>
  C31: the world-transform cache is keyed by the node alone. When renderNode first reaches a
  node of the record without a cached transform, under a parent transform p, it draws it with
  its transform under p and caches that; when the walk reaches the same node again, looked
  up by id in the updated record, under any parent transform p', it draws it with the
  transform under p and leaves the record as it is. Outside trees the cache departs from the
  composition of the ancestor transforms along the path taken.
\<close>

theorem shared_node_keeps_first_parent:
  assumes "find_node r k = Some n" and "cached_world_transform n = None"
    and "node_transform n p r = (w, r1)"
  shows "w = calculate_node_world_transform n p
    \<and> (\<exists>n'. find_node r1 k = Some n' \<and> node_transform n' p' r1 = (w, r1))"
proof -
  have k: "node_id n = k" using find_node_id [OF assms(1)] .
  have w: "w = calculate_node_world_transform n p" and r1: "r1 = set_node_cache k w r"
    using assms(2,3) k by (auto simp: node_transform_def Let_def)
  have "find_node r1 k = Some (n\<lparr>cached_world_transform := Some w\<rparr>)"
    using assms(1) r1 by (simp add: find_node_set_cache)
  then show ?thesis using w by (simp add: node_transform_def)
qed

text \<open>
  C32: When the drawable-mesh-record array has a hole before any record matching the node's mesh
  id, renderNode throws a TypeError after filling the node's cache and before issuing any call,
  also for a node without a mesh.
\<close>

theorem mesh_record_hole_throws:
  assumes "drawable_mesh_records r = map Some ds @ None # rest"
    and "\<forall>d\<in>set ds. Some (dmr_id d) \<noteq> node_mesh_id n"
  shows "render_node (Suc f) prog p n (r, g) = Some (Inl TypeError, (snd (node_transform n p r), g))"
proof -
  obtain w r1 where nt: "node_transform n p r = (w, r1)" by fastforce
  have "drawable_mesh_records r1 = drawable_mesh_records r"
    using strip_node_transform [of n p r] nt by (metis snd_conv strip_caches_fields(4))
  then have "draw_node_mesh prog r1 n w g = (Inl TypeError, g)"
    using assms js_find_by_hole [of ds "\<lambda>d. Some (dmr_id d) = node_mesh_id n" rest]
    by (simp add: draw_node_mesh_def)
  then show ?thesis using nt by simp
qed

theorem mesh_record_hole_throws_witness:
  "\<exists>s. render_node 1 (bp_program geometry_pass) mat_identity (plain_node 0 None None (0, 0, 0))
        ((scene_record [plain_node 0 None None (0, 0, 0)] [0])
           \<lparr>drawable_mesh_records := [None, Some \<lparr>dmr_id = 1, dmr_mesh = \<lparr>dm_primitives = []\<rparr>\<rparr>]\<rparr>,
         gl_init) = Some (Inl TypeError, s)"
  using mesh_record_hole_throws [of _ "[]"] by (simp add: scenario_simps)

text \<open>
  C33: Drawing a primitive with texture coordinates whose material references, with a valid index,
  a texture slot that holds no texture throws a TypeError.
\<close>

theorem missing_texture_throws:
  assumes "texture_coord_buffer dp = Some tcb"
    and "tr \<in> {base_color_texture (metallic_roughness_options mat),
               metallic_roughness_texture (metallic_roughness_options mat), Some (normal_texture mat)}"
    and "ref_index tr = Some i" and "js_get texs i = None"
  shows "fst (draw_primitive prog dp (generate_texture_bind_options mat texs) g) = Inl TypeError"
proof -
  from assms(2) have "\<exists>nm. \<lparr>attribute_location_name = nm, tbo_texture = None\<rparr>
      \<in> set (generate_texture_bind_options mat texs)"
    by (elim insertE emptyE)
       (use assms(3,4) in \<open>auto simp: generate_texture_bind_options_def Let_def tex_option_index\<close>)
  then obtain nm where "\<lparr>attribute_location_name = nm, tbo_texture = None\<rparr>
      \<in> set (generate_texture_bind_options mat texs)" by blast
  then have "fst (bind_textures prog tcb (generate_texture_bind_options mat texs)
                (bind_vertices prog (vertex_buffer dp) (index_buffer dp) (normal_buffer dp) g))
             = Inl TypeError"
    using bind_textures_missing by fastforce
  then show ?thesis using assms(1)
    by (auto simp: draw_primitive_def ebind_def split: prod.split sum.split)
qed

theorem missing_texture_throws_witness:
  "fst (draw_primitive (bp_program geometry_pass) textured_primitive
          (generate_texture_bind_options base_textured_material []) gl_init) = Inl TypeError"
  by (rule missing_texture_throws
        [where tr = "base_color_texture (metallic_roughness_options base_textured_material)" and i = 0])
     (simp_all add: textured_primitive_def base_textured_material_def ref_index_def js_get_def)

theorem shared_node_keeps_first_parent_witness:
  "\<exists>n'. find_node (snd (node_transform (plain_node 2 None (Some 0) (0, 0, 0)) (translation_matrix (1, 0, 0))
                (scene_record shared_nodes [0, 1]))) 2 = Some n'
     \<and> fst (node_transform n' (translation_matrix (2, 0, 0))
          (snd (node_transform (plain_node 2 None (Some 0) (0, 0, 0)) (translation_matrix (1, 0, 0))
                  (scene_record shared_nodes [0, 1]))))
        = translation_matrix (1, 0, 0)"
proof -
  obtain w r1 where nt: "node_transform (plain_node 2 None (Some 0) (0, 0, 0)) (translation_matrix (1, 0, 0))
      (scene_record shared_nodes [0, 1]) = (w, r1)" by fastforce
  have f: "find_node (scene_record shared_nodes [0, 1]) 2 = Some (plain_node 2 None (Some 0) (0, 0, 0))"
    by (simp add: find_node_def scenario_simps)
  have c: "cached_world_transform (plain_node 2 None (Some 0) (0, 0, 0)) = None"
    by (simp add: plain_node_def)
  obtain n' where w: "w = calculate_node_world_transform (plain_node 2 None (Some 0) (0, 0, 0))
      (translation_matrix (1, 0, 0))" and n': "find_node r1 2 = Some n'"
    and again: "node_transform n' (translation_matrix (2, 0, 0)) r1 = (w, r1)"
    using shared_node_keeps_first_parent [OF f c nt, of "translation_matrix (2, 0, 0)"] by blast
  have "w = translation_matrix (1, 0, 0)" using w by (simp add: scenario_simps)
  then show ?thesis using nt n' again by simp
qed

end
