(* ===== verification/Passes.thy ===== *)
theory Passes
  imports RenderOps LightManager
begin

text \<open>
  The two screen-space passes: the PBR lighting pass (\<open>graphics/renderer/PbrLightingPass.ts\<close>),
  which draws the full-screen quad sampling the four geometry-buffer textures and lit by the
  first light, and the quad pass (\<open>graphics/renderer/drawQuadRenderPass.ts\<close>), which draws
  one texture on the quad. The lighting pass reads the eye position from
  \<open>camera.viewMatrix.invert()\<close>, and math.gl's \<open>invert\<close> overwrites the matrix it is
  called on: the pass's state is the camera as well as the GL state. Reading
  \<open>primitives[0]\<close> or \<open>lights[0]\<close> of an empty array gives \<open>undefined\<close>, and the
  property access on it throws a \<open>TypeError\<close>.
\<close>

record pbr_lighting_pass =
  lp_name :: string
  lp_program :: shader_program
  quad_model :: drawable_mesh

record draw_quad_pass =
  qp_name :: string
  qp_program :: shader_program
  qp_quad :: drawable_mesh

subsection \<open>The lighting pass\<close>

text \<open>\<open>PbrLightingPass.create\<close>: upload the quad.\<close>

definition pbr_lighting_pass_create ::
  "string \<Rightarrow> shader_program \<Rightarrow> (gl_state, pbr_lighting_pass) exc" where
  "pbr_lighting_pass_create name prog =
     ebind quad_primitive_create (\<lambda>q. ereturn \<lparr>lp_name = name, lp_program = prog, quad_model = q\<rparr>)"

text \<open>The four samplers, reading slots 0 to 3 of the geometry-buffer texture array.\<close>

definition gbuffer_bind_options :: "gl_texture list \<Rightarrow> texture_bind_options list" where
  "gbuffer_bind_options texs =
     map (\<lambda>(i, nm). \<lparr>attribute_location_name = nm, tbo_texture = js_get (map Some texs) i\<rparr>)
       (enumerate 0 [''uSamplerVertexPosition'', ''uSamplerDiffuseAlbedo'', ''uSamplerNormal'',
                     ''uSamplerOcclusionMetallicRoughness''])"

text \<open>The eye position: the translation column of the inverted view matrix.\<close>

definition eye_of :: "mat4 \<Rightarrow> vec3" where
  "eye_of m = (m ! 12, m ! 13, m ! 14)"

text \<open>\<open>PbrLightingPass.render\<close>.\<close>

definition pbr_lighting_pass_render ::
  "pbr_lighting_pass \<Rightarrow> gl_texture list \<Rightarrow> light_manager \<Rightarrow> (camera \<times> gl_state, unit) exc" where
  "pbr_lighting_pass_render lp texs lm =
     (\<lambda>(c, g).
        (let prog = lp_program lp;
             g1 = bind_camera prog c (context_clear (emit (UseProgram (program prog)) g)) in
         case dm_primitives (quad_model lp) of
           [] \<Rightarrow> (Inl TypeError, (c, g1))
         | p # _ \<Rightarrow>
             (let g2 = bind_vertices prog (vertex_buffer p) (index_buffer p) None g1;
                  v = mat_invert (view_matrix c);
                  c' = c\<lparr>view_matrix := v\<rparr>;
                  g3 = emit (Uniform3fv (uniform_locations prog ''uEyePosition'') (eye_of v)) g2 in
              case lm_lights lm of
                [] \<Rightarrow> (Inl TypeError, (c', g3))
              | l # _ \<Rightarrow>
                  (let g4 = emit (Uniform3fv (uniform_locations prog ''uLight.position'') (light_position l))
                              (emit (Uniform3fv (uniform_locations prog ''uLight.color'') (light_color l)) g3) in
                   case texture_coord_buffer p of
                     None \<Rightarrow> (Inr (), (c', draw (index_count (index_buffer p)) g4))
                   | Some tcb \<Rightarrow>
                       (case bind_textures prog tcb (gbuffer_bind_options texs) g4 of
                          (Inl e, g5) \<Rightarrow> (Inl e, (c', g5))
                        | (Inr _, g5) \<Rightarrow> (Inr (), (c', draw (index_count (index_buffer p)) g5)))))))"

subsection \<open>The quad pass\<close>

definition draw_quad_render_pass_create ::
  "string \<Rightarrow> shader_program \<Rightarrow> (gl_state, draw_quad_pass) exc" where
  "draw_quad_render_pass_create name prog =
     ebind quad_primitive_create (\<lambda>q. ereturn \<lparr>qp_name = name, qp_program = prog, qp_quad = q\<rparr>)"

text \<open>\<open>DrawQuadRenderPass.render\<close>: the texture goes to the sampler \<open>uSampler[0]\<close>.\<close>

definition draw_quad_render_pass_render :: "draw_quad_pass \<Rightarrow> gl_texture \<Rightarrow> (gl_state, unit) exc" where
  "draw_quad_render_pass_render qp tex g =
     (let prog = qp_program qp;
          g1 = context_clear (emit (UseProgram (program prog)) g) in
      case dm_primitives (qp_quad qp) of
        [] \<Rightarrow> (Inl TypeError, g1)
      | p # _ \<Rightarrow>
          (let g2 = bind_vertices prog (vertex_buffer p) (index_buffer p) None g1 in
           case texture_coord_buffer p of
             None \<Rightarrow> (Inr (), draw (index_count (index_buffer p)) g2)
           | Some tcb \<Rightarrow>
               (case bind_textures prog tcb [\<lparr>attribute_location_name = ''uSampler[0]'', tbo_texture = Some tex\<rparr>] g2 of
                  (Inl e, g3) \<Rightarrow> (Inl e, g3)
                | (Inr _, g3) \<Rightarrow> (Inr (), draw (index_count (index_buffer p)) g3))))"

subsection \<open>The uploaded quad\<close>

definition screen_quad :: "nat \<Rightarrow> drawable_mesh" where
  "screen_quad n =
     \<lparr>dm_primitives =
        [\<lparr>dp_id = 0, dp_mode = 4,
          vertex_buffer = \<lparr>gb_buffer = n + 1, element_count = 12, number_of_components = 3\<rparr>,
          index_buffer = \<lparr>eb_buffer = n + 2, index_count = 6\<rparr>, normal_buffer = None,
          texture_coord_buffer = Some \<lparr>gb_buffer = n, element_count = 8, number_of_components = 2\<rparr>,
          dp_material_id = 0\<rparr>]\<rparr>"

definition lighting_program :: shader_program where
  "lighting_program = \<lparr>program = 7, attribute_locations = Map.empty, uniform_locations = Map.empty\<rparr>"

definition demo_lighting_pass :: pbr_lighting_pass where
  "demo_lighting_pass = \<lparr>lp_name = ''lighting'', lp_program = lighting_program, quad_model = screen_quad 0\<rparr>"

text \<open>
  On a live context QuadPrimitive.create uploads the full-screen quad as one primitive:
  texture coordinates (8 values, 2 per vertex) in the first fresh buffer, positions (12
  values, 3 per vertex) in the next, and 6 indices in the third, with no normals.
\<close>

theorem quad_upload:
  "\<not> context_lost g \<Longrightarrow>
   fst (quad_primitive_create g) = Inr (screen_quad (next_handle g))
   \<and> next_handle (snd (quad_primitive_create g)) = next_handle g + 3"
  by (simp add: quad_primitive_create_def drawable_mesh_create_def drawable_primitive_create_def
                quad_primitive_def optional_buffer_def screen_quad_def quad_vertices_def
                quad_tex_coords_def quad_indices_def ebind_def)

theorem quad_upload_witness:
  "fst (quad_primitive_create gl_init) = Inr (screen_quad 0)
   \<and> next_handle (snd (quad_primitive_create gl_init)) = 3"
  using quad_upload [of gl_init] by (simp add: gl_init_def)

subsection \<open>Properties of the lighting pass\<close>

lemma log_ext_set: "log_ext g g' \<Longrightarrow> x \<in> set (gl_log g) \<Longrightarrow> x \<in> set (gl_log g')"
  by (auto simp: log_ext_def)

lemma gbuffer_bind_options_short:
  "length texs < 4 \<Longrightarrow>
   \<lparr>attribute_location_name = ''uSamplerOcclusionMetallicRoughness'', tbo_texture = None\<rparr>
     \<in> set (gbuffer_bind_options texs)"
  by (simp add: gbuffer_bind_options_def js_get_def)

lemma lighting_pass_log:
  "log_ext (bind_camera (lp_program lp) c (context_clear (emit (UseProgram (program (lp_program lp))) g)))
     (snd (snd (pbr_lighting_pass_render lp texs lm (c, g))))"
proof -
  let ?prog = "lp_program lp"
  have b: "bind_textures ?prog tcb ts g4 = (r, g5) \<Longrightarrow> \<forall>g0. log_ext g0 g4 \<longrightarrow> log_ext g0 g5"
    for g4 tcb ts r g5
    using log_ext_trans [OF _ keeps_step [OF log_keeps_bind_textures]] by blast
  show ?thesis
    by (auto simp: pbr_lighting_pass_render_def Let_def draw_def log_ext_intros
             dest!: b split: list.split option.split prod.split sum.split)
qed

lemma lighting_pass_camera:
  "dm_primitives (quad_model lp) \<noteq> [] \<Longrightarrow>
   fst (snd (pbr_lighting_pass_render lp texs lm (c, g))) = c\<lparr>view_matrix := mat_invert (view_matrix c)\<rparr>"
  by (auto simp: pbr_lighting_pass_render_def Let_def neq_Nil_conv
           split: list.split option.split prod.split sum.split)

lemma lighting_pass_Inr_primitives:
  "fst (pbr_lighting_pass_render lp texs lm (c, g)) = Inr () \<Longrightarrow> dm_primitives (quad_model lp) \<noteq> []"
  by (auto simp: pbr_lighting_pass_render_def Let_def)

text \<open>
  C18: The lighting pass uploads as eye position the translation column of the inverted view
  matrix, and leaves the camera holding that inverted matrix in place of its view matrix,
  whatever the outcome.
\<close>

theorem lighting_pass_inverts_view:
  assumes "dm_primitives (quad_model lp) = p # ps"
  shows "fst (snd (pbr_lighting_pass_render lp texs lm (c, g)))
           = c\<lparr>view_matrix := mat_invert (view_matrix c)\<rparr>
     \<and> Uniform3fv (uniform_locations (lp_program lp) ''uEyePosition'') (eye_of (mat_invert (view_matrix c)))
         \<in> set (gl_log (snd (snd (pbr_lighting_pass_render lp texs lm (c, g)))))"
proof -
  let ?prog = "lp_program lp"
  let ?eye = "Uniform3fv (uniform_locations ?prog ''uEyePosition'') (eye_of (mat_invert (view_matrix c)))"
  let ?g3 = "emit ?eye (bind_vertices ?prog (vertex_buffer p) (index_buffer p) None
               (bind_camera ?prog c (context_clear (emit (UseProgram (program ?prog)) g))))"
  have e3: "?eye \<in> set (gl_log ?g3)" by simp
  show ?thesis
  proof (cases "lm_lights lm")
    case Nil
    then show ?thesis using assms e3 by (simp add: pbr_lighting_pass_render_def Let_def)
  next
    case (Cons l ls)
    let ?g4 = "emit (Uniform3fv (uniform_locations ?prog ''uLight.position'') (light_position l))
                 (emit (Uniform3fv (uniform_locations ?prog ''uLight.color'') (light_color l)) ?g3)"
    have e4: "?eye \<in> set (gl_log ?g4)" by simp
    show ?thesis
    proof (cases "texture_coord_buffer p")
      case None
      then show ?thesis using assms Cons e4 by (simp add: pbr_lighting_pass_render_def Let_def draw_def)
    next
      case (Some tcb)
      obtain r5 g5 where b: "bind_textures ?prog tcb (gbuffer_bind_options texs) ?g4 = (r5, g5)"
        by fastforce
      have "?eye \<in> set (gl_log g5)"
        using log_ext_set [OF keeps_step [OF log_keeps_bind_textures b] e4] .
      then show ?thesis using assms Cons Some b
        by (cases r5) (simp_all add: pbr_lighting_pass_render_def Let_def draw_def)
    qed
  qed
qed

text \<open>
  With no light in the light manager, the lighting pass throws a TypeError (reading
  lights[0]) before drawing.
\<close>

theorem lighting_pass_without_light_throws:
  assumes "dm_primitives (quad_model lp) \<noteq> []" and "lm_lights lm = []"
  shows "fst (pbr_lighting_pass_render lp texs lm (c, g)) = Inl TypeError"
  using assms by (auto simp: pbr_lighting_pass_render_def Let_def neq_Nil_conv)

text \<open>
  With fewer than four geometry-buffer textures, the lighting pass throws a TypeError while
  binding the samplers, before drawing.
\<close>

theorem lighting_pass_short_gbuffer_throws:
  assumes "dm_primitives (quad_model lp) = p # ps" and "texture_coord_buffer p = Some tcb"
    and "lm_lights lm \<noteq> []" and "length texs < 4"
  shows "fst (pbr_lighting_pass_render lp texs lm (c, g)) = Inl TypeError"
proof -
  obtain l ls where l: "lm_lights lm = l # ls" using assms(3) by (cases "lm_lights lm") auto
  have "fst (bind_textures (lp_program lp) tcb (gbuffer_bind_options texs) g4) = Inl TypeError" for g4
    by (rule bind_textures_missing [OF gbuffer_bind_options_short [OF assms(4)]]) simp
  then have h: "bind_textures (lp_program lp) tcb (gbuffer_bind_options texs) g4 = (x, y) \<Longrightarrow>
      x = Inl TypeError" for g4 x y
    by (metis fst_conv)
  show ?thesis using assms(1,2) l
    by (auto simp: pbr_lighting_pass_render_def Let_def dest: h split: prod.split sum.split)
qed

text \<open>
  C21: The lighting pass starts by selecting its program, clearing, and uploading the scene
  camera's own projection and view matrices, before the view matrix is inverted.
\<close>

theorem lighting_pass_uploads_scene_camera:
  "\<exists>cs. gl_log (snd (snd (pbr_lighting_pass_render lp texs lm (c, g)))) = gl_log g @
     [UseProgram (program (lp_program lp)), Clear,
      UniformMatrix4fv (uniform_locations (lp_program lp) ''uProjectionMatrix'') (projection_matrix c),
      UniformMatrix4fv (uniform_locations (lp_program lp) ''uViewMatrix'') (view_matrix c)] @ cs"
  using lighting_pass_log [of lp c g texs lm]
  by (auto simp: log_ext_def bind_camera_def context_clear_def)

theorem lighting_pass_inverts_view_witness:
  "fst (snd (pbr_lighting_pass_render demo_lighting_pass [] light_manager_new
        (setup_camera demo_camera_options, gl_init)))
     = (setup_camera demo_camera_options)\<lparr>view_matrix := mat_invert (view_matrix (setup_camera demo_camera_options))\<rparr>
   \<and> Uniform3fv None (0, 0, 5)
       \<in> set (gl_log (snd (snd (pbr_lighting_pass_render demo_lighting_pass [] light_manager_new
             (setup_camera demo_camera_options, gl_init)))))"
proof -
  have v: "view_matrix (setup_camera demo_camera_options) = translation_matrix (0, 0, -5)"
    by (simp add: setup_camera_def demo_camera_options_def camera_look_at_def set_position_def
                  get_position_def camera_new_def mat_set_translation_def translation_matrix_def
                  mat_translation_def
                  mat_identity_def look_at_def Let_def vec_sub_def vec_len_def
                  vec_scale_def vec_cross_def vec_unit_or_zero_def vec_dot_def sqrt_25)
  have "eye_of (mat_invert (view_matrix (setup_camera demo_camera_options))) = (0, 0, 5)"
    unfolding v mat_invert_translation by (simp add: vec_scale_def eye_of_def translation_matrix_def)
  with lighting_pass_inverts_view [of demo_lighting_pass _ _ "[]" light_manager_new
          "setup_camera demo_camera_options" gl_init]
  show ?thesis by (simp add: demo_lighting_pass_def screen_quad_def lighting_program_def)
qed

theorem lighting_pass_without_light_throws_witness:
  "fst (pbr_lighting_pass_render demo_lighting_pass [] light_manager_new
     (setup_camera demo_camera_options, gl_init)) = Inl TypeError"
  by (rule lighting_pass_without_light_throws)
     (simp_all add: demo_lighting_pass_def screen_quad_def light_manager_new_def)

theorem lighting_pass_short_gbuffer_throws_witness:
  "fst (pbr_lighting_pass_render demo_lighting_pass
          [\<lparr>texture_handle = 1\<rparr>, \<lparr>texture_handle = 2\<rparr>, \<lparr>texture_handle = 3\<rparr>]
          (add_point_light demo_light light_manager_new)
     (setup_camera demo_camera_options, gl_init)) = Inl TypeError"
  by (rule lighting_pass_short_gbuffer_throws
        [where tcb = "\<lparr>gb_buffer = 0, element_count = 8, number_of_components = 2\<rparr>"])
     (simp add: demo_lighting_pass_def screen_quad_def light_manager_new_def add_point_light_def)+

end
