(* ===== verification/Framebuffer.thy ===== *)
theory Framebuffer
  imports Program
begin

text \<open>
  The off-screen framebuffer of the deferred renderer (\<open>graphics/framebuffer.ts\<close>): one
  empty RGBA16F texture per colour attachment, a draw-buffer list naming them, a 16-bit
  depth renderbuffer, and the completeness check. Attachment points are recorded by their
  offset from \<open>COLOR_ATTACHMENT0\<close>. \<open>getExtension\<close> has no effect on the modelled state.
\<close>

record fb_attachment_options =
  att_index :: nat
  att_width :: nat
  att_height :: nat

record framebuffer_options =
  fb_width :: nat
  fb_height :: nat
  fb_attachments :: "fb_attachment_options list"

record fb_attachment =
  attachment :: nat
  att_texture :: gl_texture

record framebuffer =
  backing_framebuffer :: nat
  fb_attachment_list :: "fb_attachment list"
  fb_w :: nat
  fb_h :: nat

text \<open>\<open>gl.FRAMEBUFFER_COMPLETE\<close>.\<close>

definition FRAMEBUFFER_COMPLETE :: nat where
  "FRAMEBUFFER_COMPLETE = 36053"

text \<open>\<open>createAttachment\<close>: an empty texture attached at its colour attachment point.\<close>

definition create_attachment :: "fb_attachment_options \<Rightarrow> (gl_state, fb_attachment) exc" where
  "create_attachment ao =
     ebind (texture_create_empty (att_width ao) (att_height ao)) (\<lambda>t g.
       (Inr \<lparr>attachment = att_index ao, att_texture = t\<rparr>,
        emit (FramebufferTexture2D (att_index ao) (texture_handle t)) g))"

text \<open>
  \<open>createDepthRenderbuffer\<close>: the result of \<open>createRenderbuffer\<close> is used unchecked, so
  a \<open>null\<close> renderbuffer is bound and attached.
\<close>

definition create_depth_renderbuffer :: "nat \<Rightarrow> nat \<Rightarrow> gl_state \<Rightarrow> gl_state" where
  "create_depth_renderbuffer w h g =
     (case gl_create ObjRenderbuffer g of
        (rb, g1) \<Rightarrow>
          emit (FramebufferRenderbuffer rb) (emit (RenderbufferStorage w h) (emit (BindRenderbuffer rb) g1)))"

text \<open>
  \<open>Framebuffer.create\<close>. The status check throws with the framebuffer still bound; only
  a complete framebuffer is unbound together with the renderbuffer and texture targets.
\<close>

definition framebuffer_create ::
  "gl_driver \<Rightarrow> framebuffer_options \<Rightarrow> (gl_state, framebuffer) exc" where
  "framebuffer_create drv opts g =
     (case gl_create ObjFramebuffer g of
        (None, g1) \<Rightarrow> (Inl (ErrCreate ObjFramebuffer), g1)
      | (Some fb, g1) \<Rightarrow>
          (case e_map create_attachment (fb_attachments opts) (emit (BindFramebuffer (Some fb)) g1) of
             (Inl e, g2) \<Rightarrow> (Inl e, g2)
           | (Inr atts, g2) \<Rightarrow>
               (let g3 = create_depth_renderbuffer (fb_width opts) (fb_height opts)
                           (emit (DrawBuffers (map attachment atts)) g2);
                    st = framebuffer_status drv (gl_log g3) in
                if st \<noteq> FRAMEBUFFER_COMPLETE then (Inl (ErrIncompleteFramebuffer st), g3)
                else (Inr \<lparr>backing_framebuffer = fb, fb_attachment_list = atts,
                           fb_w = fb_width opts, fb_h = fb_height opts\<rparr>,
                      emit (BindTexture None) (emit (BindRenderbuffer None)
                        (emit (BindFramebuffer None) g3))))))"

text \<open>The framebuffer bound after a sequence of calls: the argument of the last \<open>bindFramebuffer\<close>.\<close>

definition bound_framebuffer :: "gl_cmd list \<Rightarrow> nat option" where
  "bound_framebuffer cs = foldl (\<lambda>b c. case c of BindFramebuffer x \<Rightarrow> x | _ \<Rightarrow> b) None cs"

definition binds_no_framebuffer :: "gl_cmd list \<Rightarrow> bool" where
  "binds_no_framebuffer cs \<longleftrightarrow> (\<forall>c\<in>set cs. \<forall>x. c \<noteq> BindFramebuffer x)"

subsection \<open>Creation on a live context\<close>

lemma bound_framebuffer_append:
  "binds_no_framebuffer ds \<Longrightarrow> bound_framebuffer (cs @ ds) = bound_framebuffer cs"
proof -
  have "binds_no_framebuffer ds \<Longrightarrow>
      foldl (\<lambda>b c. case c of BindFramebuffer x \<Rightarrow> x | _ \<Rightarrow> b) b0 ds = b0" for b0
    by (induction ds arbitrary: b0) (auto simp: binds_no_framebuffer_def split: gl_cmd.split)
  then show "binds_no_framebuffer ds \<Longrightarrow> bound_framebuffer (cs @ ds) = bound_framebuffer cs"
    by (simp add: bound_framebuffer_def)
qed

lemma bound_framebuffer_bind [simp]:
  "bound_framebuffer (cs @ [BindFramebuffer x]) = x"
  by (simp add: bound_framebuffer_def)

lemma binds_no_framebuffer_simps [simp]:
  "binds_no_framebuffer []"
  "binds_no_framebuffer (c # cs) \<longleftrightarrow> (\<forall>x. c \<noteq> BindFramebuffer x) \<and> binds_no_framebuffer cs"
  "binds_no_framebuffer (cs @ ds) \<longleftrightarrow> binds_no_framebuffer cs \<and> binds_no_framebuffer ds"
  by (auto simp: binds_no_framebuffer_def)

lemma create_attachment_live:
  "\<not> context_lost g \<Longrightarrow>
   \<exists>g'. create_attachment ao g = (Inr \<lparr>attachment = att_index ao,
           att_texture = \<lparr>texture_handle = next_handle g\<rparr>\<rparr>, g')
     \<and> \<not> context_lost g' \<and> next_handle g' = Suc (next_handle g)
     \<and> (\<exists>cs. gl_log g' = gl_log g @ cs \<and> binds_no_framebuffer cs)"
  by (simp add: create_attachment_def texture_create_empty_def ebind_def)

text \<open>Each attachment gets a fresh texture, named in order.\<close>

lemma attachments_live:
  "\<not> context_lost g \<Longrightarrow>
   \<exists>g'. e_map create_attachment os g =
         (Inr (map2 (\<lambda>h ao. \<lparr>attachment = att_index ao, att_texture = \<lparr>texture_handle = h\<rparr>\<rparr>)
                 [next_handle g..<next_handle g + length os] os), g')
     \<and> \<not> context_lost g' \<and> next_handle g' = next_handle g + length os
     \<and> (\<exists>cs. gl_log g' = gl_log g @ cs \<and> binds_no_framebuffer cs)"
proof (induction os arbitrary: g)
  case Nil
  then show ?case by simp
next
  case (Cons ao os)
  obtain g1 where a: "create_attachment ao g = (Inr \<lparr>attachment = att_index ao,
       att_texture = \<lparr>texture_handle = next_handle g\<rparr>\<rparr>, g1)"
    and l1: "\<not> context_lost g1" "next_handle g1 = Suc (next_handle g)"
    and c1: "\<exists>cs. gl_log g1 = gl_log g @ cs \<and> binds_no_framebuffer cs"
    using create_attachment_live [OF Cons.prems] by blast
  obtain g2 where r: "e_map create_attachment os g1 =
       (Inr (map2 (\<lambda>h ao. \<lparr>attachment = att_index ao, att_texture = \<lparr>texture_handle = h\<rparr>\<rparr>)
          [next_handle g1..<next_handle g1 + length os] os), g2)"
    and l2: "\<not> context_lost g2" "next_handle g2 = next_handle g1 + length os"
    and c2: "\<exists>cs. gl_log g2 = gl_log g1 @ cs \<and> binds_no_framebuffer cs"
    using Cons.IH [OF l1(1)] by blast
  have u: "[next_handle g..<next_handle g + length (ao # os)]
         = next_handle g # [next_handle g1..<next_handle g1 + length os]"
    using l1(2) upt_conv_Cons [of "next_handle g" "Suc (next_handle g) + length os"]
    by (simp del: upt_Suc)
  show ?case using a r l2 l1 c1 c2 u by (fastforce simp: ebind_def)
qed

lemma gl_keeps_create_attachment [gl_mono_intros]: "keeps gl_mono (create_attachment ao)"
  unfolding create_attachment_def
  by (intro gl_keeps_ebind gl_keeps_texture_create_empty keepsI) (simp add: gl_mono_intros)

lemma gl_mono_create_depth_renderbuffer [gl_mono_intros]:
  "gl_mono g g' \<Longrightarrow> gl_mono g (create_depth_renderbuffer w h g')"
  by (auto simp: create_depth_renderbuffer_def intro!: gl_mono_emits
           intro: gl_mono_trans gl_mono_create split: prod.split)

lemma gl_keeps_framebuffer_create [gl_mono_intros]: "keeps gl_mono (framebuffer_create drv opts)"
proof (rule keepsI)
  fix g
  show "gl_mono g (snd (framebuffer_create drv opts g))"
  proof (cases "context_lost g")
    case True
    then show ?thesis by (simp add: framebuffer_create_def gl_mono_refl)
  next
    case False
    let ?g1 = "emit (BindFramebuffer (Some (next_handle g)))
                 (g\<lparr>gl_log := gl_log g @ [CreateObject ObjFramebuffer (next_handle g)],
                    next_handle := Suc (next_handle g)\<rparr>)"
    have m1: "gl_mono g ?g1" by (simp add: gl_mono_def)
    have m2: "gl_mono ?g1 (snd (e_map create_attachment (fb_attachments opts) ?g1))"
      by (rule keepsD) (simp add: gl_mono_intros)
    show ?thesis using False gl_mono_trans [OF m1 m2]
      by (auto simp: framebuffer_create_def Let_def split: prod.split sum.split
               intro!: gl_mono_emits gl_mono_create_depth_renderbuffer)
  qed
qed

lemma bound_framebuffer_last:
  "binds_no_framebuffer ds \<Longrightarrow> bound_framebuffer (cs @ BindFramebuffer x # ds) = x"
  using bound_framebuffer_append [of ds "cs @ [BindFramebuffer x]"] by simp

lemma framebuffer_create_live:
  assumes "\<not> context_lost g"
  obtains g3 where
    "framebuffer_create drv opts g =
       (if framebuffer_status drv (gl_log g3) \<noteq> FRAMEBUFFER_COMPLETE
        then (Inl (ErrIncompleteFramebuffer (framebuffer_status drv (gl_log g3))), g3)
        else (Inr \<lparr>backing_framebuffer = next_handle g,
                   fb_attachment_list =
                     map2 (\<lambda>h ao. \<lparr>attachment = att_index ao, att_texture = \<lparr>texture_handle = h\<rparr>\<rparr>)
                       [Suc (next_handle g)..<Suc (next_handle g) + length (fb_attachments opts)]
                       (fb_attachments opts),
                   fb_w = fb_width opts, fb_h = fb_height opts\<rparr>,
              emit (BindTexture None) (emit (BindRenderbuffer None) (emit (BindFramebuffer None) g3))))"
    "bound_framebuffer (gl_log g3) = Some (next_handle g)"
    "next_handle g3 = next_handle g + length (fb_attachments opts) + 2"
proof -
  let ?n = "next_handle g"
  let ?os = "fb_attachments opts"
  let ?g1 = "emit (BindFramebuffer (Some ?n))
               (g\<lparr>gl_log := gl_log g @ [CreateObject ObjFramebuffer ?n], next_handle := Suc ?n\<rparr>)"
  let ?atts = "map2 (\<lambda>h ao. \<lparr>attachment = att_index ao, att_texture = \<lparr>texture_handle = h\<rparr>\<rparr>)
                 [Suc ?n..<Suc ?n + length ?os] ?os"
  have l1: "\<not> context_lost ?g1" using assms by simp
  obtain g2 cs where em: "e_map create_attachment ?os ?g1 = (Inr ?atts, g2)"
    and l2: "\<not> context_lost g2" "next_handle g2 = Suc ?n + length ?os"
    and c2: "gl_log g2 = gl_log ?g1 @ cs" "binds_no_framebuffer cs"
    using attachments_live [OF l1, of ?os] by auto
  let ?g3 = "create_depth_renderbuffer (fb_width opts) (fb_height opts)
               (emit (DrawBuffers (map attachment ?atts)) g2)"
  have log3: "gl_log ?g3 = (gl_log g @ [CreateObject ObjFramebuffer ?n]) @ BindFramebuffer (Some ?n)
      # (cs @ [DrawBuffers (map attachment ?atts), CreateObject ObjRenderbuffer (next_handle g2),
              BindRenderbuffer (Some (next_handle g2)), RenderbufferStorage (fb_width opts) (fb_height opts),
              FramebufferRenderbuffer (Some (next_handle g2))])"
    using l2(1) c2(1) by (simp add: create_depth_renderbuffer_def)
  have b3: "bound_framebuffer (gl_log ?g3) = Some ?n"
    unfolding log3 by (rule bound_framebuffer_last) (simp add: c2(2))
  have n3: "next_handle ?g3 = ?n + length ?os + 2"
    using l2 by (simp add: create_depth_renderbuffer_def)
  have "framebuffer_create drv opts g =
       (if framebuffer_status drv (gl_log ?g3) \<noteq> FRAMEBUFFER_COMPLETE
        then (Inl (ErrIncompleteFramebuffer (framebuffer_status drv (gl_log ?g3))), ?g3)
        else (Inr \<lparr>backing_framebuffer = ?n, fb_attachment_list = ?atts,
                   fb_w = fb_width opts, fb_h = fb_height opts\<rparr>,
              emit (BindTexture None) (emit (BindRenderbuffer None) (emit (BindFramebuffer None) ?g3))))"
    using assms em by (simp add: framebuffer_create_def Let_def)
  with b3 n3 show ?thesis using that by blast
qed

subsection \<open>Properties\<close>

text \<open>A driver that compiles, links and completes everything.\<close>

definition complete_driver :: gl_driver where
  "complete_driver =
     \<lparr>compiles = \<lambda>_ _. True, links = \<lambda>_ _. True, validates = \<lambda>_ _. True,
      attrib_location = \<lambda>_ _ _. 0, uniform_active = \<lambda>_ _ _. True,
      framebuffer_status = \<lambda>_. FRAMEBUFFER_COMPLETE\<rparr>"

definition gbuffer_options :: framebuffer_options where
  "gbuffer_options =
     \<lparr>fb_width = 4, fb_height = 4,
      fb_attachments = map (\<lambda>i. \<lparr>att_index = i, att_width = 4, att_height = 4\<rparr>) [0, 1, 2, 3]\<rparr>"

text \<open>On a live context whose driver reports the framebuffer complete, Framebuffer.create
  returns a framebuffer named by the first fresh name, with one attachment per option in
  order, each holding the next fresh texture; it allocates the framebuffer, one texture per
  attachment and the depth renderbuffer, and leaves no framebuffer bound.
\<close>

theorem framebuffer_create_complete:
  assumes "\<not> context_lost g" and "\<forall>cs. framebuffer_status drv cs = FRAMEBUFFER_COMPLETE"
  shows "\<exists>g'. framebuffer_create drv opts g =
           (Inr \<lparr>backing_framebuffer = next_handle g,
                 fb_attachment_list =
                   map2 (\<lambda>h ao. \<lparr>attachment = att_index ao, att_texture = \<lparr>texture_handle = h\<rparr>\<rparr>)
                     [Suc (next_handle g)..<Suc (next_handle g) + length (fb_attachments opts)]
                     (fb_attachments opts),
                 fb_w = fb_width opts, fb_h = fb_height opts\<rparr>, g')
         \<and> next_handle g' = next_handle g + length (fb_attachments opts) + 2
         \<and> bound_framebuffer (gl_log g') = None"
proof -
  obtain g3 where fc: "framebuffer_create drv opts g =
       (if framebuffer_status drv (gl_log g3) \<noteq> FRAMEBUFFER_COMPLETE
        then (Inl (ErrIncompleteFramebuffer (framebuffer_status drv (gl_log g3))), g3)
        else (Inr \<lparr>backing_framebuffer = next_handle g,
                   fb_attachment_list =
                     map2 (\<lambda>h ao. \<lparr>attachment = att_index ao, att_texture = \<lparr>texture_handle = h\<rparr>\<rparr>)
                       [Suc (next_handle g)..<Suc (next_handle g) + length (fb_attachments opts)]
                       (fb_attachments opts),
                   fb_w = fb_width opts, fb_h = fb_height opts\<rparr>,
              emit (BindTexture None) (emit (BindRenderbuffer None) (emit (BindFramebuffer None) g3))))"
    and n3: "next_handle g3 = next_handle g + length (fb_attachments opts) + 2"
    by (rule framebuffer_create_live [OF assms(1)])
  have "bound_framebuffer (gl_log g3 @ [BindFramebuffer None, BindRenderbuffer None, BindTexture None]) = None"
    using bound_framebuffer_last [of "[BindRenderbuffer None, BindTexture None]" "gl_log g3" None] by simp
  then show ?thesis using fc n3 assms(2) by simp
qed

theorem framebuffer_create_complete_witness:
  "\<exists>g'. framebuffer_create complete_driver gbuffer_options (gl_init\<lparr>next_handle := 10\<rparr>) =
       (Inr \<lparr>backing_framebuffer = 10,
             fb_attachment_list = map (\<lambda>i. \<lparr>attachment = i, att_texture = \<lparr>texture_handle = 11 + i\<rparr>\<rparr>) [0, 1, 2, 3],
             fb_w = 4, fb_h = 4\<rparr>, g')
     \<and> next_handle g' = 16 \<and> bound_framebuffer (gl_log g') = None"
  using framebuffer_create_complete [of "gl_init\<lparr>next_handle := 10\<rparr>" complete_driver gbuffer_options]
  by (simp add: gl_init_def complete_driver_def gbuffer_options_def upt_rec)

text \<open>
  C20: When the driver reports any status other than FRAMEBUFFER_COMPLETE, Framebuffer.create
  throws with that status after allocating all its objects, and leaves the new framebuffer
  bound.
\<close>

theorem framebuffer_incomplete_stays_bound:
  assumes "\<not> context_lost g" and "\<forall>cs. framebuffer_status drv cs = st"
    and "st \<noteq> FRAMEBUFFER_COMPLETE"
  shows "\<exists>g'. framebuffer_create drv opts g = (Inl (ErrIncompleteFramebuffer st), g')
         \<and> bound_framebuffer (gl_log g') = Some (next_handle g)
         \<and> next_handle g' = next_handle g + length (fb_attachments opts) + 2"
proof -
  obtain g3 where fc: "framebuffer_create drv opts g =
       (if framebuffer_status drv (gl_log g3) \<noteq> FRAMEBUFFER_COMPLETE
        then (Inl (ErrIncompleteFramebuffer (framebuffer_status drv (gl_log g3))), g3)
        else (Inr \<lparr>backing_framebuffer = next_handle g,
                   fb_attachment_list =
                     map2 (\<lambda>h ao. \<lparr>attachment = att_index ao, att_texture = \<lparr>texture_handle = h\<rparr>\<rparr>)
                       [Suc (next_handle g)..<Suc (next_handle g) + length (fb_attachments opts)]
                       (fb_attachments opts),
                   fb_w = fb_width opts, fb_h = fb_height opts\<rparr>,
              emit (BindTexture None) (emit (BindRenderbuffer None) (emit (BindFramebuffer None) g3))))"
    and b3: "bound_framebuffer (gl_log g3) = Some (next_handle g)"
    and n3: "next_handle g3 = next_handle g + length (fb_attachments opts) + 2"
    by (rule framebuffer_create_live [OF assms(1)])
  show ?thesis using fc b3 n3 assms(2,3) by simp
qed

theorem framebuffer_incomplete_stays_bound_witness:
  "\<exists>g'. framebuffer_create (complete_driver\<lparr>framebuffer_status := \<lambda>_. 36054\<rparr>) gbuffer_options
         (gl_init\<lparr>next_handle := 10\<rparr>)
       = (Inl (ErrIncompleteFramebuffer 36054), g')
     \<and> bound_framebuffer (gl_log g') = Some 10 \<and> next_handle g' = 16"
  using framebuffer_incomplete_stays_bound
          [of "gl_init\<lparr>next_handle := 10\<rparr>" "complete_driver\<lparr>framebuffer_status := \<lambda>_. 36054\<rparr>"
              36054 gbuffer_options]
  by (simp add: gl_init_def gbuffer_options_def FRAMEBUFFER_COMPLETE_def)

end
