(* ===== verification/Pipeline.thy ===== *)
theory Pipeline
  imports BufferPass Passes Framebuffer
begin

text \<open>
  The render pipeline (\<open>graphics/renderer/pipeline.ts\<close>) and the file fetch it loads shader
  sources with (\<open>io/File.ts\<close>). Creation builds the framebuffer, enables depth testing,
  and looks up each of the three pass types in the stage list, loading the first stage of
  that type (its two shader files, then its program, then the pass). A frame binds the
  framebuffer, runs the geometry pass into it, unbinds it, and runs the lighting pass over
  the attachment textures. The served files are a map from URL to text: a URL the server
  does not answer with success makes \<open>readFileAsync\<close> throw. The \<open>await\<close>s run one after
  the other, so creation is a sequential computation on the GL state.
\<close>

datatype render_pass_type = DrawQuadRenderPass | PbrBufferGenerationPass | PbrLightingPass

record shader_program_config =
  vertex_shader_path :: string
  fragment_shader_path :: string
  cfg_attributes :: "string list"
  cfg_uniforms :: "string list"

record stage_config =
  stage_name :: string
  pass_type :: render_pass_type
  stage_program :: shader_program_config

record pipeline_options =
  pipeline_framebuffer :: framebuffer_options
  stages :: "stage_config list"

datatype render_pass = RpQuad draw_quad_pass | RpBuffer pbr_buffer_pass | RpLighting pbr_lighting_pass

record render_pipeline =
  quad_pass :: "draw_quad_pass option"
  buffer_pass :: "pbr_buffer_pass option"
  lighting_pass :: "pbr_lighting_pass option"
  pipeline_fb :: framebuffer

text \<open>\<open>readFileAsync\<close>.\<close>

definition read_file :: "(string \<rightharpoonup> string) \<Rightarrow> string \<Rightarrow> string result" where
  "read_file files url = (case files url of None \<Rightarrow> Inl (ErrFetch url) | Some s \<Rightarrow> Inr s)"

text \<open>\<open>RenderPipeline.createShaderProgram\<close>: fetch both sources, then build the program.\<close>

definition create_shader_program ::
  "gl_driver \<Rightarrow> (string \<rightharpoonup> string) \<Rightarrow> shader_program_config \<Rightarrow> (gl_state, shader_program) exc" where
  "create_shader_program drv files cfg g =
     (case read_file files (vertex_shader_path cfg) of
        Inl e \<Rightarrow> (Inl e, g)
      | Inr vs \<Rightarrow>
          (case read_file files (fragment_shader_path cfg) of
             Inl e \<Rightarrow> (Inl e, g)
           | Inr fs \<Rightarrow>
               shader_program_create drv
                 \<lparr>vertex_shader_source = vs, fragment_shader_source = fs,
                  po_attributes = cfg_attributes cfg, po_uniforms = cfg_uniforms cfg\<rparr> g))"

text \<open>
  \<open>loadRenderPass\<close>: the switch over the three pass types; its \<open>default\<close> branch cannot be
  reached from \<open>locateRenderPass\<close>, which only passes stages of a known type.
\<close>

definition load_render_pass ::
  "gl_driver \<Rightarrow> (string \<rightharpoonup> string) \<Rightarrow> stage_config \<Rightarrow> (gl_state, render_pass) exc" where
  "load_render_pass drv files cfg =
     ebind (create_shader_program drv files (stage_program cfg)) (\<lambda>prog.
       (case pass_type cfg of
          DrawQuadRenderPass \<Rightarrow>
            ebind (draw_quad_render_pass_create (stage_name cfg) prog) (\<lambda>q. ereturn (RpQuad q))
        | PbrBufferGenerationPass \<Rightarrow>
            ereturn (RpBuffer \<lparr>bp_name = stage_name cfg, bp_program = prog\<rparr>)
        | PbrLightingPass \<Rightarrow>
            ebind (pbr_lighting_pass_create (stage_name cfg) prog) (\<lambda>l. ereturn (RpLighting l))))"

text \<open>\<open>locateRenderPass\<close>: the first stage of the type, or \<open>null\<close>.\<close>

definition locate_render_pass ::
  "gl_driver \<Rightarrow> (string \<rightharpoonup> string) \<Rightarrow> stage_config list \<Rightarrow> render_pass_type \<Rightarrow>
   (gl_state, render_pass option) exc" where
  "locate_render_pass drv files sts ty =
     (case find (\<lambda>s. pass_type s = ty) sts of
        None \<Rightarrow> ereturn None
      | Some cfg \<Rightarrow> ebind (load_render_pass drv files cfg) (\<lambda>rp. ereturn (Some rp)))"

text \<open>The unchecked casts \<open><DrawQuadRenderPass>\<close>, \<open><PbrBufferPass>\<close>, \<open><PbrLightingPass>\<close>.\<close>

fun as_quad :: "render_pass option \<Rightarrow> draw_quad_pass option" where
  "as_quad (Some (RpQuad q)) = Some q"
| "as_quad _ = None"

fun as_buffer :: "render_pass option \<Rightarrow> pbr_buffer_pass option" where
  "as_buffer (Some (RpBuffer b)) = Some b"
| "as_buffer _ = None"

fun as_lighting :: "render_pass option \<Rightarrow> pbr_lighting_pass option" where
  "as_lighting (Some (RpLighting l)) = Some l"
| "as_lighting _ = None"

text \<open>\<open>RenderPipeline.create\<close>.\<close>

definition render_pipeline_create ::
  "gl_driver \<Rightarrow> (string \<rightharpoonup> string) \<Rightarrow> pipeline_options \<Rightarrow> (gl_state, render_pipeline) exc" where
  "render_pipeline_create drv files opts =
     ebind (framebuffer_create drv (pipeline_framebuffer opts)) (\<lambda>fb g.
       ebind (locate_render_pass drv files (stages opts) DrawQuadRenderPass) (\<lambda>q.
       ebind (locate_render_pass drv files (stages opts) PbrBufferGenerationPass) (\<lambda>b.
       ebind (locate_render_pass drv files (stages opts) PbrLightingPass) (\<lambda>l.
         ereturn \<lparr>quad_pass = as_quad q, buffer_pass = as_buffer b, lighting_pass = as_lighting l,
                  pipeline_fb = fb\<rparr>)))
       (emit DepthFunc_LEQUAL (emit Enable_DEPTH_TEST g)))"

text \<open>
  The state a frame renders: the camera (whose view matrix the lighting pass overwrites),
  the asset manager (whose node caches the geometry pass fills), the lights, and the GL.
\<close>

record render_state =
  rs_camera :: camera
  rs_assets :: asset_manager
  rs_lights :: light_manager
  rs_gl :: gl_state

text \<open>
  \<open>RenderPipeline.render\<close>, with the geometry pass's fuel: \<open>None\<close> when its walk is
  deeper than the fuel.
\<close>

definition render_pipeline_render ::
  "nat \<Rightarrow> render_pipeline \<Rightarrow> render_state \<Rightarrow> ((error + unit) \<times> render_state) option" where
  "render_pipeline_render f rp st =
     (let g1 = emit (BindFramebuffer (Some (backing_framebuffer (pipeline_fb rp)))) (rs_gl st);
          geo = (case buffer_pass rp of
                   None \<Rightarrow> Some (Inr (), rs_assets st, g1)
                 | Some bp \<Rightarrow> pbr_buffer_pass_render f bp (rs_camera st) (rs_assets st, g1)) in
      case geo of
        None \<Rightarrow> None
      | Some (Inl e, am, g2) \<Rightarrow> Some (Inl e, st\<lparr>rs_assets := am, rs_gl := g2\<rparr>)
      | Some (Inr _, am, g2) \<Rightarrow>
          (let g3 = emit (BindFramebuffer None) g2;
               texs = map att_texture (fb_attachment_list (pipeline_fb rp)) in
           case lighting_pass rp of
             None \<Rightarrow> Some (Inr (), st\<lparr>rs_assets := am, rs_gl := g3\<rparr>)
           | Some lp \<Rightarrow>
               (case pbr_lighting_pass_render lp texs (rs_lights st) (rs_camera st, g3) of
                  (out, (c', g4)) \<Rightarrow> Some (out, st\<lparr>rs_camera := c', rs_assets := am, rs_gl := g4\<rparr>))))"

subsection \<open>Creation\<close>

lemma read_file_simps [simp]:
  "files u = None \<Longrightarrow> read_file files u = Inl (ErrFetch u)"
  "files u = Some s \<Longrightarrow> read_file files u = Inr s"
  by (simp_all add: read_file_def)

lemma locate_render_pass_absent:
  assumes "\<forall>s\<in>set sts. pass_type s \<noteq> ty"
  shows "locate_render_pass drv files sts ty = ereturn None"
proof -
  from assms have "find (\<lambda>s. pass_type s = ty) sts = None" by (auto simp: find_None_iff)
  then show ?thesis by (simp add: locate_render_pass_def)
qed

lemma locate_render_pass_single:
  "locate_render_pass drv files [s] (pass_type s)
     = ebind (load_render_pass drv files s) (\<lambda>rp. ereturn (Some rp))"
  by (simp add: locate_render_pass_def)

lemma shader_program_create_ok:
  assumes "\<not> context_lost g"
    and "compiles drv VERTEX_SHADER (vertex_shader_source opts)"
    and "compiles drv FRAGMENT_SHADER (fragment_shader_source opts)"
    and "links drv (vertex_shader_source opts) (fragment_shader_source opts)"
    and "validates drv (vertex_shader_source opts) (fragment_shader_source opts)"
  shows "\<exists>g'. shader_program_create drv opts g =
     (Inr \<lparr>program = next_handle g + 2,
           attribute_locations = find_attribute_locations drv (vertex_shader_source opts)
             (fragment_shader_source opts) (po_attributes opts),
           uniform_locations = find_uniform_locations drv (vertex_shader_source opts)
             (fragment_shader_source opts) (next_handle g + 2) (po_uniforms opts)\<rparr>, g')
     \<and> \<not> context_lost g'"
  using assms by (simp add: shader_program_create_def shader_create_def ebind_def Let_def)

subsection \<open>Scenarios\<close>

text \<open>A configuration with one geometry stage and a framebuffer without colour attachments.\<close>

definition geometry_stage :: stage_config where
  "geometry_stage =
     \<lparr>stage_name = ''geometry'', pass_type = PbrBufferGenerationPass,
      stage_program = \<lparr>vertex_shader_path = ''geo.vert'', fragment_shader_path = ''geo.frag'',
                       cfg_attributes = [], cfg_uniforms = []\<rparr>\<rparr>"

definition bare_framebuffer_options :: framebuffer_options where
  "bare_framebuffer_options = \<lparr>fb_width = 1, fb_height = 1, fb_attachments = []\<rparr>"

definition geometry_only_options :: pipeline_options where
  "geometry_only_options = \<lparr>pipeline_framebuffer = bare_framebuffer_options, stages = [geometry_stage]\<rparr>"

definition served_files :: "string \<rightharpoonup> string" where
  "served_files = [''geo.vert'' \<mapsto> ''v'', ''geo.frag'' \<mapsto> ''f'']"

text \<open>A pipeline with both passes over a four-attachment framebuffer, and a scene-less frame.\<close>

definition gbuffer_framebuffer :: framebuffer where
  "gbuffer_framebuffer =
     \<lparr>backing_framebuffer = 10,
      fb_attachment_list = map (\<lambda>i. \<lparr>attachment = i, att_texture = \<lparr>texture_handle = 11 + i\<rparr>\<rparr>) [0, 1, 2, 3],
      fb_w = 4, fb_h = 4\<rparr>"

definition full_pipeline :: render_pipeline where
  "full_pipeline =
     \<lparr>quad_pass = None, buffer_pass = Some geometry_pass, lighting_pass = Some demo_lighting_pass,
      pipeline_fb = gbuffer_framebuffer\<rparr>"

definition lit_state :: "asset_manager \<Rightarrow> render_state" where
  "lit_state am =
     \<lparr>rs_camera = frame_camera, rs_assets = am,
      rs_lights = add_point_light demo_light light_manager_new, rs_gl = gl_init\<rparr>"

lemma bare_framebuffer_created:
  "\<exists>g1. framebuffer_create complete_driver bare_framebuffer_options gl_init
     = (Inr \<lparr>backing_framebuffer = 0, fb_attachment_list = [], fb_w = 1, fb_h = 1\<rparr>, g1)"
  by (simp add: framebuffer_create_def gl_init_def bare_framebuffer_options_def complete_driver_def
                create_depth_renderbuffer_def Let_def)

text \<open>
  A pipeline configured with a single geometry stage whose two shader files are served
  and whose program compiles, links and validates is created with that geometry pass and no
  quad or lighting pass, once its framebuffer is created on a live context.
\<close>

theorem geometry_only_pipeline_creates:
  assumes st: "stages opts = [s]" and ty: "pass_type s = PbrBufferGenerationPass"
    and vs: "files (vertex_shader_path (stage_program s)) = Some vs"
    and fs: "files (fragment_shader_path (stage_program s)) = Some fs"
    and drv: "compiles drv VERTEX_SHADER vs" "compiles drv FRAGMENT_SHADER fs"
      "links drv vs fs" "validates drv vs fs"
    and fb: "framebuffer_create drv (pipeline_framebuffer opts) g = (Inr fb, g1)"
    and live: "\<not> context_lost g"
  shows "\<exists>prog g'. render_pipeline_create drv files opts g =
     (Inr \<lparr>quad_pass = None, buffer_pass = Some \<lparr>bp_name = stage_name s, bp_program = prog\<rparr>,
           lighting_pass = None, pipeline_fb = fb\<rparr>, g')"
proof -
  let ?g2 = "emit DepthFunc_LEQUAL (emit Enable_DEPTH_TEST g1)"
  let ?po = "\<lparr>vertex_shader_source = vs, fragment_shader_source = fs,
              po_attributes = cfg_attributes (stage_program s), po_uniforms = cfg_uniforms (stage_program s)\<rparr>"
  have "\<not> context_lost ?g2"
    using keeps_step [OF gl_keeps_framebuffer_create fb] live by (simp add: gl_mono_def)
  then obtain prog g3 where sp: "shader_program_create drv ?po ?g2 = (Inr prog, g3)"
    using shader_program_create_ok [of ?g2 drv ?po] drv by auto
  have ld: "load_render_pass drv files s ?g2
      = (Inr (RpBuffer \<lparr>bp_name = stage_name s, bp_program = prog\<rparr>), g3)"
    by (simp add: load_render_pass_def create_shader_program_def ebind_def vs fs sp ty)
  have q: "locate_render_pass drv files [s] DrawQuadRenderPass = ereturn None"
    and l: "locate_render_pass drv files [s] PbrLightingPass = ereturn None"
    by (rule locate_render_pass_absent, simp add: ty)+
  have b: "locate_render_pass drv files [s] PbrBufferGenerationPass
      = ebind (load_render_pass drv files s) (\<lambda>rp. ereturn (Some rp))"
    using locate_render_pass_single [of drv files s] ty by simp
  show ?thesis
    by (simp add: render_pipeline_create_def ebind_def st fb q l b ld)
qed

text \<open>
  When the vertex shader file of the only configured stage is not served, creating the
  pipeline fails with the fetch error for that file, whatever the stage's pass type.
\<close>

theorem missing_shader_source_fails_create:
  assumes st: "stages opts = [s]" and vs: "files (vertex_shader_path (stage_program s)) = None"
    and fb: "framebuffer_create drv (pipeline_framebuffer opts) g = (Inr fb, g1)"
  shows "fst (render_pipeline_create drv files opts g)
           = Inl (ErrFetch (vertex_shader_path (stage_program s)))"
proof -
  have ld: "load_render_pass drv files s g' = (Inl (ErrFetch (vertex_shader_path (stage_program s))), g')"
    for g'
    by (simp add: load_render_pass_def create_shader_program_def ebind_def vs)
  have own: "locate_render_pass drv files [s] (pass_type s) g'
      = (Inl (ErrFetch (vertex_shader_path (stage_program s))), g')" for g'
    by (simp add: locate_render_pass_single ebind_def ld)
  have other: "ty \<noteq> pass_type s \<Longrightarrow> locate_render_pass drv files [s] ty = ereturn None" for ty
    by (rule locate_render_pass_absent) auto
  show ?thesis
  proof (cases "pass_type s")
    case DrawQuadRenderPass
    then show ?thesis using own by (simp add: render_pipeline_create_def ebind_def st fb)
  next
    case PbrBufferGenerationPass
    then show ?thesis using own other [of DrawQuadRenderPass]
      by (simp add: render_pipeline_create_def ebind_def st fb)
  next
    case PbrLightingPass
    then show ?thesis using own other [of DrawQuadRenderPass] other [of PbrBufferGenerationPass]
      by (simp add: render_pipeline_create_def ebind_def st fb)
  qed
qed

subsection \<open>A frame\<close>

lemma buffer_pass_log:
  assumes "pbr_buffer_pass_render f bp cam (m, g) = Some (out, m', g')"
  shows "log_ext (emit (UseProgram (program (bp_program bp))) g) g'"
proof -
  let ?prog = "bp_program bp"
  let ?g1 = "bind_camera ?prog cam (context_clear (emit (UseProgram (program ?prog)) g))"
  from assms obtain rs where ra: "render_assets f ?prog (am_assets m) ?g1 = Some (out, rs, g')"
    by (auto simp: pbr_buffer_pass_render_def Let_def split: option.splits)
  have "log_ext (emit (UseProgram (program ?prog)) g) ?g1"
    by (simp add: context_clear_def log_ext_intros)
  with assets_frame [OF ra] show ?thesis by (auto intro: log_ext_trans)
qed

lemma bound_framebuffer_unbind [simp]: "bound_framebuffer (cs @ [BindFramebuffer None]) = None"
  using bound_framebuffer_last [of "[]" cs None] by simp

text \<open>
  C7: A pipeline without a lighting pass renders a frame to completion whenever its geometry
  pass has enough fuel for the records' node graphs: the frame returns, leaves the camera
  and the lights as they were, and a frame that succeeds leaves no framebuffer bound.
\<close>

theorem geometry_only_frame_completes:
  assumes nl: "lighting_pass rp = None"
    and rk: "list_all2 rank_ok rks (am_assets (rs_assets st))" "\<forall>rk\<in>set rks. \<forall>k. rk k < f"
  shows "\<exists>out st'. render_pipeline_render f rp st = Some (out, st')
     \<and> rs_camera st' = rs_camera st \<and> rs_lights st' = rs_lights st
     \<and> (out = Inr () \<longrightarrow> bound_framebuffer (gl_log (rs_gl st')) = None)"
proof (cases "buffer_pass rp")
  case None
  then show ?thesis using nl by (simp add: render_pipeline_render_def bound_framebuffer_def)
next
  case (Some bp)
  let ?g1 = "emit (BindFramebuffer (Some (backing_framebuffer (pipeline_fb rp)))) (rs_gl st)"
  let ?prog = "bp_program bp"
  have "render_assets f ?prog (am_assets (rs_assets st))
          (bind_camera ?prog (rs_camera st) (context_clear (emit (UseProgram (program ?prog)) ?g1))) \<noteq> None"
    by (rule assets_total [OF rk])
  then obtain out am g2 where pr: "pbr_buffer_pass_render f bp (rs_camera st) (rs_assets st, ?g1)
      = Some (out, am, g2)"
    by (auto simp: pbr_buffer_pass_render_def Let_def split: option.splits)
  show ?thesis using Some nl pr by (cases out) (simp_all add: render_pipeline_render_def)
qed

text \<open>
  C3: A successful frame of a pipeline with both passes issues, in this order: the binding of
  the pipeline's framebuffer, the geometry program and its calls, the unbinding of the
  framebuffer, the lighting program and its calls; and it leaves the camera holding the
  inverse of its view matrix, which the lighting pass wrote over the shared camera.
\<close>

theorem frame_runs_geometry_then_lighting:
  assumes bp: "buffer_pass rp = Some bp" and lp: "lighting_pass rp = Some lp"
    and r: "render_pipeline_render f rp st = Some (Inr (), st')"
  shows "\<exists>cs1 cs2. gl_log (rs_gl st') = gl_log (rs_gl st)
            @ BindFramebuffer (Some (backing_framebuffer (pipeline_fb rp)))
            # UseProgram (program (bp_program bp)) # cs1
            @ BindFramebuffer None # UseProgram (program (lp_program lp)) # cs2
     \<and> rs_camera st' = (rs_camera st)\<lparr>view_matrix := mat_invert (view_matrix (rs_camera st))\<rparr>"
proof -
  let ?g1 = "emit (BindFramebuffer (Some (backing_framebuffer (pipeline_fb rp)))) (rs_gl st)"
  let ?texs = "map att_texture (fb_attachment_list (pipeline_fb rp))"
  obtain out am g2 where pr: "pbr_buffer_pass_render f bp (rs_camera st) (rs_assets st, ?g1)
      = Some (out, am, g2)"
    using r bp by (auto simp: render_pipeline_render_def Let_def split: option.splits)
  let ?g3 = "emit (BindFramebuffer None) g2"
  obtain out' c' g4 where lr: "pbr_lighting_pass_render lp ?texs (rs_lights st) (rs_camera st, ?g3)
      = (out', c', g4)"
    by (cases "pbr_lighting_pass_render lp ?texs (rs_lights st) (rs_camera st, ?g3)") auto
  have o: "out = Inr ()" using r bp pr by (cases out) (simp_all add: render_pipeline_render_def)
  then have st': "st' = st\<lparr>rs_camera := c', rs_assets := am, rs_gl := g4\<rparr>" and o': "out' = Inr ()"
    using r bp lp pr lr by (simp_all add: render_pipeline_render_def)
  obtain cs1 where c1: "gl_log g2 = gl_log ?g1 @ UseProgram (program (bp_program bp)) # cs1"
    using buffer_pass_log [OF pr] by (auto simp: log_ext_def)
  obtain cs2 where c2: "gl_log g4 = gl_log ?g3 @ UseProgram (program (lp_program lp)) # cs2"
    using lighting_pass_log [of lp "rs_camera st" ?g3 ?texs "rs_lights st"] lr
    by (auto simp: log_ext_def bind_camera_def context_clear_def)
  have "c' = (rs_camera st)\<lparr>view_matrix := mat_invert (view_matrix (rs_camera st))\<rparr>"
    using lighting_pass_camera [OF lighting_pass_Inr_primitives] lr o' by (metis fst_conv snd_conv)
  with c1 c2 st' show ?thesis by (intro exI [of _ cs1] exI [of _ cs2]) simp
qed

subsection \<open>Witnesses\<close>

theorem geometry_only_pipeline_creates_witness:
  "\<exists>prog g'. render_pipeline_create complete_driver served_files geometry_only_options gl_init =
     (Inr \<lparr>quad_pass = None, buffer_pass = Some \<lparr>bp_name = ''geometry'', bp_program = prog\<rparr>,
           lighting_pass = None,
           pipeline_fb = \<lparr>backing_framebuffer = 0, fb_attachment_list = [], fb_w = 1, fb_h = 1\<rparr>\<rparr>, g')"
proof -
  obtain g1 where fb: "framebuffer_create complete_driver bare_framebuffer_options gl_init
     = (Inr \<lparr>backing_framebuffer = 0, fb_attachment_list = [], fb_w = 1, fb_h = 1\<rparr>, g1)"
    using bare_framebuffer_created by blast
  have "\<exists>prog g'. render_pipeline_create complete_driver served_files geometry_only_options gl_init =
     (Inr \<lparr>quad_pass = None, buffer_pass = Some \<lparr>bp_name = stage_name geometry_stage, bp_program = prog\<rparr>,
           lighting_pass = None,
           pipeline_fb = \<lparr>backing_framebuffer = 0, fb_attachment_list = [], fb_w = 1, fb_h = 1\<rparr>\<rparr>, g')"
  proof (rule geometry_only_pipeline_creates [where vs = "''v''" and fs = "''f''"])
    show "framebuffer_create complete_driver (pipeline_framebuffer geometry_only_options) gl_init
        = (Inr \<lparr>backing_framebuffer = 0, fb_attachment_list = [], fb_w = 1, fb_h = 1\<rparr>, g1)"
      by (simp add: geometry_only_options_def fb)
  qed (simp_all add: geometry_only_options_def geometry_stage_def served_files_def
                     complete_driver_def gl_init_def)
  then show ?thesis by (simp add: geometry_stage_def)
qed

theorem missing_shader_source_fails_create_witness:
  "fst (render_pipeline_create complete_driver Map.empty geometry_only_options gl_init)
     = Inl (ErrFetch ''geo.vert'')"
proof -
  obtain g1 where fb: "framebuffer_create complete_driver bare_framebuffer_options gl_init
     = (Inr \<lparr>backing_framebuffer = 0, fb_attachment_list = [], fb_w = 1, fb_h = 1\<rparr>, g1)"
    using bare_framebuffer_created by blast
  have "fst (render_pipeline_create complete_driver Map.empty geometry_only_options gl_init)
     = Inl (ErrFetch (vertex_shader_path (stage_program geometry_stage)))"
    by (rule missing_shader_source_fails_create)
       (simp_all add: geometry_only_options_def geometry_stage_def fb [unfolded geometry_only_options_def])
  then show ?thesis by (simp add: geometry_stage_def)
qed

theorem geometry_only_frame_completes_witness:
  "\<exists>out st'. render_pipeline_render 2
       \<lparr>quad_pass = None, buffer_pass = Some geometry_pass, lighting_pass = None,
        pipeline_fb = gbuffer_framebuffer\<rparr>
       (lit_state \<lparr>am_assets = [scene_record shared_nodes [0, 1]]\<rparr>) = Some (out, st')
     \<and> rs_camera st' = frame_camera"
proof -
  let ?rk = "\<lambda>k::nat. if k = 2 then 0 else 1::nat"
  have r1: "list_all2 rank_ok [?rk] (am_assets (rs_assets (lit_state \<lparr>am_assets = [scene_record shared_nodes [0, 1]]\<rparr>)))"
    by (simp add: lit_state_def rank_ok_def find_node_def child_ids_def scenario_simps)
  have r2: "\<forall>rk\<in>set [?rk]. \<forall>k. rk k < (2::nat)" by simp
  have nl: "lighting_pass \<lparr>quad_pass = None, buffer_pass = Some geometry_pass, lighting_pass = None,
        pipeline_fb = gbuffer_framebuffer\<rparr> = None" by simp
  obtain out st' where r: "render_pipeline_render 2
       \<lparr>quad_pass = None, buffer_pass = Some geometry_pass, lighting_pass = None,
        pipeline_fb = gbuffer_framebuffer\<rparr>
       (lit_state \<lparr>am_assets = [scene_record shared_nodes [0, 1]]\<rparr>) = Some (out, st')"
    and cam: "rs_camera st' = rs_camera (lit_state \<lparr>am_assets = [scene_record shared_nodes [0, 1]]\<rparr>)"
    using geometry_only_frame_completes [OF nl r1 r2] by blast
  have c: "rs_camera (lit_state \<lparr>am_assets = [scene_record shared_nodes [0, 1]]\<rparr>) = frame_camera"
    by (simp add: lit_state_def)
  show ?thesis by (intro exI [of _ out] exI [of _ st'] conjI) (simp_all only: r cam c)
qed

theorem frame_runs_geometry_then_lighting_witness:
  "\<exists>st'. render_pipeline_render 1 full_pipeline (lit_state \<lparr>am_assets = []\<rparr>) = Some (Inr (), st')
     \<and> (\<exists>cs1 cs2. gl_log (rs_gl st') =
           BindFramebuffer (Some 10) # UseProgram 0 # cs1 @ BindFramebuffer None # UseProgram 7 # cs2)
     \<and> rs_camera st' = frame_camera\<lparr>view_matrix := mat_invert (view_matrix frame_camera)\<rparr>"
proof -
  obtain st' where r: "render_pipeline_render 1 full_pipeline (lit_state \<lparr>am_assets = []\<rparr>) = Some (Inr (), st')"
    by (simp add: render_pipeline_render_def full_pipeline_def lit_state_def pbr_buffer_pass_render_def
                  pbr_lighting_pass_render_def demo_lighting_pass_def screen_quad_def
                  gbuffer_framebuffer_def bind_textures_def gbuffer_bind_options_def js_get_def
                  add_point_light_def light_manager_new_def lighting_program_def geometry_pass_def
                  bind_texture_def Let_def)
  have bp: "buffer_pass full_pipeline = Some geometry_pass"
    and lp: "lighting_pass full_pipeline = Some demo_lighting_pass"
    by (simp_all add: full_pipeline_def)
  have e: "backing_framebuffer (pipeline_fb full_pipeline) = 10" "program (bp_program geometry_pass) = 0"
    "program (lp_program demo_lighting_pass) = 7" "gl_log (rs_gl (lit_state \<lparr>am_assets = []\<rparr>)) = []"
    "rs_camera (lit_state \<lparr>am_assets = []\<rparr>) = frame_camera"
    by (simp_all add: full_pipeline_def gbuffer_framebuffer_def geometry_pass_def demo_lighting_pass_def
                      lighting_program_def lit_state_def gl_init_def)
  have f: "\<exists>cs1 cs2. gl_log (rs_gl st') =
           BindFramebuffer (Some 10) # UseProgram 0 # cs1 @ BindFramebuffer None # UseProgram 7 # cs2"
    "rs_camera st' = frame_camera\<lparr>view_matrix := mat_invert (view_matrix frame_camera)\<rparr>"
    using frame_runs_geometry_then_lighting [OF bp lp r] unfolding e by simp_all
  show ?thesis by (intro exI [of _ st'] conjI) (simp_all only: r f)
qed

end
