(* ===== verification/Game.thy ===== *)
theory Game
  imports Pipeline
begin

text \<open>
  The frame driver (\<open>game.ts\<close>) and the keyboard (\<open>input/keyboard.ts\<close>). The game holds
  the render state, the key-state dictionary, the time of the last frame and the yaw and
  pitch it feeds to the camera. A frame renders through the pipeline, then updates the
  camera from the keys and the lights, and asks for the next animation frame; a render that
  throws ends the frame before the request, so no further frame runs. The browser's events
  (key down, key up, animation frame) are a datatype and the program a step function on
  them; \<open>running\<close> records whether an animation-frame callback is pending. A run is a
  sequence of events, and the states a run reaches are an inductive set.
\<close>

subsection \<open>Keyboard\<close>

type_synonym key_state = "string \<rightharpoonup> bool"

text \<open>\<open>isKeyDown\<close>: \<open>this._keyState[key] == true\<close>.\<close>

definition is_key_down :: "key_state \<Rightarrow> string \<Rightarrow> bool" where
  "is_key_down ks k \<longleftrightarrow> ks k = Some True"

subsection \<open>The game\<close>

record game =
  last_frame_time :: real
  game_yaw :: real
  game_pitch :: real
  keys :: key_state
  rstate :: render_state
  running :: bool

text \<open>The constructor; the keyboard starts with an empty dictionary.\<close>

definition game_new :: "render_state \<Rightarrow> game" where
  "game_new rs =
     \<lparr>last_frame_time = 0, game_yaw = 0, game_pitch = 0, keys = Map.empty, rstate = rs,
      running = True\<rparr>"

text \<open>
  \<open>updateCamera\<close>: \<open>w\<close>/\<open>s\<close> move along z and \<open>a\<close>/\<open>d\<close> along x by 0.05; \<open>q\<close>/\<open>e\<close>
  change the yaw by \<open>5 * (0.025 * deltaTime)\<close>, which \<open>Camera.update\<close> scales by
  \<open>0.0025 * deltaTime\<close> once more.
\<close>

definition update_camera :: "real \<Rightarrow> game \<Rightarrow> game" where
  "update_camera dt g =
     (let ks = keys g;
          dz = (if is_key_down ks ''w'' then 0.05 else if is_key_down ks ''s'' then - 0.05 else 0);
          dx = (if is_key_down ks ''a'' then 0.05 else if is_key_down ks ''d'' then - 0.05 else 0);
          yaw = (if is_key_down ks ''q'' then game_yaw g + - 5 * (0.025 * dt)
                 else if is_key_down ks ''e'' then game_yaw g + 5 * (0.025 * dt)
                 else game_yaw g);
          rs = rstate g in
      g\<lparr>game_yaw := yaw,
        rstate := rs\<lparr>rs_camera := camera_update dt (dx, 0, dz) (game_pitch g) yaw (rs_camera rs)\<rparr>\<rparr>)"

text \<open>\<open>update\<close>: the camera, then the lights.\<close>

definition game_update :: "real \<Rightarrow> game \<Rightarrow> game" where
  "game_update dt g =
     (let g1 = update_camera dt g; rs = rstate g1 in
      g1\<lparr>rstate := rs\<lparr>rs_lights := light_manager_update (rs_lights rs)\<rparr>\<rparr>)"

text \<open>
  \<open>frame\<close>, with the geometry pass's fuel: \<open>None\<close> when the render does not return, an
  error when it throws (the state it reached is kept).
\<close>

definition game_frame :: "nat \<Rightarrow> render_pipeline \<Rightarrow> real \<Rightarrow> game \<Rightarrow> ((error + unit) \<times> game) option" where
  "game_frame f rp t g =
     (let dt = t - last_frame_time g in
      case render_pipeline_render f rp (rstate g) of
        None \<Rightarrow> None
      | Some (Inl e, st) \<Rightarrow> Some (Inl e, g\<lparr>rstate := st\<rparr>)
      | Some (Inr _, st) \<Rightarrow> Some (Inr (), (game_update dt (g\<lparr>rstate := st\<rparr>))\<lparr>last_frame_time := t\<rparr>))"

subsection \<open>Events\<close>

datatype event = KeyDown string | KeyUp string | AnimationFrame real

text \<open>
  The handlers: \<open>onkeydown\<close>/\<open>onkeyup\<close> write the dictionary; an animation frame runs only
  while a callback is pending, and a frame that throws leaves none pending.
\<close>

fun game_step :: "nat \<Rightarrow> render_pipeline \<Rightarrow> event \<Rightarrow> game \<Rightarrow> game option" where
  "game_step f rp (KeyDown k) g = Some (g\<lparr>keys := (keys g)(k \<mapsto> True)\<rparr>)"
| "game_step f rp (KeyUp k) g = Some (g\<lparr>keys := (keys g)(k \<mapsto> False)\<rparr>)"
| "game_step f rp (AnimationFrame t) g =
     (if \<not> running g then Some g
      else (case game_frame f rp t g of
              None \<Rightarrow> None
            | Some (Inl e, g') \<Rightarrow> Some (g'\<lparr>running := False\<rparr>)
            | Some (Inr _, g') \<Rightarrow> Some g'))"

fun game_run :: "nat \<Rightarrow> render_pipeline \<Rightarrow> event list \<Rightarrow> game \<Rightarrow> game option" where
  "game_run f rp [] g = Some g"
| "game_run f rp (ev # evs) g = Option.bind (game_step f rp ev g) (game_run f rp evs)"

text \<open>The states reachable from a start state by handled events.\<close>

inductive reachable :: "nat \<Rightarrow> render_pipeline \<Rightarrow> game \<Rightarrow> game \<Rightarrow> bool" where
  start: "reachable f rp g0 g0"
| step: "reachable f rp g0 g \<Longrightarrow> game_step f rp ev g = Some g' \<Longrightarrow> reachable f rp g0 g'"

subsection \<open>The camera the frames see\<close>

definition camera_ready :: "camera \<Rightarrow> real \<Rightarrow> real \<Rightarrow> bool" where
  "camera_ready c yaw pitch \<longleftrightarrow> camera_wf c \<and> position_cache c \<noteq> None \<and> last_yaw_pitch c = (yaw, pitch)"

definition game_inv :: "game \<Rightarrow> bool" where
  "game_inv g \<longleftrightarrow> camera_ready (rs_camera (rstate g)) (game_yaw g) (game_pitch g)"

subsection \<open>Scenarios\<close>

text \<open>The start-up camera of \<open>index.ts\<close> with no assets and the given lights.\<close>

definition start_state :: "light_manager \<Rightarrow> render_state" where
  "start_state lm =
     \<lparr>rs_camera = setup_camera demo_camera_options, rs_assets = \<lparr>am_assets = []\<rparr>, rs_lights = lm,
      rs_gl = gl_init\<rparr>"

subsection \<open>Lemmas\<close>

lemma camera_update_ignores_view:
  assumes "position_cache c \<noteq> None" and "length X = 16" and "camera_wf c"
  shows "camera_update dt dir pitch yaw (c\<lparr>view_matrix := X\<rparr>) = camera_update dt dir pitch yaw c"
  using assms
  by (auto simp: camera_update_def Let_def get_position_def set_position_def camera_wf_def
                 construct_view_matrix_def camera_look_at_def split: prod.split)

lemma construct_view_cache_some: "position_cache (construct_view_matrix y p c) \<noteq> None"
  by (simp add: construct_view_matrix_def camera_look_at_def Let_def split_def)

lemma camera_update_cache: "position_cache (camera_update dt dir pitch yaw c) \<noteq> None"
  by (simp add: camera_update_def Let_def split_def construct_view_cache_some)

lemma lighting_pass_camera_cases:
  "pbr_lighting_pass_render lp texs lm (c, g) = (r, c', g') \<Longrightarrow>
   c' = c \<or> c' = c\<lparr>view_matrix := mat_invert (view_matrix c)\<rparr>"
  by (auto simp: pbr_lighting_pass_render_def Let_def split: list.splits option.splits prod.splits sum.splits)

lemma render_camera:
  assumes "render_pipeline_render f rp st = Some (out, st')"
  shows "(rs_camera st' = rs_camera st
          \<or> rs_camera st' = (rs_camera st)\<lparr>view_matrix := mat_invert (view_matrix (rs_camera st))\<rparr>)
         \<and> rs_lights st' = rs_lights st"
  using assms
  by (auto simp: render_pipeline_render_def Let_def dest: lighting_pass_camera_cases
           split: option.splits sum.splits prod.splits)

lemma camera_update_yaw:
  "opt_yaw (options (camera_update dt dir pitch yaw c))
     = opt_yaw (options c) + (fst (last_yaw_pitch c) - yaw) * (0.0025 * dt)"
  by (simp add: camera_update_def Let_def split_def)

lemma camera_ready_view:
  "camera_ready c y p \<Longrightarrow> camera_ready (c\<lparr>view_matrix := mat_invert (view_matrix c)\<rparr>) y p"
  by (simp add: camera_ready_def camera_wf_def)

lemma render_keeps_ready:
  "render_pipeline_render f rp st = Some (out, st') \<Longrightarrow> camera_ready (rs_camera st) y p \<Longrightarrow>
   camera_ready (rs_camera st') y p"
  using render_camera [of f rp st out st'] camera_ready_view by auto

lemma camera_wf_last [simp]: "camera_wf (c\<lparr>last_yaw_pitch := v\<rparr>) = camera_wf c"
  by (simp add: camera_wf_def)

lemma camera_update_wf: "camera_wf (camera_update dt dir pitch yaw c)"
  and camera_update_last: "last_yaw_pitch (camera_update dt dir pitch yaw c) = (yaw, pitch)"
  by (simp_all add: camera_update_def Let_def split_def)

lemma update_keeps_ready: "camera_ready (rs_camera (rstate g)) (game_yaw g) (game_pitch g) \<Longrightarrow> game_inv (game_update dt g)"
  by (simp add: game_inv_def camera_ready_def game_update_def update_camera_def Let_def camera_update_cache
                camera_update_wf camera_update_last)

lemma game_step_inv: "game_inv g \<Longrightarrow> game_step f rp ev g = Some g' \<Longrightarrow> game_inv g'"
proof (cases ev)
  case (AnimationFrame t)
  assume i: "game_inv g" and s: "game_step f rp ev g = Some g'"
  show ?thesis
  proof (cases "running g")
    case False then show ?thesis using i s AnimationFrame by simp
  next
    case True
    obtain r st where rr: "render_pipeline_render f rp (rstate g) = Some (r, st)"
      using s True AnimationFrame by (auto simp: game_frame_def Let_def split: option.splits)
    have "camera_ready (rs_camera st) (game_yaw g) (game_pitch g)"
      using render_keeps_ready [OF rr] i by (simp add: game_inv_def)
    then show ?thesis using s True AnimationFrame rr update_keeps_ready [of "g\<lparr>rstate := st\<rparr>"]
      by (cases r) (auto simp: game_frame_def game_inv_def)
  qed
qed (auto simp: game_inv_def)

lemma frame_Inr_camera:
  assumes "game_frame f rp t g = Some (Inr u, g')" and "camera_ready (rs_camera (rstate g)) (game_yaw g) (game_pitch g)"
  shows "rs_camera (rstate g') = rs_camera (rstate (game_update (t - last_frame_time g) g))"
proof -
  obtain st where rr: "render_pipeline_render f rp (rstate g) = Some (Inr (), st)"
    and g': "g' = (game_update (t - last_frame_time g) (g\<lparr>rstate := st\<rparr>))\<lparr>last_frame_time := t\<rparr>"
    using assms(1) by (auto simp: game_frame_def Let_def split: option.splits sum.splits)
  have c: "rs_camera st = rs_camera (rstate g)
     \<or> rs_camera st = (rs_camera (rstate g))\<lparr>view_matrix := mat_invert (view_matrix (rs_camera (rstate g)))\<rparr>"
    using render_camera [OF rr] by simp
  have ig: "camera_update dt dir p y ((rs_camera (rstate g))\<lparr>view_matrix := mat_invert (view_matrix (rs_camera (rstate g)))\<rparr>)
      = camera_update dt dir p y (rs_camera (rstate g))" for dt dir p y
    by (rule camera_update_ignores_view) (use assms(2) in \<open>simp_all add: camera_ready_def camera_wf_def\<close>)
  have "camera_update dt dir p y (rs_camera st) = camera_update dt dir p y (rs_camera (rstate g))" for dt dir p y
    using c by (elim disjE) (simp_all add: ig)
  then show ?thesis using g' by (simp add: game_update_def update_camera_def Let_def)
qed

lemma stopped_run:
  "\<not> running g \<Longrightarrow> \<exists>g2. game_run f rp evs g = Some g2 \<and> rstate g2 = rstate g \<and> \<not> running g2"
proof (induction evs arbitrary: g)
  case Nil then show ?case by simp
next
  case (Cons ev evs)
  show ?case
  proof (cases ev)
    case (KeyDown k)
    then show ?thesis using Cons.IH [of "g\<lparr>keys := (keys g)(k \<mapsto> True)\<rparr>"] Cons.prems by auto
  next
    case (KeyUp k)
    then show ?thesis using Cons.IH [of "g\<lparr>keys := (keys g)(k \<mapsto> False)\<rparr>"] Cons.prems by auto
  next
    case (AnimationFrame t)
    then show ?thesis using Cons.IH [of g] Cons.prems by auto
  qed
qed

text \<open>The invariant holds along every run, by rule induction on reachability.\<close>

lemma reachable_game_inv: "reachable f rp g0 g \<Longrightarrow> game_inv g0 \<Longrightarrow> game_inv g"
proof (induction rule: reachable.induct)
  case (start g0) then show ?case .
next
  case (step g0 g ev g') then show ?case using game_step_inv by blast
qed

lemma camera_ready_setup: "camera_ready (setup_camera o') 0 0"
  by (simp add: camera_ready_def setup_camera_def camera_look_at_def get_position_def set_position_def
                camera_new_def camera_wf_def Let_def)

lemma start_frame:
  "\<exists>g'. game_frame 1 full_pipeline t
          ((game_new (start_state (add_point_light demo_light light_manager_new)))\<lparr>keys := K\<rparr>)
     = Some (Inr (), g')"
  by (simp add: game_new_def game_frame_def render_pipeline_render_def full_pipeline_def start_state_def
                pbr_buffer_pass_render_def pbr_lighting_pass_render_def demo_lighting_pass_def screen_quad_def
                gbuffer_framebuffer_def bind_textures_def gbuffer_bind_options_def js_get_def
                add_point_light_def light_manager_new_def lighting_program_def geometry_pass_def
                bind_texture_def Let_def)

lemma dark_frame:
  "\<exists>g1. game_frame 1 full_pipeline t (game_new (start_state light_manager_new)) = Some (Inl TypeError, g1)"
  by (simp add: game_new_def game_frame_def render_pipeline_render_def full_pipeline_def start_state_def
                pbr_buffer_pass_render_def pbr_lighting_pass_render_def demo_lighting_pass_def screen_quad_def
                light_manager_new_def lighting_program_def geometry_pass_def Let_def)

lemma e_held_reachable:
  "reachable f rp (game_new rs) ((game_new rs)\<lparr>keys := [''e'' \<mapsto> True]\<rparr>)"
  by (rule reachable.step [OF reachable.start, where ev = "KeyDown ''e''"]) (simp add: game_new_def)

subsection \<open>Properties\<close>

text \<open>
  C4: In every state a run reaches from a start whose camera has its position cached, its
  sixteen view entries and zero previous yaw and pitch, the camera keeps these, with the
  previous yaw and pitch equal to the game's.
\<close>

theorem reachable_camera_ready:
  assumes "reachable f rp (game_new rs) g" and "camera_ready (rs_camera rs) 0 0"
  shows "camera_ready (rs_camera (rstate g)) (game_yaw g) (game_pitch g)"
proof -
  have "game_inv (game_new rs)" using assms(2) by (simp add: game_inv_def game_new_def)
  then show ?thesis using reachable_game_inv [OF assms(1)] by (simp add: game_inv_def)
qed


text \<open>
  C5: The lighting pass's in-place inversion of the camera's view matrix never reaches the
  next frame: on every reachable state, the camera after a successful frame is the one the
  update computes from the camera before rendering, because Camera.update rebuilds the view
  matrix from the cached position.
\<close>

theorem inverted_view_never_reaches_next_frame:
  assumes "reachable f rp (game_new rs) g" and "camera_ready (rs_camera rs) 0 0"
    and "game_frame f rp t g = Some (Inr (), g')"
  shows "rs_camera (rstate g') = rs_camera (rstate (game_update (t - last_frame_time g) g))"
  by (rule frame_Inr_camera [OF assms(3) reachable_camera_ready [OF assms(1,2)]])


text \<open>
  C17: Holding e (without q) turns the camera by -0.0003125 * dt^2 degrees per frame: the yaw
  input is scaled by deltaTime in updateCamera and again in Camera.update, so the turn rate
  depends on the frame time.
\<close>

theorem yaw_turn_quadratic_in_dt:
  assumes "reachable f rp (game_new rs) g" and "camera_ready (rs_camera rs) 0 0"
    and "is_key_down (keys g) ''e''" and "\<not> is_key_down (keys g) ''q''"
    and "game_frame f rp t g = Some (Inr (), g')"
  shows "opt_yaw (options (rs_camera (rstate g')))
           = opt_yaw (options (rs_camera (rstate g))) - 0.0003125 * (t - last_frame_time g)\<^sup>2"
proof -
  have r: "camera_ready (rs_camera (rstate g)) (game_yaw g) (game_pitch g)"
    by (rule reachable_camera_ready [OF assms(1,2)])
  have "rs_camera (rstate g') = rs_camera (rstate (game_update (t - last_frame_time g) g))"
    by (rule frame_Inr_camera [OF assms(5) r])
  then have "opt_yaw (options (rs_camera (rstate g')))
      = opt_yaw (options (rs_camera (rstate g)))
        + (game_yaw g - (game_yaw g + 5 * (0.025 * (t - last_frame_time g)))) * (0.0025 * (t - last_frame_time g))"
    using assms(3,4) r by (simp add: game_update_def update_camera_def Let_def camera_update_yaw camera_ready_def)
  moreover have "(y - (y + 5 * (0.025 * d))) * (0.0025 * d) = - 0.0003125 * d\<^sup>2" for y d :: real
    by (simp add: power2_eq_square algebra_simps)
  ultimately show ?thesis by (metis diff_conv_add_uminus mult_minus_left)
qed


text \<open>
  C16: A frame whose render throws requests no further animation frame: whatever events
  follow, no frame renders again and the render state stays the one the failed frame left.
\<close>

theorem render_error_stops_frames:
  assumes "running g" and "game_frame f rp t g = Some (Inl e, g1)"
  shows "\<exists>g2. game_run f rp (AnimationFrame t # evs) g = Some g2 \<and> rstate g2 = rstate g1 \<and> \<not> running g2"
  using assms stopped_run [of "g1\<lparr>running := False\<rparr>" f rp evs] by simp

theorem reachable_camera_ready_witness:
  "camera_ready (rs_camera (rstate ((game_new (start_state light_manager_new))\<lparr>keys := [''e'' \<mapsto> True]\<rparr>)))
     0 0"
proof -
  from reachable_camera_ready [OF e_held_reachable] show ?thesis
    by (simp add: start_state_def camera_ready_setup game_new_def)
qed

theorem inverted_view_never_reaches_next_frame_witness:
  "\<exists>g'. game_frame 1 full_pipeline 2
          ((game_new (start_state (add_point_light demo_light light_manager_new)))\<lparr>keys := [''e'' \<mapsto> True]\<rparr>)
        = Some (Inr (), g')
     \<and> rs_camera (rstate g') = rs_camera (rstate (game_update 2
          ((game_new (start_state (add_point_light demo_light light_manager_new)))\<lparr>keys := [''e'' \<mapsto> True]\<rparr>)))"
proof -
  let ?g = "(game_new (start_state (add_point_light demo_light light_manager_new)))\<lparr>keys := [''e'' \<mapsto> True]\<rparr>"
  obtain g' where fr: "game_frame 1 full_pipeline 2 ?g = Some (Inr (), g')" using start_frame by blast
  have r: "camera_ready (rs_camera (start_state (add_point_light demo_light light_manager_new))) 0 0"
    by (simp add: start_state_def camera_ready_setup)
  have "rs_camera (rstate g') = rs_camera (rstate (game_update (2 - last_frame_time ?g) ?g))"
    by (rule inverted_view_never_reaches_next_frame [OF e_held_reachable r fr])
  then show ?thesis using fr by (simp add: game_new_def)
qed

theorem yaw_turn_quadratic_in_dt_witness:
  "\<exists>g'. game_frame 1 full_pipeline 2
          ((game_new (start_state (add_point_light demo_light light_manager_new)))\<lparr>keys := [''e'' \<mapsto> True]\<rparr>)
        = Some (Inr (), g')
     \<and> opt_yaw (options (rs_camera (rstate g')))
         = opt_yaw (options (setup_camera demo_camera_options)) - 0.0003125 * 4"
proof -
  let ?g = "(game_new (start_state (add_point_light demo_light light_manager_new)))\<lparr>keys := [''e'' \<mapsto> True]\<rparr>"
  obtain g' where fr: "game_frame 1 full_pipeline 2 ?g = Some (Inr (), g')" using start_frame by blast
  have r: "camera_ready (rs_camera (start_state (add_point_light demo_light light_manager_new))) 0 0"
    by (simp add: start_state_def camera_ready_setup)
  have "opt_yaw (options (rs_camera (rstate g')))
      = opt_yaw (options (rs_camera (rstate ?g))) - 0.0003125 * (2 - last_frame_time ?g)\<^sup>2"
    by (rule yaw_turn_quadratic_in_dt [OF e_held_reachable r _ _ fr]) (simp_all add: is_key_down_def)
  then show ?thesis using fr by (simp add: game_new_def start_state_def)
qed

theorem render_error_stops_frames_witness:
  "\<exists>g1 g2. game_frame 1 full_pipeline 2 (game_new (start_state light_manager_new)) = Some (Inl TypeError, g1)
     \<and> game_run 1 full_pipeline [AnimationFrame 2, KeyDown ''w'', AnimationFrame 3]
         (game_new (start_state light_manager_new)) = Some g2
     \<and> rstate g2 = rstate g1 \<and> \<not> running g2"
proof -
  obtain g1 where fr: "game_frame 1 full_pipeline 2 (game_new (start_state light_manager_new)) = Some (Inl TypeError, g1)"
    using dark_frame by blast
  have "running (game_new (start_state light_manager_new))" by (simp add: game_new_def)
  from render_error_stops_frames [OF this fr, of "[KeyDown ''w'', AnimationFrame 3]"] fr show ?thesis by blast
qed

end
