(* ===== verification/Gltf.thy ===== *)
theory Gltf
  imports Scene
begin

unbundle bit_operations_syntax

text \<open>
  The glTF loader (\<open>mesh/loaders/gltfLoader.ts\<close>): the conversion of accessor bytes into
  typed arrays and the translation of the parsed glTF objects into the scene format of
  \<open>Scene\<close>. Parsing the file and fetching buffers and images is done by the
  \<open>gltf-loader-ts\<close> library; here its results are inputs: the glTF objects as records
  whose optional members are options, and \<open>accessorData\<close> as a function from accessor
  index to a byte list.

  \<open>convertToShortArray\<close> and \<open>convertToFloatArray\<close> are one loop, \<open>typed_array_loop\<close>,
  with 2 and 4 bytes per element: the output has \<open>length / k\<close> elements (a typed array
  truncates a fractional length), each iteration copies up to \<open>k\<close> bytes into a zeroed
  \<open>DataView\<close> and reads it little-endian, and a write past the end of a typed array is
  ignored, as \<open>list_update\<close> out of range is. The loop reads each element with
  \<open>getUint16\<close>/\<open>getFloat32\<close> and stores the number into the typed array (\<open>conv\<close>). A
  \<open>Uint16Array\<close> stores the integer exactly. A \<open>Float32Array\<close> element read by
  \<open>getFloat32\<close> and stored back keeps every non-NaN bit pattern (widening to a double and
  narrowing back is exact), but a NaN is stored with an encoding the engine chooses
  (ECMAScript's NumericToRawBytes; V8 quiets signalling NaNs on this path), so the element's
  value is modelled as the non-NaN pattern or the single NaN, as IEEE-754 level 2 does. The
  number a non-NaN pattern denotes is a parameter \<open>dec\<close> of the primitive loader.
\<close>

subsection \<open>Byte decoding\<close>

text \<open>\<open>DataView.getUint16/getFloat32(0, true)\<close> on the copied bytes: little-endian.\<close>

definition le_word :: "8 word list \<Rightarrow> 'a::len word" where
  "le_word bs = foldr (\<lambda>b acc. ucast b OR push_bit 8 acc) bs 0"

text \<open>
  The \<open>for\<close> loop of both converters: \<open>i\<close> steps by \<open>k\<close> bytes and \<open>iter\<close> by one element.
  The two call sites pass \<open>k = 2\<close> and \<open>k = 4\<close>; the conjunct \<open>0 < k\<close> holds there and
  makes the loop total.
\<close>

function typed_array_loop ::
  "('a::len word \<Rightarrow> 'b) \<Rightarrow> nat \<Rightarrow> 8 word list \<Rightarrow> nat \<Rightarrow> nat \<Rightarrow> 'b list \<Rightarrow> 'b list" where
  "typed_array_loop conv k buf i iter out =
     (if 0 < k \<and> i < length buf
      then typed_array_loop conv k buf (i + k) (Suc iter)
             (out[iter := conv (le_word (take k (drop i buf)))])
      else out)"
  by pat_completeness auto
termination by (relation "measure (\<lambda>(_, k, buf, i, _, _). length buf - i)") auto

declare typed_array_loop.simps [simp del]

definition convert_to_short_array :: "8 word list \<Rightarrow> 16 word list" where
  "convert_to_short_array buf = typed_array_loop (\<lambda>w. w) 2 buf 0 0 (replicate (length buf div 2) 0)"

text \<open>
  The value of a \<open>Float32Array\<close> element: a binary32 bit pattern that is not a NaN, or NaN.
  A pattern is a NaN when its exponent bits (23 to 30) are all set and its fraction bits (0
  to 22) are not all clear.
\<close>

datatype f32 = F32 "32 word" | F32_NaN

definition is_nan32 :: "32 word \<Rightarrow> bool" where
  "is_nan32 w \<longleftrightarrow> drop_bit 23 w AND 0xFF = 0xFF \<and> take_bit 23 w \<noteq> 0"

definition float32_element :: "32 word \<Rightarrow> f32" where
  "float32_element w = (if is_nan32 w then F32_NaN else F32 w)"

text \<open>A new \<open>Float32Array\<close> is filled with +0, the all-zero pattern.\<close>

definition convert_to_float_array :: "8 word list \<Rightarrow> f32 list" where
  "convert_to_float_array buf =
     typed_array_loop float32_element 4 buf 0 0 (replicate (length buf div 4) (F32 0))"

text \<open>The reference decoding: element \<open>j\<close> is the little-endian word of bytes \<open>k j\<close> to \<open>k j + k - 1\<close>.\<close>

definition decode_chunks :: "nat \<Rightarrow> 8 word list \<Rightarrow> 'a::len word list" where
  "decode_chunks k buf = map (\<lambda>j. le_word (take k (drop (k * j) buf))) [0..<length buf div k]"

text \<open>Little-endian encoding of words into \<open>k\<close> bytes each.\<close>

definition le_bytes :: "nat \<Rightarrow> 'a::len word \<Rightarrow> 8 word list" where
  "le_bytes k w = map (\<lambda>i. ucast (drop_bit (8 * i) w)) [0..<k]"

definition encode_words :: "nat \<Rightarrow> 'a::len word list \<Rightarrow> 8 word list" where
  "encode_words k ws = concat (map (le_bytes k) ws)"

subsection \<open>The parsed glTF objects\<close>

text \<open>
  The members of the \<open>gltf-loader-ts\<close> interfaces the loader reads; an optional member is
  an option. Attribute names are the four \<open>AttributeType\<close> members (the loader casts
  every key to \<open>AttributeType\<close>, so other glTF attributes are outside this model), and the
  \<open>name\<close> members the engine types as \<open>string\<close> are strings.
\<close>

record gltf_texture_info =
  ti_index :: nat
  ti_tex_coord :: "nat option"

record gltf_normal_texture_info =
  nti_index :: nat
  nti_scale :: "real option"
  nti_tex_coord :: "nat option"

record gltf_pbr =
  g_base_color_factor :: "real list option"
  g_base_color_texture :: "gltf_texture_info option"
  g_metallic_factor :: "real option"
  g_metallic_roughness_texture :: "gltf_texture_info option"
  g_roughness_factor :: "real option"

record gltf_material =
  gm_name :: string
  gm_pbr :: "gltf_pbr option"
  gm_normal_texture :: "gltf_normal_texture_info option"
  gm_emissive_factor :: "real list option"

record gltf_node =
  gn_mesh :: "nat option"
  gn_children :: "nat list option"
  gn_rotation :: "(real \<times> real \<times> real \<times> real) option"
  gn_scale :: "vec3 option"
  gn_translation :: "vec3 option"

record gltf_scene =
  gs_name :: string
  gs_nodes :: "nat list option"

record gltf_texture =
  gt_sampler :: "nat option"
  gt_source :: "nat option"

record gltf_image =
  gi_uri :: "string option"

record gltf_primitive =
  gp_attributes :: "(attribute_type \<times> nat) list"
  gp_indices :: "nat option"
  gp_material :: "nat option"
  gp_mode :: "nat option"

record gltf_mesh =
  gmesh_name :: string
  gmesh_primitives :: "gltf_primitive list"

subsection \<open>Loaders\<close>

text \<open>
  math.gl's \<open>Matrix4.fromQuaternion\<close> (gl-matrix \<open>fromQuat\<close>) on \<open>(x, y, z, w)\<close>, column
  major. The default \<open>Matrix4.ZERO\<close> is read as the quaternion \<open>(0, 0, 0, 0)\<close>.
\<close>

definition mat_from_quaternion :: "real \<times> real \<times> real \<times> real \<Rightarrow> mat4" where
  "mat_from_quaternion q =
     (case q of (x, y, z, w) \<Rightarrow>
       (let x2 = x + x; y2 = y + y; z2 = z + z;
            xx = x * x2; yx = y * x2; yy = y * y2; zx = z * x2; zy = z * y2; zz = z * z2;
            wx = w * x2; wy = w * y2; wz = w * z2 in
        [1 - yy - zz, yx + wz, zx - wy, 0,
         yx - wz, 1 - xx - zz, zy + wx, 0,
         zx + wy, zy - wx, 1 - xx - yy, 0,
         0, 0, 0, 1]))"

text \<open>\<open>loadNode\<close>.\<close>

definition load_node :: "gltf_node \<Rightarrow> nat \<Rightarrow> node" where
  "load_node gn idx =
     \<lparr>node_id = idx, children = gn_children gn, node_mesh_id = gn_mesh gn,
      rotation_matrix = mat_from_quaternion (case gn_rotation gn of None \<Rightarrow> (0, 0, 0, 0) | Some q \<Rightarrow> q),
      scale_vector = (case gn_scale gn of None \<Rightarrow> (1, 1, 1) | Some s \<Rightarrow> s),
      translation_vector = (case gn_translation gn of None \<Rightarrow> (0, 0, 0) | Some t \<Rightarrow> t),
      cached_world_transform = None\<rparr>"

text \<open>\<open>loadScene\<close> and \<open>loadTexture\<close>.\<close>

definition load_scene :: "gltf_scene \<Rightarrow> nat \<Rightarrow> scene" where
  "load_scene gs idx =
     \<lparr>scene_id = idx, scene_name = gs_name gs,
      node_indices = (case gs_nodes gs of None \<Rightarrow> [] | Some ns \<Rightarrow> ns)\<rparr>"

definition load_texture :: "gltf_texture \<Rightarrow> nat \<Rightarrow> texture" where
  "load_texture gt idx = \<lparr>tex_id = idx, sampler = gt_sampler gt, source_image_reference = gt_source gt\<rparr>"

text \<open>
  \<open>loadImage\<close>: the pixels come from the library's \<open>asset.imageData.get(index)\<close>, a
  parameter from image index to image source.
\<close>

definition load_image :: "(nat \<Rightarrow> tex_image_source) \<Rightarrow> gltf_image \<Rightarrow> nat \<Rightarrow> image" where
  "load_image pixels gi idx = \<lparr>img_id = idx, uri = gi_uri gi, image_data = pixels idx\<rparr>"

text \<open>
  \<open>loadMaterial\<close>: throws without \<open>pbrMetallicRoughness\<close>; both texture references are
  always built, with \<open>undefined\<close> members when the glTF texture is absent; the
  \<open>PbrMetallicRoughness\<close> constructor may throw on its factors.
\<close>

definition texture_ref :: "gltf_texture_info option \<Rightarrow> texture_reference" where
  "texture_ref ti =
     \<lparr>tr_index = map_option (int \<circ> ti_index) ti, tr_scale = None,
      tr_tex_coords = Option.bind ti ti_tex_coord\<rparr>"

definition load_material :: "gltf_material \<Rightarrow> nat \<Rightarrow> material result" where
  "load_material gm idx =
     (case gm_pbr gm of
        None \<Rightarrow> Inl ErrNoPbrMetallicRoughness
      | Some pbr \<Rightarrow>
          rbind (make_pbr_metallic_roughness (g_base_color_factor pbr)
                   (Some (texture_ref (g_base_color_texture pbr))) (g_metallic_factor pbr)
                   (Some (texture_ref (g_metallic_roughness_texture pbr))) (g_roughness_factor pbr))
            (\<lambda>opts. Inr \<lparr>mat_id = idx, mat_name = gm_name gm, metallic_roughness_options = opts,
                         normal_texture =
                           \<lparr>tr_index = map_option (int \<circ> nti_index) (gm_normal_texture gm),
                            tr_scale = Option.bind (gm_normal_texture gm) nti_scale,
                            tr_tex_coords = Option.bind (gm_normal_texture gm) nti_tex_coord\<rparr>,
                         emissive_factor = gm_emissive_factor gm\<rparr>))"

text \<open>\<open>parseMaterials\<close>: \<open>map\<close> with the index; the first throw propagates.\<close>

definition parse_materials :: "gltf_material list \<Rightarrow> material list result" where
  "parse_materials ms = r_map (\<lambda>(i, m). load_material m i) (enumerate 0 ms)"

text \<open>
  \<open>loadPrimitive\<close>, given \<open>accessorData\<close> (\<open>acc\<close>) and the number a \<open>Float32Array\<close>
  element denotes (\<open>dec\<close>). The attribute entries are set into the map in order.
\<close>

definition load_primitive ::
  "(f32 \<Rightarrow> real) \<Rightarrow> (nat \<Rightarrow> 8 word list) \<Rightarrow> gltf_primitive \<Rightarrow> nat \<Rightarrow> primitive" where
  "load_primitive dec acc gp idx =
     \<lparr>prim_id = idx,
      attributes = fold (\<lambda>(key, a) m. m(key \<mapsto> map dec (convert_to_float_array (acc a))))
                     (gp_attributes gp) Map.empty,
      indices = map_option (\<lambda>a. convert_to_short_array (acc a)) (gp_indices gp),
      prim_material_id = (case gp_material gp of None \<Rightarrow> 0 | Some m \<Rightarrow> m),
      mode = (case gp_mode gp of None \<Rightarrow> primitive_mode_code TRIANGLES | Some m \<Rightarrow> m)\<rparr>"

definition load_mesh ::
  "(f32 \<Rightarrow> real) \<Rightarrow> (nat \<Rightarrow> 8 word list) \<Rightarrow> gltf_mesh \<Rightarrow> nat \<Rightarrow> mesh" where
  "load_mesh dec acc gm idx =
     \<lparr>primitives = map (\<lambda>(i, p). load_primitive dec acc p i) (enumerate 0 (gmesh_primitives gm)),
      mesh_name = gmesh_name gm, mesh_id = idx\<rparr>"

text \<open>The document members \<open>loadAsset\<close> reads; images come from the library's \<open>imageData\<close>.\<close>

record gltf_document =
  gd_scene :: "nat option"
  gd_nodes :: "gltf_node list option"
  gd_meshes :: "gltf_mesh list option"
  gd_scenes :: "gltf_scene list option"
  gd_materials :: "gltf_material list option"
  gd_textures :: "gltf_texture list option"
  gd_images :: "gltf_image list option"

text \<open>\<open>loadAsset\<close>: an absent array gives \<open>[]\<close>; a material that throws rejects the load.\<close>

definition load_asset ::
  "(f32 \<Rightarrow> real) \<Rightarrow> (nat \<Rightarrow> 8 word list) \<Rightarrow> (nat \<Rightarrow> tex_image_source) \<Rightarrow> gltf_document
   \<Rightarrow> asset result" where
  "load_asset dec acc pixels gd =
     rbind (case gd_materials gd of None \<Rightarrow> Inr [] | Some ms \<Rightarrow> parse_materials ms) (\<lambda>mats.
       Inr \<lparr>images = (case gd_images gd of None \<Rightarrow> []
                      | Some is \<Rightarrow> map (\<lambda>(i, im). load_image pixels im i) (enumerate 0 is)),
            materials = mats,
            meshes = (case gd_meshes gd of None \<Rightarrow> []
                      | Some ms \<Rightarrow> map (\<lambda>(i, m). load_mesh dec acc m i) (enumerate 0 ms)),
            nodes = (case gd_nodes gd of None \<Rightarrow> []
                     | Some ns \<Rightarrow> map (\<lambda>(i, n). load_node n i) (enumerate 0 ns)),
            scenes = (case gd_scenes gd of None \<Rightarrow> []
                      | Some ss \<Rightarrow> map (\<lambda>(i, s). load_scene s i) (enumerate 0 ss)),
            asset_textures = (case gd_textures gd of None \<Rightarrow> []
                              | Some ts \<Rightarrow> map (\<lambda>(i, t). load_texture t i) (enumerate 0 ts)),
            default_scene_index = (case gd_scene gd of None \<Rightarrow> 0 | Some k \<Rightarrow> k)\<rparr>)"

text \<open>
  What the gltf-loader-ts library's \<open>GltfLoader.load\<close> resolves to: the parsed document
  (\<open>asset.gltf\<close>), the bytes of each accessor (\<open>accessorData\<close>) and the decoded
  image of each image index (\<open>imageData\<close>).
\<close>

record gltf_asset =
  ga_gltf :: gltf_document
  ga_accessor_data :: "nat \<Rightarrow> 8 word list"
  ga_image_data :: "nat \<Rightarrow> tex_image_source"

text \<open>
  \<open>loadModelFromUri\<close>: the library's load of the URI (\<open>loader\<close>, which may reject), then
  \<open>loadAsset\<close>; \<open>result ?? null\<close> turns an \<open>undefined\<close> result into \<open>null\<close>, and
  \<open>loadAsset\<close> always resolves to an object, so the value is always \<open>Some\<close>. A
  rejection of either step rejects the returned promise.
\<close>

definition load_model_from_uri ::
  "(f32 \<Rightarrow> real) \<Rightarrow> (string \<Rightarrow> gltf_asset result) \<Rightarrow> string \<Rightarrow> asset option result" where
  "load_model_from_uri dec loader url =
     rbind (loader url) (\<lambda>ga.
       rbind (load_asset dec (ga_accessor_data ga) (ga_image_data ga) (ga_gltf ga)) (\<lambda>a.
         Inr (Some a)))"

subsection \<open>Decoding lemmas\<close>

lemma le_word_Cons: "le_word (b # bs) = ucast b OR push_bit 8 (le_word bs)"
  by (simp add: le_word_def)

lemma le_word_le_bytes: "le_word (le_bytes k w) = take_bit (8 * k) w"
proof (induction k arbitrary: w)
  case 0
  then show ?case by (simp add: le_word_def le_bytes_def)
next
  case (Suc k)
  have m: "le_bytes (Suc k) w = ucast w # le_bytes k (drop_bit 8 w)"
    by (simp add: le_bytes_def map_upt_Suc drop_bit_drop_bit ac_simps del: upt_Suc)
  show ?case unfolding m le_word_Cons Suc.IH
    by (rule bit_word_eqI) (auto simp: bit_simps)
qed

lemma length_decode_chunks [simp]: "length (decode_chunks k buf) = length buf div k"
  by (simp add: decode_chunks_def)

lemma nth_decode_chunks:
  "j < length buf div k \<Longrightarrow> decode_chunks k buf ! j = le_word (take k (drop (k * j) buf))"
  by (simp add: decode_chunks_def)

lemma loop_decodes:
  "0 < k \<Longrightarrow> i = k * j \<Longrightarrow> length out = length buf div k \<Longrightarrow>
   typed_array_loop conv k buf i j out = take j out @ drop j (map conv (decode_chunks k buf))"
proof (induction conv k buf i j out rule: typed_array_loop.induct)
  case (1 conv k buf i j out)
  show ?case
  proof (cases "i < length buf")
    case False
    then have "length buf div k \<le> (k * j) div k" using "1.prems" by (intro div_le_mono) simp
    then have "length buf div k \<le> j" using "1.prems" by simp
    then show ?thesis using False "1.prems" by (simp add: typed_array_loop.simps)
  next
    case True
    let ?v = "conv (le_word (take k (drop i buf)))"
    have ih: "typed_array_loop conv k buf (i + k) (Suc j) (out[j := ?v])
        = take (Suc j) (out[j := ?v]) @ drop (Suc j) (map conv (decode_chunks k buf))"
      using "1.IH" True "1.prems" by (simp add: algebra_simps)
    have step: "typed_array_loop conv k buf i j out
        = typed_array_loop conv k buf (i + k) (Suc j) (out[j := ?v])"
      using True "1.prems"(1) by (subst typed_array_loop.simps) simp
    show ?thesis
    proof (cases "j < length buf div k")
      case True
      then have d: "drop j (map conv (decode_chunks k buf))
          = ?v # drop (Suc j) (map conv (decode_chunks k buf))"
        using "1.prems" by (simp add: Cons_nth_drop_Suc [symmetric] nth_decode_chunks)
      have t: "take (Suc j) (out[j := ?v]) = take j out @ [?v]"
        using True "1.prems" by (simp add: take_Suc_conv_app_nth)
      show ?thesis unfolding step ih t d by simp
    next
      case False
      then show ?thesis using ih step "1.prems" by (simp add: list_update_beyond)
    qed
  qed
qed

lemma typed_array_loop_decodes:
  "0 < k \<Longrightarrow> typed_array_loop conv k buf 0 0 (replicate (length buf div k) z)
     = map conv (decode_chunks k buf)"
  using loop_decodes [of k 0 0 "replicate (length buf div k) z" buf conv] by simp

lemma pos2: "0 < (2::nat)" and pos4: "0 < (4::nat)"
  by simp_all

lemma take_bit_16: "take_bit 16 (w :: 16 word) = w"
  by (rule bit_word_eqI) (auto simp: bit_simps)

lemma take_bit_32: "take_bit 32 (w :: 32 word) = w"
  by (rule bit_word_eqI) (auto simp: bit_simps)

lemma length_le_bytes [simp]: "length (le_bytes k w) = k"
  by (simp add: le_bytes_def)

lemma drop_concat_chunks:
  "\<forall>w\<in>set ws. length (f w) = k \<Longrightarrow> drop (k * j) (concat (map f ws)) = concat (map f (drop j ws))"
proof (induction ws arbitrary: j)
  case Nil
  then show ?case by simp
next
  case (Cons w ws)
  then show ?case by (cases j) (simp_all add: drop_append)
qed

lemma length_encode_words [simp]: "length (encode_words k ws) = k * length ws"
  by (induction ws) (simp_all add: encode_words_def)

lemma decode_encode_words:
  assumes "0 < k"
  shows "decode_chunks k (encode_words k ws) = map (\<lambda>w. take_bit (8 * k) w) ws"
proof (rule nth_equalityI)
  show "length (decode_chunks k (encode_words k ws)) = length (map (\<lambda>w. take_bit (8 * k) w) ws)"
    using assms by simp
next
  fix j assume "j < length (decode_chunks k (encode_words k ws))"
  then have j: "j < length ws" using assms by simp
  have "take k (drop (k * j) (encode_words k ws)) = le_bytes k (ws ! j)"
    using j by (simp add: encode_words_def drop_concat_chunks Cons_nth_drop_Suc [symmetric])
  then show "decode_chunks k (encode_words k ws) ! j = map (\<lambda>w. take_bit (8 * k) w) ws ! j"
    using j assms by (simp add: nth_decode_chunks le_word_le_bytes)
qed

lemma le_bytes_split:
  "le_bytes 4 (w :: 32 word)
     = le_bytes 2 (ucast w :: 16 word) @ le_bytes 2 (ucast (drop_bit 16 w) :: 16 word)"
  by (simp add: le_bytes_def upt_rec) (intro conjI; rule bit_word_eqI; auto simp: bit_simps)

lemma r_map_Inl_ex: "x \<in> set xs \<Longrightarrow> f x = Inl e \<Longrightarrow> \<exists>e'. r_map f xs = Inl e'"
proof (induction xs)
  case (Cons y ys)
  then show ?case by (cases "f y"; cases "r_map f ys") auto
qed simp

lemma in_set_enumerate_ex: "m \<in> set ms \<Longrightarrow> \<exists>i. (i, m) \<in> set (enumerate n ms)"
proof -
  assume "m \<in> set ms"
  then obtain k where "k < length ms" "ms ! k = m" by (auto simp: in_set_conv_nth)
  then have "(n + k, m) \<in> set (enumerate n ms)"
    by (metis length_enumerate nth_enumerate_eq nth_mem)
  then show ?thesis by blast
qed

lemma mat_from_quaternion_zero: "mat_from_quaternion (0, 0, 0, 0) = mat_identity"
  by (simp add: mat_from_quaternion_def mat_identity_def)

subsection \<open>Properties\<close>

text \<open>
  C8: Both typed-array conversions compute the reference decoding: element j is the
  little-endian word of bytes k*j to k*j+k-1, for the length / k complete chunks of the
  buffer (k = 2 for indices, k = 4 for attributes); a trailing partial chunk is dropped.
  A float element is that word's value: the word itself unless it encodes a NaN.
\<close>

theorem decoders_match_reference:
  "convert_to_short_array buf = decode_chunks 2 buf
   \<and> convert_to_float_array buf = map float32_element (decode_chunks 4 buf)"
  by (simp add: convert_to_short_array_def convert_to_float_array_def typed_array_loop_decodes)

text \<open>
  C9: Decoding the little-endian bytes of a list of 16-bit words with convertToShortArray
  gives the list back; decoding the bytes of 32-bit float patterns with convertToFloatArray
  gives back every pattern that is not a NaN exactly and NaN for each NaN pattern.
\<close>

theorem decode_roundtrip:
  "convert_to_short_array (encode_words 2 ws) = ws
   \<and> convert_to_float_array (encode_words 4 vs)
       = map (\<lambda>v. if is_nan32 v then F32_NaN else F32 v) vs"
proof
  show "convert_to_short_array (encode_words 2 ws) = ws"
    unfolding convert_to_short_array_def typed_array_loop_decodes [OF pos2]
    by (simp add: decode_encode_words take_bit_16 map_idI)
  show "convert_to_float_array (encode_words 4 vs) = map (\<lambda>v. if is_nan32 v then F32_NaN else F32 v) vs"
    unfolding convert_to_float_array_def typed_array_loop_decodes [OF pos4]
    by (simp add: decode_encode_words take_bit_32 float32_element_def)
qed

text \<open>
  C19: Index data stored as 32-bit integers (glTF component type UNSIGNED_INT) is decoded as
  twice as many 16-bit indices: each index v becomes the pair (low half, high half), so the
  index v is followed by a spurious index, 0 for v below 65536.
\<close>

theorem wide_indices_split:
  "convert_to_short_array (encode_words 4 (ws :: 32 word list))
     = concat (map (\<lambda>w. [ucast w, ucast (drop_bit 16 w)]) ws)"
proof -
  have "encode_words 4 ws = encode_words 2 (concat (map (\<lambda>w. [ucast w, ucast (drop_bit 16 w) :: 16 word]) ws))"
    by (induction ws) (simp_all add: encode_words_def le_bytes_split)
  then show ?thesis
    unfolding convert_to_short_array_def typed_array_loop_decodes [OF pos2]
    by (simp add: decode_encode_words take_bit_16 map_idI)
qed

text \<open>
  A glTF node without rotation, scale and translation loads with the identity rotation
  (the default Matrix4.ZERO read as a quaternion gives the identity), unit scale and zero
  translation, so its world transform is its parent's.
\<close>

theorem default_node_inherits_parent:
  assumes "length p = 16"
  shows "calculate_node_world_transform
           (load_node \<lparr>gn_mesh = m, gn_children = cs, gn_rotation = None, gn_scale = None,
                       gn_translation = None\<rparr> idx) p = p"
  using calculate_translation_only [of "load_node \<lparr>gn_mesh = m, gn_children = cs, gn_rotation = None,
      gn_scale = None, gn_translation = None\<rparr> idx" p] assms
  by (simp add: load_node_def mat_from_quaternion_zero)

text \<open>
  C23: A glTF document with a material lacking pbrMetallicRoughness is rejected as a whole:
  loadAsset fails instead of loading the other objects.
\<close>

theorem material_without_pbr_rejects_asset:
  assumes "gd_materials gd = Some ms" and "m \<in> set ms" and "gm_pbr m = None"
  shows "\<exists>e. load_asset dec acc imgs gd = Inl e"
proof -
  obtain i where "(i, m) \<in> set (enumerate 0 ms)" using in_set_enumerate_ex [OF assms(2)] by blast
  moreover have "(\<lambda>(i, m). load_material m i) (i, m) = Inl ErrNoPbrMetallicRoughness"
    using assms(3) by (simp add: load_material_def)
  ultimately obtain e where "parse_materials ms = Inl e"
    unfolding parse_materials_def by (blast dest: r_map_Inl_ex)
  then show ?thesis using assms(1) by (simp add: load_asset_def)
qed

theorem default_node_inherits_parent_witness:
  "calculate_node_world_transform
     (load_node \<lparr>gn_mesh = Some 0, gn_children = None, gn_rotation = None, gn_scale = None,
                 gn_translation = None\<rparr> 0) mat_identity = mat_identity"
  by (rule default_node_inherits_parent) (simp add: mat_identity_def)

theorem material_without_pbr_rejects_asset_witness:
  "\<exists>e. load_asset (\<lambda>_. 0) (\<lambda>_. []) (\<lambda>_. \<lparr>src_width = 1, src_height = 1\<rparr>)
     \<lparr>gd_scene = None, gd_nodes = None, gd_meshes = None, gd_scenes = None,
      gd_materials = Some [\<lparr>gm_name = ''m'', gm_pbr = None, gm_normal_texture = None,
                            gm_emissive_factor = None\<rparr>],
      gd_textures = None, gd_images = None\<rparr> = Inl e"
  by (rule material_without_pbr_rejects_asset
        [where ms = "[\<lparr>gm_name = ''m'', gm_pbr = None, gm_normal_texture = None, gm_emissive_factor = None\<rparr>]"
           and m = "\<lparr>gm_name = ''m'', gm_pbr = None, gm_normal_texture = None, gm_emissive_factor = None\<rparr>"])
     simp_all

end
