(* ===== verification/Textures.thy ===== *)
theory Textures
  imports Gl
begin

unbundle bit_operations_syntax

text \<open>
  The rest of \<open>texture.ts\<close>: \<open>Texture.createFromImage\<close> with its asynchronous image
  load, and what the texture-creation paths leave behind. WebGL2 samples a texture only
  when it is \<^emph>\<open>complete\<close>: it has an image and its minification filter does not
  use mipmaps, or its mipmaps were generated after the last upload. The default
  minification filter \<open>NEAREST_MIPMAP_LINEAR\<close> uses mipmaps. Completeness is read off the
  command log by replaying the calls that matter: object creation, the active unit, the
  binding of each unit, and the uploads, mipmap generation and parameters of the bound
  texture.
\<close>

subsection \<open>Texture state of the GL, replayed from the log\<close>

record tex_info =
  has_image :: bool
  has_mipmaps :: bool
  min_linear :: bool

record tex_units =
  active_unit :: nat
  unit_binding :: "nat \<rightharpoonup> nat"
  textures :: "nat \<rightharpoonup> tex_info"

definition tex_units_init :: tex_units where
  "tex_units_init = \<lparr>active_unit = 0, unit_binding = Map.empty, textures = Map.empty\<rparr>"

definition on_bound_texture :: "(tex_info \<Rightarrow> tex_info) \<Rightarrow> tex_units \<Rightarrow> tex_units" where
  "on_bound_texture f s =
     (case unit_binding s (active_unit s) of
        None \<Rightarrow> s
      | Some t \<Rightarrow> (case textures s t of
                    None \<Rightarrow> s
                  | Some i \<Rightarrow> s\<lparr>textures := (textures s)(t \<mapsto> f i)\<rparr>))"

fun tex_step :: "tex_units \<Rightarrow> gl_cmd \<Rightarrow> tex_units" where
  "tex_step s (CreateObject k t) =
     (if k = ObjTexture
      then s\<lparr>textures := (textures s)(t \<mapsto>
              \<lparr>has_image = False, has_mipmaps = False, min_linear = False\<rparr>)\<rparr>
      else s)"
| "tex_step s (ActiveTexture u) = s\<lparr>active_unit := u\<rparr>"
| "tex_step s (BindTexture b) = s\<lparr>unit_binding := (unit_binding s)(active_unit s := b)\<rparr>"
| "tex_step s (TexImage2D w h) =
     on_bound_texture (\<lambda>i. i\<lparr>has_image := True, has_mipmaps := False\<rparr>) s"
| "tex_step s GenerateMipmap = on_bound_texture (\<lambda>i. i\<lparr>has_mipmaps := has_image i\<rparr>) s"
| "tex_step s (TexParameteri p) =
     (if p = MIN_FILTER_LINEAR then on_bound_texture (\<lambda>i. i\<lparr>min_linear := True\<rparr>) s else s)"
| "tex_step s _ = s"

definition texture_complete :: "gl_cmd list \<Rightarrow> nat \<Rightarrow> bool" where
  "texture_complete cs t =
     (case textures (foldl tex_step tex_units_init cs) t of
        None \<Rightarrow> False
      | Some i \<Rightarrow> has_image i \<and> (min_linear i \<or> has_mipmaps i))"

text \<open>A texture with an image and a linear minification filter, complete whatever its
  mipmaps.\<close>

definition linear_image :: "tex_units \<Rightarrow> nat \<Rightarrow> bool" where
  "linear_image s t = (case textures s t of None \<Rightarrow> False | Some i \<Rightarrow> has_image i \<and> min_linear i)"

subsection \<open>Texture.createFromImage and its image load\<close>

text \<open>
  \<open>Texture.createFromImage\<close>: a one-pixel green placeholder, then the image load is
  started (\<open>loadImageFromUrl\<close> only installs \<open>onload\<close> and sets \<open>src\<close>, no GL call)
  and the texture is unbound. The url only names the image the load will deliver.
\<close>

definition texture_create_from_image :: "string \<Rightarrow> (gl_state, gl_texture) exc" where
  "texture_create_from_image url g =
     (case gl_create ObjTexture g of
        (None, g1) \<Rightarrow> (Inl (ErrCreate ObjTexture), g1)
      | (Some t, g1) \<Rightarrow>
          (Inr \<lparr>texture_handle = t\<rparr>,
           emit (BindTexture None) (set_texture_data 1 1 (emit (BindTexture (Some t)) g1))))"

text \<open>
  The \<open>onLoad\<close> handler of \<open>loadImageFromUrl\<close>, run by the browser later, between
  any other calls, once the image of \<open>w\<close> by \<open>h\<close> pixels has arrived: bind the
  texture on whatever unit is active, upload, set the parameters; it does not unbind.
\<close>

definition texture_image_loaded :: "gl_texture \<Rightarrow> nat \<Rightarrow> nat \<Rightarrow> gl_state \<Rightarrow> gl_state" where
  "texture_image_loaded tx w h g =
     set_texture_parameters w h
       (set_texture_image \<lparr>src_width = w, src_height = h\<rparr>
         (emit (BindTexture (Some (texture_handle tx))) g))"

text \<open>An 800 by 600 photograph, the image of the witnesses.\<close>

definition photo_source :: tex_image_source where
  "photo_source = \<lparr>src_width = 800, src_height = 600\<rparr>"

subsection \<open>isPowerOfTwo on the 32-bit pattern\<close>

lemma double_pow2_iff: "0 < n \<Longrightarrow> (\<exists>k. 2 * n = (2::nat) ^ k) \<longleftrightarrow> (\<exists>k. n = 2 ^ k)"
proof
  assume "0 < n" and "\<exists>k. 2 * n = (2::nat) ^ k"
  then obtain k where k: "2 * n = (2::nat) ^ k" by blast
  show "\<exists>k. n = 2 ^ k"
  proof (cases k)
    case 0 then show ?thesis using k by simp
  next
    case (Suc j) then show ?thesis using k by auto
  qed
next
  assume "\<exists>k. n = 2 ^ k"
  then obtain k where "n = 2 ^ k" by blast
  then have "2 * n = 2 ^ Suc k" by simp
  then show "\<exists>k. 2 * n = (2::nat) ^ k" by blast
qed

lemma odd_not_pow2: "0 < n \<Longrightarrow> Suc (2 * n) \<noteq> (2::nat) ^ k"
proof (cases k)
  case 0 then show "0 < n \<Longrightarrow> Suc (2 * n) \<noteq> 2 ^ k" by simp
next
  case (Suc j) then show "0 < n \<Longrightarrow> Suc (2 * n) \<noteq> 2 ^ k" by (simp, presburger)
qed

lemma nat_and_pred_zero: "0 < n \<Longrightarrow> (n AND (n - 1) = (0::nat)) \<longleftrightarrow> (\<exists>k. n = 2 ^ k)"
proof (induction n rule: nat_bit_induct)
  case zero then show ?case by simp
next
  case (even n)
  then have n: "0 < n" by simp
  have e: "2 * n - 1 = 1 + 2 * (n - 1)" using n by arith
  have "(2 * n) AND (2 * n - 1) = 2 * (n AND (n - 1))" unfolding e by (subst and_nat_rec) simp
  then show ?case using even.IH n double_pow2_iff [OF n] by simp
next
  case (odd n)
  show ?case
  proof (cases "n = 0")
    case True
    then show ?thesis by (simp add: exI [of _ 0])
  next
    case False
    have "Suc (2 * n) AND (Suc (2 * n) - 1) = (1 + 2 * n) AND (0 + 2 * n)" by simp
    also have "\<dots> = 2 * n" by (subst and_nat_rec) simp
    finally show ?thesis using False odd_not_pow2 [of n] by auto
  qed
qed

lemma word_and_pred_unat:
  fixes w :: "'a::len word"
  assumes "w \<noteq> 0"
  shows "unat (w AND (w - 1)) = unat w AND (unat w - 1)"
  using assms by (simp add: unsigned_and_eq unat_minus_one)

text \<open>C29: isPowerOfTwo, on every width below \<open>2^32\<close>, accepts exactly zero and the
  powers of two.\<close>

theorem is_power_of_two_iff:
  assumes "v < 2 ^ 32"
  shows "is_power_of_two v \<longleftrightarrow> v = 0 \<or> (\<exists>k. v = 2 ^ k)"
proof (cases "v = 0")
  case True then show ?thesis by (simp add: is_power_of_two_def)
next
  case False
  let ?w = "word_of_nat v :: 32 word"
  have u: "unat ?w = v" using assms by (simp add: unsigned_of_nat take_bit_nat_eq_self)
  then have nz: "?w \<noteq> 0" using False by auto
  have "is_power_of_two v \<longleftrightarrow> unat (?w AND (?w - 1)) = 0"
    by (simp add: is_power_of_two_def Let_def unat_eq_zero)
  also have "\<dots> \<longleftrightarrow> v AND (v - 1) = 0" by (simp add: word_and_pred_unat [OF nz] u)
  also have "\<dots> \<longleftrightarrow> (\<exists>k. v = 2 ^ k)" using nat_and_pred_zero False by simp
  finally show ?thesis using False by simp
qed

subsection \<open>Replaying the texture calls\<close>

lemma on_bound_texture_bound [simp]:
  "unit_binding s (active_unit s) = Some t \<Longrightarrow> textures s t = Some i \<Longrightarrow>
   on_bound_texture f s = s\<lparr>textures := (textures s)(t \<mapsto> f i)\<rparr>"
  by (simp add: on_bound_texture_def)


text \<open>Such a texture stays so under every call but the re-creation of its name.\<close>

lemma on_bound_linear_image:
  assumes l: "linear_image s t"
    and f: "\<And>i. has_image i \<Longrightarrow> min_linear i \<Longrightarrow> has_image (f i) \<and> min_linear (f i)"
  shows "linear_image (on_bound_texture f s) t"
proof (cases "unit_binding s (active_unit s)")
  case None then show ?thesis using l by (simp add: on_bound_texture_def)
next
  case (Some u)
  note b = this
  show ?thesis
  proof (cases "textures s u")
    case None then show ?thesis using l b by (simp add: on_bound_texture_def)
  next
    case (Some i)
    then show ?thesis using l b f [of i]
      by (cases "u = t") (simp_all add: on_bound_texture_def linear_image_def)
  qed
qed

lemma tex_step_linear_image:
  assumes "linear_image s t" "c \<noteq> CreateObject ObjTexture t"
  shows "linear_image (tex_step s c) t"
proof (cases c)
  case (CreateObject k u) then show ?thesis using assms by (auto simp: linear_image_def)
next
  case (TexImage2D w h) then show ?thesis using assms(1) by (simp add: on_bound_linear_image)
next
  case GenerateMipmap then show ?thesis using assms(1) by (simp add: on_bound_linear_image)
next
  case (TexParameteri p) then show ?thesis using assms(1) by (simp add: on_bound_linear_image)
qed (insert assms(1), simp_all add: linear_image_def)

lemma foldl_linear_image:
  "linear_image s t \<Longrightarrow> CreateObject ObjTexture t \<notin> set cs \<Longrightarrow> linear_image (foldl tex_step s cs) t"
proof (induction cs arbitrary: s)
  case Nil then show ?case by simp
next
  case (Cons c cs)
  have "linear_image (tex_step s c) t"
    using Cons.prems by (intro tex_step_linear_image) auto
  then show ?case using Cons.IH Cons.prems(2) by simp
qed

lemma linear_image_complete:
  "linear_image (foldl tex_step tex_units_init cs) t \<Longrightarrow> texture_complete cs t"
  unfolding linear_image_def texture_complete_def by (simp split: option.splits)

lemma create_from_source_log:
  assumes "\<not> context_lost g" "texture_create_from_tex_image_source src g = (r, g')"
  shows "r = Inr \<lparr>texture_handle = next_handle g\<rparr> \<and>
    gl_log g' = gl_log g @ [CreateObject ObjTexture (next_handle g), BindTexture (Some (next_handle g)),
      TexImage2D (src_width src) (src_height src)] @
      (if is_power_of_two (src_width src) \<and> is_power_of_two (src_height src) then [GenerateMipmap]
       else [TexParameteri WRAP_S_CLAMP, TexParameteri WRAP_T_CLAMP, TexParameteri MAG_FILTER_LINEAR])"
  using assms by (auto simp: texture_create_from_tex_image_source_def set_texture_parameters_def
                texture_upload_defs)

text \<open>C12: createFromTexImageSource leaves a complete texture exactly when both sides are
  powers of two: the other branch sets the magnification filter, not the minification
  filter, and generates no mipmaps.\<close>

theorem source_texture_complete_iff_pot:
  assumes "\<not> context_lost g" "texture_create_from_tex_image_source src g = (r, g')"
  shows "r = Inr \<lparr>texture_handle = next_handle g\<rparr> \<and>
    (texture_complete (gl_log g') (next_handle g)
     \<longleftrightarrow> is_power_of_two (src_width src) \<and> is_power_of_two (src_height src))"
  using create_from_source_log [OF assms]
  by (simp add: texture_complete_def)

lemma create_from_image_linear:
  assumes "\<not> context_lost g" "texture_create_from_image url g = (r, g1)"
  shows "r = Inr \<lparr>texture_handle = next_handle g\<rparr> \<and>
    linear_image (foldl tex_step tex_units_init (gl_log g1)) (next_handle g)"
  using assms
  by (auto simp: texture_create_from_image_def set_texture_data_def linear_image_def)

lemma image_loaded_log:
  "\<exists>cs. gl_log (texture_image_loaded tx w h g) = gl_log g @ cs \<and> (\<forall>k t. CreateObject k t \<notin> set cs)"
  by (simp add: texture_image_loaded_def set_texture_parameters_def)

text \<open>C28: the texture of createFromImage is complete from its creation on, through any
  calls that do not create its name again, and after its image has loaded, whatever the
  image's size: the placeholder's linear minification filter stays set.\<close>

theorem image_texture_complete_after_load:
  assumes "\<not> context_lost g" "texture_create_from_image url g = (r, g1)"
    and "gl_log g2 = gl_log g1 @ cs" "CreateObject ObjTexture (next_handle g) \<notin> set cs"
  shows "r = Inr \<lparr>texture_handle = next_handle g\<rparr> \<and> texture_complete (gl_log g2) (next_handle g) \<and>
    texture_complete (gl_log (texture_image_loaded \<lparr>texture_handle = next_handle g\<rparr> w h g2)) (next_handle g)"
proof -
  have r: "r = Inr \<lparr>texture_handle = next_handle g\<rparr>"
    and l1: "linear_image (foldl tex_step tex_units_init (gl_log g1)) (next_handle g)"
    using create_from_image_linear [OF assms(1,2)] by auto
  have l2: "linear_image (foldl tex_step tex_units_init (gl_log g2)) (next_handle g)"
    using foldl_linear_image [OF l1 assms(4)] assms(3) by simp
  obtain cs' where c': "gl_log (texture_image_loaded \<lparr>texture_handle = next_handle g\<rparr> w h g2) = gl_log g2 @ cs'"
    and n': "\<forall>k t. CreateObject k t \<notin> set cs'"
    using image_loaded_log by blast
  have "linear_image (foldl tex_step tex_units_init
      (gl_log (texture_image_loaded \<lparr>texture_handle = next_handle g\<rparr> w h g2))) (next_handle g)"
    using foldl_linear_image [OF l2] n' c' by simp
  then show ?thesis using r l2 by (simp add: linear_image_complete)
qed

theorem source_texture_complete_iff_pot_witness:
  "fst (texture_create_from_tex_image_source photo_source gl_init) = Inr \<lparr>texture_handle = 0\<rparr>
   \<and> \<not> texture_complete (gl_log (snd (texture_create_from_tex_image_source photo_source gl_init))) 0"
proof -
  have np: "\<not> is_power_of_two 600"
    by (simp add: is_power_of_two_def)
  show ?thesis
    using source_texture_complete_iff_pot [of gl_init photo_source
        "fst (texture_create_from_tex_image_source photo_source gl_init)"
        "snd (texture_create_from_tex_image_source photo_source gl_init)"] np
    by (simp add: gl_init_def photo_source_def)
qed

theorem image_texture_complete_after_load_witness:
  "texture_complete (gl_log (texture_image_loaded \<lparr>texture_handle = 0\<rparr> 800 600
     (snd (texture_create_from_image ''crate.png'' gl_init)))) 0"
  using image_texture_complete_after_load [of gl_init "''crate.png''"
      "fst (texture_create_from_image ''crate.png'' gl_init)"
      "snd (texture_create_from_image ''crate.png'' gl_init)"
      "snd (texture_create_from_image ''crate.png'' gl_init)" "[]" 800 600]
  by (simp add: gl_init_def)

theorem is_power_of_two_iff_witness: "is_power_of_two 1024"
  using is_power_of_two_iff [of 1024] by (simp add: exI [of _ 10])

end
