(* ===== verification/AssetTextures.thy ===== *)
theory AssetTextures
  imports AssetManager Textures
begin

text \<open>
  What \<open>addAsset\<close> leaves on the GPU for each texture of the asset: the texture loop
  creates one texture per glTF texture with \<open>Texture.createFromTexImageSource\<close>, and the
  mesh loop after it issues only buffer calls, so each texture keeps the state its own
  creation gave it. The replay of \<open>Textures\<close> reads that state off the final log.
\<close>

subsection \<open>Calls that leave the texture state alone\<close>

fun texture_call :: "gl_cmd \<Rightarrow> bool" where
  "texture_call (CreateObject k t) = (k = ObjTexture)"
| "texture_call (BindTexture b) = True"
| "texture_call (ActiveTexture u) = True"
| "texture_call (TexImage2D w h) = True"
| "texture_call GenerateMipmap = True"
| "texture_call (TexParameteri p) = True"
| "texture_call _ = False"

definition no_texture_calls :: "gl_state \<Rightarrow> gl_state \<Rightarrow> bool" where
  "no_texture_calls g g' \<longleftrightarrow> (\<exists>cs. gl_log g' = gl_log g @ cs \<and> (\<forall>c\<in>set cs. \<not> texture_call c))"

lemma tex_step_quiet: "\<not> texture_call c \<Longrightarrow> tex_step s c = s"
  by (cases c) simp_all

lemma foldl_tex_step_quiet: "\<forall>c\<in>set cs. \<not> texture_call c \<Longrightarrow> foldl tex_step s cs = s"
  by (induction cs arbitrary: s) (simp_all add: tex_step_quiet)

named_theorems quiet_intros "operations that issue no texture call"

lemma no_texture_calls_refl [quiet_intros]: "no_texture_calls g g"
  unfolding no_texture_calls_def by (rule exI [of _ "[]"]) simp

lemma no_texture_calls_trans:
  "no_texture_calls g1 g2 \<Longrightarrow> no_texture_calls g2 g3 \<Longrightarrow> no_texture_calls g1 g3"
  unfolding no_texture_calls_def by (metis Un_iff append.assoc set_append)

lemma quiet_ebind [quiet_intros]:
  "keeps no_texture_calls m \<Longrightarrow> (\<And>a. keeps no_texture_calls (f a)) \<Longrightarrow> keeps no_texture_calls (ebind m f)"
  by (rule keeps_ebind) (auto intro: no_texture_calls_trans)

lemma quiet_return [quiet_intros]: "keeps no_texture_calls (ereturn a)"
  and quiet_throw [quiet_intros]: "keeps no_texture_calls (ethrow e)"
  by (simp_all add: keeps_def no_texture_calls_refl)

lemma quiet_e_map [quiet_intros]:
  "(\<And>x. x \<in> set xs \<Longrightarrow> keeps no_texture_calls (f x)) \<Longrightarrow> keeps no_texture_calls (e_map f xs)"
  by (rule keeps_e_map) (auto intro: no_texture_calls_refl no_texture_calls_trans)

lemma quiet_generic_buffer_create [quiet_intros]: "keeps no_texture_calls (generic_buffer_create xs n)"
  by (auto simp: keeps_def no_texture_calls_def generic_buffer_create_def gl_create_def emit_def)

lemma quiet_element_buffer_create [quiet_intros]: "keeps no_texture_calls (element_buffer_create xs)"
  by (auto simp: keeps_def no_texture_calls_def element_buffer_create_def gl_create_def emit_def)

lemma quiet_optional_buffer [quiet_intros]: "keeps no_texture_calls (optional_buffer d n)"
  unfolding optional_buffer_def by (cases d) (simp_all add: quiet_intros)

lemma quiet_drawable_primitive_create [quiet_intros]:
  "keeps no_texture_calls (drawable_primitive_create p)"
  unfolding drawable_primitive_create_def
  by (auto intro!: quiet_intros split: option.split)

lemma quiet_drawable_mesh_create [quiet_intros]: "keeps no_texture_calls (drawable_mesh_create ps)"
  unfolding drawable_mesh_create_def by (intro quiet_intros)

lemma quiet_load_meshes_loop [quiet_intros]: "keeps no_texture_calls (load_meshes_loop ms acc)"
  by (induction ms arbitrary: acc) (simp_all add: quiet_intros)

subsection \<open>A texture creation spares every other texture\<close>

lemma bound_calls_spare:
  assumes "unit_binding s (active_unit s) = Some t'" "t' \<noteq> h" "\<forall>c\<in>set ds. edits_texture c"
  shows "textures (foldl tex_step s ds) h = textures s h
    \<and> unit_binding (foldl tex_step s ds) (active_unit (foldl tex_step s ds)) = Some t'"
  using assms
proof (induction ds arbitrary: s)
  case Nil then show ?case by simp
next
  case (Cons c ds)
  have c: "edits_texture c" using Cons.prems(3) by simp
  have "textures (tex_step s c) h = textures s h
      \<and> unit_binding (tex_step s c) (active_unit (tex_step s c)) = Some t'"
    using c Cons.prems(1,2)
    by (cases c) (auto simp: on_bound_texture_def split: option.split)
  then show ?case using Cons.IH [of "tex_step s c"] Cons.prems(2,3) by simp
qed

lemma create_block_spares:
  assumes "t' \<noteq> h" "\<forall>c\<in>set ds. edits_texture c"
  shows "textures (foldl tex_step s (CreateObject ObjTexture t' # BindTexture (Some t') # ds)) h
       = textures s h"
proof -
  let ?s = "tex_step (tex_step s (CreateObject ObjTexture t')) (BindTexture (Some t'))"
  have b: "unit_binding ?s (active_unit ?s) = Some t'" by simp
  have "textures ?s h = textures s h" using assms(1) by simp
  then show ?thesis using bound_calls_spare [OF b assms] by simp
qed

lemma texture_create_spares:
  assumes "texture_create_from_tex_image_source src g = (r, g1)" "h < next_handle g"
  shows "\<exists>cs. gl_log g1 = gl_log g @ cs \<and> (\<forall>s. textures (foldl tex_step s cs) h = textures s h)"
proof (cases "context_lost g")
  case True
  then show ?thesis using assms(1)
    by (auto simp: texture_create_from_tex_image_source_def intro: exI [of _ "[]"])
next
  case False
  then obtain ds where "gl_log g1 = gl_log g @ CreateObject ObjTexture (next_handle g)
      # BindTexture (Some (next_handle g)) # ds" and "\<forall>c\<in>set ds. edits_texture c"
    using create_from_source_log [OF False assms(1)] by (auto split: if_splits)
  then show ?thesis using create_block_spares [of "next_handle g" h ds] assms(2) by auto
qed

lemma spared_log_trans:
  assumes "gl_log g1 = gl_log g @ cs1" "\<forall>s. textures (foldl tex_step s cs1) h = textures s h"
    and "gl_log g2 = gl_log g1 @ cs2" "\<forall>s. textures (foldl tex_step s cs2) h = textures s h"
  shows "\<exists>cs. gl_log g2 = gl_log g @ cs \<and> (\<forall>s. textures (foldl tex_step s cs) h = textures s h)"
  using assms by (intro exI [of _ "cs1 @ cs2"]) simp

lemma load_textures_loop_spares:
  "load_textures_loop imgs ts acc g = (r, g') \<Longrightarrow> h < next_handle g \<Longrightarrow>
   \<exists>cs. gl_log g' = gl_log g @ cs \<and> (\<forall>s. textures (foldl tex_step s cs) h = textures s h)"
proof (induction ts arbitrary: acc g)
  case Nil then show ?case by (auto simp: ereturn_def intro: exI [of _ "[]"])
next
  case (Cons t ts)
  show ?case
  proof (cases "find_image imgs t")
    case None
    then show ?thesis using Cons.prems(1) by (auto simp: ethrow_def intro: exI [of _ "[]"])
  next
    case (Some im)
    obtain r1 g1 where c: "texture_create_from_tex_image_source (image_data im) g = (r1, g1)"
      by fastforce
    obtain cs1 where s1: "gl_log g1 = gl_log g @ cs1" "\<forall>s. textures (foldl tex_step s cs1) h = textures s h"
      using texture_create_spares [OF c Cons.prems(2)] by blast
    have n1: "next_handle g \<le> next_handle g1"
      using keeps_step [OF gl_keeps_texture_create c] by (simp add: gl_mono_def)
    show ?thesis
    proof (cases r1)
      case (Inl e)
      then show ?thesis using Cons.prems(1) Some c s1 by (simp add: ebind_def)
    next
      case (Inr tx)
      then have "load_textures_loop imgs ts (js_set acc (tex_id t) tx) g1 = (r, g')"
        using Cons.prems(1) Some c by (simp add: ebind_def)
      from Cons.IH [OF this] obtain cs2 where
        "gl_log g' = gl_log g1 @ cs2" "\<forall>s. textures (foldl tex_step s cs2) h = textures s h"
        using Cons.prems(2) n1 by auto
      then show ?thesis using spared_log_trans [OF s1] by blast
    qed
  qed
qed

lemma load_textures_loop_other_slots:
  "load_textures_loop imgs ts acc g = (Inr acc', g') \<Longrightarrow> i \<notin> tex_id ` set ts \<Longrightarrow>
   js_get acc' i = js_get acc i"
proof (induction ts arbitrary: acc g)
  case Nil then show ?case by (simp add: ereturn_def)
next
  case (Cons t ts)
  obtain im where im: "find_image imgs t = Some im"
    using Cons.prems(1) by (cases "find_image imgs t") (simp_all add: ethrow_def)
  obtain r1 g1 where c: "texture_create_from_tex_image_source (image_data im) g = (r1, g1)"
    by fastforce
  obtain tx where r1: "r1 = Inr tx"
    using Cons.prems(1) im c by (cases r1) (simp_all add: ebind_def)
  have "load_textures_loop imgs ts (js_set acc (tex_id t) tx) g1 = (Inr acc', g')"
    using Cons.prems(1) im c r1 by (simp add: ebind_def)
  from Cons.IH [OF this] show ?case using Cons.prems(2) by (simp add: js_simps)
qed

lemma texture_complete_spared:
  "gl_log g' = gl_log g1 @ cs \<Longrightarrow> \<forall>s. textures (foldl tex_step s cs) h = textures s h \<Longrightarrow>
   texture_complete (gl_log g') h = texture_complete (gl_log g1) h"
  by (simp add: texture_complete_def)

lemma load_textures_loop_complete:
  assumes "load_textures_loop imgs ts acc g = (Inr acc', g')" "\<not> context_lost g"
    and "distinct (map tex_id ts)"
  shows "\<forall>t\<in>set ts. \<exists>im tx. find_image imgs t = Some im \<and> js_get acc' (tex_id t) = Some tx
    \<and> (texture_complete (gl_log g') (texture_handle tx)
       \<longleftrightarrow> is_power_of_two (src_width (image_data im)) \<and> is_power_of_two (src_height (image_data im)))"
  using assms
proof (induction ts arbitrary: acc g)
  case Nil then show ?case by simp
next
  case (Cons t ts)
  obtain im where im: "find_image imgs t = Some im"
    using Cons.prems(1) by (cases "find_image imgs t") (simp_all add: ethrow_def)
  let ?tx = "\<lparr>texture_handle = next_handle g\<rparr>"
  obtain g1 where c: "texture_create_from_tex_image_source (image_data im) g = (Inr ?tx, g1)"
    and l1: "\<not> context_lost g1" and n1: "next_handle g1 = Suc (next_handle g)"
    using texture_create_live [OF Cons.prems(2)] by blast
  have rest: "load_textures_loop imgs ts (js_set acc (tex_id t) ?tx) g1 = (Inr acc', g')"
    using Cons.prems(1) im c by (simp add: ebind_def)
  have d: "tex_id t \<notin> tex_id ` set ts" "distinct (map tex_id ts)" using Cons.prems(3) by auto
  have slot: "js_get acc' (tex_id t) = Some ?tx"
    using load_textures_loop_other_slots [OF rest d(1)] by (simp add: js_simps)
  obtain cs where "gl_log g' = gl_log g1 @ cs" "\<forall>s. textures (foldl tex_step s cs) (next_handle g)
      = textures s (next_handle g)"
    using load_textures_loop_spares [OF rest] n1 by auto
  then have "texture_complete (gl_log g') (next_handle g) = texture_complete (gl_log g1) (next_handle g)"
    by (rule texture_complete_spared)
  also have "\<dots> \<longleftrightarrow> is_power_of_two (src_width (image_data im)) \<and> is_power_of_two (src_height (image_data im))"
    using create_from_source_log [OF Cons.prems(2) c] by (simp add: texture_complete_def)
  finally have "texture_complete (gl_log g') (texture_handle ?tx)
      \<longleftrightarrow> is_power_of_two (src_width (image_data im)) \<and> is_power_of_two (src_height (image_data im))"
    by simp
  then show ?case using Cons.IH [OF rest l1 d(2)] im slot by auto
qed

text \<open>After a successful addAsset with distinct texture ids, each texture slot holds a
  texture that is complete exactly when its image's sides are powers of two.\<close>

lemma add_asset_textures_complete:
  assumes "\<not> context_lost g" "add_asset a (m, g) = (Inr (), (m', g'))"
    and "distinct (map tex_id (asset_textures a))"
  shows "\<exists>r. m' = m\<lparr>am_assets := am_assets m @ [r]\<rparr> \<and> car_asset r = a
    \<and> (\<forall>t\<in>set (asset_textures a). \<exists>im tx. find_image (images a) t = Some im
         \<and> js_get (car_textures r) (tex_id t) = Some tx
         \<and> (texture_complete (gl_log g') (texture_handle tx)
            \<longleftrightarrow> is_power_of_two (src_width (image_data im)) \<and> is_power_of_two (src_height (image_data im))))"
proof -
  obtain r where cr: "create_record a g = (Inr r, g')" and m': "m' = m\<lparr>am_assets := am_assets m @ [r]\<rparr>"
    using assms(2) by (auto simp: add_asset_def split: prod.splits sum.splits)
  obtain tx g1 where lt: "load_asset_textures a g = (Inr tx, g1)"
    using cr by (cases "load_asset_textures a g" rule: prod.exhaust, rename_tac x y, case_tac x)
      (auto simp: create_record_def ebind_def)
  obtain ms where lm: "load_asset_meshes a g1 = (Inr ms, g')"
    and r: "r = \<lparr>car_asset = a, car_textures = tx, drawable_mesh_records = ms\<rparr>"
    using cr lt by (cases "load_asset_meshes a g1" rule: prod.exhaust, rename_tac x y, case_tac x)
      (auto simp: create_record_def ebind_def ereturn_def)
  obtain cs where e: "gl_log g' = gl_log g1 @ cs" and q: "\<forall>c\<in>set cs. \<not> texture_call c"
    using keeps_step [OF quiet_load_meshes_loop lm [unfolded load_asset_meshes_def]]
    by (auto simp: no_texture_calls_def)
  have "\<forall>s. foldl tex_step s cs = s" using foldl_tex_step_quiet [OF q] by simp
  then have same: "\<And>h. texture_complete (gl_log g') h = texture_complete (gl_log g1) h"
    using texture_complete_spared [OF e] by simp
  show ?thesis
    using load_textures_loop_complete [OF lt [unfolded load_asset_textures_def] assms(1,3)] m' r same
    by auto
qed

end
