(* ===== verification/Names.thy ===== *)
theory Names
  imports Pipeline AssetTextures
begin

text \<open>
  GL object names. Every \<open>gl.create*\<close> call returns a name the context has not handed out
  before; the model hands out \<open>next_handle\<close> and bumps it. The well-formedness of a GL
  state, \<open>names_ok\<close>, is that the names created in its log are exactly
  \<open>0, 1, ..., next_handle - 1\<close>, in that order: no name is created twice and every
  created name lies below the next one. Every creating operation of the engine extends
  the log by creations of exactly the names it consumes (\<open>fresh_ext\<close>), so it keeps the
  invariant.
\<close>

fun created_names :: "gl_cmd list \<Rightarrow> nat list" where
  "created_names [] = []"
| "created_names (CreateObject k t # cs) = t # created_names cs"
| "created_names (c # cs) = created_names cs"

definition names_ok :: "gl_state \<Rightarrow> bool" where
  "names_ok g \<longleftrightarrow> created_names (gl_log g) = [0..<next_handle g]"

definition fresh_ext :: "gl_state \<Rightarrow> gl_state \<Rightarrow> bool" where
  "fresh_ext g g' \<longleftrightarrow> next_handle g \<le> next_handle g'
     \<and> (\<exists>cs. gl_log g' = gl_log g @ cs \<and> created_names cs = [next_handle g..<next_handle g'])"

named_theorems fresh_intros "operations that create exactly the names they consume"

lemma created_names_append [simp]: "created_names (cs @ ds) = created_names cs @ created_names ds"
  by (induction cs rule: created_names.induct) simp_all

lemma upt_append: "a \<le> b \<Longrightarrow> b \<le> c \<Longrightarrow> [a..<b] @ [b..<c] = [a..<c]"
  by (metis le_add_diff_inverse upt_add_eq_append)

lemma names_ok_init: "names_ok gl_init"
  by (simp add: names_ok_def gl_init_def)

lemma names_ok_fresh_ext: "names_ok g \<Longrightarrow> fresh_ext g g' \<Longrightarrow> names_ok g'"
  by (auto simp: names_ok_def fresh_ext_def upt_append)

lemma fresh_ext_refl [fresh_intros]: "fresh_ext g g"
  unfolding fresh_ext_def by (rule conjI, simp, rule exI [of _ "[]"]) simp

lemma fresh_ext_trans: "fresh_ext g1 g2 \<Longrightarrow> fresh_ext g2 g3 \<Longrightarrow> fresh_ext g1 g3"
  unfolding fresh_ext_def
proof (elim conjE exE, intro conjI)
  fix cs ds
  assume "next_handle g1 \<le> next_handle g2" "next_handle g2 \<le> next_handle g3"
    and "gl_log g2 = gl_log g1 @ cs" "created_names cs = [next_handle g1..<next_handle g2]"
    and "gl_log g3 = gl_log g2 @ ds" "created_names ds = [next_handle g2..<next_handle g3]"
  then show "\<exists>cs. gl_log g3 = gl_log g1 @ cs \<and> created_names cs = [next_handle g1..<next_handle g3]"
    by (intro exI [of _ "cs @ ds"]) (simp add: upt_append)
qed (auto)

lemma fresh_ext_emit [fresh_intros]:
  "fresh_ext g g' \<Longrightarrow> (\<And>k t. c \<noteq> CreateObject k t) \<Longrightarrow> fresh_ext g (emit c g')"
  unfolding fresh_ext_def
  by (cases c) (auto simp: emit_def)

lemma fresh_ext_create: "gl_create k g = (h, g') \<Longrightarrow> fresh_ext g g'"
  by (cases "context_lost g") (auto simp: fresh_ext_refl fresh_ext_def)

lemma fresh_ebind [fresh_intros]:
  "keeps fresh_ext m \<Longrightarrow> (\<And>a. keeps fresh_ext (f a)) \<Longrightarrow> keeps fresh_ext (ebind m f)"
  by (rule keeps_ebind) (auto intro: fresh_ext_trans)

lemma fresh_return [fresh_intros]: "keeps fresh_ext (ereturn a)"
  and fresh_throw [fresh_intros]: "keeps fresh_ext (ethrow e)"
  by (simp_all add: keeps_def fresh_ext_refl)

lemma fresh_e_map [fresh_intros]:
  "(\<And>x. x \<in> set xs \<Longrightarrow> keeps fresh_ext (f x)) \<Longrightarrow> keeps fresh_ext (e_map f xs)"
  by (rule keeps_e_map) (auto intro: fresh_ext_refl fresh_ext_trans)

text \<open>A creation followed by calls that create nothing.\<close>

lemma fresh_create_then:
  "gl_create k g = (Some h, g1) \<Longrightarrow> \<forall>c\<in>set cs. \<forall>k t. c \<noteq> CreateObject k t \<Longrightarrow>
   fresh_ext g (g1\<lparr>gl_log := gl_log g1 @ cs\<rparr>)"
proof -
  assume c: "gl_create k g = (Some h, g1)" and n: "\<forall>c\<in>set cs. \<forall>k t. c \<noteq> CreateObject k t"
  have "created_names cs = []" using n by (induction cs rule: created_names.induct) auto
  then show ?thesis using c
    by (cases "context_lost g") (auto simp: fresh_ext_def)
qed

subsection \<open>The creating operations\<close>

lemma fresh_set_texture_parameters [fresh_intros]:
  "fresh_ext g g' \<Longrightarrow> fresh_ext g (set_texture_parameters w h g')"
  unfolding set_texture_parameters_def by (simp add: fresh_intros)

lemma fresh_set_texture_image [fresh_intros]:
  "fresh_ext g g' \<Longrightarrow> fresh_ext g (set_texture_image src g')"
  unfolding set_texture_image_def by (simp add: fresh_intros)

lemma fresh_set_texture_data [fresh_intros]:
  "fresh_ext g g' \<Longrightarrow> fresh_ext g (set_texture_data w h g')"
  unfolding set_texture_data_def by (simp add: fresh_intros)

lemma fresh_generic_buffer_create [fresh_intros]: "keeps fresh_ext (generic_buffer_create xs n)"
  by (auto simp: keeps_def generic_buffer_create_def split: prod.split option.split
           intro!: fresh_intros intro: fresh_ext_create)

lemma fresh_element_buffer_create [fresh_intros]: "keeps fresh_ext (element_buffer_create xs)"
  by (auto simp: keeps_def element_buffer_create_def split: prod.split option.split
           intro!: fresh_intros intro: fresh_ext_create)

lemma fresh_texture_create [fresh_intros]: "keeps fresh_ext (texture_create_from_tex_image_source src)"
  by (auto simp: keeps_def texture_create_from_tex_image_source_def split: prod.split option.split
           intro!: fresh_intros intro: fresh_ext_create)

lemma fresh_texture_create_empty [fresh_intros]: "keeps fresh_ext (texture_create_empty w h)"
  by (auto simp: keeps_def texture_create_empty_def split: prod.split option.split
           intro!: fresh_intros intro: fresh_ext_create)

lemma fresh_texture_create_from_image [fresh_intros]: "keeps fresh_ext (texture_create_from_image url)"
  by (auto simp: keeps_def texture_create_from_image_def
           split: prod.split option.split intro!: fresh_intros intro: fresh_ext_create)

lemma fresh_shader_create [fresh_intros]: "keeps fresh_ext (shader_create drv ty src)"
  by (auto simp: keeps_def shader_create_def Let_def split: prod.split option.split
           intro!: fresh_intros intro: fresh_ext_create)

lemma fresh_optional_buffer [fresh_intros]: "keeps fresh_ext (optional_buffer d n)"
  unfolding optional_buffer_def by (cases d) (simp_all add: fresh_intros)

lemma fresh_drawable_primitive_create [fresh_intros]:
  "keeps fresh_ext (drawable_primitive_create p)"
  unfolding drawable_primitive_create_def
  by (auto intro!: fresh_intros split: option.split)

lemma fresh_drawable_mesh_create [fresh_intros]: "keeps fresh_ext (drawable_mesh_create ps)"
  unfolding drawable_mesh_create_def by (intro fresh_intros)

lemma fresh_load_textures_loop [fresh_intros]: "keeps fresh_ext (load_textures_loop imgs ts acc)"
  by (induction ts arbitrary: acc) (auto intro!: fresh_intros split: option.split)

lemma fresh_load_meshes_loop [fresh_intros]: "keeps fresh_ext (load_meshes_loop ms acc)"
  by (induction ms arbitrary: acc) (simp_all add: fresh_intros)

lemma fresh_create_record [fresh_intros]: "keeps fresh_ext (create_record a)"
  unfolding create_record_def load_asset_textures_def load_asset_meshes_def
  by (intro fresh_intros)

lemma fresh_add_asset: "add_asset a (m, g) = (r, (m', g')) \<Longrightarrow> fresh_ext g g'"
  using keeps_step [OF fresh_create_record, of a g]
  by (auto simp: add_asset_def split: prod.splits sum.splits)

lemma fresh_create_attachment [fresh_intros]: "keeps fresh_ext (create_attachment ao)"
  unfolding create_attachment_def
  by (intro fresh_intros keepsI) (simp add: fresh_intros)

lemma fresh_create_depth_renderbuffer [fresh_intros]:
  "fresh_ext g g' \<Longrightarrow> fresh_ext g (create_depth_renderbuffer w h g')"
  by (auto simp: create_depth_renderbuffer_def split: prod.split
           intro!: fresh_intros intro: fresh_ext_trans fresh_ext_create)

lemma fresh_framebuffer_create [fresh_intros]: "keeps fresh_ext (framebuffer_create drv opts)"
proof (rule keepsI)
  fix g
  show "fresh_ext g (snd (framebuffer_create drv opts g))"
  proof (cases "gl_create ObjFramebuffer g")
    case (Pair h g1)
    have f1: "fresh_ext g (emit (BindFramebuffer h') g1)" for h'
      using Pair by (intro fresh_intros) (auto intro: fresh_ext_create)
    obtain r g2 where em: "e_map create_attachment (fb_attachments opts)
        (emit (BindFramebuffer h) g1) = (r, g2)" by fastforce
    have f2: "fresh_ext g g2" if "h = Some fb" for fb
      using fresh_ext_trans [OF f1 keeps_step [OF fresh_e_map em]] that
      by (simp add: fresh_intros)
    show ?thesis
      using Pair em f2 fresh_ext_create [OF Pair]
      by (cases h; cases r) (auto simp: framebuffer_create_def Let_def intro!: fresh_intros)
  qed
qed

lemma fresh_shader_program_create [fresh_intros]: "keeps fresh_ext (shader_program_create drv opts)"
  unfolding shader_program_create_def Let_def
  by (intro fresh_intros keepsI)
     (auto split: prod.split option.split intro!: fresh_intros intro: fresh_ext_create)

lemma fresh_quad_primitive_create [fresh_intros]: "keeps fresh_ext quad_primitive_create"
  unfolding quad_primitive_create_def by (rule fresh_drawable_mesh_create)

lemma fresh_pbr_lighting_pass_create [fresh_intros]: "keeps fresh_ext (pbr_lighting_pass_create n p)"
  unfolding pbr_lighting_pass_create_def by (intro fresh_intros)

lemma fresh_draw_quad_render_pass_create [fresh_intros]:
  "keeps fresh_ext (draw_quad_render_pass_create n p)"
  unfolding draw_quad_render_pass_create_def by (intro fresh_intros)

lemma fresh_create_shader_program [fresh_intros]:
  "keeps fresh_ext (create_shader_program drv files cfg)"
  by (rule keepsI)
     (auto simp: create_shader_program_def fresh_ext_refl split: sum.split
           intro: keepsD [OF fresh_shader_program_create])

lemma fresh_load_render_pass [fresh_intros]: "keeps fresh_ext (load_render_pass drv files cfg)"
  unfolding load_render_pass_def
  by (intro fresh_intros) (simp split: render_pass_type.split add: fresh_intros)

lemma fresh_locate_render_pass [fresh_intros]:
  "keeps fresh_ext (locate_render_pass drv files sts ty)"
  unfolding locate_render_pass_def
  by (simp split: option.split add: fresh_intros)

lemma fresh_keeps_after:
  "keeps fresh_ext m \<Longrightarrow> (\<And>g. fresh_ext g (h g)) \<Longrightarrow> keeps fresh_ext (\<lambda>g. m (h g))"
  by (rule keepsI) (metis fresh_ext_trans keepsD)

lemma fresh_render_pipeline_create [fresh_intros]:
  "keeps fresh_ext (render_pipeline_create drv files opts)"
  unfolding render_pipeline_create_def
  by (intro fresh_ebind fresh_framebuffer_create
        fresh_keeps_after [where h = "\<lambda>g. emit DepthFunc_LEQUAL (emit Enable_DEPTH_TEST g)"])
     (simp_all add: fresh_intros fresh_return [unfolded ereturn_def])

text \<open>Drawing creates nothing, so it keeps the names too.\<close>

lemma log_ext_fresh: "log_ext g g' \<Longrightarrow> fresh_ext g g'"
proof -
  assume "log_ext g g'"
  then obtain cs where g': "g' = g\<lparr>gl_log := gl_log g @ cs\<rparr>" and n: "\<forall>c\<in>set cs. \<not> creates c"
    by (auto simp: log_ext_def)
  have "created_names cs = []" using n by (induction cs rule: created_names.induct) auto
  then show ?thesis using g' by (auto simp: fresh_ext_def)
qed

lemma render_log:
  assumes "render_pipeline_render f rp st = Some (out, st')"
  shows "log_ext (rs_gl st) (rs_gl st')"
proof -
  let ?g1 = "emit (BindFramebuffer (Some (backing_framebuffer (pipeline_fb rp)))) (rs_gl st)"
  let ?texs = "map att_texture (fb_attachment_list (pipeline_fb rp))"
  obtain o2 am g2 where geo: "(case buffer_pass rp of
        None \<Rightarrow> Some (Inr (), rs_assets st, ?g1)
      | Some bp \<Rightarrow> pbr_buffer_pass_render f bp (rs_camera st) (rs_assets st, ?g1)) = Some (o2, am, g2)"
    using assms by (auto simp: render_pipeline_render_def Let_def split: option.splits)
  have l2: "log_ext (rs_gl st) g2"
  proof (cases "buffer_pass rp")
    case None
    then have "g2 = ?g1" using geo by simp
    then show ?thesis by (simp add: log_ext_intros)
  next
    case (Some bp)
    then have "log_ext (emit (UseProgram (program (bp_program bp))) ?g1) g2"
      using geo buffer_pass_log by simp
    then show ?thesis by (rule log_ext_trans [rotated]) (simp add: log_ext_intros)
  qed
  have l3: "log_ext (rs_gl st) (emit (BindFramebuffer None) g2)"
    using l2 by (simp add: log_ext_intros)
  have st': "rs_gl st' = (case o2 of Inl _ \<Rightarrow> g2 | Inr _ \<Rightarrow>
      (case lighting_pass rp of None \<Rightarrow> emit (BindFramebuffer None) g2
       | Some lp \<Rightarrow> snd (snd (pbr_lighting_pass_render lp ?texs (rs_lights st)
                                (rs_camera st, emit (BindFramebuffer None) g2)))))"
    using assms geo
    by (auto simp: render_pipeline_render_def Let_def split: sum.splits option.splits prod.splits)
  show ?thesis
  proof (cases o2)
    case Inl then show ?thesis using st' l2 by simp
  next
    case Inr
    show ?thesis
    proof (cases "lighting_pass rp")
      case None then show ?thesis using st' l3 Inr by simp
    next
      case (Some lp)
      have "log_ext (emit (BindFramebuffer None) g2)
          (bind_camera (lp_program lp) (rs_camera st)
             (context_clear (emit (UseProgram (program (lp_program lp))) (emit (BindFramebuffer None) g2))))"
        by (simp add: log_ext_intros context_clear_def)
      from log_ext_trans [OF l3 log_ext_trans [OF this lighting_pass_log]]
      show ?thesis using st' Inr Some by simp
    qed
  qed
qed

end
