(* ===== verification/Util.thy ===== *)
theory Util
  imports Gl
begin

text \<open>
  The utilities of \<open>util/\<close>: \<open>getCanvas\<close> (\<open>canvas.ts\<close>), the DOM lookup of the canvas
  element, with the document's elements a map from id to canvas; and \<open>Timer\<close>
  (\<open>timer.ts\<close>), with \<open>performance.now()\<close> an input of each operation and the console a
  list of the lines written to it.
\<close>

subsection \<open>getCanvas\<close>

definition get_canvas :: "(string \<rightharpoonup> canvas) \<Rightarrow> string \<Rightarrow> canvas result" where
  "get_canvas doc canvas_id =
     (case doc canvas_id of None \<Rightarrow> Inl (ErrNoCanvas canvas_id) | Some c \<Rightarrow> Inr c)"

subsection \<open>Timer\<close>

record timer_options =
  log_to_console :: bool
  idenfier :: string

record timer =
  t_options :: timer_options
  t0 :: real
  t1 :: "real option"

text \<open>A console line of \<open>finish\<close>: the identifier, the time taken, start and end.\<close>

datatype console_line = TimerLine string real real real

definition timer_new :: "real \<Rightarrow> timer_options \<Rightarrow> timer" where
  "timer_new now opts = \<lparr>t_options = opts, t0 = now, t1 = None\<rparr>"

definition timer_finish :: "real \<Rightarrow> timer \<Rightarrow> timer \<times> console_line list" where
  "timer_finish now t =
     (t\<lparr>t1 := Some now\<rparr>,
      if log_to_console (t_options t)
      then [TimerLine (idenfier (t_options t)) (now - t0 t) (t0 t) now] else [])"

subsection \<open>Properties\<close>

lemma get_canvas_found: "doc canvas_id = Some c \<Longrightarrow> get_canvas doc canvas_id = Inr c"
  by (simp add: get_canvas_def)

lemma get_canvas_missing: "doc canvas_id = None \<Longrightarrow> get_canvas doc canvas_id = Inl (ErrNoCanvas canvas_id)"
  by (simp add: get_canvas_def)

text \<open>
  \<open>finish\<close> measures from the construction: the logged duration is the time between
  \<open>new Timer\<close> and \<open>finish\<close>, whatever an earlier \<open>finish\<close> recorded, and nothing is
  logged when \<open>logToConsole\<close> is off.
\<close>

lemma timer_finish_measures:
  "timer_finish now' (fst (timer_finish now (timer_new start opts))) =
     (\<lparr>t_options = opts, t0 = start, t1 = Some now'\<rparr>,
      if log_to_console opts then [TimerLine (idenfier opts) (now' - start) start now'] else [])"
  by (simp add: timer_finish_def timer_new_def)

end
