(* ===== verification/Startup.thy ===== *)
theory Startup
  imports Names Game Util Gltf
begin

text \<open>
  The start-up of \<open>index.ts\<close>: \<open>document.body.onload\<close> creates the light and asset
  managers, runs \<open>initRenderer\<close> (\<open>createContext\<close> on the configured canvas, the clear
  colour through the context's \<open>gl\<close> getter, \<open>loadAsset\<close> of the Lantern model through
  the glTF loader, one point light), sets up the keyboard and the camera, creates the
  render pipeline and builds the \<open>Game\<close>; its first frame, \<open>window.game.frame(0)\<close>, is
  an animation-frame event of \<open>Game\<close>. The inputs are the configuration
  (\<open>config.json\<close>), the document's canvases, the browser's answer to \<open>getContext\<close>, the
  glTF library's load of a URI, and the served shader files and driver of \<open>Pipeline\<close>.
\<close>

text \<open>The members of \<open>config.json\<close> the start-up reads.\<close>

record app_config =
  cfg_canvas_id :: string
  cfg_canvas :: context_options
  cfg_clear_color :: "real \<times> real \<times> real \<times> real"
  cfg_camera :: camera_options
  cfg_render_pipeline :: pipeline_options

text \<open>The \<open>ModelNames\<close> enumeration and the URI \<open>loadAsset\<close> builds from a name.\<close>

datatype model_name = CesiumMilkTruck | Sponza | Suzanne | Lantern

fun model_name_str :: "model_name \<Rightarrow> string" where
  "model_name_str CesiumMilkTruck = ''CesiumMilkTruck''"
| "model_name_str Sponza = ''Sponza''"
| "model_name_str Suzanne = ''Suzanne''"
| "model_name_str Lantern = ''Lantern''"

definition model_uri :: "model_name \<Rightarrow> string" where
  "model_uri n = ''http://localhost:5000/2.0/'' @ model_name_str n @ ''/glTF/'' @ model_name_str n @ ''.gltf''"

text \<open>\<open>createContext\<close>: the canvas lookup throws when the id is not in the document.\<close>

definition create_context :: "(string \<rightharpoonup> canvas) \<Rightarrow> app_config \<Rightarrow> string \<Rightarrow> canvas_context result" where
  "create_context doc cfg canvas_id =
     rbind (get_canvas doc canvas_id) (\<lambda>c. Inr (context_new c (cfg_canvas cfg)))"

text \<open>
  \<open>setupClear\<close>: the configured clear colour passed component-wise to
  \<open>Context.setClearColor\<close>, on the GL state its \<open>gl\<close> getter returned.
\<close>

definition setup_clear :: "real \<times> real \<times> real \<times> real \<Rightarrow> gl_state \<Rightarrow> gl_state" where
  "setup_clear cc g = (case cc of (r, gr, b, a) \<Rightarrow> context_set_clear_color r gr b a g)"

text \<open>
  \<open>loadAsset\<close>: the model's URI is loaded with \<open>loadModelFromUri\<close>, whose rejection
  leaves \<open>loadAsset\<close>; a \<open>null\<close> asset is only warned about; a loaded asset is added to the
  manager, and \<open>addAsset\<close>'s exception leaves \<open>loadAsset\<close> too.
\<close>

definition index_load_asset ::
  "(f32 \<Rightarrow> real) \<Rightarrow> (string \<Rightarrow> gltf_asset result) \<Rightarrow> model_name
   \<Rightarrow> (asset_manager \<times> gl_state, unit) exc" where
  "index_load_asset dec loader name =
     (case load_model_from_uri dec loader (model_uri name) of
        Inl e \<Rightarrow> ethrow e
      | Inr None \<Rightarrow> ereturn ()
      | Inr (Some a) \<Rightarrow> add_asset a)"

text \<open>The light \<open>initRenderer\<close> adds: at (0, -1, -1) with colour (300, 300, 300).\<close>

definition start_light :: point_light where
  "start_light = \<lparr>light_position = (0, -1, -1), light_color = (300, 300, 300)\<rparr>"

text \<open>
  \<open>initRenderer\<close> on the managers \<open>onload\<close> created. The context's first \<open>gl\<close> use is
  \<open>setupClear\<close>'s \<open>setClearColor\<close>, where the getter obtains the WebGL context; from
  there on the GL state threaded through the operations is that context. Before it there
  is no GL state, so a failure there carries none (\<open>None\<close>). An exception of
  \<open>loadAsset\<close> rejects the promise, and the light is then never added.
\<close>

definition init_renderer ::
  "(string \<rightharpoonup> canvas) \<Rightarrow> (canvas \<Rightarrow> bool) \<Rightarrow> (f32 \<Rightarrow> real) \<Rightarrow> (string \<Rightarrow> gltf_asset result)
   \<Rightarrow> app_config \<Rightarrow> asset_manager \<Rightarrow> light_manager
   \<Rightarrow> (error \<times> gl_state option) + (asset_manager \<times> light_manager \<times> gl_state)" where
  "init_renderer doc avail dec loader cfg am lm =
     (case create_context doc cfg (cfg_canvas_id cfg) of
        Inl e \<Rightarrow> Inl (e, None)
      | Inr ctx \<Rightarrow>
          (case context_gl avail ctx of
             (Inl e, _) \<Rightarrow> Inl (e, None)
           | (Inr g, _) \<Rightarrow>
               (case index_load_asset dec loader Lantern (am, setup_clear (cfg_clear_color cfg) g) of
                  (Inl e, (_, g')) \<Rightarrow> Inl (e, Some g')
                | (Inr _, (am', g')) \<Rightarrow> Inr (am', add_point_light start_light lm, g'))))"

text \<open>
  The \<open>onload\<close> handler up to \<open>new Game\<close>: an error of \<open>initRenderer\<close> or
  \<open>RenderPipeline.create\<close> propagates out of the handler, and no game is built. The
  GL state reached is returned with the outcome (\<open>None\<close> when no context was obtained).
\<close>

definition body_onload ::
  "gl_driver \<Rightarrow> (string \<rightharpoonup> string) \<Rightarrow> (string \<rightharpoonup> canvas) \<Rightarrow> (canvas \<Rightarrow> bool)
   \<Rightarrow> (f32 \<Rightarrow> real) \<Rightarrow> (string \<Rightarrow> gltf_asset result) \<Rightarrow> app_config
   \<Rightarrow> (error + render_pipeline \<times> game) \<times> gl_state option" where
  "body_onload drv files doc avail dec loader cfg =
     (case init_renderer doc avail dec loader cfg asset_manager_new light_manager_new of
        Inl (e, go) \<Rightarrow> (Inl e, go)
      | Inr (am, lm, g1) \<Rightarrow>
          (let cam = setup_camera (cfg_camera cfg) in
           case render_pipeline_create drv files (cfg_render_pipeline cfg) g1 of
             (Inl e, g2) \<Rightarrow> (Inl e, Some g2)
           | (Inr rp, g2) \<Rightarrow>
               (Inr (rp, game_new \<lparr>rs_camera = cam, rs_assets = am, rs_lights = lm, rs_gl = g2\<rparr>),
                Some g2)))"

subsection \<open>A concrete start-up\<close>

text \<open>
  The configuration of the concrete start-ups: a canvas \<open>gl-canvas\<close> sized 800 by 600,
  an opaque black clear colour, the demo camera and a single geometry stage; a page with
  that canvas, a browser that provides WebGL2, and a server whose Lantern is an empty
  glTF document.
\<close>

definition demo_config :: app_config where
  "demo_config = \<lparr>cfg_canvas_id = ''gl-canvas'', cfg_canvas = \<lparr>ctx_size = Some (800, 600)\<rparr>,
     cfg_clear_color = (0, 0, 0, 1), cfg_camera = demo_camera_options,
     cfg_render_pipeline = geometry_only_options\<rparr>"

definition demo_page :: "string \<rightharpoonup> canvas" where
  "demo_page = [''gl-canvas'' \<mapsto> \<lparr>canvas_width = 300, canvas_height = 150\<rparr>]"

definition empty_document :: gltf_document where
  "empty_document = \<lparr>gd_scene = None, gd_nodes = None, gd_meshes = None, gd_scenes = None,
     gd_materials = None, gd_textures = None, gd_images = None\<rparr>"

definition empty_model_loader :: "string \<Rightarrow> gltf_asset result" where
  "empty_model_loader u = Inr \<lparr>ga_gltf = empty_document, ga_accessor_data = (\<lambda>_. []),
     ga_image_data = (\<lambda>_. \<lparr>src_width = 1, src_height = 1\<rparr>)\<rparr>"

text \<open>A server whose Lantern has one texture naming an image the document lacks.\<close>

definition dangling_model_loader :: "string \<Rightarrow> gltf_asset result" where
  "dangling_model_loader u = Inr \<lparr>ga_gltf = empty_document\<lparr>gd_textures :=
       Some [\<lparr>gt_sampler = None, gt_source = Some 5\<rparr>]\<rparr>,
     ga_accessor_data = (\<lambda>_. []), ga_image_data = (\<lambda>_. \<lparr>src_width = 1, src_height = 1\<rparr>)\<rparr>"

subsection \<open>Start-up outcomes\<close>

lemma fresh_setup_clear: "fresh_ext g (setup_clear cc g)"
  by (cases cc) (auto simp: setup_clear_def context_set_clear_color_def intro: fresh_intros)

lemma index_load_asset_fresh:
  "index_load_asset dec loader n (am, g) = (r, (am', g')) \<Longrightarrow> fresh_ext g g'"
  by (auto simp: index_load_asset_def ethrow_def ereturn_def fresh_ext_refl intro: fresh_add_asset
           split: sum.splits option.splits)

text \<open>
  The context \<open>createContext\<close> builds has no WebGL context yet, so the getter's first use
  either fails or yields a fresh one: every GL state of the start-up descends from
  \<open>gl_init\<close> through the clear colour and \<open>loadAsset\<close>.
\<close>

lemma init_renderer_cases:
  "init_renderer doc avail dec loader cfg am lm =
     (case get_canvas doc (cfg_canvas_id cfg) of
        Inl e \<Rightarrow> Inl (e, None)
      | Inr c \<Rightarrow>
          if avail (apply_options (cfg_canvas cfg) c) then
            (case index_load_asset dec loader Lantern (am, setup_clear (cfg_clear_color cfg) gl_init) of
               (Inl e, (_, g')) \<Rightarrow> Inl (e, Some g')
             | (Inr _, (am', g')) \<Rightarrow> Inr (am', add_point_light start_light lm, g'))
          else Inl (ErrNoContext, None))"
  by (simp add: init_renderer_def create_context_def context_gl_def context_new_def
           split: sum.split)

lemma init_renderer_loaded:
  assumes "init_renderer doc avail dec loader cfg am lm = Inl (e, Some g')
    \<or> init_renderer doc avail dec loader cfg am lm = Inr (am', lm', g')"
  shows "\<exists>r am''. index_load_asset dec loader Lantern (am, setup_clear (cfg_clear_color cfg) gl_init)
     = (r, (am'', g'))"
  using assms unfolding init_renderer_cases
  by (auto split: sum.splits prod.splits if_splits)

lemma body_onload_fresh:
  assumes "body_onload drv files doc avail dec loader cfg = (r, Some g')"
  shows "fresh_ext gl_init g'"
proof (cases "init_renderer doc avail dec loader cfg asset_manager_new light_manager_new")
  case (Inl x)
  then obtain e where "init_renderer doc avail dec loader cfg asset_manager_new light_manager_new
      = Inl (e, Some g')"
    using assms by (cases x) (simp add: body_onload_def)
  then obtain r1 am where "index_load_asset dec loader Lantern
      (asset_manager_new, setup_clear (cfg_clear_color cfg) gl_init) = (r1, (am, g'))"
    using init_renderer_loaded by blast
  then show ?thesis
    using index_load_asset_fresh fresh_setup_clear fresh_ext_trans by blast
next
  case (Inr y)
  then obtain am lm g1 where ir: "init_renderer doc avail dec loader cfg asset_manager_new
      light_manager_new = Inr (am, lm, g1)" by (cases y) auto
  then obtain r1 am1 where "index_load_asset dec loader Lantern
      (asset_manager_new, setup_clear (cfg_clear_color cfg) gl_init) = (r1, (am1, g1))"
    using init_renderer_loaded by blast
  then have f1: "fresh_ext gl_init g1"
    using index_load_asset_fresh fresh_setup_clear fresh_ext_trans by blast
  obtain r2 g2 where pc: "render_pipeline_create drv files (cfg_render_pipeline cfg) g1 = (r2, g2)"
    by fastforce
  have "g' = g2" using assms ir pc by (cases r2) (auto simp: body_onload_def Let_def)
  then show ?thesis using fresh_ext_trans [OF f1 keeps_step [OF fresh_render_pipeline_create pc]] by simp
qed

lemma body_onload_game:
  assumes "body_onload drv files doc avail dec loader cfg = (Inr (rp, gm), go)"
  shows "\<exists>am lm g1 g'. init_renderer doc avail dec loader cfg asset_manager_new light_manager_new
       = Inr (am, lm, g1)
     \<and> render_pipeline_create drv files (cfg_render_pipeline cfg) g1 = (Inr rp, g') \<and> go = Some g'
     \<and> gm = game_new \<lparr>rs_camera = setup_camera (cfg_camera cfg), rs_assets = am, rs_lights = lm,
                       rs_gl = g'\<rparr>"
  using assms by (auto simp: body_onload_def Let_def split: sum.splits prod.splits)

text \<open>Frames only append calls that create nothing and edit no texture; key events leave
  the GL alone.\<close>

lemma game_step_log:
  assumes "game_step f rp ev g = Some g'"
  shows "log_ext (rs_gl (rstate g)) (rs_gl (rstate g'))"
proof (cases ev)
  case (AnimationFrame t)
  show ?thesis
  proof (cases "running g")
    case False then show ?thesis using assms AnimationFrame by (simp add: log_ext_refl)
  next
    case True
    obtain r st where rr: "render_pipeline_render f rp (rstate g) = Some (r, st)"
      and gs: "rs_gl (rstate g') = rs_gl st"
      using assms AnimationFrame True
      by (auto simp: game_frame_def game_update_def update_camera_def Let_def
               split: option.splits sum.splits prod.splits)
    show ?thesis using render_log [OF rr] gs by simp
  qed
qed (use assms in \<open>auto simp: log_ext_refl\<close>)

lemma reachable_log: "reachable f rp g0 g \<Longrightarrow> log_ext (rs_gl (rstate g0)) (rs_gl (rstate g))"
proof (induction rule: reachable.induct)
  case (start g0) then show ?case by (rule log_ext_refl)
next
  case (step g0 g ev g') then show ?case using game_step_log log_ext_trans by blast
qed

text \<open>C11: once the start-up has built the game, the running program allocates nothing and
  edits no texture: in every state a run of key and animation-frame events reaches, the GL
  state is the one the start-up left with calls appended, none of which creates an object
  or touches a texture's image, mipmaps or parameters; so the next name is unchanged and the
  names created in the log are still \<open>0, ..., next_handle - 1\<close>, each once.\<close>

theorem running_names_ok:
  assumes "body_onload drv files doc avail dec loader cfg = (Inr (rp, gm), Some g')"
    and "reachable f rp gm gs"
  shows "names_ok (rs_gl (rstate gs)) \<and> next_handle (rs_gl (rstate gs)) = next_handle g'
    \<and> (\<exists>cs. gl_log (rs_gl (rstate gs)) = gl_log g' @ cs
             \<and> (\<forall>c\<in>set cs. \<not> creates c \<and> \<not> edits_texture c))"
proof -
  have gl: "rs_gl (rstate gm) = g'"
    using body_onload_game [OF assms(1)] by (auto simp: game_new_def)
  have ok: "names_ok g'"
    using names_ok_fresh_ext [OF names_ok_init body_onload_fresh] assms(1) by blast
  have le: "log_ext g' (rs_gl (rstate gs))" using reachable_log [OF assms(2)] gl by simp
  show ?thesis
    using names_ok_fresh_ext [OF ok log_ext_fresh [OF le]] le by (auto simp: log_ext_def)
qed

text \<open>C24: when the Lantern model loads and its addAsset throws, the start-up ends with that
  error: no render pipeline is created and no game is built.\<close>

theorem asset_error_aborts_startup:
  assumes "get_canvas doc (cfg_canvas_id cfg) = Inr c" and "avail (apply_options (cfg_canvas cfg) c)"
    and "load_model_from_uri dec loader (model_uri Lantern) = Inr (Some x)"
    and "add_asset x (asset_manager_new, setup_clear (cfg_clear_color cfg) gl_init) = (Inl e, (m', g'))"
  shows "body_onload drv files doc avail dec loader cfg = (Inl e, Some g')"
  using assms by (simp add: body_onload_def init_renderer_cases index_load_asset_def)

text \<open>
  \<open>loadModelFromUri\<close> never resolves to \<open>null\<close>, so the \<open>if (!asset)\<close> warning of
  \<open>loadAsset\<close> never runs.
\<close>

lemma load_model_never_null: "load_model_from_uri dec loader url \<noteq> Inr None"
  by (auto simp: load_model_from_uri_def rbind_def split: sum.splits)

text \<open>C25: a model that fails to load does not reach \<open>loadAsset\<close>'s warning: the loader's
  rejection propagates out of \<open>initRenderer\<close> and aborts the start-up, after the clear
  colour and before any object is created.\<close>

theorem load_failure_aborts_startup:
  assumes "get_canvas doc (cfg_canvas_id cfg) = Inr c" and "avail (apply_options (cfg_canvas cfg) c)"
    and "loader (model_uri Lantern) = Inl e"
  shows "body_onload drv files doc avail dec loader cfg
     = (Inl e, Some (setup_clear (cfg_clear_color cfg) gl_init))"
  using assms
  by (simp add: body_onload_def init_renderer_cases index_load_asset_def load_model_from_uri_def ethrow_def)

text \<open>C26: a page without the configured canvas makes the start-up throw \<open>getCanvas\<close>'s error
  before any WebGL context is obtained.\<close>

theorem missing_canvas_aborts_startup:
  assumes "doc (cfg_canvas_id cfg) = None"
  shows "body_onload drv files doc avail dec loader cfg = (Inl (ErrNoCanvas (cfg_canvas_id cfg)), None)"
  using assms by (simp add: body_onload_def init_renderer_cases get_canvas_def)

lemma no_webgl_aborts_startup:
  assumes "doc (cfg_canvas_id cfg) = Some c" and "\<not> avail (apply_options (cfg_canvas cfg) c)"
  shows "body_onload drv files doc avail dec loader cfg = (Inl ErrNoContext, None)"
  using assms by (simp add: body_onload_def init_renderer_cases get_canvas_def)

subsection \<open>Witnesses\<close>

lemma geometry_only_created:
  "\<not> context_lost g \<Longrightarrow>
   \<exists>rp g'. render_pipeline_create complete_driver served_files geometry_only_options g = (Inr rp, g')"
  by (simp add: render_pipeline_create_def geometry_only_options_def ebind_def framebuffer_create_def
                bare_framebuffer_options_def create_depth_renderbuffer_def
                locate_render_pass_def geometry_stage_def load_render_pass_def
                create_shader_program_def read_file_def served_files_def shader_program_create_def
                shader_create_def complete_driver_def Let_def)

lemma demo_init_renderer:
  "\<exists>am lm g1. init_renderer demo_page (\<lambda>_. True) (\<lambda>_. 0) empty_model_loader demo_config
      asset_manager_new light_manager_new = Inr (am, lm, g1) \<and> \<not> context_lost g1"
  by (simp add: init_renderer_cases demo_page_def demo_config_def get_canvas_def index_load_asset_def
                load_model_from_uri_def empty_model_loader_def load_asset_def empty_document_def
                scenario_defs setup_clear_def context_set_clear_color_def gl_init_def ebind_def)

lemma demo_startup:
  "\<exists>rp gm g'. body_onload complete_driver served_files demo_page (\<lambda>_. True) (\<lambda>_. 0)
     empty_model_loader demo_config = (Inr (rp, gm), Some g')"
proof -
  obtain am lm g1 where ir: "init_renderer demo_page (\<lambda>_. True) (\<lambda>_. 0) empty_model_loader demo_config
      asset_manager_new light_manager_new = Inr (am, lm, g1)" and l: "\<not> context_lost g1"
    using demo_init_renderer by blast
  obtain rp g' where "render_pipeline_create complete_driver served_files geometry_only_options g1
      = (Inr rp, g')" using geometry_only_created [OF l] by blast
  then show ?thesis using ir by (simp add: body_onload_def demo_config_def)
qed

theorem running_names_ok_witness:
  "\<exists>rp gm g'. body_onload complete_driver served_files demo_page (\<lambda>_. True) (\<lambda>_. 0)
     empty_model_loader demo_config = (Inr (rp, gm), Some g')
     \<and> names_ok (rs_gl (rstate gm)) \<and> next_handle (rs_gl (rstate gm)) = next_handle g'"
proof -
  obtain rp gm g' where b: "body_onload complete_driver served_files demo_page (\<lambda>_. True) (\<lambda>_. 0)
     empty_model_loader demo_config = (Inr (rp, gm), Some g')" using demo_startup by blast
  have "names_ok (rs_gl (rstate gm)) \<and> next_handle (rs_gl (rstate gm)) = next_handle g'"
    using running_names_ok [OF b reachable.start] by blast
  then show ?thesis using b by blast
qed

theorem asset_error_aborts_startup_witness:
  "fst (body_onload complete_driver served_files demo_page (\<lambda>_. True) (\<lambda>_. 0)
     dangling_model_loader demo_config) = Inl (ErrMissingImage (Some 5))"
proof -
  have c: "get_canvas demo_page (cfg_canvas_id demo_config) = Inr \<lparr>canvas_width = 300, canvas_height = 150\<rparr>"
    by (simp add: get_canvas_def demo_page_def demo_config_def)
  have l: "load_model_from_uri (\<lambda>_. 0) dangling_model_loader (model_uri Lantern)
      = Inr (Some \<lparr>images = [], materials = [], meshes = [], nodes = [], scenes = [],
          asset_textures = [\<lparr>tex_id = 0, sampler = None, source_image_reference = Some 5\<rparr>],
          default_scene_index = 0\<rparr>)"
    by (simp add: load_model_from_uri_def dangling_model_loader_def load_asset_def empty_document_def
                  load_texture_def)
  have "\<exists>g'. add_asset \<lparr>images = [], materials = [], meshes = [], nodes = [], scenes = [],
          asset_textures = [\<lparr>tex_id = 0, sampler = None, source_image_reference = Some 5\<rparr>],
          default_scene_index = 0\<rparr> (asset_manager_new, setup_clear (cfg_clear_color demo_config) gl_init)
      = (Inl (ErrMissingImage (Some 5)), (asset_manager_new, g'))"
    by (simp add: scenario_defs ethrow_def ebind_def)
  then obtain g' where "add_asset \<lparr>images = [], materials = [], meshes = [], nodes = [], scenes = [],
          asset_textures = [\<lparr>tex_id = 0, sampler = None, source_image_reference = Some 5\<rparr>],
          default_scene_index = 0\<rparr> (asset_manager_new, setup_clear (cfg_clear_color demo_config) gl_init)
      = (Inl (ErrMissingImage (Some 5)), (asset_manager_new, g'))" by blast
  from asset_error_aborts_startup [OF c _ l this] show ?thesis by simp
qed

theorem load_failure_aborts_startup_witness:
  "body_onload complete_driver served_files demo_page (\<lambda>_. True) (\<lambda>_. 0)
     (\<lambda>u. Inl (ErrLoad u)) demo_config
   = (Inl (ErrLoad (model_uri Lantern)), Some (setup_clear (0, 0, 0, 1) gl_init))"
proof -
  have c: "get_canvas demo_page (cfg_canvas_id demo_config) = Inr \<lparr>canvas_width = 300, canvas_height = 150\<rparr>"
    by (simp add: get_canvas_def demo_page_def demo_config_def)
  from load_failure_aborts_startup [OF c, of "\<lambda>_. True" "\<lambda>u. Inl (ErrLoad u)" "ErrLoad (model_uri Lantern)"]
  show ?thesis by (simp add: demo_config_def)
qed

theorem missing_canvas_aborts_startup_witness:
  "body_onload complete_driver served_files Map.empty (\<lambda>_. True) (\<lambda>_. 0) empty_model_loader demo_config
     = (Inl (ErrNoCanvas ''gl-canvas''), None)"
  using missing_canvas_aborts_startup [of Map.empty demo_config] by (simp add: demo_config_def)

end
