(* ===== verification/Obj.thy ===== *)
theory Obj
  imports Pipeline
begin

text \<open>
  The OBJ loader (\<open>mesh/loaders/objLoader.ts\<close>): \<open>ObjLoader.loadMesh\<close> fetches the
  \<open>.obj\<close> and the \<open>.mtl\<close> file, parses the first with the webgl-obj-loader library's
  \<open>OBJ.Mesh\<close> (a parameter here, returning the parsed vertex, texture-coordinate and
  index arrays), builds one triangle primitive and uploads it with
  \<open>DrawableMesh.create\<close>. The material library is fetched but never parsed.
\<close>

text \<open>The arrays of an \<open>OBJ.Mesh\<close> the loader reads.\<close>

record obj_mesh =
  obj_vertices :: "real list"
  obj_textures :: "real list"
  obj_indices :: "nat list"

text \<open>
  \<open>new Uint16Array(mesh.indices)\<close> converts every index with ToUint16, that is modulo
  \<open>2^16\<close>: \<open>word_of_nat\<close> into a 16-bit word. The \<open>Float32Array\<close>s keep the values
  (reals stand for the numbers, as elsewhere).
\<close>

definition obj_primitive :: "obj_mesh \<Rightarrow> primitive" where
  "obj_primitive m =
     \<lparr>prim_id = 1,
      attributes = [POSITION \<mapsto> obj_vertices m, TEXCOORD_0 \<mapsto> obj_textures m],
      indices = Some (map word_of_nat (obj_indices m)),
      prim_material_id = 1, mode = primitive_mode_code TRIANGLES\<rparr>"

text \<open>
  \<open>loadMesh\<close>: both fetches are awaited in order before anything is parsed, so a missing
  file throws before any GL call.
\<close>

definition obj_load_mesh ::
  "(string \<Rightarrow> obj_mesh) \<Rightarrow> (string \<rightharpoonup> string) \<Rightarrow> string \<Rightarrow> string \<Rightarrow> string
   \<Rightarrow> (gl_state, drawable_mesh) exc" where
  "obj_load_mesh parse files dir obj_file mtl_file g =
     (case read_file files (dir @ ''/'' @ obj_file) of
        Inl e \<Rightarrow> (Inl e, g)
      | Inr obj \<Rightarrow>
          (case read_file files (dir @ ''/'' @ mtl_file) of
             Inl e \<Rightarrow> (Inl e, g)
           | Inr mtl \<Rightarrow> drawable_mesh_create [obj_primitive (parse obj)] g))"

text \<open>A cube-sized scenario: the files of a model directory and a parser answer.\<close>

definition cube_files :: "string \<rightharpoonup> string" where
  "cube_files = [''models/cube.obj'' \<mapsto> ''v 0 0 0'']"

definition cube_mesh :: "string \<Rightarrow> obj_mesh" where
  "cube_mesh s = \<lparr>obj_vertices = [0, 0, 0, 1, 0, 0, 0, 1, 0], obj_textures = [0, 0, 1, 0, 0, 1],
                  obj_indices = [0, 1, 2]\<rparr>"

subsection \<open>Properties\<close>

text \<open>C38: the material file is required though never used: when the OBJ file is served
  and the MTL file is not, loadMesh throws the fetch error of the MTL path and issues no
  GL call.\<close>

theorem missing_mtl_fails_load:
  assumes "files (dir @ ''/'' @ obj_file) = Some s" and "files (dir @ ''/'' @ mtl_file) = None"
  shows "obj_load_mesh parse files dir obj_file mtl_file g = (Inl (ErrFetch (dir @ ''/'' @ mtl_file)), g)"
  using assms by (simp add: obj_load_mesh_def read_file_def)

text \<open>C39: on a live context, with both files served and a parsed mesh, loadMesh uploads one
  drawable mesh holding one triangle primitive with id 1 and material 1, one index per
  parsed index, the parsed positions, a texture-coordinate buffer and no normals.\<close>

theorem obj_load_uploads_one_primitive:
  assumes "\<not> context_lost g" and "files (dir @ ''/'' @ obj_file) = Some s"
    and "files (dir @ ''/'' @ mtl_file) = Some t"
  shows "\<exists>dp g'. obj_load_mesh parse files dir obj_file mtl_file g = (Inr \<lparr>dm_primitives = [dp]\<rparr>, g')
     \<and> dp_id dp = 1 \<and> dp_material_id dp = 1 \<and> dp_mode dp = primitive_mode_code TRIANGLES
     \<and> index_count (index_buffer dp) = length (obj_indices (parse s))
     \<and> element_count (vertex_buffer dp) = length (obj_vertices (parse s))
     \<and> texture_coord_buffer dp \<noteq> None \<and> normal_buffer dp = None"
proof -
  have "uploadable (obj_primitive (parse s))" by (simp add: uploadable_def obj_primitive_def)
  then obtain dm g' where dm: "drawable_mesh_create [obj_primitive (parse s)] g = (Inr dm, g')"
    and up: "list_all2 uploaded_from [obj_primitive (parse s)] (dm_primitives dm)"
    using drawable_mesh_create_ok [OF assms(1), of "[obj_primitive (parse s)]"] by auto
  obtain dp where dp: "dm_primitives dm = [dp]" and u: "uploaded_from (obj_primitive (parse s)) dp"
    using up by (auto simp: list_all2_Cons1)
  have "dm = \<lparr>dm_primitives = [dp]\<rparr>" using dp by (cases dm) simp
  then show ?thesis
    using assms(2,3) dm u by (auto simp: obj_load_mesh_def read_file_def uploaded_from_def obj_primitive_def)
qed

theorem missing_mtl_fails_load_witness:
  "obj_load_mesh cube_mesh cube_files ''models'' ''cube.obj'' ''cube.mtl'' gl_init
     = (Inl (ErrFetch ''models/cube.mtl''), gl_init)"
  using missing_mtl_fails_load [of cube_files "''models''" "''cube.obj''" "''v 0 0 0''" "''cube.mtl''"
      cube_mesh gl_init]
  by (simp add: cube_files_def)

theorem obj_load_uploads_one_primitive_witness:
  "\<exists>dp g'. obj_load_mesh cube_mesh (cube_files(''models/cube.mtl'' \<mapsto> '''')) ''models'' ''cube.obj''
       ''cube.mtl'' gl_init = (Inr \<lparr>dm_primitives = [dp]\<rparr>, g')
     \<and> index_count (index_buffer dp) = 3 \<and> normal_buffer dp = None"
  using obj_load_uploads_one_primitive [of gl_init "cube_files(''models/cube.mtl'' \<mapsto> '''')"
      "''models''" "''cube.obj''" "''v 0 0 0''" "''cube.mtl''" "''''" cube_mesh]
  by (auto simp: gl_init_def cube_files_def cube_mesh_def)

end
