(* ===== verification/GltfAssets.thy ===== *)
theory GltfAssets
  imports Gltf AssetTextures
begin

text \<open>
  The glTF loader feeding the asset manager: \<open>loadAsset\<close> numbers textures and images by
  their position in the document, so the texture ids of a loaded asset are distinct and
  the image a texture's source index names is the image at that position, with the pixels
  the library delivers for it. Through \<open>addAsset\<close>, each texture of a loaded model then
  ends up complete exactly when that image's sides are powers of two.
\<close>

text \<open>A two-texture document: texture 0 shows image 0, texture 1 shows image 1.\<close>

definition two_texture_document :: gltf_document where
  "two_texture_document =
     \<lparr>gd_scene = None, gd_nodes = None, gd_meshes = None, gd_scenes = None, gd_materials = None,
      gd_textures = Some [\<lparr>gt_sampler = None, gt_source = Some 0\<rparr>, \<lparr>gt_sampler = None, gt_source = Some 1\<rparr>],
      gd_images = Some [\<lparr>gi_uri = Some ''photo.jpg''\<rparr>, \<lparr>gi_uri = Some ''tile.png''\<rparr>]\<rparr>"

definition two_image_pixels :: "nat \<Rightarrow> tex_image_source" where
  "two_image_pixels i = (if i = 0 then photo_source else \<lparr>src_width = 512, src_height = 512\<rparr>)"

lemma map_fst_enumerate: "map fst (enumerate n xs) = [n..<n + length xs]"
  by (induction xs arbitrary: n) (simp_all add: upt_rec)

lemma loaded_texture_ids:
  "load_asset dec acc px gd = Inr a \<Longrightarrow> distinct (map tex_id (asset_textures a))"
proof -
  assume "load_asset dec acc px gd = Inr a"
  then have "asset_textures a = (case gd_textures gd of None \<Rightarrow> []
      | Some ts \<Rightarrow> map (\<lambda>(i, t). load_texture t i) (enumerate 0 ts))"
    by (auto simp: load_asset_def rbind_def split: sum.splits)
  moreover have h: "map (tex_id \<circ> (\<lambda>(i, t). load_texture t i)) xs = map fst xs"
    for xs :: "(nat \<times> gltf_texture) list" by (induction xs) (auto simp: load_texture_def)
  ultimately show ?thesis by (simp only: h map_map map_fst_enumerate split: option.split) simp
qed

lemma loaded_image_found:
  assumes "load_asset dec acc px gd = Inr a" and "find_image (images a) t = Some im"
  shows "source_image_reference t = Some (img_id im) \<and> image_data im = px (img_id im)"
proof -
  have "images a = (case gd_images gd of None \<Rightarrow> []
      | Some is \<Rightarrow> map (\<lambda>(i, im). load_image px im i) (enumerate 0 is))"
    using assms(1) by (auto simp: load_asset_def rbind_def split: sum.splits)
  moreover have "im \<in> set (images a)" and "Some (img_id im) = source_image_reference t"
    using assms(2) by (auto simp: find_image_def dest: find_Some_iff [THEN iffD1] split: if_splits)
  ultimately show ?thesis by (auto simp: load_image_def split: option.splits)
qed

lemma two_texture_asset_loaded:
  "\<exists>a. load_asset (\<lambda>_. 0) (\<lambda>_. []) two_image_pixels two_texture_document = Inr a
     \<and> asset_textures a = [\<lparr>tex_id = 0, sampler = None, source_image_reference = Some 0\<rparr>,
                          \<lparr>tex_id = 1, sampler = None, source_image_reference = Some 1\<rparr>]
     \<and> images a = [\<lparr>img_id = 0, uri = Some ''photo.jpg'', image_data = two_image_pixels 0\<rparr>,
                   \<lparr>img_id = 1, uri = Some ''tile.png'', image_data = two_image_pixels 1\<rparr>]
     \<and> meshes a = []"
  by (simp add: load_asset_def two_texture_document_def load_texture_def load_image_def)

text \<open>For a model the glTF loader produced, \<open>addAsset\<close>'s texture slots in terms of the
  images the library delivered.\<close>

lemma add_loaded_asset_textures:
  assumes "load_asset dec acc px gd = Inr a" and "\<not> context_lost g"
    and "add_asset a (m, g) = (Inr (), (m', g'))"
  shows "\<exists>r. m' = m\<lparr>am_assets := am_assets m @ [r]\<rparr>
    \<and> (\<forall>t\<in>set (asset_textures a). \<exists>k tx. source_image_reference t = Some k
         \<and> js_get (car_textures r) (tex_id t) = Some tx
         \<and> (texture_complete (gl_log g') (texture_handle tx)
            \<longleftrightarrow> is_power_of_two (src_width (px k)) \<and> is_power_of_two (src_height (px k))))"
proof -
  obtain r where m': "m' = m\<lparr>am_assets := am_assets m @ [r]\<rparr>"
    and all: "\<forall>t\<in>set (asset_textures a). \<exists>im tx. find_image (images a) t = Some im
         \<and> js_get (car_textures r) (tex_id t) = Some tx
         \<and> (texture_complete (gl_log g') (texture_handle tx)
            \<longleftrightarrow> is_power_of_two (src_width (image_data im)) \<and> is_power_of_two (src_height (image_data im)))"
    using add_asset_textures_complete [OF assms(2,3) loaded_texture_ids [OF assms(1)]] by blast
  have "\<forall>t\<in>set (asset_textures a). \<exists>k tx. source_image_reference t = Some k
         \<and> js_get (car_textures r) (tex_id t) = Some tx
         \<and> (texture_complete (gl_log g') (texture_handle tx)
            \<longleftrightarrow> is_power_of_two (src_width (px k)) \<and> is_power_of_two (src_height (px k)))"
  proof
    fix t assume "t \<in> set (asset_textures a)"
    then obtain im tx where f: "find_image (images a) t = Some im"
      and rest: "js_get (car_textures r) (tex_id t) = Some tx"
         "texture_complete (gl_log g') (texture_handle tx)
            \<longleftrightarrow> is_power_of_two (src_width (image_data im)) \<and> is_power_of_two (src_height (image_data im))"
      using all by blast
    show "\<exists>k tx. source_image_reference t = Some k
         \<and> js_get (car_textures r) (tex_id t) = Some tx
         \<and> (texture_complete (gl_log g') (texture_handle tx)
            \<longleftrightarrow> is_power_of_two (src_width (px k)) \<and> is_power_of_two (src_height (px k)))"
      using loaded_image_found [OF assms(1) f] rest by auto
  qed
  then show ?thesis using m' by blast
qed

text \<open>C13: a model loaded by the glTF loader and added by addAsset on a live context: every
  texture of the model is uploaded into its slot, and that GPU texture is complete exactly
  when both sides of the image its source index names, as the library delivers it, pass
  isPowerOfTwo. Textures of other images sample as black.\<close>

theorem loaded_texture_complete_iff_pot:
  assumes "load_asset dec acc px gd = Inr a" and "\<not> context_lost g"
    and "add_asset a (m, g) = (Inr (), (m', g'))"
  shows "\<exists>r. m' = m\<lparr>am_assets := am_assets m @ [r]\<rparr>
    \<and> (\<forall>t\<in>set (asset_textures a). \<exists>k tx. source_image_reference t = Some k
         \<and> js_get (car_textures r) (tex_id t) = Some tx
         \<and> (texture_complete (gl_log g') (texture_handle tx)
            \<longleftrightarrow> is_power_of_two (src_width (px k)) \<and> is_power_of_two (src_height (px k))))"
  using assms by (rule add_loaded_asset_textures)

theorem loaded_texture_complete_iff_pot_witness:
  "\<exists>a r tx0 tx1. load_asset (\<lambda>_. 0) (\<lambda>_. []) two_image_pixels two_texture_document = Inr a
     \<and> fst (snd (add_asset a (asset_manager_new, gl_init))) = \<lparr>am_assets = [r]\<rparr>
     \<and> js_get (car_textures r) 0 = Some tx0 \<and> js_get (car_textures r) 1 = Some tx1
     \<and> \<not> texture_complete (gl_log (snd (snd (add_asset a (asset_manager_new, gl_init))))) (texture_handle tx0)
     \<and> texture_complete (gl_log (snd (snd (add_asset a (asset_manager_new, gl_init))))) (texture_handle tx1)"
proof -
  obtain a where la: "load_asset (\<lambda>_. 0) (\<lambda>_. []) two_image_pixels two_texture_document = Inr a"
    and ta: "asset_textures a = [\<lparr>tex_id = 0, sampler = None, source_image_reference = Some 0\<rparr>,
                                 \<lparr>tex_id = 1, sampler = None, source_image_reference = Some 1\<rparr>]"
    and ia: "images a = [\<lparr>img_id = 0, uri = Some ''photo.jpg'', image_data = two_image_pixels 0\<rparr>,
                         \<lparr>img_id = 1, uri = Some ''tile.png'', image_data = two_image_pixels 1\<rparr>]"
    and ma: "meshes a = []"
    using two_texture_asset_loaded by blast
  have "\<exists>m' g'. add_asset a (asset_manager_new, gl_init) = (Inr (), (m', g'))"
    by (simp add: scenario_defs ta ia ma two_image_pixels_def photo_source_def)
  then obtain m' g' where ad: "add_asset a (asset_manager_new, gl_init) = (Inr (), (m', g'))" by blast
  have l: "\<not> context_lost gl_init" by (simp add: gl_init_def)
  obtain r where m': "m' = asset_manager_new\<lparr>am_assets := am_assets asset_manager_new @ [r]\<rparr>"
    and all: "\<forall>t\<in>set (asset_textures a). \<exists>k tx. source_image_reference t = Some k
         \<and> js_get (car_textures r) (tex_id t) = Some tx
         \<and> (texture_complete (gl_log g') (texture_handle tx)
            \<longleftrightarrow> is_power_of_two (src_width (two_image_pixels k))
                \<and> is_power_of_two (src_height (two_image_pixels k)))"
    using loaded_texture_complete_iff_pot [OF la l ad] by blast
  have np: "\<not> is_power_of_two 800" and p: "is_power_of_two 512"
    by (simp_all add: is_power_of_two_def)
  have "\<exists>tx0. js_get (car_textures r) 0 = Some tx0 \<and> \<not> texture_complete (gl_log g') (texture_handle tx0)"
    using all np by (auto simp: ta two_image_pixels_def photo_source_def)
  moreover have "\<exists>tx1. js_get (car_textures r) 1 = Some tx1 \<and> texture_complete (gl_log g') (texture_handle tx1)"
    using all p by (auto simp: ta two_image_pixels_def)
  ultimately show ?thesis using la ad m' by (auto simp: asset_manager_new_def)
qed

end
