(* ===== verification/ModelTextures.thy ===== *)
theory ModelTextures
  imports Startup GltfAssets
begin

text \<open>
  The textures of the model the start-up loads, followed through the rest of the program:
  \<open>RenderPipeline.create\<close> creates its own render-target textures and binds them, but
  edits only those, and every animation frame only binds textures to units. So each texture
  \<open>addAsset\<close> uploaded keeps the completeness its creation gave it in every state of the
  running program. The frame fact is \<open>spares\<close>: the calls appended leave the replayed
  texture state of every name handed out before them as it was.
\<close>

subsection \<open>Calls that spare the existing textures\<close>

definition spares :: "gl_state \<Rightarrow> gl_state \<Rightarrow> bool" where
  "spares g g' \<longleftrightarrow> next_handle g \<le> next_handle g' \<and>
     (\<exists>cs. gl_log g' = gl_log g @ cs \<and>
        (\<forall>h < next_handle g. \<forall>s. textures (foldl tex_step s cs) h = textures s h))"

named_theorems spares_intros "operations that leave the textures created before them alone"

lemma tex_step_passive: "\<not> creates c \<Longrightarrow> \<not> edits_texture c \<Longrightarrow> textures (tex_step s c) = textures s"
  by (cases c) simp_all

lemma foldl_tex_step_passive:
  "\<forall>c\<in>set cs. \<not> creates c \<and> \<not> edits_texture c \<Longrightarrow> textures (foldl tex_step s cs) = textures s"
  by (induction cs arbitrary: s) (simp_all add: tex_step_passive)

lemma spares_refl [spares_intros]: "spares g g"
  unfolding spares_def by (rule conjI, simp, rule exI [of _ "[]"]) simp

lemma spares_trans: "spares g1 g2 \<Longrightarrow> spares g2 g3 \<Longrightarrow> spares g1 g3"
  unfolding spares_def
proof (elim conjE exE, intro conjI)
  fix cs ds
  assume n: "next_handle g1 \<le> next_handle g2"
    and "gl_log g2 = gl_log g1 @ cs" "\<forall>h < next_handle g1. \<forall>s. textures (foldl tex_step s cs) h = textures s h"
    and "gl_log g3 = gl_log g2 @ ds" "\<forall>h < next_handle g2. \<forall>s. textures (foldl tex_step s ds) h = textures s h"
  then show "\<exists>cs. gl_log g3 = gl_log g1 @ cs \<and>
      (\<forall>h < next_handle g1. \<forall>s. textures (foldl tex_step s cs) h = textures s h)"
    by (intro exI [of _ "cs @ ds"]) auto
qed (rule le_trans)

lemma spares_emit [spares_intros]:
  "spares g g' \<Longrightarrow> \<not> creates c \<Longrightarrow> \<not> edits_texture c \<Longrightarrow> spares g (emit c g')"
  unfolding spares_def
proof (elim conjE exE, intro conjI)
  fix cs
  assume "gl_log g' = gl_log g @ cs" "\<forall>h < next_handle g. \<forall>s. textures (foldl tex_step s cs) h = textures s h"
    and "\<not> creates c" "\<not> edits_texture c"
  then show "\<exists>cs. gl_log (emit c g') = gl_log g @ cs \<and>
      (\<forall>h < next_handle g. \<forall>s. textures (foldl tex_step s cs) h = textures s h)"
    by (intro exI [of _ "cs @ [c]"]) (simp add: tex_step_passive)
qed simp

lemma spares_create: "gl_create k g = (r, g') \<Longrightarrow> spares g g'"
  by (cases "context_lost g") (auto simp: spares_def spares_refl intro: exI [of _ "[]"])

lemma spares_ebind [spares_intros]:
  "keeps spares m \<Longrightarrow> (\<And>a. keeps spares (f a)) \<Longrightarrow> keeps spares (ebind m f)"
  by (rule keeps_ebind) (auto intro: spares_trans)

lemma spares_return [spares_intros]: "keeps spares (ereturn a)"
  and spares_throw [spares_intros]: "keeps spares (ethrow e)"
  by (simp_all add: keeps_def spares_refl)

lemma spares_e_map [spares_intros]:
  "(\<And>x. x \<in> set xs \<Longrightarrow> keeps spares (f x)) \<Longrightarrow> keeps spares (e_map f xs)"
  by (rule keeps_e_map) (auto intro: spares_refl spares_trans)

lemma spares_keeps_after:
  "keeps spares m \<Longrightarrow> (\<And>g. spares g (h g)) \<Longrightarrow> keeps spares (\<lambda>g. m (h g))"
  by (rule keepsI) (metis spares_trans keepsD)

text \<open>Drawing (\<open>log_ext\<close>) leaves every texture alone, also those created later.\<close>

lemma log_ext_textures: "log_ext g g' \<Longrightarrow> textures (foldl tex_step s (gl_log g')) = textures (foldl tex_step s (gl_log g))"
  by (auto simp: log_ext_def foldl_tex_step_passive)

lemma log_ext_texture_complete: "log_ext g g' \<Longrightarrow> texture_complete (gl_log g') h = texture_complete (gl_log g) h"
  by (simp add: texture_complete_def log_ext_textures)

subsection \<open>Texture creation spares the older textures\<close>

lemma spares_texture_create [spares_intros]: "keeps spares (texture_create_from_tex_image_source src)"
proof (rule keepsI)
  fix g
  obtain r g1 where c: "texture_create_from_tex_image_source src g = (r, g1)" by fastforce
  have "next_handle g \<le> next_handle g1" using keeps_step [OF gl_keeps_texture_create c] by (simp add: gl_mono_def)
  moreover obtain cs where "gl_log g1 = gl_log g @ cs" using keeps_step [OF gl_keeps_texture_create c]
    by (auto simp: gl_mono_def)
  moreover have "\<forall>h < next_handle g. \<forall>s. textures (foldl tex_step s cs) h = textures s h"
    using texture_create_spares [OF c] calculation(2) by auto
  ultimately show "spares g (snd (texture_create_from_tex_image_source src g))"
    using c by (auto simp: spares_def)
qed

lemma spares_texture_create_empty [spares_intros]: "keeps spares (texture_create_empty w h)"
proof (rule keepsI)
  fix g
  show "spares g (snd (texture_create_empty w h g))"
  proof (cases "context_lost g")
    case True then show ?thesis by (simp add: texture_create_empty_def spares_refl)
  next
    case False
    let ?ds = "[TexImage2D w h, TexParameteri WRAP_S_CLAMP, TexParameteri WRAP_T_CLAMP,
                TexParameteri MIN_FILTER_LINEAR]"
    have "\<forall>h' < next_handle g. \<forall>s. textures (foldl tex_step s
        (CreateObject ObjTexture (next_handle g) # BindTexture (Some (next_handle g)) # ?ds
         @ [BindTexture None])) h' = textures s h'"
      using create_block_spares [of "next_handle g" _ ?ds] by simp
    then show ?thesis using False by (simp add: texture_create_empty_def spares_def)
  qed
qed

subsection \<open>Pipeline creation\<close>

lemma spares_generic_buffer_create [spares_intros]: "keeps spares (generic_buffer_create xs n)"
  by (auto simp: keeps_def generic_buffer_create_def split: prod.split option.split
           intro!: spares_intros intro: spares_create)

lemma spares_element_buffer_create [spares_intros]: "keeps spares (element_buffer_create xs)"
  by (auto simp: keeps_def element_buffer_create_def split: prod.split option.split
           intro!: spares_intros intro: spares_create)

lemma spares_shader_create [spares_intros]: "keeps spares (shader_create drv ty src)"
  by (auto simp: keeps_def shader_create_def Let_def split: prod.split option.split
           intro!: spares_intros intro: spares_create)

lemma spares_optional_buffer [spares_intros]: "keeps spares (optional_buffer d n)"
  unfolding optional_buffer_def by (cases d) (simp_all add: spares_intros)

lemma spares_drawable_primitive_create [spares_intros]:
  "keeps spares (drawable_primitive_create p)"
  unfolding drawable_primitive_create_def
  by (auto intro!: spares_intros split: option.split)

lemma spares_drawable_mesh_create [spares_intros]: "keeps spares (drawable_mesh_create ps)"
  unfolding drawable_mesh_create_def by (intro spares_intros)

lemma spares_create_attachment [spares_intros]: "keeps spares (create_attachment ao)"
  unfolding create_attachment_def
  by (intro spares_intros keepsI) (simp add: spares_intros)

lemma spares_create_depth_renderbuffer [spares_intros]:
  "spares g g' \<Longrightarrow> spares g (create_depth_renderbuffer w h g')"
  by (auto simp: create_depth_renderbuffer_def split: prod.split
           intro!: spares_intros intro: spares_trans spares_create)

lemma spares_framebuffer_create [spares_intros]: "keeps spares (framebuffer_create drv opts)"
proof (rule keepsI)
  fix g
  show "spares g (snd (framebuffer_create drv opts g))"
  proof (cases "gl_create ObjFramebuffer g")
    case (Pair h g1)
    have f1: "spares g (emit (BindFramebuffer h') g1)" for h'
      using Pair by (intro spares_intros) (auto intro: spares_create)
    obtain r g2 where em: "e_map create_attachment (fb_attachments opts)
        (emit (BindFramebuffer h) g1) = (r, g2)" by fastforce
    have f2: "spares g g2" if "h = Some fb" for fb
      using spares_trans [OF f1 keeps_step [OF spares_e_map em]] that
      by (simp add: spares_intros)
    show ?thesis
      using Pair em f2 spares_create [OF Pair]
      by (cases h; cases r) (auto simp: framebuffer_create_def Let_def intro!: spares_intros)
  qed
qed

lemma spares_shader_program_create [spares_intros]: "keeps spares (shader_program_create drv opts)"
  unfolding shader_program_create_def Let_def
  by (intro spares_intros keepsI)
     (auto split: prod.split option.split intro!: spares_intros intro: spares_create)

lemma spares_pbr_lighting_pass_create [spares_intros]: "keeps spares (pbr_lighting_pass_create n p)"
  unfolding pbr_lighting_pass_create_def quad_primitive_create_def by (intro spares_intros)

lemma spares_draw_quad_render_pass_create [spares_intros]:
  "keeps spares (draw_quad_render_pass_create n p)"
  unfolding draw_quad_render_pass_create_def quad_primitive_create_def by (intro spares_intros)

lemma spares_create_shader_program [spares_intros]:
  "keeps spares (create_shader_program drv files cfg)"
  by (rule keepsI)
     (auto simp: create_shader_program_def spares_refl split: sum.split
           intro: keepsD [OF spares_shader_program_create])

lemma spares_load_render_pass [spares_intros]: "keeps spares (load_render_pass drv files cfg)"
  unfolding load_render_pass_def
  by (intro spares_intros) (simp split: render_pass_type.split add: spares_intros)

lemma spares_locate_render_pass [spares_intros]:
  "keeps spares (locate_render_pass drv files sts ty)"
  unfolding locate_render_pass_def
  by (simp split: option.split add: spares_intros)

lemma spares_render_pipeline_create [spares_intros]:
  "keeps spares (render_pipeline_create drv files opts)"
  unfolding render_pipeline_create_def
  by (intro spares_ebind spares_framebuffer_create
        spares_keeps_after [where h = "\<lambda>g. emit DepthFunc_LEQUAL (emit Enable_DEPTH_TEST g)"])
     (simp_all add: spares_intros spares_return [unfolded ereturn_def])

lemma spares_texture_complete:
  "spares g g' \<Longrightarrow> h < next_handle g \<Longrightarrow> texture_complete (gl_log g') h = texture_complete (gl_log g) h"
  by (auto simp: spares_def texture_complete_def)

subsection \<open>Frames keep the asset records\<close>

lemma render_keeps_assets:
  assumes "render_pipeline_render f rp st = Some (out, st')"
  shows "map strip_caches (am_assets (rs_assets st')) = map strip_caches (am_assets (rs_assets st))"
proof -
  let ?g1 = "emit (BindFramebuffer (Some (backing_framebuffer (pipeline_fb rp)))) (rs_gl st)"
  obtain o2 am g2 where geo: "(case buffer_pass rp of
        None \<Rightarrow> Some (Inr (), rs_assets st, ?g1)
      | Some bp \<Rightarrow> pbr_buffer_pass_render f bp (rs_camera st) (rs_assets st, ?g1)) = Some (o2, am, g2)"
    and am: "rs_assets st' = am"
    using assms by (auto simp: render_pipeline_render_def Let_def split: option.splits sum.splits prod.splits)
  show ?thesis
  proof (cases "buffer_pass rp")
    case None then show ?thesis using geo am by simp
  next
    case (Some bp) then show ?thesis using geo am pass_frame by auto
  qed
qed

lemma game_step_assets:
  "game_step f rp ev g = Some g' \<Longrightarrow>
   map strip_caches (am_assets (rs_assets (rstate g'))) = map strip_caches (am_assets (rs_assets (rstate g)))"
  by (cases ev)
     (auto simp: game_frame_def game_update_def update_camera_def Let_def render_keeps_assets
           split: if_splits option.splits sum.splits prod.splits)

lemma reachable_assets:
  "reachable f rp g0 g \<Longrightarrow>
   map strip_caches (am_assets (rs_assets (rstate g))) = map strip_caches (am_assets (rs_assets (rstate g0)))"
  by (induction rule: reachable.induct) (auto dest: game_step_assets)

subsection \<open>The uploaded textures lie below the next name\<close>

definition handles_below :: "gl_texture jsarray \<Rightarrow> nat \<Rightarrow> bool" where
  "handles_below acc n \<longleftrightarrow> (\<forall>i tx. js_get acc i = Some tx \<longrightarrow> texture_handle tx < n)"

lemma texture_create_handle:
  "texture_create_from_tex_image_source src g = (Inr tx, g') \<Longrightarrow>
   texture_handle tx < next_handle g' \<and> next_handle g \<le> next_handle g'"
  by (cases "context_lost g")
     (auto simp: texture_create_from_tex_image_source_def set_texture_parameters_def texture_upload_defs)

lemma load_textures_loop_handles:
  "load_textures_loop imgs ts acc g = (Inr acc', g') \<Longrightarrow> handles_below acc (next_handle g) \<Longrightarrow>
   handles_below acc' (next_handle g')"
proof (induction ts arbitrary: acc g)
  case Nil then show ?case by (simp add: ereturn_def)
next
  case (Cons t ts)
  obtain im where im: "find_image imgs t = Some im"
    using Cons.prems(1) by (cases "find_image imgs t") (simp_all add: ethrow_def)
  obtain r1 g1 where c: "texture_create_from_tex_image_source (image_data im) g = (r1, g1)"
    by fastforce
  obtain tx where r1: "r1 = Inr tx"
    using Cons.prems(1) im c by (cases r1) (simp_all add: ebind_def)
  have rest: "load_textures_loop imgs ts (js_set acc (tex_id t) tx) g1 = (Inr acc', g')"
    using Cons.prems(1) im c r1 by (simp add: ebind_def)
  have "handles_below (js_set acc (tex_id t) tx) (next_handle g1)"
    using Cons.prems(2) texture_create_handle [OF c [unfolded r1]]
    by (auto simp: handles_below_def js_simps) (metis js_get_set_other js_get_set_same option.inject
        order_less_le_trans)
  then show ?case using Cons.IH [OF rest] by blast
qed

lemma add_asset_handles:
  assumes "add_asset a (m, g) = (Inr (), (m', g'))"
  shows "\<exists>r. am_assets m' = am_assets m @ [r] \<and> handles_below (car_textures r) (next_handle g')"
proof -
  obtain r where cr: "create_record a g = (Inr r, g')" and m': "am_assets m' = am_assets m @ [r]"
    using assms by (auto simp: add_asset_def split: prod.splits sum.splits)
  obtain tx g1 where lt: "load_asset_textures a g = (Inr tx, g1)"
    using cr by (cases "load_asset_textures a g" rule: prod.exhaust, rename_tac x y, case_tac x)
      (auto simp: create_record_def ebind_def)
  obtain ms where lm: "load_asset_meshes a g1 = (Inr ms, g')" and r: "car_textures r = tx"
    using cr lt by (cases "load_asset_meshes a g1" rule: prod.exhaust, rename_tac x y, case_tac x)
      (auto simp: create_record_def ebind_def ereturn_def)
  have "handles_below tx (next_handle g1)"
    using load_textures_loop_handles [OF lt [unfolded load_asset_textures_def]]
    by (simp add: handles_below_def js_simps)
  moreover have "next_handle g1 \<le> next_handle g'"
    using keeps_step [OF fresh_load_meshes_loop lm [unfolded load_asset_meshes_def]]
    by (simp add: fresh_ext_def)
  ultimately show ?thesis using m' r by (auto simp: handles_below_def intro: less_le_trans)
qed

subsection \<open>The start-up model's textures in the running program\<close>

text \<open>A server whose Lantern is the two-texture document of \<open>GltfAssets\<close>: an 800 by 600
  photograph and a 512 by 512 tile.\<close>

definition two_texture_loader :: "string \<Rightarrow> gltf_asset result" where
  "two_texture_loader u = Inr \<lparr>ga_gltf = two_texture_document, ga_accessor_data = (\<lambda>_. []),
     ga_image_data = two_image_pixels\<rparr>"

lemma init_renderer_Inr:
  "init_renderer doc avail dec loader cfg am lm = Inr (am', lm', g') \<Longrightarrow>
   index_load_asset dec loader Lantern (am, setup_clear (cfg_clear_color cfg) gl_init) = (Inr (), (am', g'))"
  unfolding init_renderer_cases by (auto split: sum.splits prod.splits if_splits)

lemma setup_clear_live: "\<not> context_lost (setup_clear cc gl_init)"
  by (cases cc) (simp add: setup_clear_def context_set_clear_color_def gl_init_def)

lemma single_record_kept:
  "map strip_caches rs = map strip_caches [r] \<Longrightarrow> \<exists>r'. rs = [r'] \<and> car_textures r' = car_textures r"
  by (cases rs) (auto, metis strip_caches_fields(3))

text \<open>C14: the textures of the model the start-up loads stay as \<open>addAsset\<close> left them while the
  program runs: in every state the events reach from the game the \<open>onload\<close> handler
  builds, the asset manager holds one record, each texture of the Lantern model has a GPU
  texture in its slot, and that texture is complete exactly when both sides of the image its
  source index names pass isPowerOfTwo. Neither the pipeline's render targets nor any frame
  changes it.\<close>

theorem startup_model_textures_stay_complete:
  assumes "loader (model_uri Lantern) = Inr ga"
    and "load_asset dec (ga_accessor_data ga) (ga_image_data ga) (ga_gltf ga) = Inr a"
    and "body_onload drv files doc avail dec loader cfg = (Inr (rp, gm), go)"
    and "reachable f rp gm gs"
  shows "\<exists>r. am_assets (rs_assets (rstate gs)) = [r]
    \<and> (\<forall>t\<in>set (asset_textures a). \<exists>k tx. source_image_reference t = Some k
         \<and> js_get (car_textures r) (tex_id t) = Some tx
         \<and> (texture_complete (gl_log (rs_gl (rstate gs))) (texture_handle tx)
            \<longleftrightarrow> is_power_of_two (src_width (ga_image_data ga k))
                \<and> is_power_of_two (src_height (ga_image_data ga k))))"
proof -
  obtain am lm g1 g' where ir: "init_renderer doc avail dec loader cfg asset_manager_new light_manager_new
      = Inr (am, lm, g1)" and pc: "render_pipeline_create drv files (cfg_render_pipeline cfg) g1 = (Inr rp, g')"
    and gm: "gm = game_new \<lparr>rs_camera = setup_camera (cfg_camera cfg), rs_assets = am, rs_lights = lm,
                            rs_gl = g'\<rparr>"
    using body_onload_game [OF assms(3)] by blast
  have ad: "add_asset a (asset_manager_new, setup_clear (cfg_clear_color cfg) gl_init) = (Inr (), (am, g1))"
    using init_renderer_Inr [OF ir] assms(1,2) by (simp add: index_load_asset_def load_model_from_uri_def)
  obtain r where am: "am_assets am = [r]"
    and all: "\<forall>t\<in>set (asset_textures a). \<exists>k tx. source_image_reference t = Some k
         \<and> js_get (car_textures r) (tex_id t) = Some tx
         \<and> (texture_complete (gl_log g1) (texture_handle tx)
            \<longleftrightarrow> is_power_of_two (src_width (ga_image_data ga k))
                \<and> is_power_of_two (src_height (ga_image_data ga k)))"
    using add_loaded_asset_textures [OF assms(2) setup_clear_live ad] by (auto simp: asset_manager_new_def)
  have hb: "handles_below (car_textures r) (next_handle g1)"
    using add_asset_handles [OF ad] am by (auto simp: asset_manager_new_def)
  have sp: "spares g1 g'" using keeps_step [OF spares_render_pipeline_create pc] by simp
  have lg: "log_ext g' (rs_gl (rstate gs))"
    using reachable_log [OF assms(4)] by (simp add: gm game_new_def)
  have "map strip_caches (am_assets (rs_assets (rstate gs))) = map strip_caches [r]"
    using reachable_assets [OF assms(4)] am by (simp add: gm game_new_def)
  then obtain r' where as: "am_assets (rs_assets (rstate gs)) = [r']" and ct: "car_textures r' = car_textures r"
    using single_record_kept by blast
  have "texture_complete (gl_log (rs_gl (rstate gs))) (texture_handle tx) = texture_complete (gl_log g1) (texture_handle tx)"
    if "js_get (car_textures r) i = Some tx" for i tx
    using log_ext_texture_complete [OF lg] spares_texture_complete [OF sp] hb that
    by (simp add: handles_below_def)
  then show ?thesis using as ct all by metis
qed

theorem startup_model_textures_stay_complete_witness:
  "\<exists>rp gm go r tx0 tx1. body_onload complete_driver served_files demo_page (\<lambda>_. True) (\<lambda>_. 0)
       two_texture_loader demo_config = (Inr (rp, gm), go)
     \<and> am_assets (rs_assets (rstate gm)) = [r]
     \<and> js_get (car_textures r) 0 = Some tx0 \<and> js_get (car_textures r) 1 = Some tx1
     \<and> \<not> texture_complete (gl_log (rs_gl (rstate gm))) (texture_handle tx0)
     \<and> texture_complete (gl_log (rs_gl (rstate gm))) (texture_handle tx1)"
proof -
  obtain a where la: "load_asset (\<lambda>_. 0) (\<lambda>_. []) two_image_pixels two_texture_document = Inr a"
    and ta: "asset_textures a = [\<lparr>tex_id = 0, sampler = None, source_image_reference = Some 0\<rparr>,
                                 \<lparr>tex_id = 1, sampler = None, source_image_reference = Some 1\<rparr>]"
    and ia: "images a = [\<lparr>img_id = 0, uri = Some ''photo.jpg'', image_data = two_image_pixels 0\<rparr>,
                         \<lparr>img_id = 1, uri = Some ''tile.png'', image_data = two_image_pixels 1\<rparr>]"
    and ma: "meshes a = []"
    using two_texture_asset_loaded by blast
  have "\<exists>m' g1. add_asset a (asset_manager_new, setup_clear (0, 0, 0, 1) gl_init) = (Inr (), (m', g1))
      \<and> \<not> context_lost g1"
    by (simp add: scenario_defs ta ia ma two_image_pixels_def photo_source_def setup_clear_def
                  context_set_clear_color_def gl_init_def)
  then obtain m' g1 where ad: "add_asset a (asset_manager_new, setup_clear (0, 0, 0, 1) gl_init)
      = (Inr (), (m', g1))" and l1: "\<not> context_lost g1" by blast
  have ir: "init_renderer demo_page (\<lambda>_. True) (\<lambda>_. 0) two_texture_loader demo_config
      asset_manager_new light_manager_new = Inr (m', add_point_light start_light light_manager_new, g1)"
    using ad la by (simp add: init_renderer_cases demo_page_def demo_config_def get_canvas_def
                              index_load_asset_def load_model_from_uri_def two_texture_loader_def)
  obtain rp g' where "render_pipeline_create complete_driver served_files geometry_only_options g1
      = (Inr rp, g')" using geometry_only_created [OF l1] by blast
  then obtain gm where b: "body_onload complete_driver served_files demo_page (\<lambda>_. True) (\<lambda>_. 0)
      two_texture_loader demo_config = (Inr (rp, gm), Some g')"
    using ir by (simp add: body_onload_def demo_config_def)
  have lo: "two_texture_loader (model_uri Lantern) = Inr \<lparr>ga_gltf = two_texture_document,
      ga_accessor_data = (\<lambda>_. []), ga_image_data = two_image_pixels\<rparr>"
    by (simp add: two_texture_loader_def)
  obtain r where r: "am_assets (rs_assets (rstate gm)) = [r]"
    and all: "\<forall>t\<in>set (asset_textures a). \<exists>k tx. source_image_reference t = Some k
         \<and> js_get (car_textures r) (tex_id t) = Some tx
         \<and> (texture_complete (gl_log (rs_gl (rstate gm))) (texture_handle tx)
            \<longleftrightarrow> is_power_of_two (src_width (two_image_pixels k))
                \<and> is_power_of_two (src_height (two_image_pixels k)))"
    using startup_model_textures_stay_complete [OF lo _ b reachable.start] la by auto
  have np: "\<not> is_power_of_two 800" and p: "is_power_of_two 512"
    by (simp_all add: is_power_of_two_def)
  have "\<exists>tx0. js_get (car_textures r) 0 = Some tx0 \<and> \<not> texture_complete (gl_log (rs_gl (rstate gm))) (texture_handle tx0)"
    using all np by (auto simp: ta two_image_pixels_def photo_source_def)
  moreover have "\<exists>tx1. js_get (car_textures r) 1 = Some tx1 \<and> texture_complete (gl_log (rs_gl (rstate gm))) (texture_handle tx1)"
    using all p by (auto simp: ta two_image_pixels_def)
  ultimately show ?thesis using b r by blast
qed

end
