(* ===== verification/Spec2Isabelle.thy ===== *)
theory Spec2Isabelle
  imports AssetManager Camera LightManager BufferPass Pipeline Game Gltf Textures AssetTextures Names Util Startup Obj GltfAssets ModelTextures
begin

text \<open>
  A verification library for cubicle, a small WebGL2 deferred renderer written in
  TypeScript (\<open>src/src\<close>). At start-up \<open>index.ts\<close> wraps the page's canvas in a
  \<open>Context\<close> (\<open>graphics/context.ts\<close>, \<open>util/canvas.ts\<close>), obtains its WebGL2 context, loads a
  glTF asset (\<open>mesh/loaders/gltfLoader.ts\<close>), uploads its textures and meshes
  (\<open>graphics/data/assetManager.ts\<close>, \<open>graphics/drawableMesh.ts\<close>), adds a point light
  (\<open>graphics/data/lightManager.ts\<close>), sets up a first-person camera (\<open>camera.ts\<close>) and
  creates a render pipeline (\<open>graphics/renderer/pipeline.ts\<close>): an off-screen framebuffer
  (\<open>graphics/framebuffer.ts\<close>) and one pass per configured stage, each with a shader
  program built from fetched sources (\<open>graphics/shaderProgram.ts\<close>, \<open>io/File.ts\<close>). Every
  animation frame (\<open>game.ts\<close>) renders, binding the framebuffer, running the geometry pass
  (\<open>pbrBufferPass.ts\<close>) into it, unbinding it and running the lighting pass
  (\<open>PbrLightingPass.ts\<close>) over its attachments, and then moves the camera from the keys
  (\<open>input/keyboard.ts\<close>) and animates the lights.

  \<^bold>\<open>Theories.\<close>
  \<^item> \<open>Prelude\<close>: the error values standing for the sources' exceptions; results
    \<open>error + 'a\<close> and the exception-over-state type \<open>('s, 'a) exc\<close>, in which a throw keeps
    the state reached before it; JavaScript sparse arrays and \<open>Array.prototype.find\<close> on
    them (a hole makes the callback throw a \<open>TypeError\<close>); \<open>keeps\<close>, which carries a
    preorder on the state through \<open>ebind\<close> and loops.
  \<^item> \<open>Linear\<close>: the math.gl operations the code calls (vectors, column-major 4x4 matrices,
    \<open>translate\<close>/\<open>multiplyRight\<close>/\<open>scale\<close>, \<open>lookAt\<close>, \<open>perspective\<close>, gl-matrix's
    \<open>invert\<close>), as library semantics.
  \<^item> \<open>Scene\<close>: \<open>mesh/*.ts\<close> as records and datatypes; \<open>calculateNodeWorldTransform\<close>.
  \<^item> \<open>Gl\<close>: WebGL as a record (the log of issued calls, the next fresh object name, a
    lost-context flag under which every \<open>create*\<close> returns \<open>null\<close>); \<open>context.ts\<close>
    (the \<open>Context\<close> object with its canvas size and options, the lazy \<open>gl\<close> getter whose
    first use obtains a fresh context or throws, \<open>setClearColor\<close>, \<open>clear\<close>),
    \<open>genericBuffer.ts\<close>, \<open>elementBuffer.ts\<close>, \<open>texture.ts\<close> (\<open>setTextureImage\<close> and
    \<open>setTextureData\<close> shared by the creation paths). Every operation keeps \<open>gl_mono\<close>
    (the log only grows, names are never reused); drawing operations keep \<open>log_ext\<close>
    (they only append calls, none of which creates an object or edits a texture's image,
    mipmaps or parameters).
  \<^item> \<open>Drawable\<close>, \<open>AssetManager\<close>: \<open>DrawablePrimitive/DrawableMesh.create\<close>, the quad,
    and \<open>addAsset\<close> on the pair (manager, GL state).
  \<^item> \<open>Camera\<close>, \<open>LightManager\<close>: every method of \<open>camera.ts\<close>, \<open>setupCamera\<close>, and the
    light list with its update.
  \<^item> \<open>Program\<close>: \<open>Shader.create\<close>, \<open>ShaderProgram.create\<close>; the driver's answers (compile,
    link, validate, locations, framebuffer status) are a record \<open>gl_driver\<close>.
  \<^item> \<open>RenderOps\<close>: \<open>renderOps.ts\<close>, with WebGL's ToUint32 conversion of attribute indices.
  \<^item> \<open>BufferPass\<close>: the geometry pass and its cached depth-first node walk, with an
    uncached reference walk it is proved to refine.
  \<^item> \<open>Passes\<close>, \<open>Framebuffer\<close>: the lighting and quad passes; \<open>Framebuffer.create\<close>.
  \<^item> \<open>Pipeline\<close>: \<open>RenderPipeline.create\<close> (stage lookup, shader fetch and build) and
    \<open>render\<close>; the served files are a map from URL to text.
  \<^item> \<open>Game\<close>: the frame driver and keyboard as a step function on browser events, runs of
    events, and the inductive set of reachable states.
  \<^item> \<open>Textures\<close>: \<open>Texture.createFromImage\<close> and the \<open>onload\<close> handler of its image
    load as a separate operation the browser runs later; WebGL2 texture completeness,
    replayed from the command log (creation, active unit, per-unit bindings, uploads,
    mipmaps, the minification filter).
  \<^item> \<open>AssetTextures\<close>: \<open>addAsset\<close> seen through the texture replay: the mesh uploads issue
    no texture call, and each texture creation spares every other texture, so each uploaded
    texture keeps the state its own creation gave it.
  \<^item> \<open>GltfAssets\<close>: the glTF loader feeding \<open>addAsset\<close>: loaded texture ids are distinct and
    a texture's source index names the image at that position.
  \<^item> \<open>Names\<close>: the well-formedness of a GL state (the names its log creates are
    \<open>0 .. next_handle - 1\<close>, each once, in order) and \<open>fresh_ext\<close>, kept by every creating
    operation: buffers, textures, shaders, programs, framebuffers, meshes, \<open>addAsset\<close>, the
    passes and \<open>RenderPipeline.create\<close>.
  \<^item> \<open>Util\<close>: \<open>getCanvas\<close> over the page's canvases, and \<open>Timer\<close> with the clock an input
    and the console a list of lines.
  \<^item> \<open>Startup\<close>: \<open>index.ts\<close>: the configuration record, \<open>ModelNames\<close> and the model URI,
    \<open>createContext\<close>, \<open>setupClear\<close>, \<open>loadAsset\<close> through \<open>loadModelFromUri\<close>,
    \<open>initRenderer\<close> and the \<open>onload\<close> handler up to \<open>new Game\<close>, composed from the canvas
    lookup, the context getter, the glTF loader, the asset manager, the lights, the camera,
    the pipeline and the game; the GL state is \<open>None\<close> until the getter obtains a context.
  \<^item> \<open>ModelTextures\<close>: the preorder \<open>spares\<close> (calls that leave the textures created before
    them alone), kept by every creating operation of \<open>RenderPipeline.create\<close>; frames keep the
    asset records up to their node caches; the start-up model's textures in the running
    program.
  \<^item> \<open>Obj\<close>: \<open>ObjLoader.loadMesh\<close> (two fetches, the library parser as a parameter, one
    primitive with \<open>Uint16Array\<close> indices, \<open>DrawableMesh.create\<close>).
  \<^item> \<open>Gltf\<close>: \<open>loadModelFromUri\<close> over the glTF library's load, the loader's byte
    decoders on machine words and the translation of parsed glTF objects into the scene
    format.

  \<^bold>\<open>What is proved.\<close>
  \<^item> Geometry pass: on records that admit a consistent world-transform assignment, the cached walk
    refines the uncached one, so a second frame repeats the first. A rank condition gives
    termination; a cycle never returns. Holes in the mesh-record array and missing
    textures throw. A frame only appends calls. A node reached through several parents keeps,
    on every visit, the world transform computed from the parent it was first reached through.
  \<^item> Pipeline and frames: a successful frame binds the framebuffer, runs the geometry program,
    unbinds and runs the lighting program, in that order. A geometry-only pipeline is
    created and renders to completion. A missing shader file fails creation.
  \<^item> Game: an invariant of all reachable states (cached camera position, consistent previous
    yaw and pitch), proved by rule induction. It implies that the lighting pass's in-place
    view inversion never reaches the next frame. The turn per frame is quadratic in the
    frame time. A render error stops all later frames.
  \<^item> Assets: the outcome of \<open>addAsset\<close> on every branch; a failure registers nothing, but
    a texture it created before failing stays allocated.
  \<^item> glTF: the typed-array loop equals a reference decoding of the complete chunks (the
    \<open>float32\<close> each little-endian word encodes, every NaN pattern read as NaN); the round
    trips on 16-bit words, and on 32-bit words up to the NaN patterns; 32-bit index data is split into pairs; default node transforms;
    a material error rejects the whole asset.
  \<^item> Textures: \<open>createFromTexImageSource\<close> leaves a complete texture exactly for
    power-of-two sizes (the other branch sets the magnification filter); the texture of
    \<open>createFromImage\<close> is complete before and after its image loads, whatever calls run in
    between; \<open>isPowerOfTwo\<close> on the 32-bit pattern accepts exactly 0 and the powers of two.
    For a model loaded by the glTF loader and added by \<open>addAsset\<close>, every texture slot is
    complete exactly when the sides of the image its source index names are powers of two.
  \<^item> Start-up and runs: the GL names stay well formed (created once each, below the next
    name) through the start-up and every run of events after it, since drawing only appends
    calls that create nothing (\<open>log_ext\<close>); an asset whose
    \<open>addAsset\<close> throws aborts it before the pipeline exists, and so does a model the library
    fails to load (\<open>loadModelFromUri\<close> never yields \<open>null\<close>, so \<open>loadAsset\<close>'s warning
    never runs); a page without the canvas aborts it before any context exists; the
    context getter obtains the context at most once; every state the events reach from the
    game it builds keeps the handle counter of the start-up, extends its log only by calls
    that neither create an object nor touch a texture, and keeps each texture of the loaded
    model exactly as complete as \<open>addAsset\<close> left it (power-of-two images only).
  \<^item> OBJ loader: a missing material file, never used, fails the load; a loaded model is one
    primitive with id 1, material 1, one index per parsed index, texture coordinates and no
    normals.
  \<^item> Camera: the forward vector has unit length and \<open>update\<close> accumulates yaw and pitch;
    for any options whose eye and target are apart, the set-up camera reports its configured
    position, while the view matrix's translation column, which the getter is documented to
    read, holds minus the eye rotated into view space.
  \<^item> Lights and framebuffers: their functional behaviour and error paths.

  \<^bold>\<open>Bounds and fuel.\<close> The geometry pass recurses over child ids, which may form a cycle;
  its walk takes fuel, and the model returns \<open>None\<close> when the fuel runs out. The
  termination theorem shows that fuel above a rank that decreases along the child edges
  always suffices. So a tree of depth d needs fuel d + 1, and the scenarios use 1 to 3. The
  frame and the pipeline pass the fuel through. The byte loops are total functions whose
  measure is the number of bytes left.

  \<^bold>\<open>Modelling choices.\<close> Reals stand for doubles (no rounding). Index data is \<open>16 word\<close>,
  as in a \<open>Uint16Array\<close> (so the OBJ loader's indices are taken modulo 65536). A
  \<open>Float32Array\<close> element is an \<open>f32\<close>: the \<open>32 word\<close> bit pattern of a non-NaN value, or
  a single NaN, since ECMAScript lets the engine choose the bits of a stored NaN; the
  number an element denotes is a parameter. GL calls are recorded, not executed, so claims about
  rendering are claims about the sequence of calls the code issues. Asynchronous code
  (\<open>await\<close>) runs its steps in sequence on the explicit state.

  \<^bold>\<open>Not modelled.\<close>
  \<^item> The OBJ and material parsers of webgl-obj-loader: the parsed arrays are an input of the
    OBJ loader.
  \<^item> The glTF library itself (\<open>GltfLoader.load\<close>, \<open>accessorData\<close>, \<open>imageData\<close>): its
    answer for a URI (a rejection, or the parsed document with the accessor bytes and image
    pixels) is an input of \<open>loadModelFromUri\<close>.
  \<^item> The DOM \<open>Image\<close> behind \<open>createFromImage\<close>: its load is an input (the image's size,
    delivered to the \<open>onload\<close> operation); a load that never completes or fails leaves
    the placeholder, which is the state before that operation.
  \<^item> In \<open>index.ts\<close>: \<open>config.json\<close>, which is not in the repository (its members are a
    record parameter of \<open>body_onload\<close>); the console output of \<open>onload\<close> (the motd and the
    init timer's line; \<open>Timer\<close> itself is modelled in \<open>Util\<close>); \<open>setupInput\<close>, which only
    constructs the \<open>Keyboard\<close> whose handlers are \<open>Game\<close>'s key events.
  \<^item> The browser: \<open>getContext\<close>'s answer is an input (an obtained context is fresh), the
    canvas's drawing buffer is not modelled beyond its size.
  \<^item> The webpack configuration.
\<close>

end
